(* ===== verification/Prelude.thy ===== *)
theory Prelude
  imports Main "HOL-Library.Sublist" "HOL-Library.Char_ord" "HOL-Library.List_Lexorder"
begin

text \<open>
  Shared vocabulary of the development: the fragment of Rust's string API the harness uses
  (\<open>to_lowercase\<close>, \<open>trim\<close>, \<open>split\<close>, \<open>join\<close>, \<open>starts_with\<close>), \<open>Result\<close> as a sum, and the
  relational operations of the SQL statements (\<open>UPDATE .. WHERE\<close>, \<open>SELECT .. WHERE\<close>) on tables
  kept as lists of rows in insertion order. Strings are \<^typ>\<open>string\<close>, one \<^typ>\<open>char\<close> per byte; the
  case mapping and the white space below are those of the ASCII range.
\<close>

named_theorems table_simps \<open>rewriting of table updates and selections\<close>
named_theorems str_simps \<open>rewriting of the string operations\<close>

section \<open>Results\<close>

type_synonym ('e, 'a) result = "'e + 'a"

definition and_then :: "('e, 'a) result \<Rightarrow> ('a \<Rightarrow> ('e, 'b) result) \<Rightarrow> ('e, 'b) result" where
  "and_then r f = (case r of Inl e \<Rightarrow> Inl e | Inr x \<Rightarrow> f x)"

definition ok_or :: "'e \<Rightarrow> 'a option \<Rightarrow> ('e, 'a) result" where
  "ok_or e x = (case x of None \<Rightarrow> Inl e | Some v \<Rightarrow> Inr v)"

definition is_ok :: "('e, 'a) result \<Rightarrow> bool" where
  "is_ok r = (case r of Inl _ \<Rightarrow> False | Inr _ \<Rightarrow> True)"

section \<open>Characters and strings\<close>

definition is_ascii :: "string \<Rightarrow> bool" where
  "is_ascii s = list_all (\<lambda>c. (of_char c :: nat) < 128) s"

definition is_upper :: "char \<Rightarrow> bool" where
  "is_upper c = (65 \<le> (of_char c :: nat) \<and> (of_char c :: nat) \<le> 90)"

definition is_ascii_lowercase :: "char \<Rightarrow> bool" where
  "is_ascii_lowercase c = (97 \<le> (of_char c :: nat) \<and> (of_char c :: nat) \<le> 122)"

definition is_ascii_digit :: "char \<Rightarrow> bool" where
  "is_ascii_digit c = (48 \<le> (of_char c :: nat) \<and> (of_char c :: nat) \<le> 57)"

definition lower_char :: "char \<Rightarrow> char" where
  "lower_char c = (if is_upper c then char_of ((of_char c :: nat) + 32) else c)"

definition upper_char :: "char \<Rightarrow> char" where
  "upper_char c = (if is_ascii_lowercase c then char_of ((of_char c :: nat) - 32) else c)"

definition to_lowercase :: "string \<Rightarrow> string" where
  "to_lowercase s = map lower_char s"

definition to_uppercase :: "string \<Rightarrow> string" where
  "to_uppercase s = map upper_char s"

definition is_whitespace :: "char \<Rightarrow> bool" where
  "is_whitespace c = ((of_char c :: nat) \<in> {9, 10, 11, 12, 13, 32})"

definition trim_start_matches :: "(char \<Rightarrow> bool) \<Rightarrow> string \<Rightarrow> string" where
  "trim_start_matches P s = dropWhile P s"

definition trim_end_matches :: "(char \<Rightarrow> bool) \<Rightarrow> string \<Rightarrow> string" where
  "trim_end_matches P s = rev (dropWhile P (rev s))"

definition trim :: "string \<Rightarrow> string" where
  "trim s = trim_end_matches is_whitespace (trim_start_matches is_whitespace s)"

definition replace_char :: "char \<Rightarrow> char \<Rightarrow> string \<Rightarrow> string" where
  "replace_char a b s = map (\<lambda>c. if c = a then b else c) s"

definition starts_with :: "string \<Rightarrow> string \<Rightarrow> bool" where
  "starts_with s p = prefix p s"

definition ends_with :: "string \<Rightarrow> string \<Rightarrow> bool" where
  "ends_with s p = suffix p s"

definition contains_str :: "string \<Rightarrow> string \<Rightarrow> bool" where
  "contains_str s p = sublist p s"

definition strip_prefix_str :: "string \<Rightarrow> string \<Rightarrow> string option" where
  "strip_prefix_str s p = (if prefix p s then Some (drop (length p) s) else None)"

definition strip_suffix_str :: "string \<Rightarrow> string \<Rightarrow> string option" where
  "strip_suffix_str s p = (if suffix p s then Some (take (length s - length p) s) else None)"

definition quoted :: "string \<Rightarrow> string" where
  "quoted s = CHR 0x27 # s @ [CHR 0x27]"

text \<open>Decimal rendering, as \<open>format!("{n}")\<close> does.\<close>

fun show_nat :: "nat \<Rightarrow> string" where
  "show_nat n = (if n < 10 then [char_of (48 + n)] else show_nat (n div 10) @ [char_of (48 + n mod 10)])"

declare show_nat.simps [simp del]

definition show_int :: "int \<Rightarrow> string" where
  "show_int i = (if i < 0 then CHR ''-'' # show_nat (nat (- i)) else show_nat (nat i))"

text \<open>\<open>str::split\<close> on one character always yields at least one piece.\<close>

fun split_on :: "char \<Rightarrow> string \<Rightarrow> string list" where
  "split_on c [] = [[]]"
| "split_on c (x # xs) =
     (if x = c then [] # split_on c xs
      else (case split_on c xs of [] \<Rightarrow> [[x]] | y # ys \<Rightarrow> (x # y) # ys))"

fun join_with :: "string \<Rightarrow> string list \<Rightarrow> string" where
  "join_with sep [] = []"
| "join_with sep [x] = x"
| "join_with sep (x # y # zs) = x @ sep @ join_with sep (y # zs)"

section \<open>Tables\<close>

text \<open>A table is the list of its rows. \<open>update_where\<close> is \<open>UPDATE .. SET f WHERE P\<close>,
  \<open>rows_affected\<close> the number of rows it changes, \<open>select_one\<close> is \<open>fetch_optional\<close>.\<close>

definition update_where :: "('r \<Rightarrow> bool) \<Rightarrow> ('r \<Rightarrow> 'r) \<Rightarrow> 'r list \<Rightarrow> 'r list" where
  "update_where P f rows = map (\<lambda>r. if P r then f r else r) rows"

definition rows_affected :: "('r \<Rightarrow> bool) \<Rightarrow> 'r list \<Rightarrow> nat" where
  "rows_affected P rows = length (filter P rows)"

definition select_one :: "('r \<Rightarrow> bool) \<Rightarrow> 'r list \<Rightarrow> 'r option" where
  "select_one P rows = find P rows"

section \<open>Lemmas on results\<close>

lemma and_then_simps [simp]:
  "and_then (Inl e) f = Inl e" "and_then (Inr x) f = f x"
  by (simp_all add: and_then_def)

lemma and_then_Inr_iff:
  "and_then r f = Inr y \<longleftrightarrow> (\<exists>x. r = Inr x \<and> f x = Inr y)"
  by (cases r) auto

lemma ok_or_Inr_iff [simp]: "ok_or e x = Inr v \<longleftrightarrow> x = Some v"
  by (simp add: ok_or_def split: option.split)

lemma is_ok_simps [simp]: "is_ok (Inl e) = False" "is_ok (Inr x) = True"
  by (simp_all add: is_ok_def)

section \<open>Lemmas on strings\<close>

lemma split_on_not_Nil [simp]: "split_on c s \<noteq> []"
  by (induction s) (auto split: list.split)

lemma split_on_no_sep: "c \<notin> set s \<Longrightarrow> split_on c s = [s]"
  by (induction s) auto

lemma split_on_pieces: "x \<in> set (split_on c s) \<Longrightarrow> c \<notin> set x"
  by (induction s arbitrary: x) (auto split: list.splits if_splits)

lemma split_on_chars: "x \<in> set (split_on c s) \<Longrightarrow> set x \<subseteq> set s"
proof (induction s arbitrary: x)
  case Nil
  then show ?case by simp
next
  case (Cons a s)
  then show ?case
    by (cases "split_on c s") (force split: if_splits)+
qed

lemma join_split_on: "join_with [c] (split_on c s) = s"
proof (induction s)
  case Nil
  then show ?case by simp
next
  case (Cons a s)
  obtain y ys where y: "split_on c s = y # ys"
    by (meson neq_Nil_conv split_on_not_Nil)
  with Cons show ?case
    by (cases ys) auto
qed

lemma split_on_append_sep: "c \<notin> set x \<Longrightarrow> split_on c (x @ c # s) = x # split_on c s"
  by (induction x) auto

lemma split_join:
  "xs \<noteq> [] \<Longrightarrow> \<forall>x \<in> set xs. c \<notin> set x \<Longrightarrow> split_on c (join_with [c] xs) = xs"
  by (induction "[c]" xs rule: join_with.induct) (auto simp: split_on_no_sep split_on_append_sep)

lemma join_with_Nil_iff:
  "join_with sep xs = [] \<longleftrightarrow> xs = [] \<or> xs = [[]] \<or> (sep = [] \<and> (\<forall>x\<in>set xs. x = []))"
  by (induction sep xs rule: join_with.induct) auto

lemma set_join_with: "set (join_with sep xs) \<subseteq> set sep \<union> \<Union> (set ` set xs)"
  by (induction sep xs rule: join_with.induct) auto

lemma hd_join_with: "xs \<noteq> [] \<Longrightarrow> hd xs \<noteq> [] \<Longrightarrow> hd (join_with sep xs) = hd (hd xs)"
  by (cases "(sep, xs)" rule: join_with.cases) auto

lemma last_join_with:
  "xs \<noteq> [] \<Longrightarrow> \<forall>x \<in> set xs. x \<noteq> [] \<Longrightarrow> last (join_with sep xs) = last (last xs)"
proof (induction sep xs rule: join_with.induct)
  case (3 sep x y zs)
  then have "join_with sep (y # zs) \<noteq> []" by (auto simp: join_with_Nil_iff)
  with 3 show ?case by simp
qed auto

lemma of_char_less_256: "(of_char c :: nat) < 256"
  by simp

lemma lower_char_ascii:
  "(of_char c :: nat) < 128 \<Longrightarrow> (of_char (lower_char c) :: nat) < 128"
  by (auto simp: lower_char_def is_upper_def)

lemma lower_char_idem [simp]: "lower_char (lower_char c) = lower_char c"
  by (auto simp: lower_char_def is_upper_def)

lemma to_lowercase_idem [simp]: "to_lowercase (to_lowercase s) = to_lowercase s"
  by (simp add: to_lowercase_def)

lemma to_lowercase_ascii: "is_ascii s \<Longrightarrow> is_ascii (to_lowercase s)"
  by (induction s) (auto simp: to_lowercase_def is_ascii_def lower_char_ascii)

lemma is_ascii_subset: "is_ascii s \<Longrightarrow> set t \<subseteq> set s \<Longrightarrow> is_ascii t"
  by (auto simp: is_ascii_def list_all_iff)

lemma trim_end_matches_subset: "set (trim_end_matches P s) \<subseteq> set s"
  by (auto simp: trim_end_matches_def dest: set_dropWhileD)

lemma trim_subset: "set (trim s) \<subseteq> set s"
  using trim_end_matches_subset
  by (fastforce simp: trim_def trim_start_matches_def dest: set_dropWhileD)

lemma trim_end_matches_idem [simp]:
  "trim_end_matches P (trim_end_matches P s) = trim_end_matches P s"
  by (simp add: trim_end_matches_def)

lemma trim_end_matches_id: "s = [] \<or> \<not> P (last s) \<Longrightarrow> trim_end_matches P s = s"
  by (cases s rule: rev_cases) (auto simp: trim_end_matches_def)

lemma trim_id: "s = [] \<or> (\<not> is_whitespace (hd s) \<and> \<not> is_whitespace (last s)) \<Longrightarrow> trim s = s"
  by (cases s) (auto simp: trim_def trim_start_matches_def trim_end_matches_id)

lemma replace_char_id: "a \<notin> set s \<Longrightarrow> replace_char a b s = s"
  by (induction s) (auto simp: replace_char_def)

lemma replace_char_set: "a \<noteq> b \<Longrightarrow> a \<notin> set (replace_char a b s)"
  by (auto simp: replace_char_def)

section \<open>Lemmas on tables\<close>

lemma update_where_Nil [table_simps]: "update_where P f [] = []"
  and update_where_Cons [table_simps]:
    "update_where P f (r # rs) = (if P r then f r else r) # update_where P f rs"
  by (simp_all add: update_where_def)

lemma length_update_where [simp]: "length (update_where P f rows) = length rows"
  by (simp add: update_where_def)

lemma set_update_where:
  "r \<in> set (update_where P f rows) \<longleftrightarrow>
    (\<exists>q \<in> set rows. r = (if P q then f q else q))"
  by (auto simp: update_where_def)

lemma update_where_none: "rows_affected P rows = 0 \<Longrightarrow> update_where P f rows = rows"
  by (induction rows) (auto simp: rows_affected_def update_where_def split: if_splits)

lemma map_update_where:
  "(\<And>r. P r \<Longrightarrow> g (f r) = g r) \<Longrightarrow> map g (update_where P f rows) = map g rows"
  by (simp add: update_where_def)

lemma rows_affected_0_iff: "rows_affected P rows = 0 \<longleftrightarrow> (\<forall>r \<in> set rows. \<not> P r)"
  by (auto simp: rows_affected_def filter_empty_conv)

lemma rows_affected_pos_iff: "0 < rows_affected P rows \<longleftrightarrow> (\<exists>r \<in> set rows. P r)"
  by (auto simp: rows_affected_def filter_empty_conv)

lemma select_one_Some: "select_one P rows = Some r \<Longrightarrow> r \<in> set rows \<and> P r"
  by (auto simp: select_one_def find_Some_iff)

lemma select_one_None: "select_one P rows = None \<longleftrightarrow> (\<forall>r \<in> set rows. \<not> P r)"
  by (auto simp: select_one_def find_None_iff)

lemma select_one_ex: "\<exists>r \<in> set rows. P r \<Longrightarrow> \<exists>r. select_one P rows = Some r"
  using select_one_None [of P rows] by (cases "select_one P rows") auto

lemma select_one_key:
  assumes "distinct (map key rows)" and "r \<in> set rows" and "key r = k"
  shows "select_one (\<lambda>r. key r = k) rows = Some r"
  using assms by (induction rows) (auto simp: select_one_def rev_image_eqI)

lemma distinct_key_eq:
  "distinct (map key rows) \<Longrightarrow> r \<in> set rows \<Longrightarrow> q \<in> set rows \<Longrightarrow> key r = key q \<Longrightarrow> r = q"
  by (metis distinct_map inj_onD)

lemma select_one_append:
  "select_one P (xs @ ys) = (case select_one P xs of None \<Rightarrow> select_one P ys | Some r \<Rightarrow> Some r)"
  by (induction xs) (auto simp: select_one_def)

lemma select_one_single: "select_one P [r] = (if P r then Some r else None)"
  by (simp add: select_one_def)

lemma select_one_updated:
  "(\<And>r. P r \<Longrightarrow> P (f r)) \<Longrightarrow> select_one P (update_where P f rows) = map_option f (select_one P rows)"
  by (induction rows) (auto simp: select_one_def update_where_def)

lemma select_one_update:
  assumes "\<And>r. P r \<Longrightarrow> Q (f r) = Q r"
  shows "select_one Q (update_where P f rows) =
    map_option (\<lambda>r. if P r then f r else r) (select_one Q rows)"
  using assms by (induction rows) (auto simp: select_one_def update_where_def)

lemma rows_affected_key:
  assumes "distinct (map key rows)"
  shows "rows_affected (\<lambda>r. key r = k \<and> P r) rows =
    (case select_one (\<lambda>r. key r = k) rows of None \<Rightarrow> 0 | Some r \<Rightarrow> if P r then 1 else 0)"
  using assms
proof (induction rows)
  case (Cons a rows)
  have "filter (\<lambda>r. key r = k \<and> P r) rows = []" if "key a = k"
    using Cons.prems that by (simp add: filter_empty_conv) (metis image_eqI)
  with Cons show ?case by (auto simp: rows_affected_def select_one_def)
qed (simp add: rows_affected_def select_one_def)

end
