(* ===== verification/Resource_Path.thy ===== *)
theory Resource_Path
  imports Prelude
begin

text \<open>
  Path normalisation of resource claims, \<open>harness-core/src/resource_claim/normalize.rs\<close>.
  Unicode NFC normalisation is the external crate \<open>unicode_normalization\<close>: it is the parameter
  \<open>nfc\<close> of the model, and the facts that depend on it assume its documented behaviour that ASCII
  text is already in normal form (\<open>nfc_ascii\<close>). \<open>to_lowercase\<close> is the same call under both
  \<open>cfg\<close> branches of the source.
\<close>

section \<open>Definitions\<close>

definition nfc_ascii :: "(string \<Rightarrow> string) \<Rightarrow> bool" where
  "nfc_ascii nfc \<longleftrightarrow> (\<forall>s. is_ascii s \<longrightarrow> nfc s = s)"

definition is_windows_reserved_device_name :: "string \<Rightarrow> bool" where
  "is_windows_reserved_device_name component =
     (let stem = trim_end_matches (\<lambda>c. c \<in> {CHR ''.'', CHR '' ''}) component;
          base = hd (split_on (CHR ''.'') stem);
          base_upper = to_uppercase base
      in base_upper \<in> set [''CON'', ''PRN'', ''AUX'', ''NUL'',
           ''COM1'', ''COM2'', ''COM3'', ''COM4'', ''COM5'', ''COM6'', ''COM7'', ''COM8'', ''COM9'',
           ''LPT1'', ''LPT2'', ''LPT3'', ''LPT4'', ''LPT5'', ''LPT6'', ''LPT7'', ''LPT8'', ''LPT9''])"

text \<open>The per-component loop: empty and \<open>.\<close> components are skipped, the first bad component
  ends the loop with its error.\<close>

fun check_components :: "string \<Rightarrow> string list \<Rightarrow> (string, string list) result" where
  "check_components raw [] = Inr []"
| "check_components raw (c # cs) =
     (if c = '''' \<or> c = ''.'' then check_components raw cs
      else if c = ''..'' then
        Inl (''resource path contains '..' traversal component: '' @ quoted raw)
      else if CHR '':'' \<in> set c then
        Inl (''resource path component contains ':' (alternate data stream): '' @ quoted raw)
      else if is_windows_reserved_device_name c then
        Inl (''resource path component is a reserved device name: '' @ quoted raw)
      else if starts_with c '' '' \<or> ends_with c '' '' then
        Inl (''resource path component has leading/trailing space: '' @ quoted raw)
      else if length c > 255 then
        Inl (''resource path component exceeds 255 characters: '' @ quoted raw)
      else and_then (check_components raw cs) (\<lambda>r. Inr (c # r)))"

definition normalized_path_new :: "(string \<Rightarrow> string) \<Rightarrow> string \<Rightarrow> (string, string) result" where
  "normalized_path_new nfc raw =
     (let n = replace_char (CHR 0x5C) (CHR ''/'') raw;
          n = nfc n;
          n = to_lowercase n;
          n = trim_end_matches (\<lambda>c. c = CHR ''/'') (trim n)
      in if n = '''' then Inl ''resource path must not be empty''
         else and_then (check_components raw (split_on (CHR ''/'') n)) (\<lambda>components.
           if components = [] then
             Inl ''resource path resolves to empty path after normalization''
           else let normalized = join_with ''/'' components
                in if length normalized > 4096 then
                     Inl ''resource path exceeds 4096 characters''
                   else Inr normalized))"

definition path_components :: "string \<Rightarrow> string list" where
  "path_components p = split_on (CHR ''/'') p"

definition is_component_prefix_of :: "string \<Rightarrow> string \<Rightarrow> bool" where
  "is_component_prefix_of self other =
     (let self_comps = path_components self; other_comps = path_components other
      in if length self_comps > length other_comps then False
         else self_comps = take (length self_comps) other_comps)"

definition path_parent :: "string \<Rightarrow> string option" where
  "path_parent p =
     (let comps = butlast (path_components p)
      in if comps = [] then None else Some (join_with ''/'' comps))"

section \<open>The normal form\<close>

text \<open>What a normalised path is, independently of how it is computed.\<close>

definition valid_component :: "string \<Rightarrow> bool" where
  "valid_component c \<longleftrightarrow>
     c \<noteq> '''' \<and> c \<noteq> ''.'' \<and> c \<noteq> ''..'' \<and> CHR '':'' \<notin> set c \<and>
     \<not> is_windows_reserved_device_name c \<and> hd c \<noteq> CHR '' '' \<and> last c \<noteq> CHR '' '' \<and>
     length c \<le> 255"

definition normal_path :: "string \<Rightarrow> bool" where
  "normal_path p \<longleftrightarrow>
     list_all valid_component (path_components p) \<and> length p \<le> 4096 \<and>
     to_lowercase p = p \<and> CHR 0x5C \<notin> set p \<and> is_ascii p"

text \<open>White space other than the blank, which \<open>trim\<close> removes but no component check rejects.\<close>

definition no_control_space :: "string \<Rightarrow> bool" where
  "no_control_space s \<longleftrightarrow> (\<forall>c \<in> set s. is_whitespace c \<longrightarrow> c = CHR '' '')"

lemma starts_ends_space:
  "c \<noteq> [] \<Longrightarrow> starts_with c '' '' \<longleftrightarrow> hd c = CHR '' ''"
  "c \<noteq> [] \<Longrightarrow> ends_with c '' '' \<longleftrightarrow> last c = CHR '' ''"
  by (cases c; auto simp: starts_with_def)
     (cases c rule: rev_cases; auto simp: ends_with_def)

lemma check_components_Inr:
  "check_components raw cs = Inr r \<Longrightarrow>
     r = filter (\<lambda>c. c \<noteq> '''' \<and> c \<noteq> ''.'') cs \<and> list_all valid_component r"
  by (induction cs arbitrary: r)
     (auto simp: valid_component_def starts_ends_space and_then_Inr_iff split: if_splits)

lemma check_components_valid:
  "list_all valid_component cs \<Longrightarrow> check_components raw cs = Inr cs"
  by (induction cs) (auto simp: valid_component_def starts_ends_space)

lemma valid_component_no_slash:
  "c \<in> set (path_components p) \<Longrightarrow> CHR ''/'' \<notin> set c"
  by (simp add: path_components_def split_on_pieces)

lemma path_components_join:
  "cs \<noteq> [] \<Longrightarrow> \<forall>c \<in> set cs. CHR ''/'' \<notin> set c \<Longrightarrow> path_components (join_with ''/'' cs) = cs"
  by (simp add: path_components_def split_join)

lemma join_path_components: "join_with ''/'' (path_components p) = p"
  by (simp add: path_components_def join_split_on)

lemma path_components_not_Nil [simp]: "path_components p \<noteq> []"
  by (simp add: path_components_def)

lemma path_components_inj: "path_components p = path_components q \<Longrightarrow> p = q"
  by (metis join_path_components)

lemma is_component_prefix_of_prefix:
  "is_component_prefix_of p q \<longleftrightarrow> prefix (path_components p) (path_components q)"
  by (auto simp: is_component_prefix_of_def Let_def prefix_def)
     (metis append_take_drop_id append_eq_conv_conj)+


section \<open>Normalisation is sound and canonical\<close>

definition normal_char :: "char \<Rightarrow> bool" where
  "normal_char c \<longleftrightarrow> lower_char c = c \<and> c \<noteq> CHR 0x5C \<and> (of_char c :: nat) < 128"

lemma normal_char_lower:
  "c \<noteq> CHR 0x5C \<Longrightarrow> (of_char c :: nat) < 128 \<Longrightarrow> normal_char (lower_char c)"
proof -
  assume c: "c \<noteq> CHR 0x5C" "(of_char c :: nat) < 128"
  have "lower_char c \<noteq> CHR 0x5C"
  proof
    assume eq: "lower_char c = CHR 0x5C"
    with c(1) have up: "is_upper c" and "char_of ((of_char c :: nat) + 32) = CHR 0x5C"
      by (auto simp: lower_char_def split: if_splits)
    then have "(of_char (char_of ((of_char c :: nat) + 32) :: char) :: nat) = 92" by simp
    with up show False by (simp add: is_upper_def)
  qed
  with c(2) show ?thesis by (simp add: normal_char_def lower_char_ascii)
qed

lemma normal_chars_path:
  "to_lowercase p = p \<and> CHR 0x5C \<notin> set p \<and> is_ascii p \<longleftrightarrow> (\<forall>c \<in> set p. normal_char c)"
  by (induction p) (auto simp: to_lowercase_def is_ascii_def normal_char_def)

lemma folded_chars:
  assumes "nfc_ascii nfc" and "is_ascii raw"
  shows "\<forall>c \<in> set (to_lowercase (nfc (replace_char (CHR 0x5C) (CHR ''/'') raw))). normal_char c"
proof -
  let ?n = "replace_char (CHR 0x5C) (CHR ''/'') raw"
  have "is_ascii ?n"
    using assms(2) by (auto simp: is_ascii_def list_all_iff replace_char_def)
  moreover have "CHR 0x5C \<notin> set ?n" by (rule replace_char_set) simp
  ultimately have "\<forall>c \<in> set (to_lowercase ?n). normal_char c"
    by (auto simp: to_lowercase_def is_ascii_def list_all_iff intro!: normal_char_lower)
  with \<open>is_ascii ?n\<close> assms(1) show ?thesis by (simp add: nfc_ascii_def)
qed

lemma normalized_path_new_cases:
  assumes "normalized_path_new nfc raw = Inr p"
  shows "list_all valid_component (path_components p) \<and> length p \<le> 4096 \<and>
    (\<forall>c \<in> set p. c = CHR ''/'' \<or>
       c \<in> set (to_lowercase (nfc (replace_char (CHR 0x5C) (CHR ''/'') raw))))"
proof -
  let ?f = "to_lowercase (nfc (replace_char (CHR 0x5C) (CHR ''/'') raw))"
  let ?n = "trim_end_matches (\<lambda>c. c = CHR ''/'') (trim ?f)"
  obtain cs where cs: "check_components raw (split_on (CHR ''/'') ?n) = Inr cs"
    and ne: "cs \<noteq> []" and p: "p = join_with ''/'' cs" and len: "length p \<le> 4096"
    using assms
    by (auto simp: normalized_path_new_def Let_def and_then_Inr_iff split: if_splits)
  have sub: "\<forall>c \<in> set cs. c \<in> set (split_on (CHR ''/'') ?n)" and val: "list_all valid_component cs"
    using check_components_Inr [OF cs] by auto
  have chars: "set ?n \<subseteq> set ?f"
    using trim_end_matches_subset trim_subset by fastforce
  have "set c \<subseteq> set ?f" if "c \<in> set cs" for c
    using that sub chars split_on_chars by (meson subset_trans)
  then have "\<forall>c \<in> set p. c = CHR ''/'' \<or> c \<in> set ?f"
    using set_join_with [of "''/''" cs] unfolding p by (simp add: subset_iff) blast
  moreover have "path_components p = cs"
    unfolding p using ne sub split_on_pieces by (intro path_components_join) auto
  ultimately show ?thesis using val len by simp
qed

lemma normalized_path_new_normal:
  assumes "nfc_ascii nfc" and "is_ascii raw" and "normalized_path_new nfc raw = Inr p"
  shows "normal_path p"
proof -
  have slash: "normal_char (CHR ''/'')"
    by (simp add: normal_char_def lower_char_def is_upper_def)
  note cases = normalized_path_new_cases [OF assms(3)]
  have "normal_char c" if "c \<in> set p" for c
    using that bspec [OF folded_chars [OF assms(1,2)], of c] slash cases by metis
  then have "\<forall>c \<in> set p. normal_char c" ..
  then show ?thesis
    using cases normal_chars_path [of p] by (simp add: normal_path_def)
qed

lemma is_whitespace_lower_char [simp]: "is_whitespace (lower_char c) = is_whitespace c"
  by (auto simp: is_whitespace_def lower_char_def is_upper_def)

lemma lower_char_space [simp]: "lower_char (CHR '' '') = CHR '' ''"
  by (simp add: lower_char_def is_upper_def)

lemma is_whitespace_slash: "\<not> is_whitespace (CHR ''/'')"
  by (simp add: is_whitespace_def)

lemma no_control_space_map:
  "no_control_space s \<Longrightarrow> (\<And>c. is_whitespace (f c) \<Longrightarrow> is_whitespace c) \<Longrightarrow> f (CHR '' '') = CHR '' '' \<Longrightarrow>
     no_control_space (map f s)"
  by (induction s) (simp_all add: no_control_space_def, metis)

lemma normalized_path_new_no_control_space:
  assumes "nfc_ascii nfc" and "is_ascii raw" and "no_control_space raw"
    and "normalized_path_new nfc raw = Inr p"
  shows "no_control_space p"
proof -
  let ?n = "replace_char (CHR 0x5C) (CHR ''/'') raw"
  have "is_ascii ?n"
    using assms(2) by (auto simp: is_ascii_def list_all_iff replace_char_def)
  then have n: "nfc ?n = ?n" using assms(1) by (simp add: nfc_ascii_def)
  have "no_control_space (to_lowercase ?n)"
    unfolding to_lowercase_def replace_char_def using assms(3)
    by (intro no_control_space_map) (simp_all add: is_whitespace_slash split: if_splits)
  moreover note is_whitespace_slash
  moreover have "\<forall>c \<in> set p. c = CHR ''/'' \<or> c \<in> set (to_lowercase ?n)"
    using normalized_path_new_cases [OF assms(4)] n by metis
  ultimately show ?thesis unfolding no_control_space_def by metis
qed

lemma normal_path_ends:
  assumes "normal_path p" and "no_control_space p"
  shows "p \<noteq> [] \<and> \<not> is_whitespace (hd p) \<and> \<not> is_whitespace (last p) \<and> last p \<noteq> CHR ''/''"
proof -
  let ?cs = "path_components p"
  have val: "\<forall>c \<in> set ?cs. valid_component c"
    using assms(1) by (simp add: normal_path_def list_all_iff)
  then have ne: "\<forall>c \<in> set ?cs. c \<noteq> []" by (auto simp: valid_component_def)
  have mem: "hd ?cs \<in> set ?cs" "last ?cs \<in> set ?cs" by simp_all
  have hd: "hd p = hd (hd ?cs)"
    using hd_join_with [of ?cs "''/''"] ne mem by (simp add: join_path_components)
  have last: "last p = last (last ?cs)"
    using last_join_with [of ?cs "''/''"] ne by (simp add: join_path_components)
  have p: "p \<noteq> []"
    using ne mem by (metis path_components_def split_on.simps(1) list.set_intros(1))
  have "hd p \<noteq> CHR '' ''" "last p \<noteq> CHR '' ''"
    using val mem hd last by (auto simp: valid_component_def)
  moreover have "last p \<noteq> CHR ''/''"
    using last valid_component_no_slash [OF mem(2)] ne mem(2) by (metis last_in_set)
  ultimately show ?thesis
    using p assms(2) by (auto simp: no_control_space_def)
qed

lemma normal_path_fixed:
  assumes "nfc_ascii nfc" and "normal_path p" and "no_control_space p"
  shows "normalized_path_new nfc p = Inr p"
proof -
  have ascii: "is_ascii p" and bs: "CHR 0x5C \<notin> set p" and low: "to_lowercase p = p"
    and val: "list_all valid_component (path_components p)" and len: "length p \<le> 4096"
    using assms(2) by (auto simp: normal_path_def)
  have n: "nfc p = p" using assms(1) ascii by (simp add: nfc_ascii_def)
  have ends: "p \<noteq> []" "trim p = p" "trim_end_matches (\<lambda>c. c = CHR ''/'') p = p"
    using normal_path_ends [OF assms(2,3)] by (auto intro: trim_id trim_end_matches_id)
  show ?thesis
    using ends len check_components_valid [OF val, of p]
    by (simp add: normalized_path_new_def replace_char_id [OF bs] n low
        path_components_def [symmetric] join_path_components)
qed

text \<open>
  C23. Path normalisation is sound and canonical: an accepted ASCII path has no empty, \<open>.\<close>,
  \<open>..\<close>, device-name, colon or blank-padded component, is lower case with forward slashes and within
  the length limits, and, if the input has no control white space, normalising it again returns it
  unchanged.
\<close>

theorem normalized_path_canonical:
  assumes "nfc_ascii nfc" and "is_ascii raw" and "normalized_path_new nfc raw = Inr p"
  shows "normal_path p \<and> (no_control_space raw \<longrightarrow> normalized_path_new nfc p = Inr p)"
  using normalized_path_new_normal [OF assms] normal_path_fixed [OF assms(1), of p]
    normalized_path_new_no_control_space [OF assms(1,2) _ assms(3)] by blast

theorem normalized_path_canonical_witness:
  "normalized_path_new id (''Src'' @ [CHR 0x5C] @ ''./Main.RS/'') = Inr ''src/main.rs'' \<and>
   normal_path ''src/main.rs'' \<and> normalized_path_new id ''src/main.rs'' = Inr ''src/main.rs''"
proof -
  let ?raw = "''Src'' @ [CHR 0x5C] @ ''./Main.RS/''"
  have run: "normalized_path_new id ?raw = Inr ''src/main.rs''" by code_simp
  have "is_ascii ?raw" "no_control_space ?raw" by code_simp+
  with normalized_path_canonical [OF _ _ run] run show ?thesis
    by (simp add: nfc_ascii_def)
qed

text \<open>
  Control white space at an edge that the final trimming exposes escapes: the path
  \<open>foo\t/\<close> is accepted as \<open>foo\t\<close>, which normalises to the different path \<open>foo\<close>, and \<open>./\t/.\<close> is
  accepted as a lone tab, which normalisation then rejects.
\<close>

theorem normalized_path_not_idempotent:
  "normalized_path_new id (''foo'' @ [CHR 0x09] @ ''/'') = Inr (''foo'' @ [CHR 0x09]) \<and>
   normalized_path_new id (''foo'' @ [CHR 0x09]) = Inr ''foo'' \<and>
   normalized_path_new id (''./'' @ [CHR 0x09] @ ''/.'') = Inr [CHR 0x09] \<and>
   \<not> is_ok (normalized_path_new id [CHR 0x09])"
proof -
  have "normalized_path_new id (''foo'' @ [CHR 0x09] @ ''/'') = Inr (''foo'' @ [CHR 0x09])"
    by code_simp
  moreover have "normalized_path_new id (''foo'' @ [CHR 0x09]) = Inr ''foo''" by code_simp
  moreover have "normalized_path_new id (''./'' @ [CHR 0x09] @ ''/.'') = Inr [CHR 0x09]" by code_simp
  moreover have "\<not> is_ok (normalized_path_new id [CHR 0x09])" by code_simp
  ultimately show ?thesis by blast
qed

end
