(* ===== verification/Resource_Claim.thy ===== *)
theory Resource_Claim
  imports Resource_Path
begin

text \<open>
  Resource claims of \<open>harness-core/src/resource_claim\<close>: the data of \<open>types.rs\<close>, the claim specs
  and group normalisation of \<open>spec.rs\<close>, and the conflict engine of \<open>engine.rs\<close>. SHA-256 with its
  hex encoding is the parameter \<open>sha\<close>, Unicode NFC the parameter \<open>nfc\<close>. A resource identity
  denotes the set of concrete resources it claims (\<open>denote\<close>); the engine is proved to decide
  exactly whether two identities share a resource.
\<close>

section \<open>Types\<close>

datatype ResourceKind = ExactFile | DirectoryPrefix | RepositoryWide | Logical

datatype AccessMode = Read | Write

definition stronger :: "AccessMode \<Rightarrow> AccessMode \<Rightarrow> AccessMode" where
  "stronger self other = (if self = Write \<or> other = Write then Write else Read)"

definition is_compatible_with :: "AccessMode \<Rightarrow> AccessMode \<Rightarrow> bool" where
  "is_compatible_with self other = (self = Read \<and> other = Read)"

datatype ResourceIdentity =
    PathId (path_repository: string) (path_kind: ResourceKind) (path_text: string)
  | LogicalId (logical_text: string)

definition identity_repository :: "ResourceIdentity \<Rightarrow> string option" where
  "identity_repository self = (case self of PathId r _ _ \<Rightarrow> Some r | LogicalId _ \<Rightarrow> None)"

definition logical_resource_key_new :: "string \<Rightarrow> (string, string) result" where
  "logical_resource_key_new raw =
     (let trimmed = to_lowercase (trim raw)
      in if trimmed = '''' then Inl ''logical resource key must not be empty''
         else if length trimmed > 128 then
           Inl ''logical resource key must not exceed 128 characters''
         else if \<not> list_all (\<lambda>c. is_ascii_lowercase c \<or> is_ascii_digit c \<or> c = CHR ''-'' \<or> c = CHR ''_'')
                 trimmed then
           Inl (''logical resource key '' @ quoted trimmed @
                '' contains invalid characters (allowed: a-z, 0-9, -, _)'')
         else Inr trimmed)"

datatype ClaimLifecycle = Claim_Active | Claim_Released | Claim_Expired

definition claim_is_terminal :: "ClaimLifecycle \<Rightarrow> bool" where
  "claim_is_terminal s = (s \<in> {Claim_Released, Claim_Expired})"

datatype ConflictReason =
    AccessModeConflict AccessMode AccessMode
  | PathOverlap string string
  | LogicalKeyCollision string
  | RepositoryWideCoversPath string string

record ClaimConflict =
  requested_identity :: ResourceIdentity
  requested_mode :: AccessMode
  conflicting_identity :: ResourceIdentity
  conflicting_mode :: AccessMode
  cc_reason :: ConflictReason
  conflicting_task_id :: string
  conflicting_execution_id :: "string option"
  conflicting_group_id :: string

datatype ClaimDecision = Compatible | Conflict "ClaimConflict list" | InvalidSpec string

section \<open>Claim specifications\<close>

record ResourceClaimSpec =
  rs_kind :: ResourceKind
  rs_mode :: AccessMode
  rs_resource_path :: "string option"
  rs_repository_identity :: "string option"
  rs_logical_key :: "string option"

definition exact_file :: "string \<Rightarrow> string \<Rightarrow> AccessMode \<Rightarrow> ResourceClaimSpec" where
  "exact_file repo path mode = \<lparr>rs_kind = ExactFile, rs_mode = mode, rs_resource_path = Some path,
     rs_repository_identity = Some repo, rs_logical_key = None\<rparr>"

definition directory_prefix :: "string \<Rightarrow> string \<Rightarrow> AccessMode \<Rightarrow> ResourceClaimSpec" where
  "directory_prefix repo path mode = \<lparr>rs_kind = DirectoryPrefix, rs_mode = mode,
     rs_resource_path = Some path, rs_repository_identity = Some repo, rs_logical_key = None\<rparr>"

definition repository_wide :: "string \<Rightarrow> AccessMode \<Rightarrow> ResourceClaimSpec" where
  "repository_wide repo mode = \<lparr>rs_kind = RepositoryWide, rs_mode = mode, rs_resource_path = None,
     rs_repository_identity = Some repo, rs_logical_key = None\<rparr>"

definition logical_claim :: "string \<Rightarrow> AccessMode \<Rightarrow> ResourceClaimSpec" where
  "logical_claim key mode = \<lparr>rs_kind = Logical, rs_mode = mode, rs_resource_path = None,
     rs_repository_identity = None, rs_logical_key = Some key\<rparr>"

definition to_identity ::
  "(string \<Rightarrow> string) \<Rightarrow> ResourceClaimSpec \<Rightarrow> (string, ResourceIdentity) result" where
  "to_identity nfc self =
     (if rs_kind self = Logical then
        and_then (ok_or ''logical claim missing logical_key'' (rs_logical_key self)) (\<lambda>key.
        and_then (logical_resource_key_new key) (\<lambda>k. Inr (LogicalId k)))
      else
        and_then (ok_or ''path claim missing repository_identity'' (rs_repository_identity self)) (\<lambda>repo.
        let raw_path = (case rs_resource_path self of None \<Rightarrow> '''' | Some p \<Rightarrow> p)
        in and_then (if rs_kind self = RepositoryWide \<and> raw_path = '''' then Inr ''''
                     else normalized_path_new nfc raw_path) (\<lambda>normalized.
           Inr (PathId repo (rs_kind self) normalized))))"

record ClaimGroupSpec =
  gs_claims :: "ResourceClaimSpec list"
  gs_project_id :: string
  gs_task_id :: string
  gs_execution_id :: string
  gs_repository_identity :: string
  gs_worktree_id :: "string option"
  gs_lease_id :: "string option"

record ClaimGroupIdentity =
  gi_claims :: "(ResourceIdentity \<times> AccessMode) list"
  gi_request_hash :: string
  gi_project_id :: string
  gi_task_id :: string
  gi_execution_id :: string
  gi_repository_identity :: string
  gi_worktree_id :: "string option"
  gi_lease_id :: "string option"

datatype OverlapResult = Same | Subset | Superset | Overlap | Disjoint

text \<open>\<open>unwrap_or_else(|_| NormalizedResourcePath::new("__invalid__").unwrap())\<close>\<close>

definition path_or_invalid :: "(string \<Rightarrow> string) \<Rightarrow> string \<Rightarrow> string" where
  "path_or_invalid nfc p = (case normalized_path_new nfc p of Inr q \<Rightarrow> q | Inl _ \<Rightarrow> ''__invalid__'')"

definition identity_overlap ::
  "(string \<Rightarrow> string) \<Rightarrow> ResourceIdentity option \<Rightarrow> ResourceIdentity option \<Rightarrow> OverlapResult" where
  "identity_overlap nfc a b =
     (case a of None \<Rightarrow> Disjoint | Some a \<Rightarrow>
      (case b of None \<Rightarrow> Disjoint | Some b \<Rightarrow>
       (case (a, b) of
          (PathId repo_a kind_a path_a, PathId repo_b kind_b path_b) \<Rightarrow>
            (if repo_a \<noteq> repo_b then Disjoint
             else if kind_a = RepositoryWide \<and> kind_b = RepositoryWide then Same
             else if kind_a = RepositoryWide then Superset
             else if kind_b = RepositoryWide then Subset
             else if path_a = path_b then
               (case (kind_a, kind_b) of
                  (ExactFile, ExactFile) \<Rightarrow> Same
                | (DirectoryPrefix, DirectoryPrefix) \<Rightarrow> Same
                | (DirectoryPrefix, ExactFile) \<Rightarrow> Superset
                | (ExactFile, DirectoryPrefix) \<Rightarrow> Subset
                | _ \<Rightarrow> Overlap)
             else let path_a_norm = path_or_invalid nfc path_a;
                      path_b_norm = path_or_invalid nfc path_b
                  in if kind_a = DirectoryPrefix \<and> is_component_prefix_of path_a_norm path_b_norm
                     then Superset
                     else if kind_b = DirectoryPrefix \<and> is_component_prefix_of path_b_norm path_a_norm
                     then Subset
                     else Disjoint)
        | (LogicalId key_a, LogicalId key_b) \<Rightarrow> (if key_a = key_b then Same else Disjoint)
        | _ \<Rightarrow> Disjoint)))"

definition identity_sort_key :: "ResourceIdentity \<Rightarrow> string" where
  "identity_sort_key i =
     (case i of
        PathId repo kind p \<Rightarrow>
          (let kind_str = (case kind of RepositoryWide \<Rightarrow> ''0'' | DirectoryPrefix \<Rightarrow> ''1''
                             | ExactFile \<Rightarrow> ''2'' | Logical \<Rightarrow> ''3'')
           in ''path:'' @ repo @ '':'' @ kind_str @ '':'' @ p)
      | LogicalId key \<Rightarrow> ''logical:'' @ key)"

definition compute_request_hash ::
  "(string \<Rightarrow> string) \<Rightarrow> (ResourceIdentity \<times> AccessMode) list \<Rightarrow> string" where
  "compute_request_hash sha claims =
     sha (concat (map (\<lambda>(identity, mode).
       identity_sort_key identity @ ''|'' @ (case mode of Read \<Rightarrow> ''r'' | Write \<Rightarrow> ''w'') @ [CHR 0x0A])
       claims))"

text \<open>Same identity already present: its first entry gets the stronger mode.\<close>

fun upgrade_first ::
  "ResourceIdentity \<Rightarrow> AccessMode \<Rightarrow> (ResourceIdentity \<times> AccessMode) list \<Rightarrow>
   (ResourceIdentity \<times> AccessMode) list" where
  "upgrade_first identity mode [] = []"
| "upgrade_first identity mode ((i, m) # rest) =
     (if i = identity then (identity, stronger m mode) # rest
      else (i, m) # upgrade_first identity mode rest)"

text \<open>The \<open>while i < normalized.len()\<close> loop: the entry that covers the new identity takes over its
  mode and ends the loop, an entry covered by it is removed and its mode dropped
  (\<open>let _upgraded = ..\<close>).\<close>

fun subsume_scan ::
  "(string \<Rightarrow> string) \<Rightarrow> ResourceIdentity \<Rightarrow> AccessMode \<Rightarrow> (ResourceIdentity \<times> AccessMode) list \<Rightarrow>
   bool \<times> (ResourceIdentity \<times> AccessMode) list" where
  "subsume_scan nfc identity mode [] = (False, [])"
| "subsume_scan nfc identity mode ((existing_id, existing_mode) # rest) =
     (if identity_overlap nfc (Some identity) (Some existing_id) = Subset then
        (True, (existing_id, stronger existing_mode mode) # rest)
      else if identity_overlap nfc (Some existing_id) (Some identity) = Subset then
        subsume_scan nfc identity mode rest
      else (let (subsumed, rest') = subsume_scan nfc identity mode rest
            in (subsumed, (existing_id, existing_mode) # rest')))"

definition normalize_insert ::
  "(string \<Rightarrow> string) \<Rightarrow> ResourceIdentity \<Rightarrow> AccessMode \<Rightarrow> (ResourceIdentity \<times> AccessMode) list \<Rightarrow>
   (ResourceIdentity \<times> AccessMode) list" where
  "normalize_insert nfc identity mode normalized =
     (if identity \<in> fst ` set normalized then upgrade_first identity mode normalized
      else let (subsumed, rest) = subsume_scan nfc identity mode normalized
           in if subsumed then rest else rest @ [(identity, mode)])"

fun normalize_claims ::
  "(string \<Rightarrow> string) \<Rightarrow> ResourceClaimSpec list \<Rightarrow> (ResourceIdentity \<times> AccessMode) list \<Rightarrow>
   (string, (ResourceIdentity \<times> AccessMode) list) result" where
  "normalize_claims nfc [] normalized = Inr normalized"
| "normalize_claims nfc (spec # specs) normalized =
     and_then (to_identity nfc spec) (\<lambda>identity.
       normalize_claims nfc specs (normalize_insert nfc identity (rs_mode spec) normalized))"

definition normalize ::
  "(string \<Rightarrow> string) \<Rightarrow> (string \<Rightarrow> string) \<Rightarrow> ClaimGroupSpec \<Rightarrow> (string, ClaimGroupIdentity) result" where
  "normalize nfc sha self =
     (if gs_claims self = [] then Inl ''claim group must have at least one claim''
      else and_then (normalize_claims nfc (gs_claims self) []) (\<lambda>normalized.
        let normalized = sort_key (\<lambda>(a, _). identity_sort_key a) normalized;
            request_hash = compute_request_hash sha normalized
        in Inr \<lparr>gi_claims = normalized, gi_request_hash = request_hash,
                gi_project_id = gs_project_id self, gi_task_id = gs_task_id self,
                gi_execution_id = gs_execution_id self,
                gi_repository_identity = gs_repository_identity self,
                gi_worktree_id = gs_worktree_id self, gi_lease_id = gs_lease_id self\<rparr>))"

section \<open>The overlap engine\<close>

record ExistingClaim =
  ec_identity :: ResourceIdentity
  ec_mode :: AccessMode
  ec_group_id :: string
  ec_task_id :: string
  ec_execution_id :: "string option"

definition identity_overlaps ::
  "(string \<Rightarrow> string) \<Rightarrow> ResourceIdentity \<Rightarrow> ResourceIdentity \<Rightarrow> bool" where
  "identity_overlaps nfc a b =
     (case (a, b) of
        (PathId repo_a kind_a path_a, PathId repo_b kind_b path_b) \<Rightarrow>
          (if repo_a \<noteq> repo_b then False
           else if kind_a = RepositoryWide \<or> kind_b = RepositoryWide then True
           else if path_a = path_b then True
           else (case (normalized_path_new nfc path_a, normalized_path_new nfc path_b) of
                   (Inr pa, Inr pb) \<Rightarrow>
                     (if kind_a = DirectoryPrefix \<and> is_component_prefix_of pa pb then True
                      else if kind_b = DirectoryPrefix \<and> is_component_prefix_of pb pa then True
                      else False)
                 | _ \<Rightarrow> False))
      | (LogicalId key_a, LogicalId key_b) \<Rightarrow> key_a = key_b
      | _ \<Rightarrow> False)"

definition classify_conflict_reason ::
  "ResourceIdentity \<Rightarrow> AccessMode \<Rightarrow> ResourceIdentity \<Rightarrow> AccessMode \<Rightarrow> ConflictReason" where
  "classify_conflict_reason requested req_mode existing ex_mode =
     (if req_mode \<noteq> ex_mode \<or> \<not> is_compatible_with req_mode ex_mode then
        (case (requested, existing) of
           (LogicalId a, LogicalId b) \<Rightarrow>
             (if a = b then LogicalKeyCollision a else AccessModeConflict req_mode ex_mode)
         | (PathId repo_a kind_a path_a, PathId repo_b kind_b path_b) \<Rightarrow>
             (if kind_a = RepositoryWide then RepositoryWideCoversPath repo_a path_b
              else if kind_b = RepositoryWide then RepositoryWideCoversPath repo_b path_a
              else AccessModeConflict req_mode ex_mode)
         | _ \<Rightarrow> AccessModeConflict req_mode ex_mode)
      else AccessModeConflict req_mode ex_mode)"

definition mk_conflict ::
  "ResourceIdentity \<Rightarrow> AccessMode \<Rightarrow> ExistingClaim \<Rightarrow> ClaimConflict" where
  "mk_conflict req_identity req_mode existing =
     \<lparr>requested_identity = req_identity, requested_mode = req_mode,
      conflicting_identity = ec_identity existing, conflicting_mode = ec_mode existing,
      cc_reason = classify_conflict_reason req_identity req_mode (ec_identity existing) (ec_mode existing),
      conflicting_task_id = ec_task_id existing,
      conflicting_execution_id = ec_execution_id existing,
      conflicting_group_id = ec_group_id existing\<rparr>"

definition check_conflicts ::
  "(string \<Rightarrow> string) \<Rightarrow> (string \<Rightarrow> string) \<Rightarrow> ClaimGroupSpec \<Rightarrow> ExistingClaim list \<Rightarrow> ClaimDecision" where
  "check_conflicts nfc sha spec existing_claims =
     (case normalize nfc sha spec of
        Inl reason \<Rightarrow> InvalidSpec reason
      | Inr normalized \<Rightarrow>
          (let conflicts = concat (map (\<lambda>(req_identity, req_mode).
                 map (mk_conflict req_identity req_mode)
                   (filter (\<lambda>existing. identity_overlaps nfc req_identity (ec_identity existing) \<and>
                              \<not> is_compatible_with req_mode (ec_mode existing)) existing_claims))
                 (gi_claims normalized))
           in if conflicts = [] then Compatible else Conflict conflicts))"

fun detect_conflicting_active ::
  "(string \<Rightarrow> string) \<Rightarrow> ExistingClaim list \<Rightarrow> (ExistingClaim \<times> ExistingClaim \<times> ConflictReason) list" where
  "detect_conflicting_active nfc [] = []"
| "detect_conflicting_active nfc (a # rest) =
     map (\<lambda>b. (a, b, classify_conflict_reason (ec_identity a) (ec_mode a) (ec_identity b) (ec_mode b)))
       (filter (\<lambda>b. identity_overlaps nfc (ec_identity a) (ec_identity b) \<and>
                    \<not> is_compatible_with (ec_mode a) (ec_mode b)) rest)
     @ detect_conflicting_active nfc rest"

section \<open>What an identity denotes\<close>

text \<open>A concrete resource is a file of a repository, named by its path components, or a logical
  key. \<open>denote\<close> is the set of resources an identity claims.\<close>

datatype resource = FileRes string "string list" | KeyRes string

definition denote :: "ResourceIdentity \<Rightarrow> resource set" where
  "denote i =
     (case i of
        PathId r k p \<Rightarrow>
          (case k of
             ExactFile \<Rightarrow> {FileRes r (path_components p)}
           | DirectoryPrefix \<Rightarrow> FileRes r ` {cs. prefix (path_components p) cs}
           | RepositoryWide \<Rightarrow> range (FileRes r)
           | Logical \<Rightarrow> {})
      | LogicalId key \<Rightarrow> {KeyRes key})"

text \<open>Identities as \<open>to_identity\<close> builds them from ASCII paths without control white space.\<close>

definition wf_identity :: "ResourceIdentity \<Rightarrow> bool" where
  "wf_identity i =
     (case i of
        PathId r k p \<Rightarrow> k \<noteq> Logical \<and> (k = RepositoryWide \<or> normal_path p \<and> no_control_space p)
      | LogicalId key \<Rightarrow> True)"

lemma wf_identity_fixed:
  "nfc_ascii nfc \<Longrightarrow> wf_identity (PathId r k p) \<Longrightarrow> k \<noteq> RepositoryWide \<Longrightarrow>
     normalized_path_new nfc p = Inr p"
  by (simp add: wf_identity_def normal_path_fixed)

lemma identity_overlaps_sym: "identity_overlaps nfc a b = identity_overlaps nfc b a"
  by (cases a; cases b) (auto simp: identity_overlaps_def split: sum.splits)

lemma identity_overlaps_refl: "identity_overlaps nfc a a"
  by (cases a) (auto simp: identity_overlaps_def)

lemma prefix_cones_meet:
  "(\<exists>cs. prefix xs cs \<and> prefix ys cs) \<longleftrightarrow> prefix xs ys \<or> prefix ys xs"
  by (meson prefix_order.refl prefix_same_cases)

lemma denote_simps [simp]:
  "denote (PathId r ExactFile p) = {FileRes r (path_components p)}"
  "denote (PathId r DirectoryPrefix p) = FileRes r ` {cs. prefix (path_components p) cs}"
  "denote (PathId r RepositoryWide p) = range (FileRes r)"
  "denote (LogicalId key) = {KeyRes key}"
  by (simp_all add: denote_def)

lemma denote_nonempty: "wf_identity i \<Longrightarrow> denote i \<noteq> {}"
proof (cases i)
  case (PathId r k p)
  assume "wf_identity i"
  with PathId show ?thesis by (cases k) (auto simp: wf_identity_def)
qed simp

lemma denote_repository:
  "FileRes r cs \<in> denote (PathId r' k p) \<Longrightarrow> r = r'"
  by (cases k) (auto simp: denote_def)

lemma identity_overlaps_denote:
  assumes "nfc_ascii nfc" and "wf_identity a" and "wf_identity b"
  shows "identity_overlaps nfc a b \<longleftrightarrow> denote a \<inter> denote b \<noteq> {}"
proof (cases a)
  case a: (PathId r k p)
  show ?thesis
  proof (cases b)
    case b: (PathId r' k' p')
    show ?thesis
    proof (cases "r = r'")
      case False
      then have "denote a \<inter> denote b = {}"
        unfolding a b by (cases k; cases k') (auto simp: denote_def)
      with False show ?thesis unfolding a b by (simp add: identity_overlaps_def)
    next
      case r: True
      have fa: "k \<noteq> RepositoryWide \<Longrightarrow> normalized_path_new nfc p = Inr p"
        using assms(1,2) wf_identity_fixed unfolding a by blast
      have fb: "k' \<noteq> RepositoryWide \<Longrightarrow> normalized_path_new nfc p' = Inr p'"
        using assms(1,3) wf_identity_fixed unfolding b by blast
      have kinds: "k \<noteq> Logical" "k' \<noteq> Logical"
        using assms(2,3) unfolding a b by (simp_all add: wf_identity_def)
      show ?thesis
        using r fa fb kinds prefix_cones_meet [of "path_components p" "path_components p'"]
        unfolding a b
        by (cases k; cases k')
           (auto simp: identity_overlaps_def is_component_prefix_of_prefix dest: path_components_inj)
    qed
  next
    case b: (LogicalId key)
    then show ?thesis unfolding a by (cases k) (auto simp: identity_overlaps_def denote_def)
  qed
next
  case a: (LogicalId key)
  show ?thesis
  proof (cases b)
    case b: (PathId r k p)
    then show ?thesis unfolding a by (cases k) (auto simp: identity_overlaps_def denote_def)
  qed (auto simp: a identity_overlaps_def)
qed

lemma identity_overlap_Subset:
  assumes "nfc_ascii nfc" and "wf_identity a" and "wf_identity b"
    and "identity_overlap nfc (Some a) (Some b) = Subset"
  shows "denote a \<subset> denote b"
proof -
  obtain r k p k' p' where a: "a = PathId r k p" and b: "b = PathId r k' p'"
    using assms(4) by (cases a; cases b) (auto simp: identity_overlap_def split: if_splits)
  have fa: "k \<noteq> RepositoryWide \<Longrightarrow> path_or_invalid nfc p = p"
    using assms(1,2) wf_identity_fixed unfolding a path_or_invalid_def by fastforce
  have fb: "k' \<noteq> RepositoryWide \<Longrightarrow> path_or_invalid nfc p' = p'"
    using assms(1,3) wf_identity_fixed unfolding b path_or_invalid_def by fastforce
  have kinds: "k \<noteq> Logical" "k' \<noteq> Logical"
    using assms(2,3) unfolding a b by (simp_all add: wf_identity_def)
  have strict: "range (FileRes r) \<noteq> FileRes r ` {cs. prefix (path_components q) cs}" for q
  proof
    assume "range (FileRes r) = FileRes r ` {cs. prefix (path_components q) cs}"
    then have "FileRes r [] \<in> FileRes r ` {cs. prefix (path_components q) cs}" by blast
    then show False by auto
  qed
  have cone: "FileRes r ` {cs. prefix xs cs} = FileRes r ` {cs. prefix ys cs} \<Longrightarrow> xs = ys" for xs ys
    by (metis (mono_tags, lifting) image_iff mem_Collect_eq prefix_order.antisym prefix_order.refl
        resource.inject(1))
  have single: "FileRes r ` {cs. prefix xs cs} \<noteq> {x}" for xs x
  proof
    assume "FileRes r ` {cs. prefix xs cs} = {x}"
    then have "FileRes r xs = x" "FileRes r (xs @ [[]]) = x" by (auto simp: set_eq_iff)
    then show False by auto
  qed
  have all: "{x} \<noteq> range (FileRes r)" for x
    using single [of "[]"] by (metis (mono_tags) Collect_cong UNIV_def prefix_bot.bot_least)
  show ?thesis
    using assms(4) fa fb kinds strict strict [symmetric] single [symmetric] all cone [of "path_components p" "path_components p'"]
    unfolding a b
    by (cases k; cases k')
       (auto simp: identity_overlap_def is_component_prefix_of_prefix psubset_eq
         dest: path_components_inj prefix_order.trans split: if_splits)
qed

section \<open>Group normalisation keeps what is requested\<close>

definition spec_ok :: "ResourceClaimSpec \<Rightarrow> bool" where
  "spec_ok s = (case rs_resource_path s of None \<Rightarrow> True | Some p \<Rightarrow> is_ascii p \<and> no_control_space p)"

lemma to_identity_wf:
  assumes "nfc_ascii nfc" and "spec_ok s" and "to_identity nfc s = Inr i"
  shows "wf_identity i"
proof (cases "rs_kind s = Logical")
  case True
  with assms(3) show ?thesis
    by (auto simp: to_identity_def and_then_Inr_iff wf_identity_def)
next
  case False
  define raw where "raw = (case rs_resource_path s of None \<Rightarrow> '''' | Some p \<Rightarrow> p)"
  have raw: "is_ascii raw" "no_control_space raw"
    using assms(2) by (auto simp: raw_def spec_ok_def is_ascii_def no_control_space_def split: option.splits)
  obtain r q where i: "i = PathId r (rs_kind s) q"
    and q: "rs_kind s = RepositoryWide \<and> raw = '''' \<or> normalized_path_new nfc raw = Inr q"
    using assms(3) False
    by (auto simp: to_identity_def and_then_Inr_iff raw_def [symmetric] split: if_splits)
  show ?thesis
    using q False normalized_path_new_normal [OF assms(1) raw(1), of q]
      normalized_path_new_no_control_space [OF assms(1) raw, of q]
    unfolding i wf_identity_def by auto
qed

text \<open>\<open>covers ns i m\<close>: some claim of \<open>ns\<close> claims all of \<open>i\<close>, at mode \<open>m\<close> or above.\<close>

definition covers :: "(ResourceIdentity \<times> AccessMode) list \<Rightarrow> ResourceIdentity \<Rightarrow> AccessMode \<Rightarrow> bool" where
  "covers ns i m \<longleftrightarrow> (\<exists>(j, n) \<in> set ns. denote i \<subseteq> denote j \<and> stronger n m = n)"

lemma stronger_simps [simp]:
  "stronger Write m = Write" "stronger m Write = Write" "stronger Read m = m" "stronger m Read = m"
  "stronger m m = m"
  by (cases m; simp add: stronger_def)+

lemma stronger_absorb [simp]:
  "stronger (stronger n m) m = stronger n m" "stronger (stronger n m) n = stronger n m"
  by (cases n; cases m; simp)+

lemma stronger_trans: "stronger n m = n \<Longrightarrow> stronger (stronger n k) m = stronger n k"
  by (cases n; cases m; cases k; simp)

lemma covers_self: "(i, n) \<in> set ns \<Longrightarrow> stronger n m = n \<Longrightarrow> covers ns i m"
  by (auto simp: covers_def)

lemma covers_Cons: "covers ns i m \<Longrightarrow> covers (x # ns) i m"
  by (auto simp: covers_def)

lemma upgrade_first_covers:
  "covers ns i m \<Longrightarrow> covers (upgrade_first j n ns) i m"
proof (induction j n ns rule: upgrade_first.induct)
  case (2 identity mode i' m' rest)
  then show ?case by (auto simp: covers_def stronger_trans)
qed simp

lemma upgrade_first_new:
  "i \<in> fst ` set ns \<Longrightarrow> covers (upgrade_first i m ns) i m"
  by (induction i m ns rule: upgrade_first.induct) (auto simp: covers_def)

lemma upgrade_first_fst: "map fst (upgrade_first i m ns) = map fst ns"
  by (induction i m ns rule: upgrade_first.induct) auto

lemma subsume_scan_fst:
  "subsume_scan nfc i m ns = (b, ns') \<Longrightarrow> subseq (map fst ns') (map fst ns)"
  by (induction nfc i m ns arbitrary: b ns' rule: subsume_scan.induct)
     (fastforce split: if_splits prod.splits)+

lemma subsume_scan_new:
  assumes "nfc_ascii nfc" and "wf_identity i" and "\<forall>(j, n) \<in> set ns. wf_identity j"
    and "subsume_scan nfc i m ns = (True, ns')"
  shows "covers ns' i m"
  using assms
proof (induction nfc i m ns arbitrary: ns' rule: subsume_scan.induct)
  case (2 nfc i m j n rest)
  show ?case
  proof (cases "identity_overlap nfc (Some i) (Some j) = Subset")
    case True
    then have "denote i \<subset> denote j" using 2 identity_overlap_Subset by auto
    with True 2 show ?thesis by (auto simp: covers_def)
  next
    case False
    with 2 show ?thesis by (auto intro: covers_Cons split: if_splits prod.splits)
  qed
qed simp

text \<open>An entry survives the scan, possibly with a stronger mode, or is covered by the new
  identity.\<close>

lemma subsume_scan_old:
  assumes "nfc_ascii nfc" and "wf_identity i" and "\<forall>(j, n) \<in> set ns. wf_identity j"
    and "subsume_scan nfc i m ns = (b, ns')" and "(j, n) \<in> set ns"
  shows "(\<exists>n'. (j, n') \<in> set ns' \<and> stronger n' n = n') \<or> denote j \<subset> denote i"
  using assms
proof (induction nfc i m ns arbitrary: b ns' rule: subsume_scan.induct)
  case (2 nfc i m k l rest)
  show ?case
  proof (cases "identity_overlap nfc (Some i) (Some k) = Subset")
    case True
    with 2 show ?thesis by (auto intro: stronger_absorb)
  next
    case notsub: False
    show ?thesis
    proof (cases "identity_overlap nfc (Some k) (Some i) = Subset")
      case True
      then have "denote k \<subset> denote i" using 2 identity_overlap_Subset by auto
      with True notsub 2 show ?thesis by auto
    next
      case False
      with notsub 2 show ?thesis by (auto split: prod.splits)
    qed
  qed
qed simp

text \<open>After an insertion the new request is covered, and an old one still is unless a strictly
  wider \<open>Read\<close> request replaces a \<open>Write\<close>.\<close>

lemma normalize_insert_covers:
  assumes "nfc_ascii nfc" and "wf_identity i" and "\<forall>(j, n) \<in> set ns. wf_identity j"
  shows "covers (normalize_insert nfc i m ns) i m"
    and "covers ns j n \<Longrightarrow> \<not> (denote j \<subset> denote i \<and> n = Write \<and> m = Read) \<Longrightarrow>
      covers (normalize_insert nfc i m ns) j n"
proof -
  obtain b ns' where scan: "subsume_scan nfc i m ns = (b, ns')" by fastforce
  show new: "covers (normalize_insert nfc i m ns) i m"
  proof (cases "i \<in> fst ` set ns")
    case True
    then show ?thesis by (simp add: normalize_insert_def upgrade_first_new)
  next
    case False
    then show ?thesis
      using scan subsume_scan_new [OF assms, of m ns']
      by (cases b) (auto simp: normalize_insert_def intro: covers_self)
  qed
  assume cov: "covers ns j n" and mode: "\<not> (denote j \<subset> denote i \<and> n = Write \<and> m = Read)"
  show "covers (normalize_insert nfc i m ns) j n"
  proof (cases "i \<in> fst ` set ns")
    case True
    with cov show ?thesis by (simp add: normalize_insert_def upgrade_first_covers)
  next
    case False
    obtain k l where k: "(k, l) \<in> set ns" "denote j \<subseteq> denote k" "stronger l n = l"
      using cov by (auto simp: covers_def)
    from subsume_scan_old [OF assms scan k(1)] show ?thesis
    proof
      assume "\<exists>l'. (k, l') \<in> set ns' \<and> stronger l' l = l'"
      then obtain l' where "(k, l') \<in> set ns'" "stronger l' l = l'" by blast
      moreover have "stronger l' n = l'"
        using \<open>stronger l' l = l'\<close> k(3) by (cases l'; cases l; cases n) auto
      ultimately show ?thesis
        using False scan k(2) by (cases b) (auto simp: normalize_insert_def covers_def)
    next
      assume "denote k \<subset> denote i"
      then have sub: "denote j \<subset> denote i" using k(2) by blast
      obtain i' m' where "(i', m') \<in> set (normalize_insert nfc i m ns)"
        "denote i \<subseteq> denote i'" "stronger m' m = m'"
        using new by (auto simp: covers_def)
      moreover have "stronger m' n = m'"
        using mode sub \<open>stronger m' m = m'\<close> by (cases m; cases n; cases m') auto
      ultimately show ?thesis using sub unfolding covers_def by blast
    qed
  qed
qed

lemma normalize_insert_fst:
  "fst ` set (normalize_insert nfc i m ns) \<subseteq> insert i (fst ` set ns)"
  "distinct (map fst ns) \<Longrightarrow> distinct (map fst (normalize_insert nfc i m ns))"
proof -
  obtain b ns' where scan: "subsume_scan nfc i m ns = (b, ns')" by fastforce
  have sub: "subseq (map fst ns') (map fst ns)" by (rule subsume_scan_fst [OF scan])
  have "x \<in> set (map fst ns)" if "x \<in> set (map fst ns')" for x
    using list_emb_set [OF sub that] by metis
  then have set: "fst ` set ns' \<subseteq> fst ` set ns" by auto
  have up: "fst ` set (upgrade_first i m ns) = fst ` set ns"
    using upgrade_first_fst [of i m ns] by (metis list.set_map)
  have mapfst: "distinct (map fst (upgrade_first i m ns)) = distinct (map fst ns)"
    by (simp only: upgrade_first_fst)
  have cases: "normalize_insert nfc i m ns =
      (if i \<in> fst ` set ns then upgrade_first i m ns else if b then ns' else ns' @ [(i, m)])"
    by (simp add: normalize_insert_def scan)
  show "fst ` set (normalize_insert nfc i m ns) \<subseteq> insert i (fst ` set ns)"
    unfolding cases using set by (simp add: up) blast
  assume "distinct (map fst ns)"
  then show "distinct (map fst (normalize_insert nfc i m ns))"
    unfolding cases using mapfst set subseqs_distinctD [of "map fst ns'" "map fst ns"] sub
    by (simp add: image_iff) blast
qed

lemma normalize_insert_wf:
  "wf_identity i \<Longrightarrow> \<forall>(j, n) \<in> set ns. wf_identity j \<Longrightarrow>
     \<forall>(j, n) \<in> set (normalize_insert nfc i m ns). wf_identity j"
  using normalize_insert_fst(1) [of nfc i m ns] by (force simp: subset_iff image_iff)

text \<open>No \<open>Read\<close> request strictly covers an earlier \<open>Write\<close> request.\<close>

definition write_kept :: "(string \<Rightarrow> string) \<Rightarrow> ResourceClaimSpec list \<Rightarrow> bool" where
  "write_kept nfc specs \<longleftrightarrow>
     sorted_wrt (\<lambda>s t. \<forall>i j. to_identity nfc s = Inr i \<longrightarrow> to_identity nfc t = Inr j \<longrightarrow>
       \<not> (denote i \<subset> denote j \<and> rs_mode s = Write \<and> rs_mode t = Read)) specs"

lemma normalize_claims_keeps:
  assumes "nfc_ascii nfc" and "\<forall>s \<in> set specs. spec_ok s" and "\<forall>(j, n) \<in> set ns. wf_identity j"
    and "normalize_claims nfc specs ns = Inr ns'" and "covers ns j n"
    and "\<forall>t \<in> set specs. \<forall>i. to_identity nfc t = Inr i \<longrightarrow>
       \<not> (denote j \<subset> denote i \<and> n = Write \<and> rs_mode t = Read)"
  shows "covers ns' j n"
  using assms
proof (induction nfc specs ns rule: normalize_claims.induct)
  case (2 nfc spec specs ns)
  from "2.prems"(4) obtain i where i: "to_identity nfc spec = Inr i"
    and rest: "normalize_claims nfc specs (normalize_insert nfc i (rs_mode spec) ns) = Inr ns'"
    by (auto simp: and_then_Inr_iff)
  have wf: "wf_identity i" using "2.prems"(1,2) i to_identity_wf by auto
  have cov: "covers (normalize_insert nfc i (rs_mode spec) ns) j n"
    using "2.prems"(6) i normalize_insert_covers(2) [OF "2.prems"(1) wf "2.prems"(3,5)] by simp
  show ?case
    using "2.IH" [OF "2.prems"(1) _ normalize_insert_wf [OF wf "2.prems"(3)] rest cov]
      "2.prems"(2,6) by simp
qed simp

lemma normalize_claims_wf:
  assumes "nfc_ascii nfc" and "\<forall>s \<in> set specs. spec_ok s" and "\<forall>(j, n) \<in> set ns. wf_identity j"
    and "distinct (map fst ns)" and "normalize_claims nfc specs ns = Inr ns'"
  shows "(\<forall>(j, n) \<in> set ns'. wf_identity j) \<and> distinct (map fst ns')"
  using assms
proof (induction nfc specs ns rule: normalize_claims.induct)
  case (2 nfc spec specs ns)
  from "2.prems"(5) obtain i where i: "to_identity nfc spec = Inr i"
    and rest: "normalize_claims nfc specs (normalize_insert nfc i (rs_mode spec) ns) = Inr ns'"
    by (auto simp: and_then_Inr_iff)
  have wf: "wf_identity i" using "2.prems"(1,2) i to_identity_wf by auto
  show ?case
    using "2.IH" [OF "2.prems"(1) _ normalize_insert_wf [OF wf "2.prems"(3)] _ rest]
      normalize_insert_fst(2) "2.prems"(2,4) by auto
qed simp

lemma normalize_claims_covers:
  assumes "nfc_ascii nfc" and "\<forall>s \<in> set specs. spec_ok s" and "\<forall>(j, n) \<in> set ns. wf_identity j"
    and "normalize_claims nfc specs ns = Inr ns'" and "s \<in> set specs"
  shows "\<exists>i. to_identity nfc s = Inr i \<and> covers ns' i Read \<and>
    (write_kept nfc specs \<longrightarrow> covers ns' i (rs_mode s))"
  using assms
proof (induction nfc specs ns rule: normalize_claims.induct)
  case (2 nfc spec specs ns)
  from "2.prems"(4) obtain i where i: "to_identity nfc spec = Inr i"
    and rest: "normalize_claims nfc specs (normalize_insert nfc i (rs_mode spec) ns) = Inr ns'"
    by (auto simp: and_then_Inr_iff)
  have wf: "wf_identity i" using "2.prems"(1,2) i to_identity_wf by auto
  note wf' = normalize_insert_wf [OF wf "2.prems"(3)]
  have ok: "\<forall>s \<in> set specs. spec_ok s" using "2.prems"(2) by simp
  note keeps = normalize_claims_keeps [OF "2.prems"(1) ok wf' rest]
  note new = normalize_insert_covers(1) [OF "2.prems"(1) wf "2.prems"(3)]
  show ?case
  proof (cases "s = spec")
    case True
    have "covers (normalize_insert nfc i (rs_mode spec) ns) i Read"
      using new [of "rs_mode spec"] by (auto simp: covers_def)
    then have "covers ns' i Read" using keeps [of i Read] by simp
    moreover have "covers ns' i (rs_mode spec)" if "write_kept nfc (spec # specs)"
      using that i keeps [OF new] by (auto simp: write_kept_def)
    ultimately show ?thesis using True i by simp
  next
    case False
    then have "s \<in> set specs" using "2.prems"(5) by simp
    from "2.IH" [OF "2.prems"(1) ok wf' rest this] show ?thesis
      by (auto simp: write_kept_def)
  qed
qed simp

lemma normalize_Inr:
  assumes "normalize nfc sha g = Inr n"
  obtains ns where "gs_claims g \<noteq> []" "normalize_claims nfc (gs_claims g) [] = Inr ns"
    "gi_claims n = sort_key (\<lambda>(a, _). identity_sort_key a) ns"
    "gi_request_hash n = compute_request_hash sha (gi_claims n)"
    "gi_repository_identity n = gs_repository_identity g"
  using assms by (auto simp: normalize_def and_then_Inr_iff Let_def split: if_splits)

lemma covers_cong: "set ns = set ns' \<Longrightarrow> covers ns = covers ns'"
  by (simp add: covers_def fun_eq_iff)

text \<open>
  C17. Normalising a claim group whose paths are ASCII without control white space never loses a requested resource: every
  requested claim is covered by one normalised claim, at its own mode or above unless a later \<open>Read\<close> request strictly
  covers an earlier \<open>Write\<close>. The normalised identities are pairwise distinct and sorted.
\<close>

theorem normalize_covers_request:
  assumes "nfc_ascii nfc" and "\<forall>s \<in> set (gs_claims g). spec_ok s" and "normalize nfc sha g = Inr n"
  shows "(\<forall>s \<in> set (gs_claims g). \<exists>i. to_identity nfc s = Inr i \<and> covers (gi_claims n) i Read \<and>
            (write_kept nfc (gs_claims g) \<longrightarrow> covers (gi_claims n) i (rs_mode s))) \<and>
         (\<forall>(j, m) \<in> set (gi_claims n). wf_identity j) \<and>
         distinct (map fst (gi_claims n)) \<and>
         sorted (map (identity_sort_key \<circ> fst) (gi_claims n))"
proof -
  from assms(3) obtain ns where ns: "normalize_claims nfc (gs_claims g) [] = Inr ns"
    and claims: "gi_claims n = sort_key (\<lambda>(a, _). identity_sort_key a) ns"
    by (rule normalize_Inr)
  have set: "set (gi_claims n) = set ns" by (simp add: claims)
  have key: "(\<lambda>(a, _). identity_sort_key a) = identity_sort_key \<circ> fst" by auto
  have ns_wf: "distinct (map fst ns)" "\<forall>(j, m) \<in> set ns. wf_identity j"
    using normalize_claims_wf [OF assms(1,2) _ _ ns] by auto
  have "distinct (map fst (gi_claims n))"
    using ns_wf(1) by (simp add: claims distinct_map)
  moreover have "sorted (map (identity_sort_key \<circ> fst) (gi_claims n))"
    unfolding claims key by (rule sorted_sort_key)
  ultimately show ?thesis
    using normalize_claims_covers [OF assms(1,2) _ ns] covers_cong [OF set] ns_wf(2)
    by (simp add: set)
qed

section \<open>The engine decides exclusivity\<close>

text \<open>Two claims clash when they share a resource and are not both reads. The interface below is
  what the claim store relies on: a symmetric clash between owned claims.\<close>

locale conflict_relation =
  fixes clash :: "'c \<Rightarrow> 'c \<Rightarrow> bool" and owner :: "'c \<Rightarrow> 'g"
  assumes clash_sym: "clash a b \<Longrightarrow> clash b a"
begin

lemma exclusive_add:
  assumes "\<forall>a \<in> A. \<forall>b \<in> A. owner a \<noteq> owner b \<longrightarrow> \<not> clash a b"
    and "\<forall>a \<in> N. \<forall>b \<in> A. \<not> clash a b"
    and "\<forall>a \<in> N. \<forall>b \<in> N. owner a = owner b"
  shows "\<forall>a \<in> A \<union> N. \<forall>b \<in> A \<union> N. owner a \<noteq> owner b \<longrightarrow> \<not> clash a b"
  using assms clash_sym by blast

lemma exclusive_subset:
  assumes "\<forall>a \<in> A. \<forall>b \<in> A. owner a \<noteq> owner b \<longrightarrow> \<not> clash a b" and "B \<subseteq> A"
  shows "\<forall>a \<in> B. \<forall>b \<in> B. owner a \<noteq> owner b \<longrightarrow> \<not> clash a b"
  using assms by blast

end

definition claims_clash :: "(string \<Rightarrow> string) \<Rightarrow> ExistingClaim \<Rightarrow> ExistingClaim \<Rightarrow> bool" where
  "claims_clash nfc a b \<longleftrightarrow>
     identity_overlaps nfc (ec_identity a) (ec_identity b) \<and> \<not> is_compatible_with (ec_mode a) (ec_mode b)"

lemma is_compatible_with_sym: "is_compatible_with a b = is_compatible_with b a"
  by (auto simp: is_compatible_with_def)

interpretation engine: conflict_relation "claims_clash nfc" ec_group_id for nfc
  by unfold_locales (metis claims_clash_def identity_overlaps_sym is_compatible_with_sym)

lemma check_conflicts_Compatible:
  "check_conflicts nfc sha g ex = Compatible \<longleftrightarrow>
     (\<exists>n. normalize nfc sha g = Inr n \<and>
        (\<forall>(i, m) \<in> set (gi_claims n). \<forall>e \<in> set ex.
           identity_overlaps nfc i (ec_identity e) \<longrightarrow> is_compatible_with m (ec_mode e)))"
  by (cases "normalize nfc sha g") (auto simp: check_conflicts_def Let_def filter_empty_conv, fastforce)

lemma check_conflicts_Conflict:
  assumes "check_conflicts nfc sha g ex = Conflict cs" and "c \<in> set cs"
  shows "\<exists>n i m e. normalize nfc sha g = Inr n \<and> (i, m) \<in> set (gi_claims n) \<and> e \<in> set ex \<and>
    c = mk_conflict i m e \<and> identity_overlaps nfc i (ec_identity e) \<and>
    \<not> is_compatible_with m (ec_mode e)"
  using assms
  by (cases "normalize nfc sha g") (auto simp: check_conflicts_def Let_def split: if_splits)

text \<open>
  C16. The conflict engine against its specification in terms of concrete resources, for requests and active claims whose paths
  are ASCII without control white space (and, for the active ones, normal, as the store keeps them): a group
  is admitted exactly when no normalised claim shares a resource with an active claim unless both
  read it, and every reported conflict names two identities with a resource in common, not both
  read.
\<close>

theorem check_conflicts_exact:
  assumes "nfc_ascii nfc" and "\<forall>s \<in> set (gs_claims g). spec_ok s"
    and "\<forall>e \<in> set ex. wf_identity (ec_identity e)" and "normalize nfc sha g = Inr n"
  shows "(check_conflicts nfc sha g ex = Compatible \<longleftrightarrow>
           (\<forall>(i, m) \<in> set (gi_claims n). \<forall>e \<in> set ex.
              denote i \<inter> denote (ec_identity e) \<noteq> {} \<longrightarrow> m = Read \<and> ec_mode e = Read)) \<and>
         (\<forall>cs. check_conflicts nfc sha g ex = Conflict cs \<longrightarrow> cs \<noteq> [] \<and>
           (\<forall>c \<in> set cs. denote (requested_identity c) \<inter> denote (conflicting_identity c) \<noteq> {} \<and>
              (requested_mode c = Write \<or> conflicting_mode c = Write)))"
proof -
  have wf: "wf_identity i" if "(i, m) \<in> set (gi_claims n)" for i m
  proof -
    from assms(4) obtain ns where "normalize_claims nfc (gs_claims g) [] = Inr ns"
      "gi_claims n = sort_key (\<lambda>(a, _). identity_sort_key a) ns"
      by (rule normalize_Inr)
    with normalize_claims_wf [OF assms(1,2), of "[]" ns] that show ?thesis by auto
  qed
  have sem: "identity_overlaps nfc i (ec_identity e) \<longleftrightarrow> denote i \<inter> denote (ec_identity e) \<noteq> {}"
    if "(i, m) \<in> set (gi_claims n)" "e \<in> set ex" for i m e
    using identity_overlaps_denote [OF assms(1)] wf that assms(3) by blast
  have mode: "is_compatible_with m m' \<longleftrightarrow> m = Read \<and> m' = Read" for m m'
    by (simp add: is_compatible_with_def)
  have "cs \<noteq> [] \<and> (\<forall>c \<in> set cs. denote (requested_identity c) \<inter> denote (conflicting_identity c) \<noteq> {} \<and>
              (requested_mode c = Write \<or> conflicting_mode c = Write))"
    if cs: "check_conflicts nfc sha g ex = Conflict cs" for cs
  proof
    show "cs \<noteq> []" using cs assms(4) by (auto simp: check_conflicts_def Let_def split: if_splits)
    show "\<forall>c \<in> set cs. denote (requested_identity c) \<inter> denote (conflicting_identity c) \<noteq> {} \<and>
              (requested_mode c = Write \<or> conflicting_mode c = Write)"
    proof
      fix c assume "c \<in> set cs"
      then obtain i m e where "(i, m) \<in> set (gi_claims n)" "e \<in> set ex" "c = mk_conflict i m e"
        "identity_overlaps nfc i (ec_identity e)" "\<not> is_compatible_with m (ec_mode e)"
        using check_conflicts_Conflict [OF cs \<open>c \<in> set cs\<close>] assms(4) by (metis sum.inject(2))
      then show "denote (requested_identity c) \<inter> denote (conflicting_identity c) \<noteq> {} \<and>
              (requested_mode c = Write \<or> conflicting_mode c = Write)"
        using sem mode by (simp add: mk_conflict_def) (metis AccessMode.exhaust)
    qed
  qed
  then show ?thesis
    using check_conflicts_Compatible [of nfc sha g ex] assms(4) sem mode by fastforce
qed

text \<open>
  End to end: when the engine admits a group, no requested claim (as requested, before
  normalisation) shares a resource with an active claim unless both read, provided no \<open>Read\<close>
  request strictly covers an earlier \<open>Write\<close> one.
\<close>

theorem admitted_group_isolated:
  assumes "nfc_ascii nfc" and "\<forall>s \<in> set (gs_claims g). spec_ok s"
    and "\<forall>e \<in> set ex. wf_identity (ec_identity e)"
    and "write_kept nfc (gs_claims g)" and "check_conflicts nfc sha g ex = Compatible"
    and "s \<in> set (gs_claims g)" and "e \<in> set ex"
    and "to_identity nfc s = Inr i" and "denote i \<inter> denote (ec_identity e) \<noteq> {}"
  shows "rs_mode s = Read \<and> ec_mode e = Read"
proof -
  obtain n where n: "normalize nfc sha g = Inr n"
    using assms(5) check_conflicts_Compatible by blast
  from n obtain ns where ns: "normalize_claims nfc (gs_claims g) [] = Inr ns"
    and claims: "gi_claims n = sort_key (\<lambda>(a, _). identity_sort_key a) ns"
    by (rule normalize_Inr)
  have "covers ns i (rs_mode s)"
    using normalize_claims_covers [OF assms(1,2) _ ns assms(6)] assms(4,8) by auto
  then obtain j m where jm: "(j, m) \<in> set (gi_claims n)" "denote i \<subseteq> denote j" "stronger m (rs_mode s) = m"
    by (auto simp: covers_def claims)
  have wf: "wf_identity j"
    using normalize_claims_wf [OF assms(1,2) _ _ ns] jm(1) by (auto simp: claims)
  have "identity_overlaps nfc j (ec_identity e)"
    using identity_overlaps_denote [OF assms(1) wf] assms(3,7,9) jm(2) by blast
  then have "is_compatible_with m (ec_mode e)"
    using assms(5,7) n jm(1) check_conflicts_Compatible by fastforce
  then show ?thesis
    using jm(3) by (cases "rs_mode s") (auto simp: is_compatible_with_def)
qed

section \<open>Concrete groups\<close>

definition group_of :: "ResourceClaimSpec list \<Rightarrow> ClaimGroupSpec" where
  "group_of specs = \<lparr>gs_claims = specs, gs_project_id = ''p'', gs_task_id = ''t'',
     gs_execution_id = ''e'', gs_repository_identity = ''repo'', gs_worktree_id = None, gs_lease_id = None\<rparr>"

definition claim_of :: "ResourceIdentity \<Rightarrow> AccessMode \<Rightarrow> ExistingClaim" where
  "claim_of i m = \<lparr>ec_identity = i, ec_mode = m, ec_group_id = ''g'', ec_task_id = ''t2'',
     ec_execution_id = None\<rparr>"

lemma nfc_ascii_id [simp]: "nfc_ascii id"
  by (simp add: nfc_ascii_def)

lemma sample_paths:
  "normalized_path_new id ''src'' = Inr ''src''"
  "normalized_path_new id ''src/a.rs'' = Inr ''src/a.rs''"
  "normalized_path_new id ''a.rs'' = Inr ''a.rs''"
  by code_simp+

lemma sample_path_components:
  "path_components ''src'' = [''src'']" "path_components ''src/a.rs'' = [''src'', ''a.rs'']"
  "path_components ''a.rs'' = [''a.rs'']"
  by code_simp+

lemma sample_ok:
  "is_ascii ''src''" "is_ascii ''src/a.rs''" "no_control_space ''src''" "no_control_space ''src/a.rs''"
  "is_ascii ''a.rs''" "no_control_space ''a.rs''"
  by code_simp+

lemma sample_normal:
  "normal_path ''src''" "normal_path ''src/a.rs''" "normal_path ''a.rs''"
  by code_simp+

lemmas sample_simps = sample_paths sample_path_components sample_ok sample_normal group_of_def
  claim_of_def exact_file_def directory_prefix_def spec_ok_def to_identity_def wf_identity_def
  ok_or_def

theorem normalize_covers_request_witness:
  "\<exists>n. normalize id id (group_of [directory_prefix ''repo'' ''src'' Read,
          exact_file ''repo'' ''src/a.rs'' Write]) = Inr n \<and>
     gi_claims n = [(PathId ''repo'' DirectoryPrefix ''src'', Write)] \<and>
     covers (gi_claims n) (PathId ''repo'' ExactFile ''src/a.rs'') Write"
proof -
  let ?g = "group_of [directory_prefix ''repo'' ''src'' Read, exact_file ''repo'' ''src/a.rs'' Write]"
  have c: "(case normalize id id ?g of Inl _ \<Rightarrow> [] | Inr n \<Rightarrow> gi_claims n) =
      [(PathId ''repo'' DirectoryPrefix ''src'', Write)]"
    by code_simp
  then obtain n where n: "normalize id id ?g = Inr n"
    by (cases "normalize id id ?g") auto
  have "write_kept id (gs_claims ?g)" by (simp add: write_kept_def sample_simps)
  with normalize_covers_request [of id ?g id n] n
  have "covers (gi_claims n) (PathId ''repo'' ExactFile ''src/a.rs'') Write"
    by (simp add: sample_simps)
  with n c show ?thesis by auto
qed

theorem check_conflicts_exact_witness:
  "check_conflicts id id (group_of [exact_file ''repo'' ''src/a.rs'' Write])
     [claim_of (PathId ''repo'' DirectoryPrefix ''src'') Read] \<noteq> Compatible"
proof -
  let ?g = "group_of [exact_file ''repo'' ''src/a.rs'' Write]"
  have c: "(case normalize id id ?g of Inl _ \<Rightarrow> [] | Inr n \<Rightarrow> gi_claims n) =
      [(PathId ''repo'' ExactFile ''src/a.rs'', Write)]"
    by code_simp
  then obtain n where n: "normalize id id ?g = Inr n"
    by (cases "normalize id id ?g") auto
  with c check_conflicts_exact [of id ?g "[claim_of (PathId ''repo'' DirectoryPrefix ''src'') Read]" id n]
  show ?thesis by (auto simp: sample_simps)
qed

text \<open>
  Control white space is outside of these theorems for a reason. The directory \<open>x\t/\<close> and the file \<open>x\t/c\<close> in it are both
  accepted, and share the file, but do not overlap; and of a request for the directory and for \<open>x/c\<close>, which is not in it, only
  the directory is left.
\<close>

lemma control_space_missed:
  "let tab = [CHR 0x09]; d = PathId ''r'' DirectoryPrefix (''x'' @ tab); f = PathId ''r'' ExactFile (''x'' @ tab @ ''/c'')
   in to_identity id (directory_prefix ''r'' (''x'' @ tab @ ''/'') Write) = Inr d \<and>
      to_identity id (exact_file ''r'' (''x'' @ tab @ ''/c'') Write) = Inr f \<and> \<not> identity_overlaps id d f \<and>
      (case normalize id id (group_of [directory_prefix ''r'' (''x'' @ tab @ ''/'') Write, exact_file ''r'' ''x/c'' Write]) of
         Inl _ \<Rightarrow> False | Inr n \<Rightarrow> gi_claims n = [(d, Write)])"
  by code_simp

theorem admitted_group_isolated_witness:
  "let s = exact_file ''repo'' ''src/a.rs'' Read; e = claim_of (PathId ''repo'' DirectoryPrefix ''src'') Read
   in check_conflicts id id (group_of [s]) [e] = Compatible \<and> rs_mode s = Read \<and> ec_mode e = Read"
proof -
  let ?s = "exact_file ''repo'' ''src/a.rs'' Read"
  let ?e = "claim_of (PathId ''repo'' DirectoryPrefix ''src'') Read"
  have chk: "check_conflicts id id (group_of [?s]) [?e] = Compatible" by code_simp
  have "rs_mode ?s = Read \<and> ec_mode ?e = Read"
    by (rule admitted_group_isolated [OF _ _ _ _ chk, where i = "PathId ''repo'' ExactFile ''src/a.rs''"])
       (simp_all add: sample_simps write_kept_def)
  with chk show ?thesis by (simp add: Let_def)
qed

text \<open>
  The exception is real: a group that asks to write a file and then to read its directory
  is normalised to a directory \<open>Read\<close>; the write is dropped, and the group is admitted although
  another group reads that very file.
\<close>

theorem normalize_drops_write:
  "let g = group_of [exact_file ''repo'' ''src/a.rs'' Write, directory_prefix ''repo'' ''src'' Read];
       reader = claim_of (PathId ''repo'' ExactFile ''src/a.rs'') Read
   in (case normalize id id g of Inl _ \<Rightarrow> [] | Inr n \<Rightarrow> gi_claims n) =
        [(PathId ''repo'' DirectoryPrefix ''src'', Read)] \<and>
      check_conflicts id id g [reader] = Compatible \<and>
      check_conflicts id id (group_of [exact_file ''repo'' ''src/a.rs'' Write]) [reader] \<noteq> Compatible"
proof -
  let ?g = "group_of [exact_file ''repo'' ''src/a.rs'' Write, directory_prefix ''repo'' ''src'' Read]"
  let ?r = "claim_of (PathId ''repo'' ExactFile ''src/a.rs'') Read"
  have "(case normalize id id ?g of Inl _ \<Rightarrow> [] | Inr n \<Rightarrow> gi_claims n) =
        [(PathId ''repo'' DirectoryPrefix ''src'', Read)]"
    by code_simp
  moreover have "check_conflicts id id ?g [?r] = Compatible" by code_simp
  moreover have "check_conflicts id id (group_of [exact_file ''repo'' ''src/a.rs'' Write]) [?r] \<noteq> Compatible"
    by code_simp
  ultimately show ?thesis by (simp add: Let_def)
qed

end
