(* ===== verification/Core_Error.thy ===== *)
theory Core_Error
  imports Prelude
begin

text \<open>
  The structured errors of \<open>harness-core/src/error.rs\<close>: every fallible operation of the model
  returns \<open>(CoreError, _) result\<close> with the code and message of the source. A database error carries
  the text of the failed constraint.
\<close>

datatype ErrorCode =
    ConfigInvalid | ConfigMissing
  | AuthFailed | AuthExpired
  | UnsupportedVersion
  | UnsupportedCapability
  | ProcessSpawnFailed | ProcessExited int | ProcessTimeout nat | ProcessCancelled
  | ProtocolError | ProtocolParseError
  | SinkClosed | SinkConsumerFailed | SinkCancelled | SinkInvalidSequence nat nat
  | InvalidStateTransition string string | InvalidState | EntityTerminal string
  | ResourceConflict string | NotFound | ErrConflict
  | WorkspaceError | WorkspaceLeaseExpired
  | PersistenceError
  | SerializationError
  | VerificationFailed string
  | ProfileSeparationViolation
  | NoOperationalRuntimeProfile | RoleSessionIsolationViolation | RolePermissionViolation
  | StrictProfileDiversityUnavailable
  | Internal

datatype ErrorSource = SrcHarness | SrcAgent | SrcUser | SrcSystem

record CoreError =
  ce_code :: ErrorCode
  ce_message :: string
  ce_retryable :: bool
  ce_source :: ErrorSource
  ce_diagnostic_ref :: "string option"

definition is_retryable :: "ErrorCode \<Rightarrow> bool" where
  "is_retryable self =
     (case self of
        ProcessTimeout _ \<Rightarrow> True | ProcessCancelled \<Rightarrow> True | ProcessSpawnFailed \<Rightarrow> True
      | SinkClosed \<Rightarrow> True | SinkConsumerFailed \<Rightarrow> True
      | ResourceConflict _ \<Rightarrow> True | ErrConflict \<Rightarrow> True
      | WorkspaceLeaseExpired \<Rightarrow> True | PersistenceError \<Rightarrow> True | ProtocolError \<Rightarrow> True
      | _ \<Rightarrow> False)"

definition core_error_new :: "ErrorCode \<Rightarrow> string \<Rightarrow> ErrorSource \<Rightarrow> CoreError" where
  "core_error_new code message source =
     \<lparr>ce_code = code, ce_message = message, ce_retryable = is_retryable code, ce_source = source,
      ce_diagnostic_ref = None\<rparr>"

definition with_diagnostic :: "string \<Rightarrow> CoreError \<Rightarrow> CoreError" where
  "with_diagnostic ref_path self = self\<lparr>ce_diagnostic_ref := Some ref_path\<rparr>"

text \<open>\<open>Display\<close> of an error; the JSON text of its code is a parameter.\<close>

definition error_source_debug :: "ErrorSource \<Rightarrow> string" where
  "error_source_debug s =
     (case s of SrcHarness \<Rightarrow> ''Harness'' | SrcAgent \<Rightarrow> ''Agent'' | SrcUser \<Rightarrow> ''User'' | SrcSystem \<Rightarrow> ''System'')"

definition core_error_display :: "(ErrorCode \<Rightarrow> string) \<Rightarrow> CoreError \<Rightarrow> string" where
  "core_error_display code_json e =
     ''['' @ code_json (ce_code e) @ ''] '' @ ce_message e @ '' (retryable='' @
     (if ce_retryable e then ''true'' else ''false'') @ '', source='' @ error_source_debug (ce_source e) @ '')''"

text \<open>\<open>db_err\<close> of the repositories: any SQLite failure becomes a retryable persistence error.\<close>

definition db_err :: "string \<Rightarrow> CoreError" where
  "db_err e = core_error_new PersistenceError e SrcSystem"

text \<open>The common shape of the errors the services raise themselves.\<close>

abbreviation fail_with :: "ErrorCode \<Rightarrow> string \<Rightarrow> (CoreError, 'a) result" where
  "fail_with code message \<equiv> Inl (core_error_new code message SrcSystem)"

lemma core_error_new_code [simp]:
  "ce_code (core_error_new c m s) = c" "ce_code (db_err m) = PersistenceError"
  "ce_code (with_diagnostic r e) = ce_code e"
  by (simp_all add: core_error_new_def db_err_def with_diagnostic_def)

end
