(* ===== verification/Event_Log.thy ===== *)
theory Event_Log
  imports Core_Error
begin

text \<open>
  The append-only \<open>event_log\<close> table (\<open>harness-runtime/src/event_log.rs\<close> and the claim-event writers
  share it). The schema makes \<open>id\<close>, \<open>idempotency_key\<close> and the pair \<open>(stream_id, stream_version)\<close>
  unique: an insertion that would break one of them is a database error. The JSON payload is kept
  as the list of its members, the insertion time is not.
\<close>

datatype json_value = JNull | JStr string | JInt int | JBool bool

record EventLogEntry =
  ev_id :: string
  ev_stream_id :: string
  ev_stream_version :: int
  ev_event_type :: string
  ev_payload :: "(string \<times> json_value) list"
  ev_schema_version :: int
  ev_correlation_id :: string
  ev_causation_id :: "string option"
  ev_idempotency_key :: string
  ev_source :: string

definition event_clashes :: "EventLogEntry \<Rightarrow> EventLogEntry \<Rightarrow> bool" where
  "event_clashes a b \<longleftrightarrow>
     ev_id a = ev_id b \<or> ev_idempotency_key a = ev_idempotency_key b \<or>
     (ev_stream_id a = ev_stream_id b \<and> ev_stream_version a = ev_stream_version b)"

definition insert_event ::
  "EventLogEntry \<Rightarrow> EventLogEntry list \<Rightarrow> (CoreError, EventLogEntry list) result" where
  "insert_event e log =
     (if list_ex (event_clashes e) log then Inl (db_err ''UNIQUE constraint failed: event_log'')
      else Inr (log @ [e]))"

text \<open>\<open>INSERT OR IGNORE\<close>: a row that breaks a unique constraint is skipped.\<close>

definition insert_event_or_ignore :: "EventLogEntry \<Rightarrow> EventLogEntry list \<Rightarrow> EventLogEntry list" where
  "insert_event_or_ignore e log = (if list_ex (event_clashes e) log then log else log @ [e])"

fun append_in_tx ::
  "EventLogEntry list \<Rightarrow> EventLogEntry list \<Rightarrow> (CoreError, EventLogEntry list) result" where
  "append_in_tx [] log = Inr log"
| "append_in_tx (e # es) log = and_then (insert_event e log) (append_in_tx es)"

definition get_by_stream :: "string \<Rightarrow> nat option \<Rightarrow> EventLogEntry list \<Rightarrow> EventLogEntry list" where
  "get_by_stream stream_id since_version log =
     (let sv = int (case since_version of None \<Rightarrow> 0 | Some v \<Rightarrow> v)
      in sort_key ev_stream_version
           (filter (\<lambda>e. ev_stream_id e = stream_id \<and> ev_stream_version e > sv) log))"

text \<open>\<open>SELECT MAX(stream_version)\<close>, \<open>unwrap_or(0) + 1\<close>.\<close>

definition next_stream_version :: "string \<Rightarrow> EventLogEntry list \<Rightarrow> int" where
  "next_stream_version stream_id log =
     (let vs = map ev_stream_version (filter (\<lambda>e. ev_stream_id e = stream_id) log)
      in (if vs = [] then 0 else Max (set vs)) + 1)"

section \<open>Lemmas\<close>

definition log_unique :: "EventLogEntry list \<Rightarrow> bool" where
  "log_unique log \<longleftrightarrow>
     distinct (map ev_id log) \<and> distinct (map ev_idempotency_key log) \<and>
     distinct (map (\<lambda>e. (ev_stream_id e, ev_stream_version e)) log)"

lemma insert_event_Inr:
  "insert_event e log = Inr log' \<longleftrightarrow> log' = log @ [e] \<and> (\<forall>f \<in> set log. \<not> event_clashes e f)"
  by (auto simp: insert_event_def list_ex_iff)

lemma insert_event_unique:
  "insert_event e log = Inr log' \<Longrightarrow> log_unique log \<Longrightarrow> log_unique log'"
  by (fastforce simp: insert_event_Inr log_unique_def event_clashes_def)

lemma append_in_tx_prefix:
  "append_in_tx es log = Inr log' \<Longrightarrow> log' = log @ es"
  by (induction es log rule: append_in_tx.induct) (fastforce simp: and_then_Inr_iff insert_event_Inr)+

lemma append_in_tx_unique:
  "append_in_tx es log = Inr log' \<Longrightarrow> log_unique log \<Longrightarrow> log_unique log'"
proof (induction es log rule: append_in_tx.induct)
  case (2 e es log)
  then obtain l where "insert_event e log = Inr l" "append_in_tx es l = Inr log'"
    by (auto simp: and_then_Inr_iff)
  with 2 insert_event_unique show ?case by blast
qed simp

lemma next_stream_version_greater:
  "e \<in> set log \<Longrightarrow> ev_stream_id e = sid \<Longrightarrow> ev_stream_version e < next_stream_version sid log"
proof -
  assume e: "e \<in> set log" "ev_stream_id e = sid"
  let ?vs = "map ev_stream_version (filter (\<lambda>e. ev_stream_id e = sid) log)"
  have mem: "ev_stream_version e \<in> set ?vs" using e by simp
  then have "ev_stream_version e \<le> Max (set ?vs)" by (intro Max_ge) simp_all
  moreover have "?vs \<noteq> []" using mem by (metis empty_iff empty_set)
  ultimately show ?thesis unfolding next_stream_version_def Let_def by simp
qed

lemma get_by_stream_strictly_sorted:
  assumes "log_unique log"
  shows "sorted_wrt (<) (map ev_stream_version (get_by_stream sid since log))"
proof -
  let ?es = "filter (\<lambda>e. ev_stream_id e = sid \<and>
      ev_stream_version e > int (case since of None \<Rightarrow> 0 | Some v \<Rightarrow> v)) log"
  let ?pair = "\<lambda>e. (ev_stream_id e, ev_stream_version e)"
  have "distinct (map ?pair ?es)"
    using assms by (simp add: log_unique_def distinct_map_filter)
  then have "inj_on ev_stream_version (set ?es)" "distinct ?es"
    by (auto simp: distinct_map inj_on_def)
  then have "distinct (map ev_stream_version (sort_key ev_stream_version ?es))"
    by (simp add: distinct_map)
  then show ?thesis
    by (simp add: get_by_stream_def Let_def strict_sorted_iff)
qed

end
