(* ===== verification/Idempotency.thy ===== *)
theory Idempotency
  imports Event_Log
begin

text \<open>
  Idempotency keys with ownership, \<open>harness-runtime/src/idempotency.rs\<close>. Timestamps are the seconds
  of the SQL text; \<open>lease_expires_at < datetime('now')\<close> is false for NULL. \<open>try_claim\<close> runs two
  statements outside any transaction: a read (\<open>claim_plan\<close> is what it decides from the row) and a
  conditional write (\<open>claim_exec\<close>), between which other callers may run. The fresh owner token
  (\<open>Uuid::new_v4\<close>) is an argument.
\<close>

section \<open>Definitions\<close>

record IdemRow =
  ir_key :: string
  ir_request_hash :: string
  ir_status :: string
  ir_owner_token :: "string option"
  ir_lease_expires_at :: "int option"
  ir_attempt_count :: int
  ir_result_json :: "string option"
  ir_error_json :: "string option"
  ir_version :: int
  ir_fencing_token :: int

definition expired_at :: "int \<Rightarrow> int option \<Rightarrow> bool" where
  "expired_at now t = (case t of None \<Rightarrow> False | Some e \<Rightarrow> e < now)"

datatype ClaimPlan = Finish "(CoreError, string option) result" | Takeover int | Upsert

definition claim_plan :: "IdemRow option \<Rightarrow> string \<Rightarrow> ClaimPlan" where
  "claim_plan existing request_hash =
     (case existing of
        Some row \<Rightarrow>
          (if ir_status row \<in> {''completed'', ''failed_final''} then Finish (Inr None)
           else if ir_status row = ''failed_retryable'' \<and> ir_request_hash row \<noteq> request_hash then
             Finish (fail_with PersistenceError
               (''idempotency_request_mismatch: existing_hash='' @ ir_request_hash row))
           else if ir_status row = ''pending'' then
             (if ir_request_hash row \<noteq> request_hash then
                Finish (fail_with PersistenceError
                  ''idempotency_request_mismatch: different request_hash for pending key'')
              else Takeover (ir_version row))
           else Upsert)
      | None \<Rightarrow> Upsert)"

definition claimed_row :: "string \<Rightarrow> int \<Rightarrow> string \<Rightarrow> IdemRow \<Rightarrow> IdemRow" where
  "claimed_row token expires request_hash row =
     row\<lparr>ir_status := ''pending'', ir_owner_token := Some token, ir_lease_expires_at := Some expires,
         ir_attempt_count := ir_attempt_count row + 1, ir_request_hash := request_hash,
         ir_version := ir_version row + 1, ir_fencing_token := ir_fencing_token row + 1\<rparr>"

definition new_claim_row :: "string \<Rightarrow> string \<Rightarrow> string \<Rightarrow> int \<Rightarrow> IdemRow" where
  "new_claim_row key request_hash token expires =
     \<lparr>ir_key = key, ir_request_hash = request_hash, ir_status = ''pending'',
      ir_owner_token = Some token, ir_lease_expires_at = Some expires, ir_attempt_count = 1,
      ir_result_json = None, ir_error_json = None, ir_version = 1, ir_fencing_token = 1\<rparr>"

text \<open>The conditional write of \<open>try_claim\<close>: the version-guarded takeover of a pending row, or the
  \<open>INSERT .. ON CONFLICT(key) DO UPDATE .. WHERE\<close>.\<close>

definition claim_exec ::
  "int \<Rightarrow> string \<Rightarrow> string \<Rightarrow> string \<Rightarrow> int \<Rightarrow> ClaimPlan \<Rightarrow> IdemRow list \<Rightarrow>
   (CoreError, string option) result \<times> IdemRow list" where
  "claim_exec now token key request_hash expires plan rows =
     (case plan of
        Finish r \<Rightarrow> (r, rows)
      | Takeover v \<Rightarrow>
          (let P = (\<lambda>r. ir_key r = key \<and> expired_at now (ir_lease_expires_at r) \<and> ir_version r = v)
           in if rows_affected P rows = 1
              then (Inr (Some token), update_where P (claimed_row token expires request_hash) rows)
              else (Inr None, update_where P (claimed_row token expires request_hash) rows))
      | Upsert \<Rightarrow>
          (if select_one (\<lambda>r. ir_key r = key) rows = None then
             (Inr (Some token), rows @ [new_claim_row key request_hash token expires])
           else let P = (\<lambda>r. ir_key r = key \<and> (expired_at now (ir_lease_expires_at r) \<or>
                       ir_status r \<in> {''completed'', ''failed_retryable'', ''failed_final''}))
                in if rows_affected P rows = 0 then (Inr None, rows)
                   else (Inr (Some token), update_where P (claimed_row token expires request_hash) rows)))"

definition try_claim ::
  "int \<Rightarrow> string \<Rightarrow> string \<Rightarrow> string \<Rightarrow> nat \<Rightarrow> IdemRow list \<Rightarrow>
   (CoreError, string option) result \<times> IdemRow list" where
  "try_claim now token key request_hash lease_secs rows =
     claim_exec now token key request_hash (now + int lease_secs)
       (claim_plan (select_one (\<lambda>r. ir_key r = key) rows) request_hash) rows"

text \<open>The guard shared by the owner's operations: \<open>key=? AND owner_token=? AND status='pending'\<close>.\<close>

definition owned_by :: "string \<Rightarrow> string \<Rightarrow> IdemRow \<Rightarrow> bool" where
  "owned_by key token r \<longleftrightarrow>
     ir_key r = key \<and> ir_owner_token r = Some token \<and> ir_status r = ''pending''"

definition renew_claim ::
  "int \<Rightarrow> string \<Rightarrow> string \<Rightarrow> nat \<Rightarrow> IdemRow list \<Rightarrow> (CoreError, unit) result \<times> IdemRow list" where
  "renew_claim now key token lease_secs rows =
     (if rows_affected (owned_by key token) rows = 0
      then (fail_with PersistenceError ''claim not found or token mismatch'', rows)
      else (Inr (), update_where (owned_by key token)
              (\<lambda>r. r\<lparr>ir_lease_expires_at := Some (now + int lease_secs)\<rparr>) rows))"

definition complete_claim ::
  "string \<Rightarrow> string \<Rightarrow> string \<Rightarrow> IdemRow list \<Rightarrow> (CoreError, unit) result \<times> IdemRow list" where
  "complete_claim key token result_json rows =
     (if rows_affected (owned_by key token) rows = 0
      then (fail_with PersistenceError ''claim not found, token mismatch, or not pending'', rows)
      else (Inr (), update_where (owned_by key token)
              (\<lambda>r. r\<lparr>ir_status := ''completed'', ir_result_json := Some result_json,
                     ir_owner_token := None, ir_lease_expires_at := None\<rparr>) rows))"

definition fail_claim ::
  "string \<Rightarrow> string \<Rightarrow> string \<Rightarrow> bool \<Rightarrow> IdemRow list \<Rightarrow> (CoreError, unit) result \<times> IdemRow list" where
  "fail_claim key token error_json final_fail rows =
     (let status = (if final_fail then ''failed_final'' else ''failed_retryable'')
      in if rows_affected (owned_by key token) rows = 0
         then (fail_with PersistenceError ''claim not found or token mismatch'', rows)
         else (Inr (), update_where (owned_by key token)
                (\<lambda>r. r\<lparr>ir_status := status, ir_error_json := Some error_json,
                       ir_owner_token := None, ir_lease_expires_at := None\<rparr>) rows))"

definition get_result :: "string \<Rightarrow> IdemRow list \<Rightarrow> string option" where
  "get_result key rows =
     (case select_one (\<lambda>r. ir_key r = key) rows of
        Some row \<Rightarrow> (if ir_status row = ''completed''
                     then Some (case ir_result_json row of None \<Rightarrow> '''' | Some s \<Rightarrow> s) else None)
      | None \<Rightarrow> None)"

definition is_duplicate :: "string \<Rightarrow> IdemRow list \<Rightarrow> bool" where
  "is_duplicate key rows \<longleftrightarrow>
     select_one (\<lambda>r. ir_key r = key \<and> ir_status r = ''completed'') rows \<noteq> None"

definition completed_row :: "string \<Rightarrow> string \<Rightarrow> string \<Rightarrow> IdemRow" where
  "completed_row key request_hash result =
     \<lparr>ir_key = key, ir_request_hash = request_hash, ir_status = ''completed'',
      ir_owner_token = None, ir_lease_expires_at = None, ir_attempt_count = 1,
      ir_result_json = Some result, ir_error_json = None, ir_version = 1, ir_fencing_token = 1\<rparr>"

definition record_in_tx :: "string \<Rightarrow> string \<Rightarrow> IdemRow list \<Rightarrow> IdemRow list" where
  "record_in_tx key result rows =
     (if select_one (\<lambda>r. ir_key r = key) rows = None then rows @ [completed_row key key result]
      else rows)"

section \<open>The table under concurrent callers\<close>

text \<open>Every statement that writes the table, in any order, with plans computed from any earlier
  state of the table: this is what concurrent callers can do to it.\<close>

inductive idem_step :: "IdemRow list \<Rightarrow> IdemRow list \<Rightarrow> bool" where
  exec: "idem_step rows (snd (claim_exec now token key request_hash expires plan rows))"
| renew: "idem_step rows (snd (renew_claim now key token secs rows))"
| complete: "idem_step rows (snd (complete_claim key token result rows))"
| fail: "idem_step rows (snd (fail_claim key token err final rows))"
| recorded: "idem_step rows (record_in_tx key result rows)"

text \<open>Callers that run one after the other: the plan is computed from the table it is executed on.\<close>

inductive idem_seq_step :: "IdemRow list \<Rightarrow> IdemRow list \<Rightarrow> bool" where
  claim: "idem_seq_step rows (snd (try_claim now token key request_hash secs rows))"
| renew: "idem_seq_step rows (snd (renew_claim now key token secs rows))"
| complete: "idem_seq_step rows (snd (complete_claim key token result rows))"
| fail: "idem_seq_step rows (snd (fail_claim key token err final rows))"
| recorded: "idem_seq_step rows (record_in_tx key result rows)"

abbreviation idem_row :: "string \<Rightarrow> IdemRow list \<Rightarrow> IdemRow option" where
  "idem_row k rows \<equiv> select_one (\<lambda>r. ir_key r = k) rows"

definition keys_unique :: "IdemRow list \<Rightarrow> bool" where
  "keys_unique rows \<longleftrightarrow> distinct (map ir_key rows)"

text \<open>A write of the table either appends a row under a new key or updates rows in place; an
  update keeps the key and never lowers the version. All operations have this shape.\<close>

definition version_safe :: "(IdemRow \<Rightarrow> IdemRow) \<Rightarrow> bool" where
  "version_safe f \<longleftrightarrow> (\<forall>r. ir_key (f r) = ir_key r \<and> ir_version r \<le> ir_version (f r))"

lemma version_safe_claimed [simp]: "version_safe (claimed_row token expires request_hash)"
  by (simp add: version_safe_def claimed_row_def)

lemma idem_step_shape:
  assumes "idem_step rows rows'"
  obtains (append) r where "rows' = rows @ [r]" "idem_row (ir_key r) rows = None"
  | (update) P f where "rows' = update_where P f rows" "version_safe f"
  | (same) "rows' = rows"
  using assms
proof cases
  case (exec now token key request_hash expires plan)
  show ?thesis
  proof (cases plan)
    case (Finish r)
    with exec same show ?thesis by (simp add: claim_exec_def)
  next
    case (Takeover v)
    with exec update version_safe_claimed show ?thesis
      by (auto simp: claim_exec_def Let_def)
  next
    case Upsert
    with exec same update version_safe_claimed append [of "new_claim_row key request_hash token expires"]
    show ?thesis by (auto simp: claim_exec_def Let_def new_claim_row_def split: if_splits)
  qed
next
  case (renew now key token secs)
  then show ?thesis
    using same update [of "owned_by key token"]
    by (fastforce simp: renew_claim_def version_safe_def split: if_splits)
next
  case (complete key token result)
  then show ?thesis
    using same update [of "owned_by key token"]
    by (fastforce simp: complete_claim_def version_safe_def split: if_splits)
next
  case (fail key token err final)
  then show ?thesis
    using same update [of "owned_by key token"]
    by (fastforce simp: fail_claim_def version_safe_def Let_def split: if_splits)
next
  case (recorded key result)
  then show ?thesis
    using same append [of "completed_row key key result"]
    by (fastforce simp: record_in_tx_def completed_row_def split: if_splits)
qed

lemma keys_unique_step:
  assumes "idem_step rows rows'" and "keys_unique rows"
  shows "keys_unique rows'"
  using assms(1)
proof (cases rule: idem_step_shape)
  case (append r)
  then show ?thesis
    using assms(2) by (auto simp: keys_unique_def select_one_None)
next
  case (update P f)
  then have "map ir_key rows' = map ir_key rows"
    by (simp add: map_update_where version_safe_def)
  then show ?thesis using assms(2) by (simp add: keys_unique_def)
qed (use assms(2) in simp)

text \<open>The version of a key only grows, and its row never disappears.\<close>

lemma idem_row_update:
  "version_safe f \<Longrightarrow>
     idem_row k (update_where P f rows) = map_option (\<lambda>r. if P r then f r else r) (idem_row k rows)"
  by (rule select_one_update) (simp add: version_safe_def)

lemma version_step:
  assumes "idem_step rows rows'" and "idem_row k rows = Some r"
  shows "\<exists>r'. idem_row k rows' = Some r' \<and> ir_version r \<le> ir_version r'"
  using assms(1)
proof (cases rule: idem_step_shape)
  case (append q)
  then show ?thesis using assms(2) by (simp add: select_one_append)
next
  case (update P f)
  then show ?thesis using assms(2) by (simp add: idem_row_update) (simp add: version_safe_def)
qed (use assms(2) in simp)

lemma version_steps:
  assumes "idem_step\<^sup>*\<^sup>* rows rows'" and "idem_row k rows = Some r" and "keys_unique rows"
  shows "keys_unique rows' \<and> (\<exists>r'. idem_row k rows' = Some r' \<and> ir_version r \<le> ir_version r')"
  using assms
proof (induction rule: rtranclp_induct)
  case (step y z)
  then obtain r' where y: "keys_unique y" "idem_row k y = Some r'" "ir_version r \<le> ir_version r'"
    by blast
  from version_step [OF step(2) y(2)] obtain q where "idem_row k z = Some q" "ir_version r' \<le> ir_version q"
    by blast
  with y keys_unique_step [OF step(2) y(1)] show ?case by force
qed auto

lemma takeover_rows:
  assumes "keys_unique rows"
  shows "fst (claim_exec now token k h e (Takeover v) rows) =
    Inr (case idem_row k rows of None \<Rightarrow> None
         | Some r \<Rightarrow> if expired_at now (ir_lease_expires_at r) \<and> ir_version r = v then Some token else None)"
  using assms rows_affected_key [of ir_key rows k "\<lambda>r. expired_at now (ir_lease_expires_at r) \<and> ir_version r = v"]
  by (auto simp: claim_exec_def Let_def keys_unique_def split: option.splits)

text \<open>
  C18. The version guard makes the takeover of an expired claim exclusive: when a caller has
  won with the version it read, every other caller that read the same version loses, whatever
  statements other callers run in between.
\<close>

theorem takeover_exclusive:
  assumes "keys_unique rows"
    and "claim_exec now1 token1 k h1 e1 (Takeover v) rows = (Inr (Some token1), rows1)"
    and "idem_step\<^sup>*\<^sup>* rows1 rows2"
  shows "fst (claim_exec now2 token2 k h2 e2 (Takeover v) rows2) = Inr None"
proof -
  obtain r where r: "idem_row k rows = Some r" "expired_at now1 (ir_lease_expires_at r)" "ir_version r = v"
    using takeover_rows [OF assms(1), of now1 token1 k h1 e1 v] assms(2)
    by (auto split: option.splits if_splits)
  have upd: "rows1 = update_where (\<lambda>r. ir_key r = k \<and> expired_at now1 (ir_lease_expires_at r) \<and> ir_version r = v)
      (claimed_row token1 e1 h1) rows"
    using assms(2) by (auto simp: claim_exec_def Let_def split: if_splits)
  have "ir_key r = k" using select_one_Some [OF r(1)] by simp
  then have row1: "idem_row k rows1 = Some (claimed_row token1 e1 h1 r)"
    unfolding upd using r by (simp add: idem_row_update)
  have uniq1: "keys_unique rows1"
    using assms(1) unfolding upd keys_unique_def by (simp add: map_update_where claimed_row_def)
  from version_steps [OF assms(3) row1 uniq1] obtain r2 where
    "keys_unique rows2" "idem_row k rows2 = Some r2" "v < ir_version r2"
    using r(3) by (auto simp: claimed_row_def)
  then show ?thesis by (simp add: takeover_rows)
qed

definition claim_row_1 :: IdemRow where
  "claim_row_1 = (new_claim_row ''k'' ''h'' ''t0'' 10)"

theorem takeover_exclusive_witness:
  "fst (claim_exec 20 ''t1'' ''k'' ''h'' 80 (Takeover 1) [claim_row_1]) = Inr (Some ''t1'') \<and>
   fst (claim_exec 200 ''t2'' ''k'' ''h'' 260 (Takeover 1)
     (snd (claim_exec 20 ''t1'' ''k'' ''h'' 80 (Takeover 1) [claim_row_1]))) = Inr None"
proof -
  let ?r = "claim_exec 20 ''t1'' ''k'' ''h'' 80 (Takeover 1) [claim_row_1]"
  have won: "fst ?r = Inr (Some ''t1'')" by code_simp
  then have run: "?r = (Inr (Some ''t1''), snd ?r)" by (metis prod.collapse)
  have "keys_unique [claim_row_1]" by (simp add: keys_unique_def)
  from takeover_exclusive [OF this run rtranclp.rtrancl_refl] won show ?thesis by blast
qed

subsection \<open>Ownership\<close>

lemma idem_row_key: "idem_row k rows = Some r \<Longrightarrow> ir_key r = k"
  using select_one_Some [of "\<lambda>r. ir_key r = k"] by blast

lemma owned_by_none:
  assumes "idem_row k rows = Some r" and "keys_unique rows" and "ir_owner_token r \<noteq> Some t"
  shows "rows_affected (owned_by k t) rows = 0"
proof -
  have "\<not> owned_by k t q" if "q \<in> set rows" for q
  proof
    assume own: "owned_by k t q"
    have "r \<in> set rows" "ir_key r = k" using select_one_Some [OF assms(1)] by simp_all
    with own that assms(2) have "q = r"
      using distinct_key_eq [of ir_key rows r q] by (simp add: owned_by_def keys_unique_def)
    with own assms(3) show False by (simp add: owned_by_def)
  qed
  then show ?thesis by (simp add: rows_affected_0_iff)
qed

lemma stranger_refused:
  assumes "idem_row k rows = Some r" and "keys_unique rows" and "ir_owner_token r \<noteq> Some t"
  shows "renew_claim now k t secs rows = (fail_with PersistenceError ''claim not found or token mismatch'', rows)"
    and "complete_claim k t res rows =
      (fail_with PersistenceError ''claim not found, token mismatch, or not pending'', rows)"
    and "fail_claim k t err final rows = (fail_with PersistenceError ''claim not found or token mismatch'', rows)"
  using owned_by_none [OF assms]
  by (simp_all add: renew_claim_def complete_claim_def fail_claim_def)

lemma idem_row_other:
  assumes "\<And>r. P r \<Longrightarrow> ir_key r = k" and "version_safe f" and "k' \<noteq> k"
  shows "idem_row k' (update_where P f rows) = idem_row k' rows"
proof (cases "idem_row k' rows")
  case None
  then show ?thesis using assms(2) by (simp add: idem_row_update)
next
  case (Some r)
  then have "\<not> P r" using assms(1,3) idem_row_key by blast
  with Some show ?thesis using assms(2) by (simp add: idem_row_update)
qed

lemma claim_exec_takeover:
  assumes uniq: "keys_unique rows" and run: "claim_exec now t k h e (Takeover v) rows = (Inr (Some t), rows')"
  shows "\<exists>r. idem_row k rows = Some r \<and> idem_row k rows' = Some (claimed_row t e h r)"
    and "k' \<noteq> k \<Longrightarrow> idem_row k' rows' = idem_row k' rows"
proof -
  let ?P = "\<lambda>r. ir_key r = k \<and> expired_at now (ir_lease_expires_at r) \<and> ir_version r = v"
  have rows': "rows' = update_where ?P (claimed_row t e h) rows"
    using run by (auto simp: claim_exec_def Let_def split: if_splits)
  have "fst (claim_exec now t k h e (Takeover v) rows) = Inr (Some t)" using run by simp
  then obtain r where r: "idem_row k rows = Some r" "?P r"
    unfolding takeover_rows [OF uniq]
    by (cases "idem_row k rows") (auto dest: idem_row_key split: if_splits)
  then show "\<exists>r. idem_row k rows = Some r \<and> idem_row k rows' = Some (claimed_row t e h r)"
    unfolding rows' by (simp add: idem_row_update)
  show "idem_row k' rows' = idem_row k' rows" if "k' \<noteq> k"
    unfolding rows' using that idem_row_other [of ?P k "claimed_row t e h"] by simp
qed

lemma claim_exec_upsert_new:
  assumes run: "claim_exec now t k h e Upsert rows = (Inr (Some t), rows')" and none: "idem_row k rows = None"
  shows "idem_row k rows' = Some (new_claim_row k h t e)"
    and "k' \<noteq> k \<Longrightarrow> idem_row k' rows' = idem_row k' rows"
proof -
  have "rows' = rows @ [new_claim_row k h t e]" using run none by (auto simp: claim_exec_def)
  moreover have "select_one (\<lambda>r. ir_key r = k) [new_claim_row k h t e] = Some (new_claim_row k h t e)"
    "k' \<noteq> k \<Longrightarrow> select_one (\<lambda>r. ir_key r = k') [new_claim_row k h t e] = None"
    by (simp_all add: select_one_def new_claim_row_def)
  ultimately show "idem_row k rows' = Some (new_claim_row k h t e)"
    and "k' \<noteq> k \<Longrightarrow> idem_row k' rows' = idem_row k' rows"
    using none by (simp_all add: select_one_append split: option.split)
qed

lemma claim_exec_upsert_old:
  assumes uniq: "keys_unique rows" and run: "claim_exec now t k h e Upsert rows = (Inr (Some t), rows')"
    and old: "idem_row k rows = Some r"
  shows "idem_row k rows' = Some (claimed_row t e h r)"
    and "k' \<noteq> k \<Longrightarrow> idem_row k' rows' = idem_row k' rows"
proof -
  let ?Q = "\<lambda>r. expired_at now (ir_lease_expires_at r) \<or> ir_status r \<in> {''completed'', ''failed_retryable'', ''failed_final''}"
  let ?P = "\<lambda>r. ir_key r = k \<and> ?Q r"
  have rows': "rows' = update_where ?P (claimed_row t e h) rows" and some: "rows_affected ?P rows \<noteq> 0"
    using run old by (auto simp: claim_exec_def Let_def split: if_splits)
  have "?P r"
    using some old uniq rows_affected_key [of ir_key rows k ?Q] select_one_Some [OF old]
    by (auto simp: keys_unique_def split: if_splits)
  then show "idem_row k rows' = Some (claimed_row t e h r)"
    unfolding rows' using old by (simp add: idem_row_update)
  show "idem_row k' rows' = idem_row k' rows" if "k' \<noteq> k"
    unfolding rows' using that idem_row_other [of ?P k "claimed_row t e h"] by simp
qed

lemma claim_exec_granted:
  assumes uniq: "keys_unique rows" and run: "claim_exec now t k h e plan rows = (Inr (Some t), rows')"
    and plan: "\<forall>x. plan \<noteq> Finish x"
  shows "idem_row k rows' = Some (case idem_row k rows of None \<Rightarrow> new_claim_row k h t e
           | Some r \<Rightarrow> claimed_row t e h r)"
    and "\<And>k'. k' \<noteq> k \<Longrightarrow> idem_row k' rows' = idem_row k' rows"
    and "keys_unique rows'"
proof -
  have step: "idem_step rows rows'" using idem_step.exec [of rows now t k h e plan] run by simp
  show "keys_unique rows'" by (rule keys_unique_step [OF step uniq])
  consider v where "plan = Takeover v" | "plan = Upsert" "idem_row k rows = None"
    | r where "plan = Upsert" "idem_row k rows = Some r"
    using plan by (cases plan) auto
  then have "idem_row k rows' = Some (case idem_row k rows of None \<Rightarrow> new_claim_row k h t e
           | Some r \<Rightarrow> claimed_row t e h r) \<and> (\<forall>k'. k' \<noteq> k \<longrightarrow> idem_row k' rows' = idem_row k' rows)"
  proof cases
    case 1
    then show ?thesis using claim_exec_takeover [OF uniq] run by fastforce
  next
    case 2
    then show ?thesis using claim_exec_upsert_new run by fastforce
  next
    case 3
    then show ?thesis using claim_exec_upsert_old [OF uniq] run by fastforce
  qed
  then show "idem_row k rows' = Some (case idem_row k rows of None \<Rightarrow> new_claim_row k h t e
           | Some r \<Rightarrow> claimed_row t e h r)" "\<And>k'. k' \<noteq> k \<Longrightarrow> idem_row k' rows' = idem_row k' rows"
    by auto
qed

lemma try_claim_not_Finish:
  assumes "try_claim now t k h secs rows = (Inr (Some t), rows')"
  shows "\<forall>x. claim_plan (idem_row k rows) h \<noteq> Finish x"
  using assms by (auto simp: try_claim_def claim_exec_def claim_plan_def split: option.splits if_splits)

text \<open>
  A granted claim makes the caller the one owner: the row is pending under its token and its
  request hash, with the fencing token of any previous owner exceeded by one, no other key is
  touched, and every other token is refused renewal, completion and failure.
\<close>

theorem try_claim_grants_ownership:
  assumes "keys_unique rows" and "try_claim now t k h secs rows = (Inr (Some t), rows')"
  shows "\<exists>r. idem_row k rows' = Some r \<and> owned_by k t r \<and> ir_request_hash r = h \<and>
      ir_fencing_token r = (case idem_row k rows of None \<Rightarrow> 1 | Some q \<Rightarrow> ir_fencing_token q + 1) \<and>
      (\<forall>k'. k' \<noteq> k \<longrightarrow> idem_row k' rows' = idem_row k' rows) \<and>
      (\<forall>t' n s res err fin. t' \<noteq> t \<longrightarrow>
         \<not> is_ok (fst (renew_claim n k t' s rows')) \<and> \<not> is_ok (fst (complete_claim k t' res rows')) \<and>
         \<not> is_ok (fst (fail_claim k t' err fin rows')))"
proof -
  note granted = claim_exec_granted [OF assms(1) assms(2) [unfolded try_claim_def]
      try_claim_not_Finish [OF assms(2)]]
  obtain r where r: "idem_row k rows' = Some r" "owned_by k t r" "ir_request_hash r = h"
      "ir_fencing_token r = (case idem_row k rows of None \<Rightarrow> 1 | Some q \<Rightarrow> ir_fencing_token q + 1)"
    using granted(1)
    by (cases "idem_row k rows")
       (auto simp: owned_by_def new_claim_row_def claimed_row_def dest: idem_row_key)
  moreover have "\<not> is_ok (fst (renew_claim n k t' s rows')) \<and> \<not> is_ok (fst (complete_claim k t' res rows')) \<and>
         \<not> is_ok (fst (fail_claim k t' err fin rows'))" if "t' \<noteq> t" for t' n s res err fin
    using stranger_refused [OF r(1) granted(3), of t'] r(2) that by (auto simp: owned_by_def)
  ultimately show ?thesis using granted(2) by blast
qed

theorem try_claim_grants_ownership_witness:
  "try_claim 20 ''t1'' ''k'' ''h'' 60 [claim_row_1] =
     (Inr (Some ''t1''), [claimed_row ''t1'' 80 ''h'' claim_row_1]) \<and>
   \<not> is_ok (fst (complete_claim ''k'' ''t0'' ''{}'' [claimed_row ''t1'' 80 ''h'' claim_row_1]))"
proof -
  have run: "try_claim 20 ''t1'' ''k'' ''h'' 60 [claim_row_1] =
     (Inr (Some ''t1''), [claimed_row ''t1'' 80 ''h'' claim_row_1])" by code_simp
  have "keys_unique [claim_row_1]" by (simp add: keys_unique_def)
  from try_claim_grants_ownership [OF this run] have
    "\<not> is_ok (fst (complete_claim ''k'' ''t0'' ''{}'' [claimed_row ''t1'' 80 ''h'' claim_row_1]))"
    by fastforce
  with run show ?thesis by blast
qed

subsection \<open>Exactly-once results\<close>

definition is_settled :: "IdemRow \<Rightarrow> bool" where
  "is_settled r \<longleftrightarrow> ir_status r \<in> {''completed'', ''failed_final''}"

lemma idem_row_update_unaffected:
  "idem_row k rows = Some r \<Longrightarrow> \<not> P r \<Longrightarrow> version_safe f \<Longrightarrow>
     idem_row k (update_where P f rows) = Some r"
  by (simp add: idem_row_update)

lemma owner_ops_settled:
  assumes "idem_row k rows = Some r" and "is_settled r"
  shows "idem_row k (snd (renew_claim now key t secs rows)) = Some r"
    and "idem_row k (snd (complete_claim key t res rows)) = Some r"
    and "idem_row k (snd (fail_claim key t err fin rows)) = Some r"
proof -
  have "\<not> owned_by key t r" using assms(2) by (auto simp: is_settled_def owned_by_def)
  note upd = idem_row_update_unaffected [of k rows r "owned_by key t", OF assms(1) this]
  show "idem_row k (snd (renew_claim now key t secs rows)) = Some r"
    using assms(1) by (simp add: renew_claim_def upd version_safe_def)
  show "idem_row k (snd (complete_claim key t res rows)) = Some r"
    using assms(1) by (simp add: complete_claim_def upd version_safe_def)
  show "idem_row k (snd (fail_claim key t err fin rows)) = Some r"
    using assms(1) by (simp add: fail_claim_def Let_def upd version_safe_def)
qed

lemma claim_exec_other_key:
  assumes "idem_row k rows = Some r" and "key \<noteq> k"
  shows "idem_row k (snd (claim_exec now t key h e plan rows)) = Some r"
proof -
  have "idem_row k (update_where (\<lambda>r. ir_key r = key \<and> Q r) (claimed_row t e h) rows) = Some r" for Q
    using assms idem_row_key [OF assms(1)]
    by (simp add: idem_row_update [OF version_safe_claimed])
  then show ?thesis
    using assms(1) by (auto simp: claim_exec_def Let_def select_one_append split: ClaimPlan.splits)
qed

lemma settled_seq_step:
  assumes "idem_seq_step rows rows'" and "idem_row k rows = Some r" and "is_settled r"
  shows "idem_row k rows' = Some r"
  using assms(1)
proof cases
  case (claim now token key h secs)
  show ?thesis
  proof (cases "key = k")
    case True
    then show ?thesis
      using claim assms(2,3) by (simp add: try_claim_def claim_plan_def claim_exec_def is_settled_def)
  next
    case False
    then show ?thesis
      using claim claim_exec_other_key [OF assms(2)] by (simp add: try_claim_def)
  qed
next
  case (recorded key result)
  then show ?thesis using assms(2) by (simp add: record_in_tx_def select_one_append)
qed (use owner_ops_settled [OF assms(2,3)] in simp_all)

text \<open>
  C19. Exactly-once results for callers that do not overlap: once a key is completed (or finally
  failed) its row never changes again, so the stored result is returned for ever and every further
  claim of the key is refused.
\<close>

theorem settled_for_ever:
  assumes "idem_seq_step\<^sup>*\<^sup>* rows rows'" and "idem_row k rows = Some r" and "is_settled r"
  shows "idem_row k rows' = Some r \<and> get_result k rows' = get_result k rows \<and>
    fst (try_claim now t k h secs rows') = Inr None"
proof -
  have "idem_row k rows' = Some r"
    using assms by (induction rule: rtranclp_induct) (auto intro: settled_seq_step)
  then show ?thesis
    using assms(2,3) by (auto simp: get_result_def try_claim_def claim_plan_def claim_exec_def is_settled_def)
qed

theorem settled_for_ever_witness:
  "let done = snd (complete_claim ''k'' ''t0'' ''{}'' [claim_row_1]);
       later = snd (try_claim 99 ''t9'' ''k'' ''h'' 60 done)
   in get_result ''k'' later = Some ''{}'' \<and> fst (try_claim 99 ''t8'' ''k'' ''h'' 60 later) = Inr None"
proof -
  let ?done = "snd (complete_claim ''k'' ''t0'' ''{}'' [claim_row_1])"
  let ?row = "claim_row_1\<lparr>ir_status := ''completed'', ir_result_json := Some ''{}'',
                ir_owner_token := None, ir_lease_expires_at := None\<rparr>"
  have row: "idem_row ''k'' ?done = Some ?row" by code_simp
  have settled: "is_settled ?row" by (simp add: is_settled_def)
  have res: "get_result ''k'' ?done = Some ''{}''" by code_simp
  have "idem_seq_step\<^sup>*\<^sup>* ?done (snd (try_claim 99 ''t9'' ''k'' ''h'' 60 ?done))"
    by (intro r_into_rtranclp idem_seq_step.claim)
  from settled_for_ever [OF this row settled] res show ?thesis by (simp add: Let_def)
qed

text \<open>
  Overlapping callers break it: a caller that read "no row" before another caller claimed
  and completed the key still executes its upsert, whose guard admits completed rows, and is granted
  the completed key under a different request hash; the result is gone from \<open>get_result\<close>.
\<close>

theorem try_claim_race:
  "let planned = claim_plan (idem_row ''k'' []) ''h2'';
       (_, claimed) = try_claim 20 ''t1'' ''k'' ''h1'' 60 [];
       (_, completed) = complete_claim ''k'' ''t1'' ''{}'' claimed;
       (granted, final) = claim_exec 21 ''t2'' ''k'' ''h2'' 81 planned completed
   in get_result ''k'' completed = Some ''{}'' \<and> granted = Inr (Some ''t2'') \<and>
      get_result ''k'' final = None"
  by code_simp

text \<open>
  No key is stuck: a pending claim whose lease has run out, or a retryable failure, is
  granted to the next caller with the same request hash.
\<close>

theorem abandoned_claim_recoverable:
  assumes "keys_unique rows" and "idem_row k rows = Some r" and "ir_request_hash r = h"
    and "ir_status r = ''pending'' \<and> expired_at now (ir_lease_expires_at r) \<or>
         ir_status r = ''failed_retryable''"
  shows "fst (try_claim now t k h secs rows) = Inr (Some t)"
proof (cases "ir_status r = ''pending''")
  case True
  with assms(2-4) have "claim_plan (idem_row k rows) h = Takeover (ir_version r)"
    by (simp add: claim_plan_def)
  then show ?thesis
    using assms True by (simp add: try_claim_def takeover_rows)
next
  case False
  with assms(2-4) have "claim_plan (idem_row k rows) h = Upsert" by (simp add: claim_plan_def)
  moreover have "rows_affected (\<lambda>r. ir_key r = k \<and> (expired_at now (ir_lease_expires_at r) \<or>
       ir_status r \<in> {''completed'', ''failed_retryable'', ''failed_final''})) rows \<noteq> 0"
    using False assms(2,4) select_one_Some [OF assms(2)] by (auto simp: rows_affected_0_iff)
  ultimately show ?thesis using assms(2) by (simp add: try_claim_def claim_exec_def)
qed

theorem abandoned_claim_recoverable_witness:
  "fst (try_claim 11 ''t1'' ''k'' ''h'' 60 [claim_row_1]) = Inr (Some ''t1'')"
  by (rule abandoned_claim_recoverable [where r = claim_row_1])
     (simp_all add: keys_unique_def select_one_def claim_row_1_def new_claim_row_def expired_at_def)

end
