(* ===== verification/Claim_Store.thy ===== *)
theory Claim_Store
  imports Resource_Claim Idempotency "HOL-Library.Word"
begin

text \<open>
  The claim store of \<open>harness-runtime/src/resource_claim\<close>: \<open>repo.rs\<close> (tables, transactions,
  conversions) and \<open>service.rs\<close> (lease validation and bounded expiry). A \<open>BEGIN IMMEDIATE\<close>
  transaction holds the write lock from its start, so an operation of the repository is one atomic
  step on the database; \<open>ROLLBACK\<close> and an error inside the transaction leave the committed state. Timestamps are the
  seconds of the SQL text. Columns that hold enumerations keep their text.
\<close>

section \<open>Tables and records\<close>

record ClaimGuard =
  gd_lease_id :: string
  gd_lease_token :: string
  gd_fencing_token :: int
  gd_worktree_id :: string
  gd_project_id :: string
  gd_task_id :: string
  gd_execution_id :: string

record GroupRow =
  gr_group_id :: string
  gr_project_id :: string
  gr_task_id :: string
  gr_execution_id :: "string option"
  gr_repository_identity :: string
  gr_worktree_id :: "string option"
  gr_lease_id :: "string option"
  gr_fencing_token :: int
  gr_request_hash :: string
  gr_lifecycle :: string
  gr_acquired_at :: int
  gr_heartbeat_at :: "int option"
  gr_expires_at :: "int option"
  gr_released_at :: "int option"
  gr_release_reason :: "string option"
  gr_version :: int

record ClaimRow =
  cr_id :: string
  cr_group_id :: string
  cr_resource_kind :: string
  cr_normalized_resource :: string
  cr_access_mode :: string
  cr_lifecycle :: string

record ClaimRowRecord =
  rr_claim_id :: string
  rr_group_id :: string
  rr_resource_kind :: string
  rr_normalized_resource :: string
  rr_access_mode :: string
  rr_lifecycle :: ClaimLifecycle

record ClaimGroupRecord =
  gc_group_id :: string
  gc_project_id :: string
  gc_task_id :: string
  gc_execution_id :: string
  gc_repository_identity :: string
  gc_worktree_id :: "string option"
  gc_lease_id :: "string option"
  gc_fencing_token :: int
  gc_request_hash :: string
  gc_lifecycle :: ClaimLifecycle
  gc_acquired_at :: int
  gc_heartbeat_at :: "int option"
  gc_expires_at :: "int option"
  gc_released_at :: "int option"
  gc_release_reason :: "string option"
  gc_version :: int
  gc_claims :: "ClaimRowRecord list"

datatype AcquireOutcome =
    Acquired ClaimGroupRecord
  | AlreadyAcquired ClaimGroupRecord
  | AcquireConflict "ClaimConflict list"
  | IdempotencyConflict
  | AcquireInvalidSpec string

record ActiveClaimView =
  av_identity :: ResourceIdentity
  av_mode :: AccessMode
  av_group_id :: string
  av_task_id :: string
  av_execution_id :: "string option"

record ActiveClaimRow =
  ar_resource_kind :: string
  ar_normalized_resource :: string
  ar_access_mode :: string
  ar_group_id :: string
  ar_task_id :: string
  ar_execution_id :: "string option"
  ar_repository_identity :: string

record ClaimDb =
  db_groups :: "GroupRow list"
  db_claims :: "ClaimRow list"
  db_idem :: "IdemRow list"
  db_events :: "EventLogEntry list"

text \<open>What a call takes from outside: Unicode NFC, SHA-256, the derived \<open>Debug\<close> texts and the UUIDs
  it draws, in order.\<close>

record ClaimEnv =
  env_nfc :: "string \<Rightarrow> string"
  env_sha :: "string \<Rightarrow> string"
  env_debug_identity :: "ResourceIdentity \<Rightarrow> string"
  env_debug_reason :: "ConflictReason \<Rightarrow> string"
  env_uuid :: "nat \<Rightarrow> string"

section \<open>Conversions\<close>

definition identity_to_kind_and_resource :: "ResourceIdentity \<Rightarrow> string \<times> string" where
  "identity_to_kind_and_resource identity =
     (case identity of
        PathId _ kind path \<Rightarrow>
          (case kind of ExactFile \<Rightarrow> ''exact_file'' | DirectoryPrefix \<Rightarrow> ''directory_prefix''
           | RepositoryWide \<Rightarrow> ''repository_wide'' | Logical \<Rightarrow> ''logical'', path)
      | LogicalId key \<Rightarrow> (''logical'', key))"

definition access_mode_str :: "AccessMode \<Rightarrow> string" where
  "access_mode_str mode = (case mode of Read \<Rightarrow> ''read'' | Write \<Rightarrow> ''write'')"

definition parse_resource_kind :: "string \<Rightarrow> ResourceKind" where
  "parse_resource_kind s =
     (if s = ''exact_file'' then ExactFile else if s = ''directory_prefix'' then DirectoryPrefix
      else if s = ''repository_wide'' then RepositoryWide else if s = ''logical'' then Logical
      else ExactFile)"

definition parse_access_mode :: "string \<Rightarrow> AccessMode" where
  "parse_access_mode s = (if s = ''write'' then Write else Read)"

definition parse_claim_lifecycle :: "string \<Rightarrow> ClaimLifecycle" where
  "parse_claim_lifecycle s =
     (if s = ''released'' then Claim_Released else if s = ''expired'' then Claim_Expired else Claim_Active)"

definition row_to_active_view :: "ActiveClaimRow \<Rightarrow> ActiveClaimView" where
  "row_to_active_view r =
     (let kind = parse_resource_kind (ar_resource_kind r);
          identity = (case kind of
              Logical \<Rightarrow> LogicalId (case logical_resource_key_new (ar_normalized_resource r) of
                                     Inr k \<Rightarrow> k | Inl _ \<Rightarrow> ''invalid'')
            | _ \<Rightarrow> PathId (ar_repository_identity r) kind (ar_normalized_resource r))
      in \<lparr>av_identity = identity, av_mode = parse_access_mode (ar_access_mode r),
          av_group_id = ar_group_id r, av_task_id = ar_task_id r, av_execution_id = ar_execution_id r\<rparr>)"

definition rows_to_active_views :: "ActiveClaimRow list \<Rightarrow> ActiveClaimView list" where
  "rows_to_active_views rows = map row_to_active_view rows"

definition view_to_existing :: "ActiveClaimView \<Rightarrow> ExistingClaim" where
  "view_to_existing a = \<lparr>ec_identity = av_identity a, ec_mode = av_mode a, ec_group_id = av_group_id a,
     ec_task_id = av_task_id a, ec_execution_id = av_execution_id a\<rparr>"

definition group_row_to_record :: "GroupRow \<Rightarrow> ClaimRowRecord list \<Rightarrow> ClaimGroupRecord" where
  "group_row_to_record row claims =
     \<lparr>gc_group_id = gr_group_id row, gc_project_id = gr_project_id row, gc_task_id = gr_task_id row,
      gc_execution_id = (case gr_execution_id row of None \<Rightarrow> '''' | Some e \<Rightarrow> e),
      gc_repository_identity = gr_repository_identity row, gc_worktree_id = gr_worktree_id row,
      gc_lease_id = gr_lease_id row, gc_fencing_token = gr_fencing_token row,
      gc_request_hash = gr_request_hash row, gc_lifecycle = parse_claim_lifecycle (gr_lifecycle row),
      gc_acquired_at = gr_acquired_at row, gc_heartbeat_at = gr_heartbeat_at row,
      gc_expires_at = gr_expires_at row, gc_released_at = gr_released_at row,
      gc_release_reason = gr_release_reason row, gc_version = gr_version row, gc_claims = claims\<rparr>"

section \<open>Queries\<close>

definition join_active :: "ClaimDb \<Rightarrow> ActiveClaimRow list" where
  "join_active db =
     concat (map (\<lambda>rc.
       map (\<lambda>g. \<lparr>ar_resource_kind = cr_resource_kind rc, ar_normalized_resource = cr_normalized_resource rc,
                 ar_access_mode = cr_access_mode rc, ar_group_id = cr_group_id rc,
                 ar_task_id = gr_task_id g, ar_execution_id = gr_execution_id g,
                 ar_repository_identity = gr_repository_identity g\<rparr>)
         (filter (\<lambda>g. cr_group_id rc = gr_group_id g \<and> gr_lifecycle g = ''active'') (db_groups db)))
       (db_claims db))"

definition load_active_claims :: "ClaimDb \<Rightarrow> ActiveClaimView list" where
  "load_active_claims db = rows_to_active_views (join_active db)"

definition existing_claims :: "ClaimDb \<Rightarrow> ExistingClaim list" where
  "existing_claims db = map view_to_existing (load_active_claims db)"

definition load_group_claims :: "string \<Rightarrow> ClaimDb \<Rightarrow> ClaimRowRecord list" where
  "load_group_claims group_id db =
     map (\<lambda>r. \<lparr>rr_claim_id = cr_id r, rr_group_id = cr_group_id r, rr_resource_kind = cr_resource_kind r,
               rr_normalized_resource = cr_normalized_resource r, rr_access_mode = cr_access_mode r,
               rr_lifecycle = parse_claim_lifecycle (cr_lifecycle r)\<rparr>)
       (filter (\<lambda>r. cr_group_id r = group_id) (db_claims db))"

definition get_group :: "string \<Rightarrow> ClaimDb \<Rightarrow> (CoreError, ClaimGroupRecord) result" where
  "get_group group_id db =
     (case select_one (\<lambda>g. gr_group_id g = group_id) (db_groups db) of
        None \<Rightarrow> fail_with PersistenceError (''claim group not found: '' @ group_id)
      | Some row \<Rightarrow> Inr (group_row_to_record row (load_group_claims group_id db)))"

definition list_active :: "(GroupRow \<Rightarrow> bool) \<Rightarrow> ClaimDb \<Rightarrow> ClaimGroupRecord list" where
  "list_active P db =
     map (\<lambda>row. group_row_to_record row (load_group_claims (gr_group_id row) db))
       (filter (\<lambda>g. P g \<and> gr_lifecycle g = ''active'') (db_groups db))"

definition list_active_for_task :: "string \<Rightarrow> ClaimDb \<Rightarrow> ClaimGroupRecord list" where
  "list_active_for_task task_id db = list_active (\<lambda>g. gr_task_id g = task_id) db"

definition list_active_for_execution :: "string \<Rightarrow> ClaimDb \<Rightarrow> ClaimGroupRecord list" where
  "list_active_for_execution execution_id db = list_active (\<lambda>g. gr_execution_id g = Some execution_id) db"

definition list_active_for_repository :: "string \<Rightarrow> ClaimDb \<Rightarrow> ClaimGroupRecord list" where
  "list_active_for_repository repository_identity db =
     list_active (\<lambda>g. gr_repository_identity g = repository_identity) db"

definition repo_check_conflicts :: "ClaimEnv \<Rightarrow> ClaimGroupSpec \<Rightarrow> ClaimDb \<Rightarrow> ClaimDecision" where
  "repo_check_conflicts env spec db = check_conflicts (env_nfc env) (env_sha env) spec (existing_claims db)"

section \<open>Events\<close>

text \<open>The UUIDs of the event and its correlation id are drawn after those of the rows.\<close>

definition write_event_in_conn ::
  "string \<Rightarrow> string \<Rightarrow> string \<Rightarrow> string \<Rightarrow> string \<Rightarrow> string \<Rightarrow> ClaimDb \<Rightarrow> (CoreError, ClaimDb) result" where
  "write_event_in_conn event_id cid group_id event_type to_lifecycle idempotency_key db =
     (let next_ver = next_stream_version group_id (db_events db)
      in and_then (insert_event
           \<lparr>ev_id = event_id, ev_stream_id = group_id, ev_stream_version = next_ver,
            ev_event_type = event_type,
            ev_payload = [(''group_id'', JStr group_id), (''to'', JStr to_lifecycle)],
            ev_schema_version = 1, ev_correlation_id = cid, ev_causation_id = None,
            ev_idempotency_key = idempotency_key, ev_source = ''harness''\<rparr> (db_events db))
         (\<lambda>log. Inr (db\<lparr>db_events := log\<rparr>)))"

fun write_conflict_event_in_conn ::
  "ClaimEnv \<Rightarrow> nat \<Rightarrow> ClaimConflict list \<Rightarrow> ClaimDb \<Rightarrow> ClaimDb" where
  "write_conflict_event_in_conn env n [] db = db"
| "write_conflict_event_in_conn env n (conflict # conflicts) db =
     write_conflict_event_in_conn env (n + 2) conflicts
       (db\<lparr>db_events := insert_event_or_ignore
          \<lparr>ev_id = env_uuid env n, ev_stream_id = conflicting_group_id conflict, ev_stream_version = 0,
           ev_event_type = ''resource_claim_conflict_observed'',
           ev_payload = [(''conflicting_group_id'', JStr (conflicting_group_id conflict)),
             (''conflicting_task_id'', JStr (conflicting_task_id conflict)),
             (''reason'', JStr (env_debug_reason env (cc_reason conflict))),
             (''requested_identity'', JStr (env_debug_identity env (requested_identity conflict)))],
           ev_schema_version = 1, ev_correlation_id = env_uuid env (n + 1), ev_causation_id = None,
           ev_idempotency_key = ''conflict-'' @ env_debug_identity env (requested_identity conflict) @
             ''-'' @ conflicting_group_id conflict,
           ev_source = ''harness''\<rparr> (db_events db)\<rparr>)"

text \<open>\<open>ROLLBACK\<close> discards everything since \<open>BEGIN IMMEDIATE\<close>.\<close>

definition rollback_immediate :: "ClaimDb \<Rightarrow> ClaimDb \<Rightarrow> ClaimDb" where
  "rollback_immediate begun current = begun"

section \<open>Operations of the repository\<close>

text \<open>Steps 6 to 8 of an acquisition: the group row, one row per normalised claim, and the
  idempotency record.\<close>

definition new_group_row ::
  "string \<Rightarrow> ClaimGroupSpec \<Rightarrow> ClaimGuard \<Rightarrow> string \<Rightarrow> int \<Rightarrow> int \<Rightarrow> GroupRow" where
  "new_group_row group_id spec guard request_hash now expires_at =
     \<lparr>gr_group_id = group_id, gr_project_id = gs_project_id spec, gr_task_id = gs_task_id spec,
      gr_execution_id = Some (gs_execution_id spec),
      gr_repository_identity = gs_repository_identity spec, gr_worktree_id = gs_worktree_id spec,
      gr_lease_id = Some (gd_lease_id guard), gr_fencing_token = gd_fencing_token guard,
      gr_request_hash = request_hash, gr_lifecycle = ''active'', gr_acquired_at = now,
      gr_heartbeat_at = Some now, gr_expires_at = Some expires_at, gr_released_at = None,
      gr_release_reason = None, gr_version = 1\<rparr>"

definition new_claim_row_of :: "string \<Rightarrow> string \<Rightarrow> ResourceIdentity \<times> AccessMode \<Rightarrow> ClaimRow" where
  "new_claim_row_of uuid group_id im =
     (let (kind_str, norm_res) = identity_to_kind_and_resource (fst im)
      in \<lparr>cr_id = ''rc-'' @ uuid, cr_group_id = group_id, cr_resource_kind = kind_str,
          cr_normalized_resource = norm_res, cr_access_mode = access_mode_str (snd im),
          cr_lifecycle = ''active''\<rparr>)"

definition insert_group ::
  "ClaimEnv \<Rightarrow> string \<Rightarrow> ClaimGroupSpec \<Rightarrow> ClaimGuard \<Rightarrow> ClaimGroupIdentity \<Rightarrow> string \<Rightarrow> int \<Rightarrow> int \<Rightarrow>
   ClaimDb \<Rightarrow> ClaimDb" where
  "insert_group env group_id spec guard normalized idempotency_key now expires_at db =
     db\<lparr>db_groups := db_groups db @
            [new_group_row group_id spec guard (gi_request_hash normalized) now expires_at],
        db_claims := db_claims db @
            map2 (\<lambda>n im. new_claim_row_of (env_uuid env n) group_id im)
              [1..<Suc (length (gi_claims normalized))] (gi_claims normalized),
        db_idem := db_idem db @ [completed_row idempotency_key (gi_request_hash normalized) group_id]\<rparr>"

text \<open>The shared start of \<open>acquire_group\<close> and \<open>replace_group\<close>: the authoritative idempotency check
  inside the transaction.\<close>

definition idem_replay ::
  "string \<Rightarrow> string \<Rightarrow> ClaimDb \<Rightarrow> (CoreError, AcquireOutcome) result option" where
  "idem_replay idempotency_key request_hash db =
     (case select_one (\<lambda>r. ir_key r = idempotency_key) (db_idem db) of
        None \<Rightarrow> None
      | Some row \<Rightarrow> Some
          (if ir_request_hash row = request_hash then
             and_then (get_group (case ir_result_json row of None \<Rightarrow> '''' | Some g \<Rightarrow> g) db)
               (\<lambda>record. Inr (AlreadyAcquired record))
           else Inr IdempotencyConflict))"

definition acquire_group ::
  "ClaimEnv \<Rightarrow> int \<Rightarrow> ClaimGroupSpec \<Rightarrow> ClaimGuard \<Rightarrow> string \<Rightarrow> int \<Rightarrow> ClaimDb \<Rightarrow>
   (CoreError, AcquireOutcome) result \<times> ClaimDb" where
  "acquire_group env now spec guard idempotency_key expires_at db =
     (case normalize (env_nfc env) (env_sha env) spec of
        Inl why \<Rightarrow> (Inr (AcquireInvalidSpec why), db)
      | Inr normalized \<Rightarrow>
        (case idem_replay idempotency_key (gi_request_hash normalized) db of
           Some outcome \<Rightarrow> (outcome, rollback_immediate db db)
         | None \<Rightarrow>
           (case check_conflicts (env_nfc env) (env_sha env) spec (existing_claims db) of
              Conflict conflicts \<Rightarrow>
                (Inr (AcquireConflict conflicts),
                 rollback_immediate db (write_conflict_event_in_conn env 0 conflicts db))
            | InvalidSpec why \<Rightarrow> (Inr (AcquireInvalidSpec why), rollback_immediate db db)
            | Compatible \<Rightarrow>
                (let n = length (gi_claims normalized);
                     group_id = ''rcg-'' @ env_uuid env 0;
                     db' = insert_group env group_id spec guard normalized idempotency_key now expires_at db
                 in case write_event_in_conn (env_uuid env (n + 1)) (env_uuid env (n + 2)) group_id
                      ''resource_claim_group_acquired'' ''active'' (group_id @ ''-acquire'') db' of
                      Inl e \<Rightarrow> (Inl e, db)
                    | Inr committed \<Rightarrow>
                        (and_then (get_group group_id committed) (\<lambda>record. Inr (Acquired record)), committed)))))"

text \<open>The subquery of the update reads the same row's version, so it holds trivially for the row the
  other conditions select.\<close>

definition renew_group ::
  "int \<Rightarrow> string \<Rightarrow> ClaimGuard \<Rightarrow> int \<Rightarrow> ClaimDb \<Rightarrow> (CoreError, unit) result \<times> ClaimDb" where
  "renew_group now group_id guard expires_at db =
     (let P = (\<lambda>g. gr_group_id g = group_id \<and> gr_lifecycle g = ''active'' \<and>
                  gr_lease_id g = Some (gd_lease_id guard) \<and> gr_fencing_token g = gd_fencing_token guard \<and>
                  Some (gr_version g) =
                    map_option gr_version (select_one (\<lambda>q. gr_group_id q = group_id) (db_groups db)))
      in if rows_affected P (db_groups db) = 0
         then (fail_with WorkspaceLeaseExpired (''claim group renew failed: '' @ group_id), db)
         else (Inr (), db\<lparr>db_groups := update_where P
                (\<lambda>g. g\<lparr>gr_heartbeat_at := Some now, gr_expires_at := Some expires_at,
                       gr_version := gr_version g + 1\<rparr>) (db_groups db)\<rparr>))"

definition guarded_active :: "string \<Rightarrow> ClaimGuard \<Rightarrow> GroupRow \<Rightarrow> bool" where
  "guarded_active group_id guard g \<longleftrightarrow>
     gr_group_id g = group_id \<and> gr_lifecycle g = ''active'' \<and>
     gr_lease_id g = Some (gd_lease_id guard) \<and> gr_fencing_token g = gd_fencing_token guard"

definition close_claims :: "string \<Rightarrow> string \<Rightarrow> ClaimRow list \<Rightarrow> ClaimRow list" where
  "close_claims group_id lifecycle claims =
     update_where (\<lambda>c. cr_group_id c = group_id \<and> cr_lifecycle c = ''active'')
       (\<lambda>c. c\<lparr>cr_lifecycle := lifecycle\<rparr>) claims"

definition release_group ::
  "(nat \<Rightarrow> string) \<Rightarrow> int \<Rightarrow> string \<Rightarrow> ClaimGuard \<Rightarrow> string \<Rightarrow> ClaimDb \<Rightarrow>
   (CoreError, unit) result \<times> ClaimDb" where
  "release_group uuid now group_id guard why db =
     (let P = guarded_active group_id guard
      in if rows_affected P (db_groups db) = 0 then
           (fail_with WorkspaceLeaseExpired
              (''claim group release failed (not found, not active, or wrong guard): '' @ group_id),
            rollback_immediate db db)
         else let db' = db\<lparr>db_groups := update_where P
                     (\<lambda>g. g\<lparr>gr_lifecycle := ''released'', gr_released_at := Some now,
                            gr_release_reason := Some why, gr_version := gr_version g + 1\<rparr>) (db_groups db),
                   db_claims := close_claims group_id ''released'' (db_claims db)\<rparr>
              in case write_event_in_conn (uuid 1) (uuid 2) group_id ''resource_claim_group_released''
                        ''released'' (group_id @ ''-release-'' @ uuid 0) db' of
                   Inl e \<Rightarrow> (Inl e, db)
                 | Inr committed \<Rightarrow> (Inr (), committed))"

definition due :: "int \<Rightarrow> GroupRow \<Rightarrow> bool" where
  "due now g \<longleftrightarrow> gr_lifecycle g = ''active'' \<and> expired_at now (gr_expires_at g)"

text \<open>One group of the loop, in its own transaction: \<open>True\<close> when it was expired.\<close>

definition expire_one ::
  "string \<Rightarrow> string \<Rightarrow> int \<Rightarrow> string \<Rightarrow> ClaimDb \<Rightarrow> (CoreError, bool) result \<times> ClaimDb" where
  "expire_one event_id cid now gid db =
     (let P = (\<lambda>g. gr_group_id g = gid \<and> due now g)
      in if rows_affected P (db_groups db) > 0 then
           let db' = db\<lparr>db_groups := update_where P
                   (\<lambda>g. g\<lparr>gr_lifecycle := ''expired'', gr_released_at := Some now,
                          gr_version := gr_version g + 1\<rparr>) (db_groups db),
                 db_claims := close_claims gid ''expired'' (db_claims db)\<rparr>
           in case write_event_in_conn event_id cid gid ''resource_claim_group_expired'' ''expired''
                     (gid @ ''-expire'') db' of
                Inl e \<Rightarrow> (Inl e, db)
              | Inr committed \<Rightarrow> (Inr True, committed)
         else (Inr False, rollback_immediate db db))"

fun expire_loop ::
  "(nat \<Rightarrow> string) \<Rightarrow> nat \<Rightarrow> int \<Rightarrow> string list \<Rightarrow> string list \<Rightarrow> ClaimDb \<Rightarrow>
   (CoreError, string list) result \<times> ClaimDb" where
  "expire_loop uuid n now [] expired db = (Inr expired, db)"
| "expire_loop uuid n now (gid # gids) expired db =
     (case expire_one (uuid n) (uuid (n + 1)) now gid db of
        (Inl e, db') \<Rightarrow> (Inl e, db')
      | (Inr done, db') \<Rightarrow>
          expire_loop uuid (n + 2) now gids (if done then expired @ [gid] else expired) db')"

definition expire_due_groups ::
  "(nat \<Rightarrow> string) \<Rightarrow> int \<Rightarrow> ClaimDb \<Rightarrow> (CoreError, string list) result \<times> ClaimDb" where
  "expire_due_groups uuid now db =
     expire_loop uuid 0 now (map gr_group_id (filter (due now) (db_groups db))) [] db"

definition replace_group ::
  "ClaimEnv \<Rightarrow> int \<Rightarrow> string \<Rightarrow> ClaimGroupSpec \<Rightarrow> ClaimGuard \<Rightarrow> string \<Rightarrow> int \<Rightarrow> ClaimDb \<Rightarrow>
   (CoreError, AcquireOutcome) result \<times> ClaimDb" where
  "replace_group env now old_group_id new_spec guard idempotency_key expires_at db =
     (case normalize (env_nfc env) (env_sha env) new_spec of
        Inl why \<Rightarrow> (Inr (AcquireInvalidSpec why), db)
      | Inr normalized \<Rightarrow>
        (case idem_replay idempotency_key (gi_request_hash normalized) db of
           Some outcome \<Rightarrow> (outcome, rollback_immediate db db)
         | None \<Rightarrow>
           (if select_one (guarded_active old_group_id guard) (db_groups db) = None then
              (fail_with WorkspaceLeaseExpired
                 (''old claim group not found or guard mismatch: '' @ old_group_id), rollback_immediate db db)
            else
              (let existing = map view_to_existing
                     (filter (\<lambda>a. av_group_id a \<noteq> old_group_id) (load_active_claims db))
               in case check_conflicts (env_nfc env) (env_sha env) new_spec existing of
                    Conflict conflicts \<Rightarrow>
                      (Inr (AcquireConflict conflicts),
                       rollback_immediate db (write_conflict_event_in_conn env 0 conflicts db))
                  | InvalidSpec why \<Rightarrow> (Inr (AcquireInvalidSpec why), rollback_immediate db db)
                  | Compatible \<Rightarrow>
                      (let released = db\<lparr>db_groups := update_where (\<lambda>g. gr_group_id g = old_group_id)
                               (\<lambda>g. g\<lparr>gr_lifecycle := ''released'', gr_released_at := Some now,
                                      gr_release_reason := Some ''replaced'',
                                      gr_version := gr_version g + 1\<rparr>) (db_groups db),
                             db_claims := close_claims old_group_id ''released'' (db_claims db)\<rparr>;
                           n = length (gi_claims normalized);
                           new_group_id = ''rcg-'' @ env_uuid env 0;
                           db' = insert_group env new_group_id new_spec guard normalized idempotency_key
                                   now expires_at released
                       in case write_event_in_conn (env_uuid env (n + 1)) (env_uuid env (n + 2))
                                 new_group_id ''resource_claim_group_replaced'' ''active''
                                 (new_group_id @ ''-replace'') db' of
                            Inl e \<Rightarrow> (Inl e, db)
                          | Inr committed \<Rightarrow>
                              (and_then (get_group new_group_id committed) (\<lambda>record. Inr (Acquired record)),
                               committed))))))"

section \<open>The service\<close>

text \<open>The validator the service is built with. A stored expiry is text: a timestamp or something
  \<open>parse_sql_dt\<close> rejects.\<close>

datatype sql_text = Stamp int | Unparsable string

definition parse_sql_dt :: "sql_text \<Rightarrow> int option" where
  "parse_sql_dt s = (case s of Stamp t \<Rightarrow> Some t | Unparsable _ \<Rightarrow> None)"

definition sql_text_str :: "(int \<Rightarrow> string) \<Rightarrow> sql_text \<Rightarrow> string" where
  "sql_text_str fmt s = (case s of Stamp t \<Rightarrow> fmt t | Unparsable u \<Rightarrow> u)"

record LeaseValidator =
  lv_validate_lease :: "string \<Rightarrow> string \<Rightarrow> int \<Rightarrow> (CoreError, unit) result"
  lv_get_lease_expires_at :: "string \<Rightarrow> (CoreError, sql_text option) result"

definition validate_guard :: "LeaseValidator \<Rightarrow> ClaimGuard \<Rightarrow> (CoreError, unit) result" where
  "validate_guard v guard =
     (case lv_validate_lease v (gd_lease_id guard) (gd_lease_token guard) (gd_fencing_token guard) of
        Inl e \<Rightarrow> fail_with WorkspaceLeaseExpired
                 (''claim lease validation failed for lease '' @ gd_lease_id guard @ '': '' @ ce_message e)
      | Inr _ \<Rightarrow> Inr ())"

text \<open>\<open>num_seconds\<close> of a chrono duration in milliseconds truncates towards zero; \<open>as u32\<close> keeps the
  low 32 bits. The clock is in milliseconds, the result in the seconds of its SQL text.\<close>

definition num_seconds :: "int \<Rightarrow> int" where
  "num_seconds ms = (if ms < 0 then - ((- ms) div 1000) else ms div 1000)"

definition compute_claim_expires_at ::
  "LeaseValidator \<Rightarrow> int \<Rightarrow> ClaimGuard \<Rightarrow> 32 word \<Rightarrow> (CoreError, int) result" where
  "compute_claim_expires_at v now guard requested_secs =
     and_then (lv_get_lease_expires_at v (gd_lease_id guard)) (\<lambda>found.
     and_then (ok_or (core_error_new WorkspaceLeaseExpired
                 (''lease not found: '' @ gd_lease_id guard) SrcSystem) found) (\<lambda>lease_expires.
     and_then (ok_or (core_error_new PersistenceError
                 (''cannot parse lease expiry: '' @ sql_text_str show_int lease_expires) SrcSystem)
                 (parse_sql_dt lease_expires)) (\<lambda>lease_dt.
       let remaining_secs = (word_of_int (max (num_seconds (lease_dt * 1000 - now)) 0) :: 32 word)
       in if remaining_secs = 0 then fail_with WorkspaceLeaseExpired ''lease already expired''
          else let bounded_secs = min requested_secs remaining_secs
               in Inr ((now + uint bounded_secs * 1000) div 1000))))"

definition default_claim_duration_secs :: "32 word" where
  "default_claim_duration_secs = 300"

definition service_acquire_group ::
  "LeaseValidator \<Rightarrow> ClaimEnv \<Rightarrow> int \<Rightarrow> int \<Rightarrow> ClaimGroupSpec \<Rightarrow> ClaimGuard \<Rightarrow> string \<Rightarrow> ClaimDb \<Rightarrow>
   (CoreError, AcquireOutcome) result \<times> ClaimDb" where
  "service_acquire_group v env now_ms now spec guard idempotency_key db =
     (case and_then (validate_guard v guard) (\<lambda>_.
             compute_claim_expires_at v now_ms guard default_claim_duration_secs) of
        Inl e \<Rightarrow> (Inl e, db)
      | Inr expires_at \<Rightarrow> acquire_group env now spec guard idempotency_key expires_at db)"

definition service_renew_group ::
  "LeaseValidator \<Rightarrow> int \<Rightarrow> int \<Rightarrow> string \<Rightarrow> ClaimGuard \<Rightarrow> 32 word \<Rightarrow> ClaimDb \<Rightarrow>
   (CoreError, unit) result \<times> ClaimDb" where
  "service_renew_group v now_ms now group_id guard duration_secs db =
     (case and_then (validate_guard v guard) (\<lambda>_. compute_claim_expires_at v now_ms guard duration_secs) of
        Inl e \<Rightarrow> (Inl e, db)
      | Inr expires_at \<Rightarrow> renew_group now group_id guard expires_at db)"

definition service_release_group ::
  "LeaseValidator \<Rightarrow> (nat \<Rightarrow> string) \<Rightarrow> int \<Rightarrow> string \<Rightarrow> ClaimGuard \<Rightarrow> string \<Rightarrow> ClaimDb \<Rightarrow>
   (CoreError, unit) result \<times> ClaimDb" where
  "service_release_group v uuid now group_id guard why db =
     (case validate_guard v guard of
        Inl e \<Rightarrow> (Inl e, db)
      | Inr _ \<Rightarrow> release_group uuid now group_id guard why db)"

definition service_expire_due_groups ::
  "(nat \<Rightarrow> string) \<Rightarrow> int \<Rightarrow> ClaimDb \<Rightarrow> (CoreError, string list) result \<times> ClaimDb" where
  "service_expire_due_groups uuid clock_now db = expire_due_groups uuid clock_now db"

definition service_replace_group ::
  "LeaseValidator \<Rightarrow> ClaimEnv \<Rightarrow> int \<Rightarrow> int \<Rightarrow> string \<Rightarrow> ClaimGroupSpec \<Rightarrow> ClaimGuard \<Rightarrow> string \<Rightarrow>
   ClaimDb \<Rightarrow> (CoreError, AcquireOutcome) result \<times> ClaimDb" where
  "service_replace_group v env now_ms now old_group_id new_spec guard idempotency_key db =
     (case and_then (validate_guard v guard) (\<lambda>_.
             compute_claim_expires_at v now_ms guard default_claim_duration_secs) of
        Inl e \<Rightarrow> (Inl e, db)
      | Inr expires_at \<Rightarrow> replace_group env now old_group_id new_spec guard idempotency_key expires_at db)"

section \<open>Round trips of the stored text\<close>

lemma parse_access_mode_str [simp]: "parse_access_mode (access_mode_str m) = m"
  by (cases m) (simp_all add: parse_access_mode_def access_mode_str_def)

lemma logical_key_char:
  "is_ascii_lowercase c \<or> is_ascii_digit c \<or> c = CHR ''-'' \<or> c = CHR ''_'' \<Longrightarrow>
     lower_char c = c \<and> \<not> is_whitespace c"
proof -
  assume c: "is_ascii_lowercase c \<or> is_ascii_digit c \<or> c = CHR ''-'' \<or> c = CHR ''_''"
  have n: "(of_char (CHR ''-'') :: nat) = 45" "(of_char (CHR ''_'') :: nat) = 95" by simp_all
  have "\<not> is_upper c" "\<not> is_whitespace c"
    using c n by (auto simp: is_upper_def is_whitespace_def is_ascii_lowercase_def is_ascii_digit_def)
  then show ?thesis by (simp add: lower_char_def)
qed

lemma logical_resource_key_fixed:
  assumes "logical_resource_key_new raw = Inr k"
  shows "logical_resource_key_new k = Inr k"
proof -
  have k: "k \<noteq> []" "length k \<le> 128"
    and all: "\<forall>c \<in> set k. is_ascii_lowercase c \<or> is_ascii_digit c \<or> c = CHR ''-'' \<or> c = CHR ''_''"
    using assms by (auto simp: logical_resource_key_new_def Let_def list_all_iff split: if_splits)
  have chars: "\<forall>c \<in> set k. lower_char c = c \<and> \<not> is_whitespace c"
    using all logical_key_char by blast
  then have low: "to_lowercase k = k" by (simp add: to_lowercase_def map_idI)
  have "trim k = k" using chars k(1) by (intro trim_id) (meson hd_in_set last_in_set)
  then show ?thesis
    using k low all by (simp add: logical_resource_key_new_def Let_def list_all_iff)
qed

text \<open>What comes back when an identity is stored in a group of repository \<open>repo\<close> and reloaded.\<close>

definition reloaded :: "string \<Rightarrow> ResourceIdentity \<Rightarrow> ResourceIdentity" where
  "reloaded repo i =
     av_identity (row_to_active_view
       \<lparr>ar_resource_kind = fst (identity_to_kind_and_resource i),
        ar_normalized_resource = snd (identity_to_kind_and_resource i),
        ar_access_mode = '''', ar_group_id = '''', ar_task_id = '''', ar_execution_id = None,
        ar_repository_identity = repo\<rparr>)"

definition claims_in_repo :: "ClaimGroupSpec \<Rightarrow> bool" where
  "claims_in_repo g \<longleftrightarrow> (\<forall>s \<in> set (gs_claims g). rs_kind s \<noteq> Logical \<longrightarrow>
     rs_repository_identity s = Some (gs_repository_identity g))"

lemma reloaded_to_identity:
  assumes "to_identity nfc s = Inr i" and "rs_kind s \<noteq> Logical \<longrightarrow> rs_repository_identity s = Some repo"
  shows "reloaded repo i = i"
proof (cases "rs_kind s = Logical")
  case True
  with assms(1) obtain raw k where "logical_resource_key_new raw = Inr k" "i = LogicalId k"
    by (auto simp: to_identity_def and_then_Inr_iff)
  then show ?thesis
    using logical_resource_key_fixed
    by (auto simp: reloaded_def row_to_active_view_def identity_to_kind_and_resource_def
        parse_resource_kind_def Let_def)
next
  case False
  with assms obtain p where "i = PathId repo (rs_kind s) p"
    by (auto simp: to_identity_def and_then_Inr_iff Let_def split: if_splits)
  with False show ?thesis
    by (cases "rs_kind s")
       (auto simp: reloaded_def row_to_active_view_def identity_to_kind_and_resource_def
        parse_resource_kind_def Let_def)
qed

section \<open>The isolation invariant\<close>

definition active_claim :: "ClaimRow \<Rightarrow> GroupRow \<Rightarrow> ExistingClaim" where
  "active_claim rc g = view_to_existing (row_to_active_view
     \<lparr>ar_resource_kind = cr_resource_kind rc, ar_normalized_resource = cr_normalized_resource rc,
      ar_access_mode = cr_access_mode rc, ar_group_id = cr_group_id rc, ar_task_id = gr_task_id g,
      ar_execution_id = gr_execution_id g, ar_repository_identity = gr_repository_identity g\<rparr>)"

lemma existing_claims_iff:
  "e \<in> set (existing_claims db) \<longleftrightarrow>
     (\<exists>rc \<in> set (db_claims db). \<exists>g \<in> set (db_groups db).
        cr_group_id rc = gr_group_id g \<and> gr_lifecycle g = ''active'' \<and> e = active_claim rc g)"
proof -
  have "existing_claims db = concat (map (\<lambda>rc. map (\<lambda>g. active_claim rc g)
      (filter (\<lambda>g. cr_group_id rc = gr_group_id g \<and> gr_lifecycle g = ''active'') (db_groups db))) (db_claims db))"
    by (simp add: existing_claims_def load_active_claims_def rows_to_active_views_def join_active_def
        map_concat comp_def active_claim_def [abs_def])
  then show ?thesis by auto
qed

definition active_of :: "ClaimRow set \<Rightarrow> GroupRow set \<Rightarrow> ExistingClaim set" where
  "active_of C G = {active_claim c g |c g. c \<in> C \<and> g \<in> G \<and> cr_group_id c = gr_group_id g \<and>
     gr_lifecycle g = ''active''}"

lemma existing_claims_set:
  "set (existing_claims db) = active_of (set (db_claims db)) (set (db_groups db))"
  unfolding active_of_def by (rule set_eqI) (unfold existing_claims_iff, blast)

lemma active_of_insert:
  assumes "\<And>c. c \<in> C \<Longrightarrow> cr_group_id c \<noteq> gr_group_id g" and "\<And>h. h \<in> G \<Longrightarrow> gr_group_id h \<noteq> gr_group_id g"
    and "\<And>c. c \<in> N \<Longrightarrow> cr_group_id c = gr_group_id g" and "gr_lifecycle g = ''active''"
  shows "active_of (C \<union> N) (insert g G) = active_of C G \<union> (\<lambda>c. active_claim c g) ` N"
proof (intro equalityI subsetI)
  fix e assume "e \<in> active_of (C \<union> N) (insert g G)"
  then obtain c h where ch: "c \<in> C \<union> N" "h \<in> insert g G" "cr_group_id c = gr_group_id h"
      "gr_lifecycle h = ''active''" "e = active_claim c h"
    by (auto simp: active_of_def)
  show "e \<in> active_of C G \<union> (\<lambda>c. active_claim c g) ` N"
  proof (cases "h = g")
    case True
    with ch assms(1) have "c \<in> N" by auto
    with ch True show ?thesis by blast
  next
    case False
    with ch have h: "h \<in> G" by simp
    with ch assms(2,3) have "c \<in> C" by (metis UnE)
    with ch h show ?thesis by (auto simp: active_of_def)
  qed
next
  fix e assume "e \<in> active_of C G \<union> (\<lambda>c. active_claim c g) ` N"
  then show "e \<in> active_of (C \<union> N) (insert g G)"
    using assms(3,4) by (auto simp: active_of_def)
qed

lemma active_claim_group [simp]: "ec_group_id (active_claim rc g) = cr_group_id rc"
  by (simp add: active_claim_def view_to_existing_def row_to_active_view_def Let_def)

definition store_inv :: "(string \<Rightarrow> string) \<Rightarrow> ClaimDb \<Rightarrow> bool" where
  "store_inv nfc db \<longleftrightarrow>
     distinct (map gr_group_id (db_groups db)) \<and>
     (\<forall>c \<in> set (db_claims db). cr_group_id c \<in> gr_group_id ` set (db_groups db)) \<and>
     (\<forall>a \<in> set (existing_claims db). wf_identity (ec_identity a)) \<and>
     (\<forall>a \<in> set (existing_claims db). \<forall>b \<in> set (existing_claims db).
        ec_group_id a \<noteq> ec_group_id b \<longrightarrow> \<not> claims_clash nfc a b)"

text \<open>Updates that keep the identifying columns and activate nothing only shrink the active set.\<close>

definition group_frame :: "(GroupRow \<Rightarrow> GroupRow) \<Rightarrow> bool" where
  "group_frame f \<longleftrightarrow> (\<forall>g. gr_group_id (f g) = gr_group_id g \<and> gr_task_id (f g) = gr_task_id g \<and>
     gr_execution_id (f g) = gr_execution_id g \<and>
     gr_repository_identity (f g) = gr_repository_identity g \<and>
     (gr_lifecycle (f g) = ''active'' \<longrightarrow> gr_lifecycle g = ''active''))"

definition claim_frame :: "(ClaimRow \<Rightarrow> ClaimRow) \<Rightarrow> bool" where
  "claim_frame h \<longleftrightarrow> (\<forall>c. cr_group_id (h c) = cr_group_id c \<and> cr_resource_kind (h c) = cr_resource_kind c \<and>
     cr_normalized_resource (h c) = cr_normalized_resource c \<and> cr_access_mode (h c) = cr_access_mode c)"

lemma active_claim_frame:
  "group_frame f \<Longrightarrow> claim_frame h \<Longrightarrow> active_claim (h rc) (f g) = active_claim rc g"
  "group_frame f \<Longrightarrow> active_claim rc (f g) = active_claim rc g"
  "claim_frame h \<Longrightarrow> active_claim (h rc) g = active_claim rc g"
  by (simp_all add: active_claim_def group_frame_def claim_frame_def)

lemma existing_claims_shrink:
  assumes "db_groups db' = update_where P f (db_groups db)" and "group_frame f"
    and "db_claims db' = update_where Q h (db_claims db)" and "claim_frame h"
  shows "set (existing_claims db') \<subseteq> set (existing_claims db)"
proof
  fix e assume "e \<in> set (existing_claims db')"
  then obtain rc g where rc: "rc \<in> set (db_claims db)" and g: "g \<in> set (db_groups db)"
    and e: "e = active_claim (if Q rc then h rc else rc) (if P g then f g else g)"
    and id: "cr_group_id (if Q rc then h rc else rc) = gr_group_id (if P g then f g else g)"
    and act: "gr_lifecycle (if P g then f g else g) = ''active''"
    unfolding existing_claims_iff assms(1,3) by (auto simp: set_update_where)
  have "cr_group_id rc = gr_group_id g" "gr_lifecycle g = ''active''"
    using id act assms(2,4) by (auto simp: group_frame_def claim_frame_def split: if_splits)
  moreover have "e = active_claim rc g"
    unfolding e using active_claim_frame assms(2,4) by simp
  ultimately show "e \<in> set (existing_claims db)"
    using rc g by (auto simp: existing_claims_iff)
qed

lemma store_inv_shrink:
  assumes "store_inv nfc db" and "db_groups db' = update_where P f (db_groups db)" and "group_frame f"
    and "db_claims db' = update_where Q h (db_claims db)" and "claim_frame h"
  shows "store_inv nfc db'"
proof -
  have sub: "set (existing_claims db') \<subseteq> set (existing_claims db)"
    by (rule existing_claims_shrink [OF assms(2-5)])
  have ids: "map gr_group_id (db_groups db') = map gr_group_id (db_groups db)"
    unfolding assms(2) using assms(3) by (simp add: map_update_where group_frame_def)
  have "map cr_group_id (db_claims db') = map cr_group_id (db_claims db)"
    unfolding assms(4) using assms(5) by (simp add: map_update_where claim_frame_def)
  then have "\<forall>c \<in> set (db_claims db'). cr_group_id c \<in> gr_group_id ` set (db_groups db')"
    using assms(1) ids unfolding store_inv_def by (metis (no_types, lifting) image_iff list.set_map)
  moreover have "\<forall>a \<in> set (existing_claims db'). wf_identity (ec_identity a)"
    using assms(1) sub by (auto simp: store_inv_def)
  moreover have "\<forall>a \<in> set (existing_claims db'). \<forall>b \<in> set (existing_claims db').
        ec_group_id a \<noteq> ec_group_id b \<longrightarrow> \<not> claims_clash nfc a b"
    using assms(1) by (intro engine.exclusive_subset [OF _ sub]) (simp add: store_inv_def)
  ultimately show ?thesis using assms(1) ids by (simp add: store_inv_def)
qed

lemma store_inv_events: "store_inv nfc (db\<lparr>db_events := log\<rparr>) = store_inv nfc db"
  by (simp add: store_inv_def existing_claims_def load_active_claims_def join_active_def)

lemma write_event_in_conn_Inr:
  "write_event_in_conn eid cid gid ty to k db = Inr db' \<Longrightarrow> \<exists>log. db' = db\<lparr>db_events := log\<rparr>"
  by (auto simp: write_event_in_conn_def Let_def and_then_Inr_iff)

lemma write_event_inv:
  "write_event_in_conn eid cid gid ty to k db = Inr db' \<Longrightarrow> store_inv nfc db' = store_inv nfc db"
  using write_event_in_conn_Inr [of eid cid gid ty to k db db'] store_inv_events by metis

definition new_active :: "ClaimGroupSpec \<Rightarrow> string \<Rightarrow> ResourceIdentity \<times> AccessMode \<Rightarrow> ExistingClaim" where
  "new_active spec gid im =
     \<lparr>ec_identity = reloaded (gs_repository_identity spec) (fst im), ec_mode = snd im, ec_group_id = gid,
      ec_task_id = gs_task_id spec, ec_execution_id = Some (gs_execution_id spec)\<rparr>"

lemma active_claim_new:
  "active_claim (new_claim_row_of u gid im) (new_group_row gid spec guard h now e) = new_active spec gid im"
  by (simp add: active_claim_def new_claim_row_of_def new_group_row_def new_active_def reloaded_def
      view_to_existing_def row_to_active_view_def Let_def split_def split: ResourceKind.split)

lemma new_claim_row_of_group [simp]: "cr_group_id (new_claim_row_of u gid im) = gid"
  by (simp add: new_claim_row_of_def Let_def split_def)

lemma map2_snd_image:
  "length xs = length ys \<Longrightarrow> \<forall>n y. g (f n y) = k y \<Longrightarrow> g ` set (map2 f xs ys) = k ` set ys"
proof (induction xs ys rule: list_induct2)
  case (Cons x xs y ys)
  then show ?case by auto
qed simp

lemma existing_insert_group:
  assumes "gid \<notin> gr_group_id ` set (db_groups db)"
    and "\<forall>c \<in> set (db_claims db). cr_group_id c \<in> gr_group_id ` set (db_groups db)"
  shows "set (existing_claims (insert_group env gid spec guard n k now e db)) =
    set (existing_claims db) \<union> new_active spec gid ` set (gi_claims n)"
proof -
  let ?g = "new_group_row gid spec guard (gi_request_hash n) now e"
  let ?new = "map2 (\<lambda>i im. new_claim_row_of (env_uuid env i) gid im) [1..<Suc (length (gi_claims n))] (gi_claims n)"
  have newid: "gr_group_id ?g = gid" "gr_lifecycle ?g = ''active''" by (simp_all add: new_group_row_def)
  have old: "cr_group_id c \<noteq> gid" if "c \<in> set (db_claims db)" for c using assms that by auto
  have oldg: "gr_group_id g \<noteq> gid" if "g \<in> set (db_groups db)" for g using assms that by auto
  have new: "cr_group_id c = gid" if "c \<in> set ?new" for c using that by auto
  have img: "(\<lambda>c. active_claim c ?g) ` set ?new = new_active spec gid ` set (gi_claims n)"
    by (rule map2_snd_image) (simp_all add: active_claim_new del: upt_Suc)
  have "set (existing_claims (insert_group env gid spec guard n k now e db)) =
     active_of (set (db_claims db) \<union> set ?new) (insert ?g (set (db_groups db)))"
    by (simp add: existing_claims_set insert_group_def Un_commute)
  also have "\<dots> = active_of (set (db_claims db)) (set (db_groups db)) \<union> (\<lambda>c. active_claim c ?g) ` set ?new"
    using old oldg new newid by (intro active_of_insert) auto
  finally show ?thesis by (simp only: img existing_claims_set)
qed

lemma normalize_claims_from:
  "normalize_claims nfc specs ns = Inr ns' \<Longrightarrow> (i, m) \<in> set ns' \<Longrightarrow>
     i \<in> fst ` set ns \<or> (\<exists>s \<in> set specs. to_identity nfc s = Inr i)"
proof (induction nfc specs ns rule: normalize_claims.induct)
  case (2 nfc spec specs ns)
  then obtain j where j: "to_identity nfc spec = Inr j"
    and rest: "normalize_claims nfc specs (normalize_insert nfc j (rs_mode spec) ns) = Inr ns'"
    by (auto simp: and_then_Inr_iff)
  from "2.IH" [OF rest "2.prems"(2)] show ?case
    using normalize_insert_fst(1) [of nfc j "rs_mode spec" ns] j by auto
qed force

lemma normalized_reload:
  assumes "normalize nfc sha spec = Inr n" and "claims_in_repo spec" and "(i, m) \<in> set (gi_claims n)"
  shows "reloaded (gs_repository_identity spec) i = i"
proof -
  from assms(1) obtain ns where "normalize_claims nfc (gs_claims spec) [] = Inr ns"
    "gi_claims n = sort_key (\<lambda>(a, _). identity_sort_key a) ns"
    by (rule normalize_Inr)
  with assms(3) obtain s where "s \<in> set (gs_claims spec)" "to_identity nfc s = Inr i"
    using normalize_claims_from by fastforce
  with assms(2) show ?thesis by (auto simp: claims_in_repo_def intro: reloaded_to_identity)
qed

lemma normalized_wf:
  assumes "nfc_ascii nfc" and "\<forall>s \<in> set (gs_claims spec). spec_ok s" and "normalize nfc sha spec = Inr n"
    and "(i, m) \<in> set (gi_claims n)"
  shows "wf_identity i"
proof -
  from assms(3) obtain ns where ns: "normalize_claims nfc (gs_claims spec) [] = Inr ns"
    "gi_claims n = sort_key (\<lambda>(a, _). identity_sort_key a) ns"
    by (rule normalize_Inr)
  with assms(4) normalize_claims_wf [OF assms(1,2) _ _ ns(1)] show ?thesis by auto
qed

text \<open>Inserting a group that the engine admits keeps the invariant.\<close>

lemma insert_group_inv:
  assumes inv: "store_inv nfc db" and nfc: "nfc_ascii nfc" and ok: "\<forall>s \<in> set (gs_claims spec). spec_ok s"
    and repo: "claims_in_repo spec" and norm: "normalize nfc sha spec = Inr n"
    and free: "\<forall>(i, m) \<in> set (gi_claims n). \<forall>e \<in> set (existing_claims db).
        identity_overlaps nfc i (ec_identity e) \<longrightarrow> is_compatible_with m (ec_mode e)"
    and fresh: "gid \<notin> gr_group_id ` set (db_groups db)"
  shows "store_inv nfc (insert_group env gid spec guard n k now e db)" (is "store_inv nfc ?db'")
proof -
  let ?N = "new_active spec gid ` set (gi_claims n)"
  have refs: "\<forall>c \<in> set (db_claims db). cr_group_id c \<in> gr_group_id ` set (db_groups db)"
    using inv by (simp add: store_inv_def)
  note set' = existing_insert_group [OF fresh refs, of env spec guard n k now e]
  have new: "\<exists>i m. (i, m) \<in> set (gi_claims n) \<and> ec_identity a = i \<and> ec_mode a = m \<and> ec_group_id a = gid"
    if "a \<in> ?N" for a
    using that normalized_reload [OF norm repo] by (auto simp: new_active_def)
  have noclash: "\<forall>a \<in> ?N. \<forall>b \<in> set (existing_claims db). \<not> claims_clash nfc a b"
  proof (intro ballI)
    fix a b assume a: "a \<in> ?N" and b: "b \<in> set (existing_claims db)"
    from new [OF a] obtain i m where "(i, m) \<in> set (gi_claims n)" "ec_identity a = i" "ec_mode a = m" by blast
    with free b show "\<not> claims_clash nfc a b" by (auto simp: claims_clash_def)
  qed
  have owner: "\<forall>a \<in> ?N. \<forall>b \<in> ?N. ec_group_id a = ec_group_id b" by (auto simp: new_active_def)
  have old: "\<forall>a \<in> set (existing_claims db). \<forall>b \<in> set (existing_claims db).
        ec_group_id a \<noteq> ec_group_id b \<longrightarrow> \<not> claims_clash nfc a b"
    using inv by (simp add: store_inv_def)
  have excl: "\<forall>a \<in> set (existing_claims ?db'). \<forall>b \<in> set (existing_claims ?db').
        ec_group_id a \<noteq> ec_group_id b \<longrightarrow> \<not> claims_clash nfc a b"
    unfolding set' by (rule engine.exclusive_add [OF old noclash owner])
  have wf: "\<forall>a \<in> set (existing_claims ?db'). wf_identity (ec_identity a)"
    unfolding set' using inv new normalized_wf [OF nfc ok norm] by (fastforce simp: store_inv_def)
  have "distinct (map gr_group_id (db_groups ?db'))"
    using inv fresh by (simp add: store_inv_def insert_group_def new_group_row_def)
  moreover have "\<forall>c \<in> set (db_claims ?db'). cr_group_id c \<in> gr_group_id ` set (db_groups ?db')"
    using refs by (auto simp: insert_group_def new_group_row_def simp del: upt_Suc)
  ultimately show ?thesis using excl wf by (simp add: store_inv_def)
qed

lemma acquire_group_inv:
  assumes "store_inv (env_nfc env) db" and "nfc_ascii (env_nfc env)"
    and "\<forall>s \<in> set (gs_claims spec). spec_ok s" and "claims_in_repo spec"
    and "''rcg-'' @ env_uuid env 0 \<notin> gr_group_id ` set (db_groups db)"
  shows "store_inv (env_nfc env) (snd (acquire_group env now spec guard k e db))"
proof (cases "normalize (env_nfc env) (env_sha env) spec")
  case (Inr n)
  have "store_inv (env_nfc env) (insert_group env (''rcg-'' @ env_uuid env 0) spec guard n k now e db)"
    if "check_conflicts (env_nfc env) (env_sha env) spec (existing_claims db) = Compatible"
    using that Inr insert_group_inv [OF assms(1-4) Inr _ assms(5)] check_conflicts_Compatible by fastforce
  then show ?thesis
    using Inr assms(1)
    by (simp add: acquire_group_def Let_def rollback_immediate_def write_event_inv
        split: option.split ClaimDecision.split sum.split)
qed (simp add: acquire_group_def assms(1))

lemma close_claims_frame: "claim_frame (\<lambda>c. c\<lparr>cr_lifecycle := l\<rparr>)"
  by (simp add: claim_frame_def)

lemma claims_update_none: "xs = update_where (\<lambda>_. False) h xs"
  by (simp add: update_where_def)

lemma renew_group_inv:
  assumes "store_inv nfc db" shows "store_inv nfc (snd (renew_group now gid guard e db))"
proof -
  let ?P = "\<lambda>g. gr_group_id g = gid \<and> gr_lifecycle g = ''active'' \<and>
                  gr_lease_id g = Some (gd_lease_id guard) \<and> gr_fencing_token g = gd_fencing_token guard \<and>
                  Some (gr_version g) =
                    map_option gr_version (select_one (\<lambda>q. gr_group_id q = gid) (db_groups db))"
  let ?f = "\<lambda>g. g\<lparr>gr_heartbeat_at := Some now, gr_expires_at := Some e, gr_version := gr_version g + 1\<rparr>"
  have "store_inv nfc (db\<lparr>db_groups := update_where ?P ?f (db_groups db)\<rparr>)"
    by (rule store_inv_shrink [OF assms, where P = ?P and f = ?f and Q = "\<lambda>_. False" and h = "\<lambda>c. c"])
       (simp_all add: group_frame_def claim_frame_def flip: claims_update_none)
  then show ?thesis using assms by (simp add: renew_group_def Let_def)
qed

text \<open>Closing a group (release, expiry or replacement) only shrinks the active set.\<close>

lemma close_group_inv:
  assumes "store_inv nfc db" and "group_frame f"
  shows "store_inv nfc (db\<lparr>db_groups := update_where P f (db_groups db),
    db_claims := close_claims gid l (db_claims db)\<rparr>)"
  by (rule store_inv_shrink [OF assms(1) _ assms(2) _ close_claims_frame]) (simp_all add: close_claims_def)

lemma release_group_inv:
  assumes "store_inv nfc db" shows "store_inv nfc (snd (release_group uuid now gid guard why db))"
  using assms close_group_inv [OF assms, where f = "\<lambda>g. g\<lparr>gr_lifecycle := ''released'', gr_released_at := Some now,
       gr_release_reason := Some why, gr_version := gr_version g + 1\<rparr>" and P = "guarded_active gid guard"
      and gid = gid and l = "''released''"]
  by (simp add: release_group_def Let_def rollback_immediate_def write_event_inv group_frame_def
      split: sum.split)

lemma expire_one_inv:
  assumes "store_inv nfc db" shows "store_inv nfc (snd (expire_one eid cid now gid db))"
  using assms close_group_inv [OF assms, where f = "\<lambda>g. g\<lparr>gr_lifecycle := ''expired'', gr_released_at := Some now,
       gr_version := gr_version g + 1\<rparr>" and P = "\<lambda>g. gr_group_id g = gid \<and> due now g"
      and gid = gid and l = "''expired''"]
  by (simp add: expire_one_def Let_def rollback_immediate_def write_event_inv group_frame_def
      split: sum.split)

lemma expire_loop_inv:
  "store_inv nfc db \<Longrightarrow> store_inv nfc (snd (expire_loop uuid n now gids acc db))"
proof (induction uuid n now gids acc db rule: expire_loop.induct)
  case (2 uuid n now gid gids acc db)
  then show ?case
    using expire_one_inv [OF "2.prems", of "uuid n" "uuid (n + 1)" now gid]
    by (cases "expire_one (uuid n) (uuid (n + 1)) now gid db") (auto split: sum.split)
qed simp

lemma replace_existing:
  assumes "\<And>g. gr_lifecycle (f g) \<noteq> ''active''" and "group_frame f"
    and "e \<in> set (existing_claims (db\<lparr>db_groups := update_where (\<lambda>g. gr_group_id g = old) f (db_groups db),
           db_claims := close_claims old l (db_claims db)\<rparr>))" (is "e \<in> set (existing_claims ?db')")
  shows "e \<in> set (existing_claims db) \<and> ec_group_id e \<noteq> old"
proof
  have "set (existing_claims ?db') \<subseteq> set (existing_claims db)"
    by (rule existing_claims_shrink [OF _ assms(2) _ close_claims_frame]) (simp_all add: close_claims_def)
  with assms(3) show "e \<in> set (existing_claims db)" by blast
  from assms(3) obtain rc g where "g \<in> set (db_groups ?db')" "cr_group_id rc = gr_group_id g"
      "gr_lifecycle g = ''active''" "e = active_claim rc g"
    by (auto simp: existing_claims_iff)
  moreover from this(1,3) have "gr_group_id g \<noteq> old"
    using assms(1) by (simp add: set_update_where) metis
  ultimately show "ec_group_id e \<noteq> old" by simp
qed

lemma external_claims:
  "set (map view_to_existing (filter (\<lambda>a. av_group_id a \<noteq> old) (load_active_claims db))) =
     {e \<in> set (existing_claims db). ec_group_id e \<noteq> old}"
  by (auto simp: existing_claims_def view_to_existing_def)

lemma replace_group_inv:
  assumes "store_inv (env_nfc env) db" and "nfc_ascii (env_nfc env)"
    and "\<forall>s \<in> set (gs_claims spec). spec_ok s" and "claims_in_repo spec"
    and "''rcg-'' @ env_uuid env 0 \<notin> gr_group_id ` set (db_groups db)"
  shows "store_inv (env_nfc env) (snd (replace_group env now old spec guard k e db))"
proof (cases "normalize (env_nfc env) (env_sha env) spec")
  case (Inr n)
  let ?ex = "map view_to_existing (filter (\<lambda>a. av_group_id a \<noteq> old) (load_active_claims db))"
  let ?f = "\<lambda>g. g\<lparr>gr_lifecycle := ''released'', gr_released_at := Some now,
              gr_release_reason := Some ''replaced'', gr_version := gr_version g + 1\<rparr>"
  let ?rel = "db\<lparr>db_groups := update_where (\<lambda>g. gr_group_id g = old) ?f (db_groups db),
                 db_claims := close_claims old ''released'' (db_claims db)\<rparr>"
  have frame: "group_frame ?f" by (simp add: group_frame_def)
  have rel: "store_inv (env_nfc env) ?rel" by (rule close_group_inv [OF assms(1) frame])
  have fresh: "''rcg-'' @ env_uuid env 0 \<notin> gr_group_id ` set (db_groups ?rel)"
  proof -
    have "map gr_group_id (db_groups ?rel) = map gr_group_id (db_groups db)"
      by (simp add: map_update_where)
    with assms(5) show ?thesis by (metis list.set_map)
  qed
  have "store_inv (env_nfc env) (insert_group env (''rcg-'' @ env_uuid env 0) spec guard n k now e ?rel)"
    if chk: "check_conflicts (env_nfc env) (env_sha env) spec ?ex = Compatible"
  proof (rule insert_group_inv [OF rel assms(2-4) Inr _ fresh])
    have "\<forall>(i, m) \<in> set (gi_claims n). \<forall>e \<in> {e \<in> set (existing_claims db). ec_group_id e \<noteq> old}.
        identity_overlaps (env_nfc env) i (ec_identity e) \<longrightarrow> is_compatible_with m (ec_mode e)"
      using chk Inr unfolding check_conflicts_Compatible external_claims [symmetric] by auto
    moreover have "set (existing_claims ?rel) \<subseteq> {e \<in> set (existing_claims db). ec_group_id e \<noteq> old}"
      using replace_existing [of ?f, OF _ frame] by auto
    ultimately show "\<forall>(i, m) \<in> set (gi_claims n). \<forall>e \<in> set (existing_claims ?rel).
        identity_overlaps (env_nfc env) i (ec_identity e) \<longrightarrow> is_compatible_with m (ec_mode e)"
      by fastforce
  qed
  then show ?thesis
    using Inr assms(1)
    by (simp add: replace_group_def Let_def rollback_immediate_def write_event_inv
        split: option.split ClaimDecision.split sum.split)
qed (simp add: replace_group_def assms(1))

section \<open>Reachable stores\<close>

text \<open>Every operation of the service, in any order, with any validator, clock and UUID source;
  requests name ASCII paths without control white space, of the group's own repository, and the group's UUID is new.\<close>

definition request_ok :: "ClaimEnv \<Rightarrow> ClaimGroupSpec \<Rightarrow> ClaimDb \<Rightarrow> bool" where
  "request_ok env spec db \<longleftrightarrow> (\<forall>s \<in> set (gs_claims spec). spec_ok s) \<and> claims_in_repo spec \<and>
     ''rcg-'' @ env_uuid env 0 \<notin> gr_group_id ` set (db_groups db)"

inductive claim_step :: "(string \<Rightarrow> string) \<Rightarrow> ClaimDb \<Rightarrow> ClaimDb \<Rightarrow> bool" for nfc where
  acquire: "env_nfc env = nfc \<Longrightarrow> request_ok env spec db \<Longrightarrow>
     claim_step nfc db (snd (service_acquire_group v env now_ms now spec guard k db))"
| replace: "env_nfc env = nfc \<Longrightarrow> request_ok env spec db \<Longrightarrow>
     claim_step nfc db (snd (service_replace_group v env now_ms now old spec guard k db))"
| renew: "claim_step nfc db (snd (service_renew_group v now_ms now gid guard secs db))"
| release: "claim_step nfc db (snd (service_release_group v uuid now gid guard why db))"
| expire: "claim_step nfc db (snd (service_expire_due_groups uuid now db))"

lemma claim_step_inv:
  assumes "claim_step nfc db db'" and "nfc_ascii nfc" and "store_inv nfc db"
  shows "store_inv nfc db'"
  using assms(1)
proof cases
  case (acquire env spec v now_ms now guard k)
  then show ?thesis
    using acquire_group_inv [of env db spec now guard k] assms(2,3)
    by (simp add: service_acquire_group_def request_ok_def split: sum.split)
next
  case (replace env spec v now_ms now old guard k)
  then show ?thesis
    using replace_group_inv [of env db spec now old guard k] assms(2,3)
    by (simp add: service_replace_group_def request_ok_def split: sum.split)
next
  case (renew v now_ms now gid guard secs)
  then show ?thesis
    using renew_group_inv [OF assms(3)] assms(3) by (simp add: service_renew_group_def split: sum.split)
next
  case (release v uuid now gid guard why)
  then show ?thesis
    using release_group_inv [OF assms(3)] assms(3) by (simp add: service_release_group_def split: sum.split)
next
  case (expire uuid now)
  then show ?thesis
    using expire_loop_inv [OF assms(3)] by (simp add: service_expire_due_groups_def expire_due_groups_def)
qed

definition empty_claim_db :: ClaimDb where
  "empty_claim_db = \<lparr>db_groups = [], db_claims = [], db_idem = [], db_events = []\<rparr>"

lemma claim_reach_inv:
  assumes "(claim_step nfc)\<^sup>*\<^sup>* empty_claim_db db" and "nfc_ascii nfc"
  shows "store_inv nfc db"
  using assms
proof (induction rule: rtranclp_induct)
  case base
  then show ?case
    by (simp add: store_inv_def empty_claim_db_def existing_claims_def load_active_claims_def
        rows_to_active_views_def join_active_def)
next
  case (step y z)
  then show ?case using claim_step_inv by blast
qed

text \<open>
  C1. Isolation: in every store the service can reach, when two active claims of different
  groups share a concrete resource (a file or a logical key) both are reads, whatever sequence of
  acquisitions, replacements, renewals, releases and expiries led there, provided every request names ASCII
  paths without control white space, of its group's own repository, and group ids are fresh.
\<close>

theorem active_claims_isolated:
  assumes "(claim_step nfc)\<^sup>*\<^sup>* empty_claim_db db" and "nfc_ascii nfc"
    and "a \<in> set (existing_claims db)" and "b \<in> set (existing_claims db)"
    and "ec_group_id a \<noteq> ec_group_id b" and "x \<in> denote (ec_identity a)" and "x \<in> denote (ec_identity b)"
  shows "ec_mode a = Read \<and> ec_mode b = Read"
proof -
  have inv: "store_inv nfc db" by (rule claim_reach_inv [OF assms(1,2)])
  then have "wf_identity (ec_identity a)" "wf_identity (ec_identity b)" "\<not> claims_clash nfc a b"
    using assms(3-5) by (auto simp: store_inv_def)
  moreover from this(1,2) have "identity_overlaps nfc (ec_identity a) (ec_identity b)"
    using identity_overlaps_denote [OF assms(2)] assms(6,7) by blast
  ultimately show ?thesis by (simp add: claims_clash_def is_compatible_with_def)
qed

definition sample_env :: "string \<Rightarrow> ClaimEnv" where
  "sample_env u = \<lparr>env_nfc = id, env_sha = id, env_debug_identity = (\<lambda>_. ''''), env_debug_reason = (\<lambda>_. ''''),
     env_uuid = (\<lambda>n. u @ show_nat n)\<rparr>"

definition sample_guard :: ClaimGuard where
  "sample_guard = \<lparr>gd_lease_id = ''l'', gd_lease_token = ''tok'', gd_fencing_token = 1,
     gd_worktree_id = ''w'', gd_project_id = ''p'', gd_task_id = ''t'', gd_execution_id = ''e''\<rparr>"

definition sample_validator :: LeaseValidator where
  "sample_validator = \<lparr>lv_validate_lease = (\<lambda>_ _ _. Inr ()),
     lv_get_lease_expires_at = (\<lambda>_. Inr (Some (Stamp 1000)))\<rparr>"

definition sample_acquire :: "string \<Rightarrow> ResourceClaimSpec list \<Rightarrow> string \<Rightarrow> ClaimDb \<Rightarrow> ClaimDb" where
  "sample_acquire u specs k db = snd (service_acquire_group sample_validator (sample_env u) 1000 1
     (group_of specs) sample_guard k db)"

lemma sample_acquire_step:
  "\<forall>s \<in> set specs. spec_ok s \<and> (rs_kind s \<noteq> Logical \<longrightarrow> rs_repository_identity s = Some ''repo'') \<Longrightarrow>
   ''rcg-'' @ u @ show_nat 0 \<notin> gr_group_id ` set (db_groups db) \<Longrightarrow>
   claim_step id db (sample_acquire u specs k db)"
  unfolding sample_acquire_def
  by (rule claim_step.acquire)
     (simp_all add: sample_env_def request_ok_def claims_in_repo_def group_of_def)

theorem active_claims_isolated_witness:
  "let db = sample_acquire ''b'' [exact_file ''repo'' ''src/a.rs'' Read] ''k2''
              (sample_acquire ''a'' [directory_prefix ''repo'' ''src'' Read] ''k1'' empty_claim_db)
   in map ec_group_id (existing_claims db) = [''rcg-a0'', ''rcg-b0''] \<and>
      (\<forall>a \<in> set (existing_claims db). ec_mode a = Read)"
proof -
  let ?db1 = "sample_acquire ''a'' [directory_prefix ''repo'' ''src'' Read] ''k1'' empty_claim_db"
  let ?db = "sample_acquire ''b'' [exact_file ''repo'' ''src/a.rs'' Read] ''k2'' ?db1"
  let ?A = "\<lparr>ec_identity = PathId ''repo'' DirectoryPrefix ''src'', ec_mode = Read, ec_group_id = ''rcg-a0'',
       ec_task_id = ''t'', ec_execution_id = Some ''e''\<rparr>"
  let ?B = "\<lparr>ec_identity = PathId ''repo'' ExactFile ''src/a.rs'', ec_mode = Read, ec_group_id = ''rcg-b0'',
       ec_task_id = ''t'', ec_execution_id = Some ''e''\<rparr>"
  have ids: "map gr_group_id (db_groups ?db1) = [''rcg-a0'']" by code_simp
  then have ids': "gr_group_id ` set (db_groups ?db1) = {''rcg-a0''}"
    by (metis list.set(1) list.set(2) list.set_map)
  have "claim_step id empty_claim_db ?db1"
    by (rule sample_acquire_step) (simp_all add: sample_simps empty_claim_db_def)
  moreover have "claim_step id ?db1 ?db"
    by (rule sample_acquire_step) (simp add: sample_simps, simp add: ids')
  ultimately have reach: "(claim_step id)\<^sup>*\<^sup>* empty_claim_db ?db" by (meson converse_rtranclp_into_rtranclp r_into_rtranclp)
  have ex: "existing_claims ?db = [?A, ?B]" by code_simp
  have "ec_mode ?A = Read \<and> ec_mode ?B = Read"
    by (rule active_claims_isolated [OF reach nfc_ascii_id, where x = "FileRes ''repo'' [''src'', ''a.rs'']"])
       (simp_all add: ex sample_path_components)
  then show ?thesis using ex by (simp add: Let_def)
qed

text \<open>
  The restriction to the group's own repository is needed: claim rows do not store their
  repository, so a group of repository \<open>repo\<close> that claims a file of \<open>other\<close> for writing is reloaded
  as a claim on \<open>repo\<close>, and a second group is granted a write on the same file of \<open>other\<close>.
\<close>

theorem foreign_repository_claim_lost:
  "let db1 = sample_acquire ''a'' [exact_file ''other'' ''a.rs'' Write] ''k1'' empty_claim_db
   in map ec_identity (existing_claims db1) = [PathId ''repo'' ExactFile ''a.rs''] \<and>
      repo_check_conflicts (sample_env ''b'') (group_of [exact_file ''other'' ''a.rs'' Write]) db1 = Compatible"
  by code_simp

text \<open>
  A rejected request leaves no trace: the conflict-observed events are written in
  the transaction that is then rolled back.
\<close>

theorem conflict_leaves_no_trace:
  "fst (acquire_group env now spec guard k e db) = Inr (AcquireConflict cs) \<Longrightarrow>
     snd (acquire_group env now spec guard k e db) = db"
  by (auto simp: acquire_group_def Let_def rollback_immediate_def idem_replay_def and_then_def
      split: sum.splits option.splits ClaimDecision.splits if_splits)

theorem conflict_leaves_no_trace_witness:
  "let db1 = sample_acquire ''a'' [exact_file ''repo'' ''a.rs'' Write] ''k1'' empty_claim_db
   in snd (acquire_group (sample_env ''b'') 1 (group_of [exact_file ''repo'' ''a.rs'' Read])
        sample_guard ''k2'' 9 db1) = db1"
proof -
  let ?db1 = "sample_acquire ''a'' [exact_file ''repo'' ''a.rs'' Write] ''k1'' empty_claim_db"
  let ?run = "acquire_group (sample_env ''b'') 1 (group_of [exact_file ''repo'' ''a.rs'' Read]) sample_guard ''k2'' 9 ?db1"
  have "(case fst ?run of Inr (AcquireConflict _) \<Rightarrow> True | _ \<Rightarrow> False)" by code_simp
  then obtain cs where "fst ?run = Inr (AcquireConflict cs)"
    by (auto split: sum.splits AcquireOutcome.splits)
  from conflict_leaves_no_trace [OF this] show ?thesis by simp
qed

section \<open>Expiry is bounded by the lease\<close>

lemma u32_bounds: "uint (word_of_int x :: 32 word) \<le> x" if "0 \<le> x" for x
  using that by (simp add: uint_word_of_int zmod_le_nonneg_dividend)

lemma num_seconds_le: "0 \<le> ms \<Longrightarrow> num_seconds ms * 1000 \<le> ms"
  by (simp add: num_seconds_def)

lemma claim_expiry_le:
  assumes "compute_claim_expires_at v now guard secs = Inr t"
  shows "\<exists>lease. lv_get_lease_expires_at v (gd_lease_id guard) = Inr (Some (Stamp lease)) \<and>
    t \<le> lease \<and> t * 1000 \<le> now + uint secs * 1000 \<and> now div 1000 \<le> t \<and> now + 1000 \<le> lease * 1000"
proof -
  obtain found where found: "lv_get_lease_expires_at v (gd_lease_id guard) = Inr (Some found)"
    using assms by (auto simp: compute_claim_expires_at_def and_then_Inr_iff)
  then obtain lease where "found = Stamp lease"
    using assms by (cases found) (auto simp: compute_claim_expires_at_def and_then_Inr_iff parse_sql_dt_def)
  with found have lease: "lv_get_lease_expires_at v (gd_lease_id guard) = Inr (Some (Stamp lease))" by simp
  then have nz: "(word_of_int (max (num_seconds (lease * 1000 - now)) 0) :: 32 word) \<noteq> 0"
    and t: "t = (now + uint (min secs (word_of_int (max (num_seconds (lease * 1000 - now)) 0))) * 1000) div 1000"
    using assms by (auto simp: compute_claim_expires_at_def ok_or_def parse_sql_dt_def Let_def split: if_splits)
  let ?r = "max (num_seconds (lease * 1000 - now)) 0"
  let ?m = "min secs (word_of_int ?r :: 32 word)"
  have "?r \<noteq> 0" using nz by (metis wi_hom_syms(5) of_int_0)
  then have pos: "1 \<le> num_seconds (lease * 1000 - now)" by linarith
  then have ms: "0 \<le> lease * 1000 - now" by (auto simp: num_seconds_def split: if_splits)
  have le: "uint ?m \<le> uint secs" "uint ?m \<le> uint (word_of_int ?r :: 32 word)" "0 \<le> uint ?m"
    by (simp_all add: word_le_def [symmetric])
  have "uint ?m \<le> num_seconds (lease * 1000 - now)"
    using le(2) u32_bounds [of ?r] pos by linarith
  then have "now + uint ?m * 1000 \<le> lease * 1000"
    using num_seconds_le [OF ms] by linarith
  then have "t \<le> lease" unfolding t by linarith
  moreover have "t * 1000 \<le> now + uint secs * 1000" unfolding t using le(1) by linarith
  moreover have "now div 1000 \<le> t" unfolding t using le(3) by (intro zdiv_mono1) simp_all
  moreover have "now + 1000 \<le> lease * 1000" using pos num_seconds_le [OF ms] by linarith
  ultimately show ?thesis using lease by blast
qed

text \<open>
  C20. A claim never outlives its lease: the expiry computed for a claim is at most the
  lease's stored expiry and at most the requested duration from now, even where the remaining time
  overflows 32 bits; an expired lease, or one within its last second, is refused.
\<close>

theorem claim_expiry_bounded:
  assumes "compute_claim_expires_at v now guard secs = Inr t"
  shows "\<exists>lease. lv_get_lease_expires_at v (gd_lease_id guard) = Inr (Some (Stamp lease)) \<and>
    t \<le> lease \<and> t * 1000 \<le> now + uint secs * 1000 \<and> now div 1000 \<le> t \<and> now + 1000 \<le> lease * 1000"
  by (rule claim_expiry_le [OF assms])

theorem claim_expiry_bounded_witness:
  "compute_claim_expires_at sample_validator 900500 sample_guard 300 = Inr 999 \<and> (999::int) \<le> 1000"
proof -
  have run: "compute_claim_expires_at sample_validator 900500 sample_guard 300 = Inr 999" by code_simp
  from claim_expiry_bounded [OF run] show ?thesis using run by (auto simp: sample_validator_def)
qed

section \<open>Idempotent acquisition and fencing\<close>

lemma acquire_group_Acquired:
  assumes "acquire_group env now spec guard k e db = (Inr (Acquired r), db')"
  obtains n log where "normalize (env_nfc env) (env_sha env) spec = Inr n"
    "select_one (\<lambda>r. ir_key r = k) (db_idem db) = None"
    "db' = insert_group env (''rcg-'' @ env_uuid env 0) spec guard n k now e db\<lparr>db_events := log\<rparr>"
    "get_group (''rcg-'' @ env_uuid env 0) db' = Inr r"
proof -
  obtain n where n: "normalize (env_nfc env) (env_sha env) spec = Inr n"
    using assms by (cases "normalize (env_nfc env) (env_sha env) spec") (auto simp: acquire_group_def)
  have none: "select_one (\<lambda>r. ir_key r = k) (db_idem db) = None"
  proof (rule ccontr)
    assume "select_one (\<lambda>r. ir_key r = k) (db_idem db) \<noteq> None"
    then have "\<exists>out. idem_replay k (gi_request_hash n) db = Some out \<and> (\<forall>r. out \<noteq> Inr (Acquired r))"
      by (auto simp: idem_replay_def and_then_Inr_iff)
    then show False using assms n by (auto simp: acquire_group_def)
  qed
  then have idem: "idem_replay k (gi_request_hash n) db = None" by (simp add: idem_replay_def)
  let ?gid = "''rcg-'' @ env_uuid env 0"
  let ?db = "insert_group env ?gid spec guard n k now e db"
  have compat: "check_conflicts (env_nfc env) (env_sha env) spec (existing_claims db) = Compatible"
    using assms n idem by (cases "check_conflicts (env_nfc env) (env_sha env) spec (existing_claims db)")
      (simp_all add: acquire_group_def)
  let ?ev = "write_event_in_conn (env_uuid env (length (gi_claims n) + 1)) (env_uuid env (length (gi_claims n) + 2))
     ?gid ''resource_claim_group_acquired'' ''active'' (?gid @ ''-acquire'') ?db"
  have run: "acquire_group env now spec guard k e db =
      (case ?ev of Inl e \<Rightarrow> (Inl e, db)
       | Inr c \<Rightarrow> (and_then (get_group ?gid c) (\<lambda>record. Inr (Acquired record)), c))"
    using n idem compat by (simp add: acquire_group_def Let_def split: sum.split)
  then obtain c where c: "?ev = Inr c" "db' = c" "get_group ?gid c = Inr r"
    using assms by (cases ?ev) (auto simp: and_then_Inr_iff dest: sym)
  from write_event_in_conn_Inr [OF c(1)] obtain log where "c = ?db\<lparr>db_events := log\<rparr>" by blast
  with n none c show ?thesis using that by blast
qed

text \<open>
  Acquisition is idempotent: repeating a granted request under the same key, at
  any later time and with fresh UUIDs, returns the same group and changes nothing, and the same key
  with a request that hashes differently is refused without effect.
\<close>

theorem acquire_idempotent:
  assumes "acquire_group env now spec guard k e db = (Inr (Acquired r), db')"
    and "env_nfc env' = env_nfc env" and "env_sha env' = env_sha env"
  shows "acquire_group env' now' spec guard' k e' db' = (Inr (AlreadyAcquired r), db') \<and>
    (\<forall>spec' n n'. normalize (env_nfc env) (env_sha env) spec = Inr n \<longrightarrow>
       normalize (env_nfc env) (env_sha env) spec' = Inr n' \<longrightarrow>
       gi_request_hash n' \<noteq> gi_request_hash n \<longrightarrow>
       acquire_group env' now' spec' guard' k e' db' = (Inr IdempotencyConflict, db'))"
proof -
  from assms(1) obtain n log where n: "normalize (env_nfc env) (env_sha env) spec = Inr n"
    and none: "select_one (\<lambda>r. ir_key r = k) (db_idem db) = None"
    and db': "db' = insert_group env (''rcg-'' @ env_uuid env 0) spec guard n k now e db\<lparr>db_events := log\<rparr>"
    and r: "get_group (''rcg-'' @ env_uuid env 0) db' = Inr r"
    by (rule acquire_group_Acquired)
  have row: "select_one (\<lambda>r. ir_key r = k) (db_idem db') =
      Some (completed_row k (gi_request_hash n) (''rcg-'' @ env_uuid env 0))"
    using none unfolding db' by (simp add: insert_group_def select_one_append select_one_single completed_row_def
        del: upt_Suc)
  have "idem_replay k (gi_request_hash n) db' = Some (Inr (AlreadyAcquired r))"
    using row r by (simp add: idem_replay_def completed_row_def)
  moreover have "idem_replay k h db' = Some (Inr IdempotencyConflict)" if "h \<noteq> gi_request_hash n" for h
    using row that by (simp add: idem_replay_def completed_row_def)
  ultimately show ?thesis
    using n assms(2,3) by (simp add: acquire_group_def rollback_immediate_def)
qed

theorem acquire_idempotent_witness:
  "let g = group_of [exact_file ''repo'' ''a.rs'' Write];
       (res, db1) = acquire_group (sample_env ''a'') 1 g sample_guard ''k1'' 9 empty_claim_db
   in \<exists>r. res = Inr (Acquired r) \<and>
        acquire_group (sample_env ''b'') 5 g sample_guard ''k1'' 99 db1 = (Inr (AlreadyAcquired r), db1)"
proof -
  let ?g = "group_of [exact_file ''repo'' ''a.rs'' Write]"
  let ?run = "acquire_group (sample_env ''a'') 1 ?g sample_guard ''k1'' 9 empty_claim_db"
  have "(case fst ?run of Inr (Acquired _) \<Rightarrow> True | _ \<Rightarrow> False)" by code_simp
  then obtain r where "fst ?run = Inr (Acquired r)" by (auto split: sum.splits AcquireOutcome.splits)
  then have run: "?run = (Inr (Acquired r), snd ?run)" by (metis prod.collapse)
  have "env_nfc (sample_env ''b'') = env_nfc (sample_env ''a'')"
    "env_sha (sample_env ''b'') = env_sha (sample_env ''a'')"
    by (simp_all add: sample_env_def)
  from acquire_idempotent [OF run this] run show ?thesis
    by (simp add: Let_def split_def) (metis fst_conv)
qed

text \<open>
  Fencing of claim groups: an operation under a guard whose lease or fencing token is not
  the group's changes neither the group nor anything else, and reports the lease error.
\<close>

theorem foreign_guard_refused:
  assumes "\<forall>g \<in> set (db_groups db). gr_group_id g = gid \<longrightarrow>
      gr_lease_id g \<noteq> Some (gd_lease_id guard) \<or> gr_fencing_token g \<noteq> gd_fencing_token guard"
  shows "snd (renew_group now gid guard e db) = db \<and> \<not> is_ok (fst (renew_group now gid guard e db)) \<and>
    snd (release_group uuid now gid guard why db) = db \<and>
    \<not> is_ok (fst (release_group uuid now gid guard why db)) \<and>
    (k \<notin> ir_key ` set (db_idem db) \<longrightarrow> snd (replace_group env now gid spec guard k e db) = db \<and>
      (\<forall>r. fst (replace_group env now gid spec guard k e db) \<noteq> Inr (Acquired r)))"
proof -
  have none: "\<not> guarded_active gid guard g" if "g \<in> set (db_groups db)" for g
    using assms that by (auto simp: guarded_active_def)
  then have sel: "select_one (guarded_active gid guard) (db_groups db) = None"
    and aff: "rows_affected (guarded_active gid guard) (db_groups db) = 0"
    by (auto simp: select_one_None rows_affected_0_iff)
  have aff': "rows_affected (\<lambda>g. gr_group_id g = gid \<and> gr_lifecycle g = ''active'' \<and>
       gr_lease_id g = Some (gd_lease_id guard) \<and> gr_fencing_token g = gd_fencing_token guard \<and>
       Some (gr_version g) = map_option gr_version (select_one (\<lambda>q. gr_group_id q = gid) (db_groups db)))
       (db_groups db) = 0"
    using assms by (auto simp: rows_affected_0_iff)
  have idem: "idem_replay k h db = None" if "k \<notin> ir_key ` set (db_idem db)" for h
    using that by (auto simp: idem_replay_def select_one_None split: option.split)
  show ?thesis
    using aff aff' sel idem
    by (auto simp: renew_group_def release_group_def replace_group_def Let_def rollback_immediate_def
        split: sum.split)
qed

theorem foreign_guard_refused_witness:
  "let db1 = sample_acquire ''a'' [exact_file ''repo'' ''a.rs'' Write] ''k1'' empty_claim_db;
       stale = sample_guard\<lparr>gd_fencing_token := 0\<rparr>
   in snd (release_group (\<lambda>_. ''u'') 2 ''rcg-a0'' stale ''done'' db1) = db1"
proof -
  let ?db1 = "sample_acquire ''a'' [exact_file ''repo'' ''a.rs'' Write] ''k1'' empty_claim_db"
  let ?stale = "sample_guard\<lparr>gd_fencing_token := 0\<rparr>"
  have "map gr_fencing_token (db_groups ?db1) = [1]" by code_simp
  then have "gr_fencing_token ` set (db_groups ?db1) = {1}"
    by (metis list.set(1) list.set(2) list.set_map)
  then have "gr_fencing_token g = 1" if "g \<in> set (db_groups ?db1)" for g
    using that by blast
  then have "\<forall>g \<in> set (db_groups ?db1). gr_group_id g = ''rcg-a0'' \<longrightarrow>
      gr_lease_id g \<noteq> Some (gd_lease_id ?stale) \<or> gr_fencing_token g \<noteq> gd_fencing_token ?stale"
    by simp
  from foreign_guard_refused [OF this, where uuid = "\<lambda>_. ''u''"] show ?thesis by (simp add: Let_def)
qed

section \<open>The service behind a lease authority\<close>

text \<open>What the service relies on from its validator: a validated guard is held in the authority's
  state, and the expiry it reports is that of the lease. \<open>Lease\<close> interprets it on the lease tables.\<close>

locale lease_authority =
  fixes validator :: "'s \<Rightarrow> LeaseValidator"
    and holds :: "'s \<Rightarrow> string \<Rightarrow> string \<Rightarrow> int \<Rightarrow> bool"
    and lease_expiry :: "'s \<Rightarrow> string \<Rightarrow> int option"
  assumes validate_sound: "lv_validate_lease (validator s) l t f = Inr () \<Longrightarrow> holds s l t f"
    and expiry_exact: "lv_get_lease_expires_at (validator s) l = Inr (Some (Stamp e)) \<Longrightarrow> lease_expiry s l = Some e"
begin

lemma validated_guard:
  "validate_guard (validator s) guard = Inr u \<Longrightarrow>
     holds s (gd_lease_id guard) (gd_lease_token guard) (gd_fencing_token guard)"
  using validate_sound by (auto simp: validate_guard_def split: sum.splits)

lemma acquire_needs_lease:
  assumes "service_acquire_group (validator s) env now_ms now spec guard k db = (res, db')" and "db' \<noteq> db"
  shows "holds s (gd_lease_id guard) (gd_lease_token guard) (gd_fencing_token guard) \<and>
    (\<exists>t lease. lease_expiry s (gd_lease_id guard) = Some lease \<and> t \<le> lease \<and>
       db' = snd (acquire_group env now spec guard k t db))"
proof -
  obtain t where g: "validate_guard (validator s) guard = Inr ()"
    and t: "compute_claim_expires_at (validator s) now_ms guard default_claim_duration_secs = Inr t"
    and db': "db' = snd (acquire_group env now spec guard k t db)"
    using assms by (auto simp: service_acquire_group_def and_then_def split: sum.splits)
  show ?thesis
    using validated_guard [OF g] claim_expiry_le [OF t] expiry_exact db' by blast
qed

lemma release_needs_lease:
  assumes "service_release_group (validator s) uuid now gid guard why db = (res, db')" and "db' \<noteq> db"
  shows "holds s (gd_lease_id guard) (gd_lease_token guard) (gd_fencing_token guard)"
  using assms validated_guard by (auto simp: service_release_group_def split: sum.splits)

end

end
