(* ===== verification/Lifecycles.thy ===== *)
theory Lifecycles
  imports Prelude
begin

text \<open>
  The nine lifecycle state machines of \<open>harness-core/src/state_machine\<close>: the state enums of
  \<open>contracts/*.rs\<close>, their \<open>is_terminal\<close>, \<open>as_str\<close> and classification methods, and one
  \<open>can_transition\<close> per machine. The locale \<open>lifecycle\<close> is the contract all of them share
  (a terminal state has no successor); \<open>ranked_lifecycle\<close> is the contract of the machines
  without cycles. Every machine is an interpretation, and the facts about runs are proved
  once in the locales.
\<close>

section \<open>Task\<close>

datatype TaskLifecycle =
    Task_Pending | Task_Ready | Task_Dispatched | Task_Running | Task_AwaitingInput
  | Task_RetryPending | Task_Submitted | Task_Verified
  | Task_Done | Task_Cancelled | Task_Superseded | Task_Failed

definition task_is_terminal :: "TaskLifecycle \<Rightarrow> bool" where
  "task_is_terminal s = (s \<in> {Task_Done, Task_Cancelled, Task_Superseded, Task_Failed})"

definition task_can_retry :: "TaskLifecycle \<Rightarrow> bool" where
  "task_can_retry s =
     (s \<in> {Task_RetryPending, Task_Running, Task_Submitted, Task_AwaitingInput, Task_Verified})"

definition task_has_active_execution :: "TaskLifecycle \<Rightarrow> bool" where
  "task_has_active_execution s = (s \<in> {Task_Running, Task_AwaitingInput})"

definition task_can_transition :: "TaskLifecycle \<Rightarrow> TaskLifecycle \<Rightarrow> bool" where
  "task_can_transition from to =
     (if task_is_terminal from then False
      else (from, to) \<in>
        {(Task_Pending, Task_Ready),
         (Task_Pending, Task_Superseded),
         (Task_Pending, Task_Cancelled),
         (Task_Ready, Task_Dispatched),
         (Task_Ready, Task_Cancelled),
         (Task_Dispatched, Task_Running),
         (Task_Dispatched, Task_RetryPending),
         (Task_Dispatched, Task_Failed),
         (Task_Running, Task_AwaitingInput),
         (Task_Running, Task_Submitted),
         (Task_Running, Task_RetryPending),
         (Task_Running, Task_Failed),
         (Task_AwaitingInput, Task_Running),
         (Task_AwaitingInput, Task_RetryPending),
         (Task_AwaitingInput, Task_Failed),
         (Task_RetryPending, Task_Dispatched),
         (Task_RetryPending, Task_Failed),
         (Task_RetryPending, Task_Cancelled),
         (Task_Submitted, Task_Verified),
         (Task_Submitted, Task_RetryPending),
         (Task_Submitted, Task_Failed),
         (Task_Verified, Task_Done)})"

section \<open>Execution attempt\<close>

datatype ExecutionLifecycle =
    Exec_Created | Exec_Running | Exec_Completed | Exec_Failed | Exec_Lost | Exec_Cancelled

definition exec_is_terminal :: "ExecutionLifecycle \<Rightarrow> bool" where
  "exec_is_terminal s = (s \<in> {Exec_Completed, Exec_Failed, Exec_Lost, Exec_Cancelled})"

definition exec_can_transition :: "ExecutionLifecycle \<Rightarrow> ExecutionLifecycle \<Rightarrow> bool" where
  "exec_can_transition from to =
     (if exec_is_terminal from then False
      else (from, to) \<in>
        {(Exec_Created, Exec_Running),
         (Exec_Created, Exec_Failed),
         (Exec_Created, Exec_Cancelled),
         (Exec_Running, Exec_Completed),
         (Exec_Running, Exec_Failed),
         (Exec_Running, Exec_Lost),
         (Exec_Running, Exec_Cancelled)})"

section \<open>Project\<close>

datatype ProjectLifecycle =
    Project_Created | Project_Clarifying | Project_GoalLocked | Project_Planning
  | Project_AwaitingApproval | Project_Active | Project_Integrating | Project_Verifying
  | Project_Delivering | Project_Done | Project_Cancelled | Project_Failed

definition project_is_terminal :: "ProjectLifecycle \<Rightarrow> bool" where
  "project_is_terminal s = (s \<in> {Project_Done, Project_Cancelled, Project_Failed})"

definition project_can_transition :: "ProjectLifecycle \<Rightarrow> ProjectLifecycle \<Rightarrow> bool" where
  "project_can_transition from to =
     (if project_is_terminal from then False
      else (from, to) \<in>
        {(Project_Created, Project_Clarifying),
         (Project_Clarifying, Project_GoalLocked),
         (Project_GoalLocked, Project_Planning),
         (Project_Planning, Project_AwaitingApproval),
         (Project_AwaitingApproval, Project_Active),
         (Project_AwaitingApproval, Project_Planning),
         (Project_AwaitingApproval, Project_Cancelled),
         (Project_Active, Project_Integrating),
         (Project_Active, Project_Failed),
         (Project_Active, Project_Cancelled),
         (Project_Integrating, Project_Verifying),
         (Project_Integrating, Project_Active),
         (Project_Integrating, Project_Cancelled),
         (Project_Verifying, Project_Delivering),
         (Project_Verifying, Project_Active),
         (Project_Verifying, Project_Cancelled),
         (Project_Delivering, Project_Done)})"

section \<open>Goal\<close>

datatype GoalState =
    Goal_Draft | Goal_Validated | Goal_Planning | Goal_Active | Goal_WaitingForApproval
  | Goal_Paused | Goal_Blocked | Goal_Succeeded | Goal_Failed | Goal_Cancelled

definition goal_is_terminal :: "GoalState \<Rightarrow> bool" where
  "goal_is_terminal s = (s \<in> {Goal_Succeeded, Goal_Failed, Goal_Cancelled})"

definition goal_is_active :: "GoalState \<Rightarrow> bool" where
  "goal_is_active s =
     (s \<in> {Goal_Planning, Goal_Active, Goal_WaitingForApproval, Goal_Paused})"

definition goal_can_dispatch_tasks :: "GoalState \<Rightarrow> bool" where
  "goal_can_dispatch_tasks s = (s = Goal_Active)"

primrec goal_as_str :: "GoalState \<Rightarrow> string" where
  "goal_as_str Goal_Draft = ''draft''"
| "goal_as_str Goal_Validated = ''validated''"
| "goal_as_str Goal_Planning = ''planning''"
| "goal_as_str Goal_Active = ''active''"
| "goal_as_str Goal_WaitingForApproval = ''waiting_for_approval''"
| "goal_as_str Goal_Paused = ''paused''"
| "goal_as_str Goal_Blocked = ''blocked''"
| "goal_as_str Goal_Succeeded = ''succeeded''"
| "goal_as_str Goal_Failed = ''failed''"
| "goal_as_str Goal_Cancelled = ''cancelled''"

definition goal_is_valid :: "GoalState \<Rightarrow> GoalState \<Rightarrow> bool" where
  "goal_is_valid from to = ((from, to) \<in>
     {(Goal_Draft, Goal_Validated),
      (Goal_Draft, Goal_Planning),
      (Goal_Draft, Goal_Cancelled),
      (Goal_Validated, Goal_Planning),
      (Goal_Validated, Goal_Cancelled),
      (Goal_Planning, Goal_Active),
      (Goal_Planning, Goal_Validated),
      (Goal_Planning, Goal_WaitingForApproval),
      (Goal_Planning, Goal_Cancelled),
      (Goal_Planning, Goal_Failed),
      (Goal_Active, Goal_Planning),
      (Goal_Active, Goal_WaitingForApproval),
      (Goal_Active, Goal_Paused),
      (Goal_Active, Goal_Blocked),
      (Goal_Active, Goal_Succeeded),
      (Goal_Active, Goal_Failed),
      (Goal_Active, Goal_Cancelled),
      (Goal_WaitingForApproval, Goal_Active),
      (Goal_WaitingForApproval, Goal_Planning),
      (Goal_WaitingForApproval, Goal_Cancelled),
      (Goal_WaitingForApproval, Goal_Failed),
      (Goal_Paused, Goal_Active),
      (Goal_Paused, Goal_WaitingForApproval),
      (Goal_Paused, Goal_Cancelled),
      (Goal_Paused, Goal_Failed),
      (Goal_Blocked, Goal_Active),
      (Goal_Blocked, Goal_WaitingForApproval),
      (Goal_Blocked, Goal_Paused),
      (Goal_Blocked, Goal_Failed),
      (Goal_Blocked, Goal_Cancelled)})"

definition goal_can_transition :: "GoalState \<Rightarrow> GoalState \<Rightarrow> bool" where
  "goal_can_transition from to =
     (if goal_is_terminal from then False
      else if from = to then False
      else goal_is_valid from to)"

section \<open>Plan revision\<close>

datatype PlanState =
    Plan_Proposed | Plan_Validating | Plan_Validated | Plan_Active
  | Plan_Superseded | Plan_Completed | Plan_Rejected | Plan_Invalid | Plan_Cancelled

definition plan_is_terminal :: "PlanState \<Rightarrow> bool" where
  "plan_is_terminal s =
     (s \<in> {Plan_Superseded, Plan_Completed, Plan_Rejected, Plan_Invalid, Plan_Cancelled})"

definition plan_can_transition_to :: "PlanState \<Rightarrow> PlanState \<Rightarrow> bool" where
  "plan_can_transition_to self target =
     (if plan_is_terminal self then False
      else (self, target) \<in>
        {(Plan_Proposed, Plan_Validating),
         (Plan_Proposed, Plan_Rejected),
         (Plan_Proposed, Plan_Cancelled),
         (Plan_Validating, Plan_Validated),
         (Plan_Validating, Plan_Invalid),
         (Plan_Validating, Plan_Rejected),
         (Plan_Validated, Plan_Active),
         (Plan_Validated, Plan_Rejected),
         (Plan_Validated, Plan_Cancelled),
         (Plan_Active, Plan_Superseded),
         (Plan_Active, Plan_Completed),
         (Plan_Active, Plan_Cancelled)})"

definition plan_is_valid :: "PlanState \<Rightarrow> PlanState \<Rightarrow> bool" where
  "plan_is_valid from to = ((from, to) \<in>
     {(Plan_Proposed, Plan_Validating),
      (Plan_Proposed, Plan_Rejected),
      (Plan_Proposed, Plan_Cancelled),
      (Plan_Validating, Plan_Validated),
      (Plan_Validating, Plan_Invalid),
      (Plan_Validating, Plan_Rejected),
      (Plan_Validating, Plan_Cancelled),
      (Plan_Validated, Plan_Active),
      (Plan_Validated, Plan_Rejected),
      (Plan_Validated, Plan_Cancelled),
      (Plan_Active, Plan_Superseded),
      (Plan_Active, Plan_Completed),
      (Plan_Active, Plan_Cancelled)})"

definition plan_can_transition :: "PlanState \<Rightarrow> PlanState \<Rightarrow> bool" where
  "plan_can_transition from to =
     (if plan_is_terminal from then False
      else if from = to then False
      else plan_is_valid from to)"

section \<open>Review\<close>

datatype ReviewState =
    Review_Requested | Review_Preparing | Review_Prechecking | Review_Reviewing
  | Review_Approved | Review_Rejected | Review_Blocked | Review_Cancelled | Review_Stale

definition review_is_terminal :: "ReviewState \<Rightarrow> bool" where
  "review_is_terminal s =
     (s \<in> {Review_Approved, Review_Rejected, Review_Blocked, Review_Cancelled, Review_Stale})"

definition review_can_transition :: "ReviewState \<Rightarrow> ReviewState \<Rightarrow> bool" where
  "review_can_transition from to =
     (if review_is_terminal from then False
      else if to = Review_Cancelled then True
      else if to = Review_Stale then True
      else (from, to) \<in>
        {(Review_Requested, Review_Preparing),
         (Review_Preparing, Review_Prechecking),
         (Review_Prechecking, Review_Reviewing),
         (Review_Prechecking, Review_Blocked),
         (Review_Reviewing, Review_Approved),
         (Review_Reviewing, Review_Rejected),
         (Review_Reviewing, Review_Blocked)})"

definition review_is_forward_progress :: "ReviewState \<Rightarrow> ReviewState \<Rightarrow> bool" where
  "review_is_forward_progress from to = ((from, to) \<in>
     {(Review_Requested, Review_Preparing),
      (Review_Preparing, Review_Prechecking),
      (Review_Prechecking, Review_Reviewing),
      (Review_Reviewing, Review_Approved),
      (Review_Reviewing, Review_Rejected),
      (Review_Prechecking, Review_Blocked),
      (Review_Reviewing, Review_Blocked)})"

section \<open>Commit\<close>

datatype CommitState =
    Commit_Requested | Commit_Materializing | Commit_Created | Commit_Blocked
  | Commit_Failed | Commit_Cancelled

definition commit_is_terminal :: "CommitState \<Rightarrow> bool" where
  "commit_is_terminal s = (s \<in> {Commit_Created, Commit_Blocked, Commit_Failed, Commit_Cancelled})"

definition commit_can_transition :: "CommitState \<Rightarrow> CommitState \<Rightarrow> bool" where
  "commit_can_transition from to =
     (if commit_is_terminal from then False
      else if to = Commit_Cancelled then True
      else (from, to) \<in>
        {(Commit_Requested, Commit_Materializing),
         (Commit_Materializing, Commit_Created),
         (Commit_Materializing, Commit_Failed),
         (Commit_Requested, Commit_Blocked)})"

section \<open>Integration\<close>

datatype IntegrationState =
    Integ_Queued | Integ_WaitingForLease | Integ_Preparing | Integ_Applying | Integ_Verifying
  | Integ_ReadyToPublish | Integ_Integrated | Integ_Conflict | Integ_Blocked | Integ_Failed
  | Integ_Cancelled | Integ_Stale

definition integ_is_terminal :: "IntegrationState \<Rightarrow> bool" where
  "integ_is_terminal s =
     (s \<in> {Integ_Integrated, Integ_Conflict, Integ_Blocked, Integ_Failed, Integ_Cancelled,
           Integ_Stale})"

definition integ_is_recoverable :: "IntegrationState \<Rightarrow> bool" where
  "integ_is_recoverable s =
     (s \<in> {Integ_WaitingForLease, Integ_Preparing, Integ_Applying, Integ_Verifying,
           Integ_ReadyToPublish})"

definition integ_can_transition :: "IntegrationState \<Rightarrow> IntegrationState \<Rightarrow> bool" where
  "integ_can_transition from to =
     (if integ_is_terminal from then False
      else if to = Integ_Cancelled then True
      else if to = Integ_Failed then
        from \<in> {Integ_Preparing, Integ_Applying, Integ_Verifying, Integ_ReadyToPublish}
      else (from, to) \<in>
        {(Integ_Queued, Integ_WaitingForLease),
         (Integ_WaitingForLease, Integ_Preparing),
         (Integ_Preparing, Integ_Applying),
         (Integ_Preparing, Integ_Blocked),
         (Integ_Applying, Integ_Verifying),
         (Integ_Applying, Integ_Conflict),
         (Integ_Applying, Integ_Stale),
         (Integ_Verifying, Integ_ReadyToPublish),
         (Integ_ReadyToPublish, Integ_Integrated)})"

definition integ_is_forward_progress :: "IntegrationState \<Rightarrow> IntegrationState \<Rightarrow> bool" where
  "integ_is_forward_progress from to = ((from, to) \<in>
     {(Integ_Queued, Integ_WaitingForLease),
      (Integ_WaitingForLease, Integ_Preparing),
      (Integ_Preparing, Integ_Applying),
      (Integ_Applying, Integ_Verifying),
      (Integ_Verifying, Integ_ReadyToPublish),
      (Integ_ReadyToPublish, Integ_Integrated)})"

section \<open>Workspace lease\<close>

datatype LeaseLifecycle = Lease_Acquired | Lease_Active | Lease_Released | Lease_Expired

definition lease_is_terminal :: "LeaseLifecycle \<Rightarrow> bool" where
  "lease_is_terminal s = (s \<in> {Lease_Released, Lease_Expired})"

definition lease_can_transition :: "LeaseLifecycle \<Rightarrow> LeaseLifecycle \<Rightarrow> bool" where
  "lease_can_transition from to =
     (if lease_is_terminal from then False
      else (from, to) \<in>
        {(Lease_Acquired, Lease_Active),
         (Lease_Acquired, Lease_Expired),
         (Lease_Active, Lease_Released),
         (Lease_Active, Lease_Expired)})"


section \<open>The contract of a lifecycle machine\<close>

text \<open>A run is a list of states in which each follows from the one before by a legal
  transition.\<close>

abbreviation run :: "('s \<Rightarrow> 's \<Rightarrow> bool) \<Rightarrow> 's list \<Rightarrow> bool" where
  "run step xs \<equiv> successively step xs"

locale lifecycle =
  fixes step :: "'s \<Rightarrow> 's \<Rightarrow> bool" and terminal :: "'s \<Rightarrow> bool"
  assumes terminal_no_step: "terminal s \<Longrightarrow> \<not> step s t"
begin

lemma terminal_run: "run step (s # xs) \<Longrightarrow> terminal s \<Longrightarrow> xs = []"
  by (cases xs) (auto simp: terminal_no_step)

lemma terminal_star: "step\<^sup>*\<^sup>* s t \<Longrightarrow> terminal s \<Longrightarrow> t = s"
  by (induction rule: rtranclp_induct) (auto simp: terminal_no_step)

lemma terminal_only_last:
  "run step (xs @ s # ys) \<Longrightarrow> terminal s \<Longrightarrow> ys = []"
  using terminal_run by (fastforce simp: successively_append_iff)

lemma gate:
  assumes "run step (xs @ [t])" and "\<And>u. step u t \<Longrightarrow> u = g" and "xs \<noteq> []"
  shows "\<exists>ys. xs = ys @ [g]"
proof -
  from assms(1,3) have "step (last xs) t"
    by (auto simp: successively_append_iff)
  with assms(2) have "last xs = g" by blast
  with assms(3) show ?thesis by (metis append_butlast_last_id)
qed

text \<open>A legal path in which every state after the first has exactly one predecessor, and the
  first has none, is the only run between its ends.\<close>

lemma forced_path:
  assumes "run step ps" and "successively (\<lambda>p q. \<forall>u. step u q \<longrightarrow> u = p) ps"
    and "ps \<noteq> []" and "\<And>u. \<not> step u (hd ps)"
    and "run step xs" and "xs \<noteq> []" and "last xs = last ps" and "hd xs = hd ps"
  shows "xs = ps"
  using assms
proof (induction ps arbitrary: xs rule: rev_induct)
  case (snoc t qs)
  obtain ys where xs: "xs = ys @ [t]"
    using snoc.prems(6,7) by (metis append_butlast_last_id last_snoc)
  show ?case
  proof (cases "qs = []")
    case True
    then have "\<And>u. \<not> step u t" using snoc.prems(4) by simp
    with snoc.prems(5) xs have "ys = []" by (auto simp: successively_append_iff)
    with xs True show ?thesis by simp
  next
    case False
    then have st: "step (last qs) t"
      using snoc.prems(1) by (simp add: successively_append_iff)
    have ys: "ys \<noteq> []"
      using snoc.prems(4,8) st xs False by auto
    have "last ys = last qs"
      using snoc.prems(2,5) xs ys False by (auto simp: successively_append_iff)
    then have "ys = qs"
      using snoc.prems xs ys False
      by (intro snoc.IH) (auto simp: successively_append_iff)
    with xs show ?thesis by simp
  qed
qed simp

end

locale ranked_lifecycle = lifecycle +
  fixes rank :: "'s \<Rightarrow> nat" and bound :: nat
  assumes rank_step: "step s t \<Longrightarrow> rank s < rank t"
    and rank_bound: "rank s \<le> bound"
begin

lemma run_rank: "run step xs \<Longrightarrow> xs \<noteq> [] \<Longrightarrow> rank (hd xs) + length xs \<le> Suc (rank (last xs))"
proof (induction xs)
  case (Cons x xs)
  then show ?case
    by (cases xs) (use rank_step in fastforce)+
qed simp

lemma run_length: "run step xs \<Longrightarrow> length xs \<le> Suc bound"
proof (cases "xs = []")
  case False
  assume "run step xs"
  then have "rank (hd xs) + length xs \<le> Suc (rank (last xs))"
    using False by (rule run_rank)
  with rank_bound [of "last xs"] show ?thesis by linarith
qed simp

lemma run_sorted: "run step xs \<Longrightarrow> sorted_wrt (\<lambda>s t. rank s < rank t) xs"
proof -
  assume "run step xs"
  then have "successively (\<lambda>s t. rank s < rank t) xs"
    by (rule successively_mono) (auto intro: rank_step)
  moreover have "transp (\<lambda>s t. rank s < rank t)"
    by (rule transpI) simp
  ultimately show ?thesis by (simp add: successively_conv_sorted_wrt)
qed

lemma run_distinct: "run step xs \<Longrightarrow> distinct xs"
proof -
  assume "run step xs"
  then have "sorted_wrt (<) (map rank xs)"
    by (simp add: run_sorted sorted_wrt_map)
  then have "distinct (map rank xs)"
    by (simp add: strict_sorted_iff)
  then show ?thesis by (simp add: distinct_map)
qed

end

text \<open>A machine in which a non-terminal state always has a legal successor.\<close>

locale progressive_lifecycle = ranked_lifecycle +
  assumes progress: "\<not> terminal s \<Longrightarrow> \<exists>t. step s t"
begin

lemma reaches_terminal: "\<exists>t. step\<^sup>*\<^sup>* s t \<and> terminal t"
proof (induction "bound - rank s" arbitrary: s rule: less_induct)
  case less
  show ?case
  proof (cases "terminal s")
    case False
    then obtain u where u: "step s u" using progress by blast
    then have "rank s < rank u" by (rule rank_step)
    with rank_bound [of u] have "bound - rank u < bound - rank s" by linarith
    with less obtain t where "step\<^sup>*\<^sup>* u t" "terminal t" by blast
    with u show ?thesis by (meson converse_rtranclp_into_rtranclp)
  qed auto
qed

end


section \<open>The nine machines satisfy the contract\<close>

lemmas task_fsm = task_can_transition_def task_is_terminal_def
lemmas exec_fsm = exec_can_transition_def exec_is_terminal_def
lemmas project_fsm = project_can_transition_def project_is_terminal_def
lemmas goal_fsm = goal_can_transition_def goal_is_valid_def goal_is_terminal_def
lemmas plan_fsm = plan_can_transition_def plan_is_valid_def plan_is_terminal_def
lemmas review_fsm = review_can_transition_def review_is_terminal_def
lemmas commit_fsm = commit_can_transition_def commit_is_terminal_def
lemmas integ_fsm = integ_can_transition_def integ_is_terminal_def
lemmas lease_fsm = lease_can_transition_def lease_is_terminal_def

definition exec_rank :: "ExecutionLifecycle \<Rightarrow> nat" where
  "exec_rank s = (case s of Exec_Created \<Rightarrow> 0 | Exec_Running \<Rightarrow> 1 | _ \<Rightarrow> 2)"

definition plan_rank :: "PlanState \<Rightarrow> nat" where
  "plan_rank s = (case s of Plan_Proposed \<Rightarrow> 0 | Plan_Validating \<Rightarrow> 1 | Plan_Validated \<Rightarrow> 2
     | Plan_Active \<Rightarrow> 3 | _ \<Rightarrow> 4)"

definition review_rank :: "ReviewState \<Rightarrow> nat" where
  "review_rank s = (case s of Review_Requested \<Rightarrow> 0 | Review_Preparing \<Rightarrow> 1
     | Review_Prechecking \<Rightarrow> 2 | Review_Reviewing \<Rightarrow> 3 | _ \<Rightarrow> 4)"

definition commit_rank :: "CommitState \<Rightarrow> nat" where
  "commit_rank s = (case s of Commit_Requested \<Rightarrow> 0 | Commit_Materializing \<Rightarrow> 1 | _ \<Rightarrow> 2)"

definition integ_rank :: "IntegrationState \<Rightarrow> nat" where
  "integ_rank s = (case s of Integ_Queued \<Rightarrow> 0 | Integ_WaitingForLease \<Rightarrow> 1 | Integ_Preparing \<Rightarrow> 2
     | Integ_Applying \<Rightarrow> 3 | Integ_Verifying \<Rightarrow> 4 | Integ_ReadyToPublish \<Rightarrow> 5 | _ \<Rightarrow> 6)"

definition lease_rank :: "LeaseLifecycle \<Rightarrow> nat" where
  "lease_rank s = (case s of Lease_Acquired \<Rightarrow> 0 | Lease_Active \<Rightarrow> 1 | _ \<Rightarrow> 2)"

interpretation task: lifecycle task_can_transition task_is_terminal
  by unfold_locales (simp add: task_can_transition_def)

interpretation project: lifecycle project_can_transition project_is_terminal
  by unfold_locales (simp add: project_can_transition_def)

interpretation goal: lifecycle goal_can_transition goal_is_terminal
  by unfold_locales (simp add: goal_can_transition_def)

interpretation exec: progressive_lifecycle exec_can_transition exec_is_terminal exec_rank 2
proof unfold_locales
  show "\<not> exec_is_terminal s \<Longrightarrow> \<exists>t. exec_can_transition s t" for s
    by (rule exI [of _ Exec_Failed]) (cases s; simp add: exec_fsm)
qed (auto simp: exec_fsm exec_rank_def split: ExecutionLifecycle.split)

interpretation plan: progressive_lifecycle plan_can_transition plan_is_terminal plan_rank 4
proof unfold_locales
  show "\<not> plan_is_terminal s \<Longrightarrow> \<exists>t. plan_can_transition s t" for s
    by (rule exI [of _ Plan_Cancelled]) (cases s; simp add: plan_fsm)
qed (auto simp: plan_fsm plan_rank_def split: PlanState.split)

interpretation review: progressive_lifecycle review_can_transition review_is_terminal review_rank 4
proof unfold_locales
  show "review_can_transition s t \<Longrightarrow> review_rank s < review_rank t" for s t
    by (cases s; cases t) (simp_all add: review_fsm review_rank_def)
  show "\<not> review_is_terminal s \<Longrightarrow> \<exists>t. review_can_transition s t" for s
    by (rule exI [of _ Review_Cancelled]) (simp add: review_fsm)
qed (auto simp: review_can_transition_def review_rank_def split: ReviewState.split)

interpretation commit: progressive_lifecycle commit_can_transition commit_is_terminal commit_rank 2
proof unfold_locales
  show "commit_can_transition s t \<Longrightarrow> commit_rank s < commit_rank t" for s t
    by (cases s; cases t) (simp_all add: commit_fsm commit_rank_def)
  show "\<not> commit_is_terminal s \<Longrightarrow> \<exists>t. commit_can_transition s t" for s
    by (rule exI [of _ Commit_Cancelled]) (simp add: commit_fsm)
qed (auto simp: commit_can_transition_def commit_rank_def split: CommitState.split)

interpretation integ: progressive_lifecycle integ_can_transition integ_is_terminal integ_rank 6
proof unfold_locales
  show "integ_can_transition s t \<Longrightarrow> integ_rank s < integ_rank t" for s t
    by (cases s; cases t) (simp_all add: integ_fsm integ_rank_def)
  show "\<not> integ_is_terminal s \<Longrightarrow> \<exists>t. integ_can_transition s t" for s
    by (rule exI [of _ Integ_Cancelled]) (simp add: integ_fsm)
qed (auto simp: integ_can_transition_def integ_rank_def split: IntegrationState.split)

interpretation lease: progressive_lifecycle lease_can_transition lease_is_terminal lease_rank 2
proof unfold_locales
  show "\<not> lease_is_terminal s \<Longrightarrow> \<exists>t. lease_can_transition s t" for s
    by (rule exI [of _ Lease_Expired]) (cases s; simp add: lease_fsm)
qed (auto simp: lease_fsm lease_rank_def split: LeaseLifecycle.split)


section \<open>Properties\<close>

lemma step_star: "r s t \<Longrightarrow> r\<^sup>*\<^sup>* t u \<Longrightarrow> r\<^sup>*\<^sup>* s u"
  by (rule converse_rtranclp_into_rtranclp)

text \<open>Predecessors and successors of the states the runs below are forced through.\<close>

lemma task_preds:
  "task_can_transition u Task_Done \<longleftrightarrow> u = Task_Verified"
  "task_can_transition u Task_Verified \<longleftrightarrow> u = Task_Submitted"
  "task_can_transition u Task_Submitted \<longleftrightarrow> u = Task_Running"
  by (cases u; simp add: task_fsm)+

lemma task_succs:
  "task_can_transition Task_Pending t \<longleftrightarrow> t \<in> {Task_Ready, Task_Superseded, Task_Cancelled}"
  "task_can_transition Task_Ready t \<longleftrightarrow> t \<in> {Task_Dispatched, Task_Cancelled}"
  by (cases t; simp add: task_fsm)+

lemma review_preds:
  "\<not> review_can_transition u Review_Requested"
  "review_can_transition u Review_Preparing \<longleftrightarrow> u = Review_Requested"
  "review_can_transition u Review_Prechecking \<longleftrightarrow> u = Review_Preparing"
  "review_can_transition u Review_Reviewing \<longleftrightarrow> u = Review_Prechecking"
  "review_can_transition u Review_Approved \<longleftrightarrow> u = Review_Reviewing"
  by (cases u; simp add: review_fsm)+

lemma integ_preds:
  "\<not> integ_can_transition u Integ_Queued"
  "integ_can_transition u Integ_WaitingForLease \<longleftrightarrow> u = Integ_Queued"
  "integ_can_transition u Integ_Preparing \<longleftrightarrow> u = Integ_WaitingForLease"
  "integ_can_transition u Integ_Applying \<longleftrightarrow> u = Integ_Preparing"
  "integ_can_transition u Integ_Verifying \<longleftrightarrow> u = Integ_Applying"
  "integ_can_transition u Integ_ReadyToPublish \<longleftrightarrow> u = Integ_Verifying"
  "integ_can_transition u Integ_Integrated \<longleftrightarrow> u = Integ_ReadyToPublish"
  by (cases u; simp add: integ_fsm)+

lemma goal_preds: "goal_can_transition u Goal_Succeeded \<longleftrightarrow> u = Goal_Active"
  by (cases u; simp add: goal_fsm)

lemma task_to_done: "\<not> task_is_terminal s \<Longrightarrow> task_can_transition\<^sup>*\<^sup>* s Task_Done"
proof -
  have v: "task_can_transition\<^sup>*\<^sup>* Task_Verified Task_Done"
    by (simp add: task_fsm r_into_rtranclp)
  have s: "task_can_transition\<^sup>*\<^sup>* Task_Submitted Task_Done"
    by (rule step_star [OF _ v]) (simp add: task_fsm)
  have r: "task_can_transition\<^sup>*\<^sup>* Task_Running Task_Done"
    by (rule step_star [OF _ s]) (simp add: task_fsm)
  have a: "task_can_transition\<^sup>*\<^sup>* Task_AwaitingInput Task_Done"
    by (rule step_star [OF _ r]) (simp add: task_fsm)
  have d: "task_can_transition\<^sup>*\<^sup>* Task_Dispatched Task_Done"
    by (rule step_star [OF _ r]) (simp add: task_fsm)
  have p: "task_can_transition\<^sup>*\<^sup>* Task_RetryPending Task_Done"
    by (rule step_star [OF _ d]) (simp add: task_fsm)
  have y: "task_can_transition\<^sup>*\<^sup>* Task_Ready Task_Done"
    by (rule step_star [OF _ d]) (simp add: task_fsm)
  have "task_can_transition\<^sup>*\<^sup>* Task_Pending Task_Done"
    by (rule step_star [OF _ y]) (simp add: task_fsm)
  with v s r a d p y show "\<not> task_is_terminal s \<Longrightarrow> task_can_transition\<^sup>*\<^sup>* s Task_Done"
    by (cases s) (simp_all add: task_is_terminal_def)
qed

lemma task_verified_reach:
  "task_can_transition\<^sup>*\<^sup>* Task_Verified t \<Longrightarrow> t \<in> {Task_Verified, Task_Done}"
  by (induction rule: rtranclp_induct) (auto simp: task_fsm)

lemma task_to_cancelled:
  "\<not> task_is_terminal s \<Longrightarrow> s \<noteq> Task_Verified \<Longrightarrow> task_can_transition\<^sup>*\<^sup>* s Task_Cancelled"
proof -
  have p: "task_can_transition\<^sup>*\<^sup>* Task_RetryPending Task_Cancelled"
    by (simp add: task_fsm r_into_rtranclp)
  have d: "task_can_transition Task_Dispatched Task_RetryPending"
    "task_can_transition Task_Running Task_RetryPending"
    "task_can_transition Task_AwaitingInput Task_RetryPending"
    "task_can_transition Task_Submitted Task_RetryPending"
    "task_can_transition Task_Pending Task_Cancelled"
    "task_can_transition Task_Ready Task_Cancelled"
    by (simp_all add: task_fsm)
  note via = step_star [OF d(1) p] step_star [OF d(2) p] step_star [OF d(3) p] step_star [OF d(4) p]
  show "\<not> task_is_terminal s \<Longrightarrow> s \<noteq> Task_Verified \<Longrightarrow> task_can_transition\<^sup>*\<^sup>* s Task_Cancelled"
    using p via d(5,6) by (cases s) (auto simp: task_is_terminal_def)
qed

text \<open>A task that runs from Pending to Done was first made Ready and Dispatched, and its
  last four states are Running, Submitted, Verified, Done: no run of the task machine completes a
  task without an execution, a submission and a passed verification.\<close>

theorem task_done_path:
  assumes "run task_can_transition xs" and "xs \<noteq> []"
    and "hd xs = Task_Pending" and "last xs = Task_Done"
  shows "\<exists>ys. xs = [Task_Pending, Task_Ready, Task_Dispatched] @ ys
                   @ [Task_Running, Task_Submitted, Task_Verified, Task_Done]"
proof -
  obtain as where as: "xs = as @ [Task_Done]"
    using assms(2,4) by (metis append_butlast_last_id)
  have "as \<noteq> []" using as assms(3) by auto
  then obtain bs where bs: "as = bs @ [Task_Verified]"
    using task.gate [of as Task_Done Task_Verified] assms(1) as by (simp add: task_preds) blast
  have b: "run task_can_transition (bs @ [Task_Verified])" "bs \<noteq> []"
    using assms(1,3) as bs by (auto simp: successively_append_iff)
  then obtain cs where cs: "bs = cs @ [Task_Submitted]"
    using task.gate [of bs Task_Verified Task_Submitted] by (simp add: task_preds) blast
  have c: "run task_can_transition (cs @ [Task_Submitted])" "cs \<noteq> []"
    using b assms(3) as bs cs by (auto simp: successively_append_iff)
  then obtain ds where ds: "cs = ds @ [Task_Running]"
    using task.gate [of cs Task_Submitted Task_Running] by (simp add: task_preds) blast
  have xs: "xs = ds @ [Task_Running, Task_Submitted, Task_Verified, Task_Done]"
    using as bs cs ds by simp
  then obtain d ds1 where d1: "ds = d # ds1" and d: "d = Task_Pending"
    using assms(3) by (cases ds) auto
  obtain e ds2 where e1: "ds1 = e # ds2" and e: "e = Task_Ready"
    using assms(1) xs d1 d by (cases ds1) (auto simp: task_succs task_is_terminal_def dest!: task.terminal_run)
  obtain f ds3 where f1: "ds2 = f # ds3" and f: "f = Task_Dispatched"
    using assms(1) xs d1 d e1 e 
    by (cases ds2) (auto simp: task_succs task_is_terminal_def dest!: task.terminal_run)
  show ?thesis
    using xs d1 d e1 e f1 f by auto
qed

theorem task_done_path_witness:
  "\<exists>ys. [Task_Pending, Task_Ready, Task_Dispatched, Task_Running, Task_RetryPending, Task_Dispatched,
          Task_Running, Task_Submitted, Task_Verified, Task_Done] =
        [Task_Pending, Task_Ready, Task_Dispatched] @ ys
          @ [Task_Running, Task_Submitted, Task_Verified, Task_Done]"
  by (rule task_done_path) (simp_all add: task_fsm)

text \<open>Every unfinished task can still be driven to Done, and can still be driven to
  Cancelled unless it is already Verified; a finished task can go nowhere.\<close>

theorem task_liveness:
  "(if task_is_terminal s then task_can_transition\<^sup>*\<^sup>* s t = (t = s)
    else task_can_transition\<^sup>*\<^sup>* s Task_Done \<and>
      (task_can_transition\<^sup>*\<^sup>* s Task_Cancelled \<longleftrightarrow> s \<noteq> Task_Verified))"
  using task.terminal_star [of s t] task_to_done [of s] task_to_cancelled [of s]
    task_verified_reach [of Task_Cancelled]
  by auto

text \<open>A review that starts as Requested and ends Approved went through exactly Preparing,
  Prechecking and Reviewing: neither the deterministic precheck nor the reviewer can be skipped.\<close>

theorem review_approval_path:
  assumes "run review_can_transition xs" and "xs \<noteq> []"
    and "hd xs = Review_Requested" and "last xs = Review_Approved"
  shows "xs = [Review_Requested, Review_Preparing, Review_Prechecking, Review_Reviewing,
               Review_Approved]"
proof (rule review.forced_path)
qed (use assms in \<open>simp_all add: review_preds\<close>)

theorem review_approval_path_witness:
  "run review_can_transition [Review_Requested, Review_Preparing, Review_Prechecking, Review_Reviewing,
     Review_Approved] \<and>
   \<not> run review_can_transition [Review_Requested, Review_Preparing, Review_Reviewing, Review_Approved]"
proof
  show "run review_can_transition [Review_Requested, Review_Preparing, Review_Prechecking, Review_Reviewing,
     Review_Approved]" by (simp add: review_fsm)
  show "\<not> run review_can_transition [Review_Requested, Review_Preparing, Review_Reviewing, Review_Approved]"
    by (rule notI, drule review_approval_path) simp_all
qed

text \<open>A queued integration that ends Integrated held the lease, was prepared, applied and
  verified, in that order and each exactly once, and no run of the integration machine visits more
  than seven states.\<close>

theorem integration_publish_path:
  assumes "run integ_can_transition xs"
  shows "length xs \<le> 7 \<and> distinct xs \<and>
    (xs \<noteq> [] \<and> hd xs = Integ_Queued \<and> last xs = Integ_Integrated \<longrightarrow>
      xs = [Integ_Queued, Integ_WaitingForLease, Integ_Preparing, Integ_Applying, Integ_Verifying,
            Integ_ReadyToPublish, Integ_Integrated])"
proof (intro conjI impI)
  show "length xs \<le> 7" using integ.run_length [OF assms] by simp
  show "distinct xs" using assms by (rule integ.run_distinct)
  assume xs: "xs \<noteq> [] \<and> hd xs = Integ_Queued \<and> last xs = Integ_Integrated"
  let ?ps = "[Integ_Queued, Integ_WaitingForLease, Integ_Preparing, Integ_Applying,
    Integ_Verifying, Integ_ReadyToPublish, Integ_Integrated]"
  show "xs = ?ps"
    by (rule integ.forced_path) (use assms xs in \<open>simp_all add: integ_preds\<close>)
qed

theorem integration_publish_path_witness:
  "\<not> run integ_can_transition [Integ_Queued, Integ_WaitingForLease, Integ_Preparing, Integ_Applying,
     Integ_ReadyToPublish, Integ_Integrated] \<and>
   run integ_can_transition [Integ_Queued, Integ_WaitingForLease, Integ_Preparing, Integ_Applying,
     Integ_Verifying, Integ_ReadyToPublish, Integ_Integrated]"
proof
  show "\<not> run integ_can_transition [Integ_Queued, Integ_WaitingForLease, Integ_Preparing, Integ_Applying,
     Integ_ReadyToPublish, Integ_Integrated]"
    by (rule notI, drule integration_publish_path) simp
  show "run integ_can_transition [Integ_Queued, Integ_WaitingForLease, Integ_Preparing, Integ_Applying,
     Integ_Verifying, Integ_ReadyToPublish, Integ_Integrated]" by (simp add: integ_fsm)
qed

text \<open>\<open>PlanState::can_transition_to\<close> and \<open>PlanFsm::can_transition\<close> agree on every pair of
  states but one: the method refuses to cancel a plan that is being validated, the machine allows it.\<close>

theorem plan_machines_differ:
  "plan_can_transition s t \<longleftrightarrow>
     plan_can_transition_to s t \<or> (s = Plan_Validating \<and> t = Plan_Cancelled)"
  by (cases s) (auto simp: plan_fsm plan_can_transition_to_def)

text \<open>A goal that succeeds was Active the step before, so in a state in which tasks may be
  dispatched; no two goal states share their stored text.\<close>

theorem goal_success_gate:
  assumes "goal_can_transition\<^sup>*\<^sup>* s Goal_Succeeded" and "s \<noteq> Goal_Succeeded"
  shows "goal_can_transition\<^sup>*\<^sup>* s Goal_Active \<and> goal_can_dispatch_tasks Goal_Active \<and>
    (\<forall>u. goal_can_transition u Goal_Succeeded \<longrightarrow> goal_can_dispatch_tasks u) \<and>
    inj goal_as_str"
proof -
  obtain u where u: "goal_can_transition\<^sup>*\<^sup>* s u" "goal_can_transition u Goal_Succeeded"
    using assms by (blast elim: rtranclp.cases)
  have "inj goal_as_str"
  proof (rule injI)
    show "goal_as_str x = goal_as_str y \<Longrightarrow> x = y" for x y
      by (cases x; cases y) simp_all
  qed
  with u show ?thesis by (simp add: goal_can_dispatch_tasks_def goal_preds)
qed

lemma goal_blocked_succeeds: "goal_can_transition\<^sup>*\<^sup>* Goal_Blocked Goal_Succeeded"
proof -
  have "goal_can_transition Goal_Blocked Goal_Active" "goal_can_transition Goal_Active Goal_Succeeded"
    by (simp_all add: goal_fsm)
  then show ?thesis by (meson r_into_rtranclp step_star)
qed

theorem goal_success_gate_witness:
  "goal_can_transition\<^sup>*\<^sup>* Goal_Blocked Goal_Succeeded \<and>
   goal_can_transition\<^sup>*\<^sup>* Goal_Blocked Goal_Active \<and> goal_can_dispatch_tasks Goal_Active"
  using goal_success_gate [OF goal_blocked_succeeds] goal_blocked_succeeds by blast

end
