(* ===== verification/Transition.thy ===== *)
theory Transition
  imports Idempotency Lifecycles
begin

text \<open>
  \<open>TransitionService\<close> of \<open>harness-runtime/src/transition.rs\<close>: lifecycle changes of projects, tasks
  and executions. Each call reads the row outside the transaction (\<open>_read\<close>) and then, in one
  transaction, updates it under a version guard, appends the event and records the idempotency key
  (\<open>_commit\<close>); other calls may run in between. UUIDs are the argument \<open>uuid\<close>. The main result is
  that under every interleaving the event stream of an entity replays to its current lifecycle.
\<close>

section \<open>Names\<close>

definition task_serde :: "TaskLifecycle \<Rightarrow> string" where
  "task_serde s =
     (case s of Task_Pending \<Rightarrow> ''pending'' | Task_Ready \<Rightarrow> ''ready'' | Task_Dispatched \<Rightarrow> ''dispatched''
      | Task_Running \<Rightarrow> ''running'' | Task_AwaitingInput \<Rightarrow> ''awaiting_input''
      | Task_RetryPending \<Rightarrow> ''retry_pending'' | Task_Submitted \<Rightarrow> ''submitted''
      | Task_Verified \<Rightarrow> ''verified'' | Task_Done \<Rightarrow> ''done'' | Task_Cancelled \<Rightarrow> ''cancelled''
      | Task_Superseded \<Rightarrow> ''superseded'' | Task_Failed \<Rightarrow> ''failed'')"

definition task_debug :: "TaskLifecycle \<Rightarrow> string" where
  "task_debug s =
     (case s of Task_Pending \<Rightarrow> ''Pending'' | Task_Ready \<Rightarrow> ''Ready'' | Task_Dispatched \<Rightarrow> ''Dispatched''
      | Task_Running \<Rightarrow> ''Running'' | Task_AwaitingInput \<Rightarrow> ''AwaitingInput''
      | Task_RetryPending \<Rightarrow> ''RetryPending'' | Task_Submitted \<Rightarrow> ''Submitted''
      | Task_Verified \<Rightarrow> ''Verified'' | Task_Done \<Rightarrow> ''Done'' | Task_Cancelled \<Rightarrow> ''Cancelled''
      | Task_Superseded \<Rightarrow> ''Superseded'' | Task_Failed \<Rightarrow> ''Failed'')"

definition project_serde :: "ProjectLifecycle \<Rightarrow> string" where
  "project_serde s =
     (case s of Project_Created \<Rightarrow> ''created'' | Project_Clarifying \<Rightarrow> ''clarifying''
      | Project_GoalLocked \<Rightarrow> ''goal_locked'' | Project_Planning \<Rightarrow> ''planning''
      | Project_AwaitingApproval \<Rightarrow> ''awaiting_approval'' | Project_Active \<Rightarrow> ''active''
      | Project_Integrating \<Rightarrow> ''integrating'' | Project_Verifying \<Rightarrow> ''verifying''
      | Project_Delivering \<Rightarrow> ''delivering'' | Project_Done \<Rightarrow> ''done''
      | Project_Cancelled \<Rightarrow> ''cancelled'' | Project_Failed \<Rightarrow> ''failed'')"

definition project_debug :: "ProjectLifecycle \<Rightarrow> string" where
  "project_debug s =
     (case s of Project_Created \<Rightarrow> ''Created'' | Project_Clarifying \<Rightarrow> ''Clarifying''
      | Project_GoalLocked \<Rightarrow> ''GoalLocked'' | Project_Planning \<Rightarrow> ''Planning''
      | Project_AwaitingApproval \<Rightarrow> ''AwaitingApproval'' | Project_Active \<Rightarrow> ''Active''
      | Project_Integrating \<Rightarrow> ''Integrating'' | Project_Verifying \<Rightarrow> ''Verifying''
      | Project_Delivering \<Rightarrow> ''Delivering'' | Project_Done \<Rightarrow> ''Done''
      | Project_Cancelled \<Rightarrow> ''Cancelled'' | Project_Failed \<Rightarrow> ''Failed'')"

definition exec_serde :: "ExecutionLifecycle \<Rightarrow> string" where
  "exec_serde s =
     (case s of Exec_Created \<Rightarrow> ''created'' | Exec_Running \<Rightarrow> ''running'' | Exec_Completed \<Rightarrow> ''completed''
      | Exec_Failed \<Rightarrow> ''failed'' | Exec_Lost \<Rightarrow> ''lost'' | Exec_Cancelled \<Rightarrow> ''cancelled'')"

definition exec_debug :: "ExecutionLifecycle \<Rightarrow> string" where
  "exec_debug s =
     (case s of Exec_Created \<Rightarrow> ''Created'' | Exec_Running \<Rightarrow> ''Running'' | Exec_Completed \<Rightarrow> ''Completed''
      | Exec_Failed \<Rightarrow> ''Failed'' | Exec_Lost \<Rightarrow> ''Lost'' | Exec_Cancelled \<Rightarrow> ''Cancelled'')"

definition parse_exec_lc :: "string \<Rightarrow> ExecutionLifecycle" where
  "parse_exec_lc s =
     (if s = ''created'' then Exec_Created else if s = ''running'' then Exec_Running
      else if s = ''completed'' then Exec_Completed else if s = ''failed'' then Exec_Failed
      else if s = ''lost'' then Exec_Lost else if s = ''cancelled'' then Exec_Cancelled
      else Exec_Created)"

section \<open>State and operations\<close>

record EntityRow =
  en_id :: string
  en_lifecycle :: string
  en_version :: int

record TransDb =
  td_projects :: "EntityRow list"
  td_tasks :: "EntityRow list"
  td_executions :: "EntityRow list"
  td_events :: "EventLogEntry list"
  td_idem :: "IdemRow list"

abbreviation entity_row :: "string \<Rightarrow> EntityRow list \<Rightarrow> EntityRow option" where
  "entity_row i rows \<equiv> select_one (\<lambda>r. en_id r = i) rows"

text \<open>The body of the transaction: \<open>None\<close> when the guarded update changes no row, an error when
  the event breaks a unique constraint, otherwise the three new tables.\<close>

definition transition_tx ::
  "(EntityRow \<Rightarrow> bool) \<Rightarrow> string \<Rightarrow> EventLogEntry \<Rightarrow> string \<Rightarrow> EntityRow list \<Rightarrow> EventLogEntry list \<Rightarrow>
   IdemRow list \<Rightarrow> (CoreError, EntityRow list \<times> EventLogEntry list \<times> IdemRow list) result option" where
  "transition_tx guard to_s event idempotency_key rows log idem =
     (if rows_affected guard rows = 0 then None
      else Some (and_then (insert_event event log) (\<lambda>log'.
        Inr (update_where guard (\<lambda>r. r\<lparr>en_lifecycle := to_s, en_version := en_version r + 1\<rparr>) rows,
             log', record_in_tx idempotency_key ''ok'' idem))))"

definition lifecycle_event ::
  "(nat \<Rightarrow> string) \<Rightarrow> string \<Rightarrow> int \<Rightarrow> string \<Rightarrow> (string \<times> json_value) list \<Rightarrow> string \<Rightarrow> EventLogEntry" where
  "lifecycle_event uuid stream_id stream_version event_type payload idempotency_key =
     \<lparr>ev_id = uuid 0, ev_stream_id = stream_id, ev_stream_version = stream_version,
      ev_event_type = event_type, ev_payload = payload, ev_schema_version = 1,
      ev_correlation_id = uuid 1, ev_causation_id = None, ev_idempotency_key = idempotency_key,
      ev_source = ''harness''\<rparr>"

definition actual_row :: "string \<Rightarrow> EntityRow list \<Rightarrow> string \<times> int" where
  "actual_row i rows = (case entity_row i rows of None \<Rightarrow> ('''', 0) | Some r \<Rightarrow> (en_lifecycle r, en_version r))"

definition version_conflict :: "int \<Rightarrow> int \<Rightarrow> string \<Rightarrow> CoreError" where
  "version_conflict version actual_ver diagnostic =
     with_diagnostic diagnostic (core_error_new PersistenceError
       (''optimistic_version_conflict: expected='' @ show_int version @ '', actual='' @ show_int actual_ver)
       SrcSystem)"

text \<open>The reads of a call: \<open>Inr None\<close> is the early return for a duplicate key, \<open>Inr (Some v)\<close> goes
  on to the transaction with the version read.\<close>

definition transition_project_read ::
  "string \<Rightarrow> ProjectLifecycle \<Rightarrow> ProjectLifecycle \<Rightarrow> string \<Rightarrow> TransDb \<Rightarrow> (CoreError, int option) result" where
  "transition_project_read project_id from to idempotency_key db =
     (if is_duplicate idempotency_key (td_idem db) then Inr None
      else if \<not> project_can_transition from to then
        fail_with (InvalidStateTransition (project_debug from) (project_debug to)) ''illegal project transition''
      else (case entity_row project_id (td_projects db) of
              None \<Rightarrow> fail_with PersistenceError ''project not found''
            | Some r \<Rightarrow>
                (if en_lifecycle r \<noteq> project_serde from then
                   fail_with (InvalidStateTransition (en_lifecycle r) (project_serde to))
                     ''expected different current lifecycle''
                 else Inr (Some (en_version r)))))"

definition transition_project_commit ::
  "(nat \<Rightarrow> string) \<Rightarrow> string \<Rightarrow> ProjectLifecycle \<Rightarrow> ProjectLifecycle \<Rightarrow> string \<Rightarrow> int \<Rightarrow> TransDb \<Rightarrow>
   (CoreError, unit) result \<times> TransDb" where
  "transition_project_commit uuid project_id from to idempotency_key version db =
     (let from_str = project_serde from; to_str = project_serde to
      in case transition_tx (\<lambda>r. en_id r = project_id \<and> en_lifecycle r = from_str \<and> en_version r = version)
                to_str
                (lifecycle_event uuid project_id (version + 1) ''project_lifecycle_changed''
                  [(''from'', JStr from_str), (''to'', JStr to_str)] idempotency_key)
                idempotency_key (td_projects db) (td_events db) (td_idem db) of
           None \<Rightarrow>
             (let (actual_lc, actual_ver) = actual_row project_id (td_projects db)
              in if actual_lc \<noteq> from_str then
                   (fail_with (InvalidStateTransition from_str to_str)
                     (''lifecycle already changed to '' @ actual_lc @ '' by another transaction''), db)
                 else (Inl (version_conflict version actual_ver
                        (''project:'' @ project_id @ '':version_mismatch'')), db))
         | Some (Inl e) \<Rightarrow> (Inl e, db)
         | Some (Inr (rows, log, idem)) \<Rightarrow>
             (Inr (), db\<lparr>td_projects := rows, td_events := log, td_idem := idem\<rparr>))"

definition transition_project ::
  "(nat \<Rightarrow> string) \<Rightarrow> string \<Rightarrow> ProjectLifecycle \<Rightarrow> ProjectLifecycle \<Rightarrow> string \<Rightarrow> TransDb \<Rightarrow>
   (CoreError, unit) result \<times> TransDb" where
  "transition_project uuid project_id from to idempotency_key db =
     (case transition_project_read project_id from to idempotency_key db of
        Inl e \<Rightarrow> (Inl e, db)
      | Inr None \<Rightarrow> (Inr (), db)
      | Inr (Some version) \<Rightarrow> transition_project_commit uuid project_id from to idempotency_key version db)"

definition transition_task_read ::
  "string \<Rightarrow> TaskLifecycle \<Rightarrow> TaskLifecycle \<Rightarrow> string \<Rightarrow> TransDb \<Rightarrow> (CoreError, int option) result" where
  "transition_task_read task_id from to idempotency_key db =
     (if is_duplicate idempotency_key (td_idem db) then Inr None
      else if \<not> task_can_transition from to then
        fail_with (InvalidStateTransition (task_debug from) (task_debug to)) ''illegal task transition''
      else (case entity_row task_id (td_tasks db) of
              None \<Rightarrow> fail_with PersistenceError ''task not found''
            | Some r \<Rightarrow>
                (if en_lifecycle r \<noteq> task_serde from then
                   fail_with (InvalidStateTransition (en_lifecycle r) (task_serde to))
                     ''expected different lifecycle''
                 else Inr (Some (en_version r)))))"

definition transition_task_commit ::
  "(nat \<Rightarrow> string) \<Rightarrow> string \<Rightarrow> TaskLifecycle \<Rightarrow> TaskLifecycle \<Rightarrow> string \<Rightarrow> int \<Rightarrow> TransDb \<Rightarrow>
   (CoreError, unit) result \<times> TransDb" where
  "transition_task_commit uuid task_id from to idempotency_key version db =
     (let from_s = task_serde from; to_s = task_serde to
      in case transition_tx (\<lambda>r. en_id r = task_id \<and> en_lifecycle r = from_s \<and> en_version r = version)
                to_s
                (lifecycle_event uuid task_id (version + 1) ''task_lifecycle_changed''
                  [(''from'', JStr from_s), (''to'', JStr to_s)] idempotency_key)
                idempotency_key (td_tasks db) (td_events db) (td_idem db) of
           None \<Rightarrow>
             (let (actual_lc, actual_ver) = actual_row task_id (td_tasks db)
              in if actual_lc \<noteq> from_s then
                   (fail_with (InvalidStateTransition from_s to_s)
                     (''lifecycle already changed to '' @ actual_lc @ '' by another transaction''), db)
                 else (Inl (version_conflict version actual_ver
                        (''task:'' @ task_id @ '':version_mismatch'')), db))
         | Some (Inl e) \<Rightarrow> (Inl e, db)
         | Some (Inr (rows, log, idem)) \<Rightarrow>
             (Inr (), db\<lparr>td_tasks := rows, td_events := log, td_idem := idem\<rparr>))"

definition transition_task ::
  "(nat \<Rightarrow> string) \<Rightarrow> string \<Rightarrow> TaskLifecycle \<Rightarrow> TaskLifecycle \<Rightarrow> string \<Rightarrow> TransDb \<Rightarrow>
   (CoreError, unit) result \<times> TransDb" where
  "transition_task uuid task_id from to idempotency_key db =
     (case transition_task_read task_id from to idempotency_key db of
        Inl e \<Rightarrow> (Inl e, db)
      | Inr None \<Rightarrow> (Inr (), db)
      | Inr (Some version) \<Rightarrow> transition_task_commit uuid task_id from to idempotency_key version db)"

text \<open>The execution's source lifecycle is parsed from the row; the guard of the update is the
  version alone.\<close>

definition transition_execution_read ::
  "string \<Rightarrow> ExecutionLifecycle \<Rightarrow> string \<Rightarrow> TransDb \<Rightarrow> (CoreError, (string \<times> int) option) result" where
  "transition_execution_read execution_id to idempotency_key db =
     (if is_duplicate idempotency_key (td_idem db) then Inr None
      else (case entity_row execution_id (td_executions db) of
              None \<Rightarrow> fail_with PersistenceError ''execution not found''
            | Some r \<Rightarrow>
                (let from = parse_exec_lc (en_lifecycle r)
                 in if exec_is_terminal from then
                      fail_with (EntityTerminal execution_id) ''terminal execution cannot be modified''
                    else if \<not> exec_can_transition from to then
                      fail_with (InvalidStateTransition (exec_debug from) (exec_debug to))
                        ''illegal execution transition''
                    else Inr (Some (en_lifecycle r, en_version r)))))"

definition transition_execution_commit ::
  "(nat \<Rightarrow> string) \<Rightarrow> string \<Rightarrow> ExecutionLifecycle \<Rightarrow> string option \<Rightarrow> string \<Rightarrow> string \<Rightarrow> int \<Rightarrow> TransDb \<Rightarrow>
   (CoreError, unit) result \<times> TransDb" where
  "transition_execution_commit uuid execution_id to why idempotency_key current_lc version db =
     (let to_s = exec_serde to
      in case transition_tx (\<lambda>r. en_id r = execution_id \<and> en_version r = version)
                to_s
                (lifecycle_event uuid execution_id (version + 1) ''execution_lifecycle_changed''
                  [(''from'', JStr current_lc), (''reason'', case why of None \<Rightarrow> JNull | Some s \<Rightarrow> JStr s),
                   (''to'', JStr to_s)] idempotency_key)
                idempotency_key (td_executions db) (td_events db) (td_idem db) of
           None \<Rightarrow>
             (let (actual_lc, actual_ver) = actual_row execution_id (td_executions db)
              in if actual_lc \<noteq> current_lc then
                   (fail_with (InvalidStateTransition current_lc to_s)
                     (''lifecycle already changed to '' @ actual_lc), db)
                 else (Inl (version_conflict version actual_ver
                        (''execution:'' @ execution_id @ '':version_mismatch'')), db))
         | Some (Inl e) \<Rightarrow> (Inl e, db)
         | Some (Inr (rows, log, idem)) \<Rightarrow>
             (Inr (), db\<lparr>td_executions := rows, td_events := log, td_idem := idem\<rparr>))"

definition transition_execution ::
  "(nat \<Rightarrow> string) \<Rightarrow> string \<Rightarrow> ExecutionLifecycle \<Rightarrow> string option \<Rightarrow> string \<Rightarrow> TransDb \<Rightarrow>
   (CoreError, unit) result \<times> TransDb" where
  "transition_execution uuid execution_id to why idempotency_key db =
     (case transition_execution_read execution_id to idempotency_key db of
        Inl e \<Rightarrow> (Inl e, db)
      | Inr None \<Rightarrow> (Inr (), db)
      | Inr (Some (current_lc, version)) \<Rightarrow>
          transition_execution_commit uuid execution_id to why idempotency_key current_lc version db)"

section \<open>Event streams replay to the current state\<close>

text \<open>\<open>replays ok s es t\<close>: the events lead from lifecycle \<open>s\<close> to \<open>t\<close>, each starting where the
  previous one ended and making a transition that \<open>ok\<close> admits.\<close>

fun replays :: "(string \<Rightarrow> string \<Rightarrow> bool) \<Rightarrow> string \<Rightarrow> EventLogEntry list \<Rightarrow> string \<Rightarrow> bool" where
  "replays ok s [] t \<longleftrightarrow> s = t"
| "replays ok s (e # es) t \<longleftrightarrow>
     (case (map_of (ev_payload e) ''from'', map_of (ev_payload e) ''to'') of
        (Some (JStr a), Some (JStr b)) \<Rightarrow> a = s \<and> ok a b \<and> replays ok b es t
      | _ \<Rightarrow> False)"

definition stream :: "string \<Rightarrow> EventLogEntry list \<Rightarrow> EventLogEntry list" where
  "stream i log = filter (\<lambda>e. ev_stream_id e = i) log"

definition consistent :: "(string \<Rightarrow> string \<Rightarrow> bool) \<Rightarrow> EventLogEntry list \<Rightarrow> EntityRow \<Rightarrow> bool" where
  "consistent ok log r \<longleftrightarrow>
     (let es = stream (en_id r) log
      in map ev_stream_version es = [en_version r - int (length es) + 1 .. en_version r] \<and>
         (\<exists>s. replays ok s es (en_lifecycle r)))"

definition task_ok :: "string \<Rightarrow> string \<Rightarrow> bool" where
  "task_ok a b \<longleftrightarrow> (\<exists>s t. a = task_serde s \<and> b = task_serde t \<and> task_can_transition s t)"

definition project_ok :: "string \<Rightarrow> string \<Rightarrow> bool" where
  "project_ok a b \<longleftrightarrow> (\<exists>s t. a = project_serde s \<and> b = project_serde t \<and> project_can_transition s t)"

definition exec_ok :: "string \<Rightarrow> string \<Rightarrow> bool" where
  "exec_ok a b \<longleftrightarrow> (\<exists>s t. a = exec_serde s \<and> b = exec_serde t \<and> exec_can_transition s t)"

lemma parse_exec_serde [simp]: "parse_exec_lc (exec_serde s) = s"
  by (cases s) (simp_all add: parse_exec_lc_def exec_serde_def)

lemma replays_snoc:
  "replays ok s es t \<Longrightarrow> map_of (ev_payload e) ''from'' = Some (JStr t) \<Longrightarrow>
     map_of (ev_payload e) ''to'' = Some (JStr u) \<Longrightarrow> ok t u \<Longrightarrow> replays ok s (es @ [e]) u"
  by (induction ok s es t rule: replays.induct) (auto split: option.splits json_value.splits)

lemma consistent_other:
  "ev_stream_id e \<noteq> en_id r \<Longrightarrow> consistent ok (log @ [e]) r = consistent ok log r"
  by (simp add: consistent_def stream_def)

lemma upto_snoc: "a \<le> v + 1 \<Longrightarrow> [a .. v] @ [v + 1] = [a .. v + (1::int)]"
  by (simp add: upto_rec2)

lemma consistent_own:
  assumes "consistent ok log r" and "ev_stream_id e = en_id r" and "ev_stream_version e = en_version r + 1"
    and "map_of (ev_payload e) ''from'' = Some (JStr (en_lifecycle r))"
    and "map_of (ev_payload e) ''to'' = Some (JStr t)" and "ok (en_lifecycle r) t"
  shows "consistent ok (log @ [e]) (r\<lparr>en_lifecycle := t, en_version := en_version r + 1\<rparr>)"
proof -
  let ?es = "stream (en_id r) log"
  obtain s where v: "map ev_stream_version ?es = [en_version r - int (length ?es) + 1 .. en_version r]"
    and s: "replays ok s ?es (en_lifecycle r)"
    using assms(1) by (auto simp: consistent_def Let_def)
  have es: "stream (en_id r) (log @ [e]) = ?es @ [e]" using assms(2) by (simp add: stream_def)
  have "map ev_stream_version (?es @ [e]) = [en_version r - int (length ?es) + 1 .. en_version r + 1]"
    using v assms(3) upto_snoc [of "en_version r - int (length ?es) + 1" "en_version r"] by simp
  moreover have "replays ok s (?es @ [e]) t" by (rule replays_snoc [OF s assms(4-6)])
  ultimately show ?thesis by (auto simp: consistent_def Let_def es add.commute)
qed

text \<open>The transaction keeps a table consistent with the log when its event describes the change of
  the one row it updates.\<close>

lemma transition_tx_consistent:
  assumes "distinct (map en_id rows)" and "\<forall>r \<in> set rows. consistent ok log r"
    and "transition_tx guard to_s e k rows log idem = Some (Inr (rows', log', idem'))"
    and "\<And>r. r \<in> set rows \<Longrightarrow> guard r \<Longrightarrow> en_id r = ev_stream_id e \<and> ev_stream_version e = en_version r + 1 \<and>
          map_of (ev_payload e) ''from'' = Some (JStr (en_lifecycle r)) \<and> ok (en_lifecycle r) to_s"
    and "map_of (ev_payload e) ''to'' = Some (JStr to_s)"
  shows "(\<forall>r \<in> set rows'. consistent ok log' r) \<and> map en_id rows' = map en_id rows \<and> log' = log @ [e] \<and>
    ev_stream_id e \<in> en_id ` set rows \<and>
    rows' = update_where guard (\<lambda>r. r\<lparr>en_lifecycle := to_s, en_version := en_version r + 1\<rparr>) rows"
proof -
  let ?f = "\<lambda>r. r\<lparr>en_lifecycle := to_s, en_version := en_version r + 1\<rparr>"
  have rows': "rows' = update_where guard ?f rows" and log': "log' = log @ [e]"
    and some: "rows_affected guard rows \<noteq> 0"
    using assms(3) by (auto simp: transition_tx_def and_then_Inr_iff insert_event_Inr split: if_splits)
  obtain g where g: "g \<in> set rows" "guard g" using some by (auto simp: rows_affected_0_iff)
  have "consistent ok log' r" if "r \<in> set rows'" for r
  proof -
    from that obtain q where q: "q \<in> set rows" "r = (if guard q then ?f q else q)"
      unfolding rows' by (auto simp: set_update_where)
    show ?thesis
    proof (cases "guard q")
      case True
      with q assms(2,4,5) show ?thesis unfolding log' by (auto intro!: consistent_own)
    next
      case False
      then have "q \<noteq> g" using g by auto
      then have "en_id q \<noteq> en_id g" using distinct_key_eq [OF assms(1) q(1) g(1)] by auto
      then have "ev_stream_id e \<noteq> en_id q" using assms(4) [OF g] by auto
      with q False assms(2) show ?thesis unfolding log' by (simp add: consistent_other)
    qed
  qed
  moreover have "map en_id rows' = map en_id rows" unfolding rows' by (simp add: map_update_where)
  moreover have "ev_stream_id e \<in> en_id ` set rows" using assms(4) [OF g] g(1) by (metis image_eqI)
  ultimately show ?thesis using log' rows' by blast
qed

section \<open>Concurrent transitions\<close>

datatype pending =
    PendProject string ProjectLifecycle ProjectLifecycle string int
  | PendTask string TaskLifecycle TaskLifecycle string int
  | PendExec string ExecutionLifecycle "string option" string string int

text \<open>Calls in flight have done their reads and not yet their transaction; a call may commit at
  any later moment.\<close>

inductive trans_step :: "TransDb \<times> pending set \<Rightarrow> TransDb \<times> pending set \<Rightarrow> bool" where
  read_project: "transition_project_read i from to k db = Inr (Some v) \<Longrightarrow>
     trans_step (db, P) (db, insert (PendProject i from to k v) P)"
| read_task: "transition_task_read i from to k db = Inr (Some v) \<Longrightarrow>
     trans_step (db, P) (db, insert (PendTask i from to k v) P)"
| read_exec: "transition_execution_read i to k db = Inr (Some (lc, v)) \<Longrightarrow>
     trans_step (db, P) (db, insert (PendExec i to why k lc v) P)"
| commit_project: "PendProject i from to k v \<in> P \<Longrightarrow>
     trans_step (db, P) (snd (transition_project_commit uuid i from to k v db), P - {PendProject i from to k v})"
| commit_task: "PendTask i from to k v \<in> P \<Longrightarrow>
     trans_step (db, P) (snd (transition_task_commit uuid i from to k v db), P - {PendTask i from to k v})"
| commit_exec: "PendExec i to why k lc v \<in> P \<Longrightarrow>
     trans_step (db, P) (snd (transition_execution_commit uuid i to why k lc v db), P - {PendExec i to why k lc v})"

definition db_consistent :: "TransDb \<Rightarrow> bool" where
  "db_consistent db \<longleftrightarrow>
     distinct (map en_id (td_projects db @ td_tasks db @ td_executions db)) \<and>
     (\<forall>r \<in> set (td_projects db). consistent project_ok (td_events db) r) \<and>
     (\<forall>r \<in> set (td_tasks db). consistent task_ok (td_events db) r) \<and>
     (\<forall>r \<in> set (td_executions db). consistent exec_ok (td_events db) r \<and> (\<exists>s. en_lifecycle r = exec_serde s))"

text \<open>What a call in flight knows: the machine admits its transition, and for executions the row
  is as it was read unless its version has moved on.\<close>

fun pending_ok :: "TransDb \<Rightarrow> pending \<Rightarrow> bool" where
  "pending_ok db (PendProject i from to k v) = project_can_transition from to"
| "pending_ok db (PendTask i from to k v) = task_can_transition from to"
| "pending_ok db (PendExec i to why k lc v) =
     ((\<exists>s. lc = exec_serde s \<and> exec_can_transition s to) \<and>
      (\<forall>r \<in> set (td_executions db). en_id r = i \<longrightarrow>
         v \<le> en_version r \<and> (en_version r = v \<longrightarrow> en_lifecycle r = lc)))"

lemma snd_project_commit:
  "snd (transition_project_commit uuid i from to k v db) =
     (case transition_tx (\<lambda>r. en_id r = i \<and> en_lifecycle r = project_serde from \<and> en_version r = v) (project_serde to)
        (lifecycle_event uuid i (v + 1) ''project_lifecycle_changed''
          [(''from'', JStr (project_serde from)), (''to'', JStr (project_serde to))] k)
        k (td_projects db) (td_events db) (td_idem db) of
      Some (Inr (rows, log, idem)) \<Rightarrow> db\<lparr>td_projects := rows, td_events := log, td_idem := idem\<rparr> | _ \<Rightarrow> db)"
  by (auto simp: transition_project_commit_def Let_def split: option.splits sum.splits prod.splits)

lemma snd_task_commit:
  "snd (transition_task_commit uuid i from to k v db) =
     (case transition_tx (\<lambda>r. en_id r = i \<and> en_lifecycle r = task_serde from \<and> en_version r = v) (task_serde to)
        (lifecycle_event uuid i (v + 1) ''task_lifecycle_changed''
          [(''from'', JStr (task_serde from)), (''to'', JStr (task_serde to))] k)
        k (td_tasks db) (td_events db) (td_idem db) of
      Some (Inr (rows, log, idem)) \<Rightarrow> db\<lparr>td_tasks := rows, td_events := log, td_idem := idem\<rparr> | _ \<Rightarrow> db)"
  by (auto simp: transition_task_commit_def Let_def split: option.splits sum.splits prod.splits)

lemma snd_execution_commit:
  "snd (transition_execution_commit uuid i to why k lc v db) =
     (case transition_tx (\<lambda>r. en_id r = i \<and> en_version r = v) (exec_serde to)
        (lifecycle_event uuid i (v + 1) ''execution_lifecycle_changed''
          [(''from'', JStr lc), (''reason'', case why of None \<Rightarrow> JNull | Some s \<Rightarrow> JStr s), (''to'', JStr (exec_serde to))] k)
        k (td_executions db) (td_events db) (td_idem db) of
      Some (Inr (rows, log, idem)) \<Rightarrow> db\<lparr>td_executions := rows, td_events := log, td_idem := idem\<rparr> | _ \<Rightarrow> db)"
  by (auto simp: transition_execution_commit_def Let_def split: option.splits sum.splits prod.splits)

lemma consistent_append_notin:
  "\<forall>r \<in> set rows. consistent ok log r \<Longrightarrow> ev_stream_id e \<notin> en_id ` set rows \<Longrightarrow>
     \<forall>r \<in> set rows. consistent ok (log @ [e]) r"
  by (metis consistent_other image_eqI)

lemma lifecycle_event_sel [simp]:
  "ev_stream_id (lifecycle_event uuid i v ty p k) = i"
  "ev_stream_version (lifecycle_event uuid i v ty p k) = v"
  "ev_payload (lifecycle_event uuid i v ty p k) = p"
  by (simp_all add: lifecycle_event_def)

lemma project_commit_consistent:
  assumes "db_consistent db" and "project_can_transition from to"
  shows "db_consistent (snd (transition_project_commit uuid i from to k v db)) \<and>
    td_executions (snd (transition_project_commit uuid i from to k v db)) = td_executions db"
proof -
  let ?e = "lifecycle_event uuid i (v + 1) ''project_lifecycle_changed''
          [(''from'', JStr (project_serde from)), (''to'', JStr (project_serde to))] k"
  let ?tx = "transition_tx (\<lambda>r. en_id r = i \<and> en_lifecycle r = project_serde from \<and> en_version r = v)
     (project_serde to) ?e k (td_projects db) (td_events db) (td_idem db)"
  have ok: "project_ok (project_serde from) (project_serde to)"
    using assms(2) by (auto simp: project_ok_def)
  have "db_consistent (db\<lparr>td_projects := rows, td_events := log, td_idem := idem\<rparr>)"
    if tx: "?tx = Some (Inr (rows, log, idem))" for rows log idem
  proof -
    have dist: "distinct (map en_id (td_projects db))" and cons: "\<forall>r \<in> set (td_projects db). consistent project_ok (td_events db) r"
      using assms(1) by (simp_all add: db_consistent_def)
    have r: "(\<forall>r \<in> set rows. consistent project_ok log r) \<and> map en_id rows = map en_id (td_projects db) \<and>
      log = td_events db @ [?e] \<and> i \<in> en_id ` set (td_projects db)"
      using transition_tx_consistent [OF dist cons tx] ok by fastforce
    have "i \<notin> en_id ` set (td_tasks db)" "i \<notin> en_id ` set (td_executions db)"
      using assms(1) r by (auto simp: db_consistent_def)
    then show ?thesis
      using assms(1) r consistent_append_notin [of "td_tasks db" task_ok "td_events db" ?e]
        consistent_append_notin [of "td_executions db" exec_ok "td_events db" ?e]
      unfolding db_consistent_def by (auto simp flip: set_map)
  qed
  then show ?thesis
    using assms(1) unfolding snd_project_commit by (auto split: option.split sum.split)
qed

lemma task_commit_consistent:
  assumes "db_consistent db" and "task_can_transition from to"
  shows "db_consistent (snd (transition_task_commit uuid i from to k v db)) \<and>
    td_executions (snd (transition_task_commit uuid i from to k v db)) = td_executions db"
proof -
  let ?e = "lifecycle_event uuid i (v + 1) ''task_lifecycle_changed''
          [(''from'', JStr (task_serde from)), (''to'', JStr (task_serde to))] k"
  let ?tx = "transition_tx (\<lambda>r. en_id r = i \<and> en_lifecycle r = task_serde from \<and> en_version r = v)
     (task_serde to) ?e k (td_tasks db) (td_events db) (td_idem db)"
  have ok: "task_ok (task_serde from) (task_serde to)"
    using assms(2) by (auto simp: task_ok_def)
  have "db_consistent (db\<lparr>td_tasks := rows, td_events := log, td_idem := idem\<rparr>)"
    if tx: "?tx = Some (Inr (rows, log, idem))" for rows log idem
  proof -
    have dist: "distinct (map en_id (td_tasks db))" and cons: "\<forall>r \<in> set (td_tasks db). consistent task_ok (td_events db) r"
      using assms(1) by (simp_all add: db_consistent_def)
    have r: "(\<forall>r \<in> set rows. consistent task_ok log r) \<and> map en_id rows = map en_id (td_tasks db) \<and>
      log = td_events db @ [?e] \<and> i \<in> en_id ` set (td_tasks db)"
      using transition_tx_consistent [OF dist cons tx] ok by fastforce
    have "i \<notin> en_id ` set (td_projects db)" "i \<notin> en_id ` set (td_executions db)"
      using assms(1) r by (auto simp: db_consistent_def)
    then show ?thesis
      using assms(1) r consistent_append_notin [of "td_projects db" project_ok "td_events db" ?e]
        consistent_append_notin [of "td_executions db" exec_ok "td_events db" ?e]
      unfolding db_consistent_def by (auto simp flip: set_map)
  qed
  then show ?thesis
    using assms(1) unfolding snd_task_commit by (auto split: option.split sum.split)
qed

lemma execution_commit_consistent:
  assumes "db_consistent db" and "pending_ok db (PendExec i to why k lc v)"
    and db': "db' = snd (transition_execution_commit uuid i to why k lc v db)"
  shows "db_consistent db' \<and> (\<forall>p. pending_ok db p \<longrightarrow> pending_ok db' p)"
proof -
  let ?e = "lifecycle_event uuid i (v + 1) ''execution_lifecycle_changed''
     [(''from'', JStr lc), (''reason'', case why of None \<Rightarrow> JNull | Some s \<Rightarrow> JStr s), (''to'', JStr (exec_serde to))] k"
  let ?g = "\<lambda>r. en_id r = i \<and> en_version r = v"
  let ?f = "\<lambda>r. r\<lparr>en_lifecycle := exec_serde to, en_version := en_version r + 1\<rparr>"
  let ?tx = "transition_tx ?g (exec_serde to) ?e k (td_executions db) (td_events db) (td_idem db)"
  have ok: "exec_ok lc (exec_serde to)" using assms(2) by (auto simp: exec_ok_def)
  have "db_consistent d \<and> (\<forall>p. pending_ok db p \<longrightarrow> pending_ok d p)"
    if tx: "?tx = Some (Inr (rows, log, idem))" and d: "d = db\<lparr>td_executions := rows, td_events := log, td_idem := idem\<rparr>"
    for rows log idem d
  proof
    have dist: "distinct (map en_id (td_executions db))"
      and cons: "\<forall>r \<in> set (td_executions db). consistent exec_ok (td_events db) r"
      using assms(1) by (auto simp: db_consistent_def)
    have lc: "en_lifecycle r = lc" if "r \<in> set (td_executions db)" "?g r" for r
      using assms(2) that by auto
    have r: "(\<forall>r \<in> set rows. consistent exec_ok log r) \<and> map en_id rows = map en_id (td_executions db) \<and>
      log = td_events db @ [?e] \<and> i \<in> en_id ` set (td_executions db) \<and>
      rows = update_where ?g ?f (td_executions db)"
      using transition_tx_consistent [OF dist cons tx] ok lc by fastforce
    have names: "\<exists>s. en_lifecycle r = exec_serde s" if "r \<in> set rows" for r
      using that r assms(1) by (auto simp: set_update_where db_consistent_def)
    have "i \<notin> en_id ` set (td_projects db)" "i \<notin> en_id ` set (td_tasks db)"
      using assms(1) r by (auto simp: db_consistent_def)
    then show "db_consistent d"
      using assms(1) r names consistent_append_notin [of "td_projects db" project_ok "td_events db" ?e]
        consistent_append_notin [of "td_tasks db" task_ok "td_events db" ?e]
      unfolding db_consistent_def d by (auto simp flip: set_map)
    show "\<forall>p. pending_ok db p \<longrightarrow> pending_ok d p"
    proof (intro allI impI)
      fix p assume "pending_ok db p"
      then show "pending_ok d p"
        using r d by (cases p) (fastforce simp: set_update_where split: if_splits)+
    qed
  qed
  then show ?thesis
    using assms(1) unfolding db' snd_execution_commit by (auto split: option.split sum.split)
qed

lemma pending_ok_frame: "td_executions db' = td_executions db \<Longrightarrow> pending_ok db' p = pending_ok db p"
  by (cases p) simp_all

lemma trans_step_inv:
  assumes "trans_step (db, P) (db', P')" and "db_consistent db" and "\<forall>p \<in> P. pending_ok db p"
  shows "db_consistent db' \<and> (\<forall>p \<in> P'. pending_ok db' p)"
  using assms(1)
proof cases
  case (read_project i src to k v)
  then show ?thesis
    using assms(2,3) by (auto simp: transition_project_read_def split: if_splits option.splits)
next
  case (read_task i src to k v)
  then show ?thesis
    using assms(2,3) by (auto simp: transition_task_read_def split: if_splits option.splits)
next
  case (read_exec i to k lc v why)
  then obtain r where r: "entity_row i (td_executions db) = Some r" "lc = en_lifecycle r" "v = en_version r"
    and can: "exec_can_transition (parse_exec_lc lc) to"
    by (auto simp: transition_execution_read_def Let_def split: if_splits option.splits)
  have mem: "r \<in> set (td_executions db)" "en_id r = i" using select_one_Some [OF r(1)] by auto
  obtain s where s: "lc = exec_serde s" using assms(2) mem r(2) by (auto simp: db_consistent_def)
  have "q = r" if "q \<in> set (td_executions db)" "en_id q = i" for q
    using that mem assms(2) distinct_key_eq [of en_id "td_executions db" q r] by (simp add: db_consistent_def)
  moreover have "exec_can_transition s to" using can s by simp
  ultimately have "pending_ok db (PendExec i to why k lc v)" using r(2,3) s by (simp, metis)
  then show ?thesis using read_exec assms(2,3) by auto
next
  case (commit_project i src to k v uuid)
  then have "project_can_transition src to" using assms(3) by fastforce
  with commit_project assms(2,3) project_commit_consistent [OF assms(2), of src to uuid i k v]
  show ?thesis using pending_ok_frame by blast
next
  case (commit_task i src to k v uuid)
  then have "task_can_transition src to" using assms(3) by fastforce
  with commit_task assms(2,3) task_commit_consistent [OF assms(2), of src to uuid i k v]
  show ?thesis using pending_ok_frame by blast
next
  case (commit_exec i to why k lc v uuid)
  then have "pending_ok db (PendExec i to why k lc v)" using assms(3) by blast
  with commit_exec assms(2,3) execution_commit_consistent [OF assms(2) this, of _ uuid]
  show ?thesis by blast
qed

lemma trans_reach_inv:
  assumes "trans_step\<^sup>*\<^sup>* (db, {}) (db', P')" and "db_consistent db"
  shows "db_consistent db' \<and> (\<forall>p \<in> P'. pending_ok db' p)"
  using assms
proof (induction "(db', P')" arbitrary: db' P' rule: rtranclp_induct)
  case base
  then show ?case by simp
next
  case (step y)
  then show ?case using trans_step_inv by (metis prod.collapse)
qed

text \<open>
  C4. Event sourcing under concurrency: from a database whose streams match its rows, any
  interleaving of project, task and execution transitions, each reading first and committing
  later, leaves every stream contiguous in its versions, made of legal transitions that chain, and
  ending in the row's current lifecycle and version.
\<close>

theorem transitions_replay:
  assumes "trans_step\<^sup>*\<^sup>* (db, {}) (db', P')" and "db_consistent db"
  shows "db_consistent db'"
  using trans_reach_inv [OF assms] by blast

definition sample_trans_db :: TransDb where
  "sample_trans_db = \<lparr>td_projects = [], td_tasks = [\<lparr>en_id = ''t'', en_lifecycle = ''pending'', en_version = 1\<rparr>],
     td_executions = [], td_events = [], td_idem = []\<rparr>"

definition sample_uuid :: "nat \<Rightarrow> string" where
  "sample_uuid n = ''u'' @ show_nat n"

theorem transitions_replay_witness:
  "let db' = snd (transition_task sample_uuid ''t'' Task_Pending Task_Ready ''key'' sample_trans_db)
   in td_tasks db' = [\<lparr>en_id = ''t'', en_lifecycle = ''ready'', en_version = 2\<rparr>] \<and> db_consistent db'"
proof -
  let ?db = sample_trans_db
  let ?c = "snd (transition_task_commit sample_uuid ''t'' Task_Pending Task_Ready ''key'' 1 ?db)"
  have read: "transition_task_read ''t'' Task_Pending Task_Ready ''key'' ?db = Inr (Some 1)" by code_simp
  have c: "snd (transition_task sample_uuid ''t'' Task_Pending Task_Ready ''key'' ?db) = ?c"
    by (simp add: transition_task_def read)
  let ?p = "PendTask ''t'' Task_Pending Task_Ready ''key'' 1"
  have "trans_step (?db, {}) (?db, {?p})" by (rule trans_step.read_task [OF read])
  moreover have "trans_step (?db, {?p}) (?c, {?p} - {?p})" by (rule trans_step.commit_task) simp
  ultimately have "trans_step\<^sup>*\<^sup>* (?db, {}) (?c, {?p} - {?p})"
    by (meson converse_rtranclp_into_rtranclp r_into_rtranclp)
  moreover have "db_consistent ?db"
    by (simp add: db_consistent_def sample_trans_db_def consistent_def stream_def)
  ultimately have "db_consistent ?c" by (rule transitions_replay)
  moreover have "td_tasks ?c = [\<lparr>en_id = ''t'', en_lifecycle = ''ready'', en_version = 2\<rparr>]" by code_simp
  ultimately show ?thesis by (simp add: Let_def c)
qed

section \<open>One call\<close>

lemma is_duplicate_record:
  "idem_row k idem = None \<Longrightarrow> is_duplicate k (record_in_tx k result idem)"
  by (simp add: is_duplicate_def select_one_None record_in_tx_def completed_row_def)

text \<open>
  A task transition is atomic and idempotent: an error leaves the database untouched;
  success means the machine admits the step, the task was in the expected lifecycle, it is now in
  the target lifecycle with its version one higher and one event more is in the log, and repeating
  the call with the same key succeeds without changing anything.
\<close>

theorem transition_task_effect:
  assumes "transition_task uuid i from to k db = (res, db')" and "idem_row k (td_idem db) = None"
  shows "(\<forall>e. res = Inl e \<longrightarrow> db' = db) \<and>
    (res = Inr () \<longrightarrow> task_can_transition from to \<and>
      (\<exists>r. entity_row i (td_tasks db) = Some r \<and> en_lifecycle r = task_serde from \<and>
         entity_row i (td_tasks db') =
           Some (r\<lparr>en_lifecycle := task_serde to, en_version := en_version r + 1\<rparr>)) \<and>
      (\<exists>e. td_events db' = td_events db @ [e] \<and> ev_stream_id e = i) \<and>
      (\<forall>uuid'. transition_task uuid' i from to k db' = (Inr (), db')))"
proof -
  have nodup: "\<not> is_duplicate k (td_idem db)"
    using assms(2) by (auto simp: is_duplicate_def select_one_None)
  show ?thesis
  proof (cases "transition_task_read i from to k db")
    case (Inl e)
    with assms(1) show ?thesis by (auto simp: transition_task_def)
  next
    case (Inr ov)
    with nodup obtain r where can: "task_can_transition from to"
      and r: "entity_row i (td_tasks db) = Some r" "en_lifecycle r = task_serde from"
      and ov: "ov = Some (en_version r)"
      by (auto simp: transition_task_read_def split: if_splits option.splits)
    have id: "en_id r = i" using select_one_Some [OF r(1)] by simp
    let ?g = "\<lambda>q. en_id q = i \<and> en_lifecycle q = task_serde from \<and> en_version q = en_version r"
    let ?f = "\<lambda>r. r\<lparr>en_lifecycle := task_serde to, en_version := en_version r + 1\<rparr>"
    let ?e = "lifecycle_event uuid i (en_version r + 1) ''task_lifecycle_changed''
          [(''from'', JStr (task_serde from)), (''to'', JStr (task_serde to))] k"
    have upd: "entity_row i (update_where ?g ?f (td_tasks db)) = Some (?f r)"
      using r id by (subst select_one_update) auto
    have some: "rows_affected ?g (td_tasks db) \<noteq> 0"
      using select_one_Some [OF r(1)] r(2) by (auto simp: rows_affected_0_iff)
    have run: "(res, db') = transition_task_commit uuid i from to k (en_version r) db"
      using assms(1) Inr ov by (simp add: transition_task_def)
    show ?thesis
    proof (cases "insert_event ?e (td_events db)")
      case (Inl e)
      with run some show ?thesis by (auto simp: transition_task_commit_def transition_tx_def Let_def)
    next
      case (Inr log)
      with run some have "res = Inr ()" and db': "db' = db\<lparr>td_tasks := update_where ?g ?f (td_tasks db),
          td_events := td_events db @ [?e], td_idem := record_in_tx k ''ok'' (td_idem db)\<rparr>"
        by (simp_all add: transition_task_commit_def transition_tx_def Let_def insert_event_Inr)
      moreover have "transition_task uuid' i from to k db' = (Inr (), db')" for uuid'
        using is_duplicate_record [OF assms(2), of "''ok''"]
        by (simp add: transition_task_def transition_task_read_def db')
      ultimately show ?thesis using can r upd by simp
    qed
  qed
qed

theorem transition_task_effect_witness:
  "let (res, db') = transition_task sample_uuid ''t'' Task_Pending Task_Ready ''key'' sample_trans_db
   in res = Inr () \<and> transition_task sample_uuid ''t'' Task_Pending Task_Ready ''key'' db' = (Inr (), db')"
proof -
  let ?run = "transition_task sample_uuid ''t'' Task_Pending Task_Ready ''key'' sample_trans_db"
  obtain res db' where run: "?run = (res, db')" by fastforce
  have "fst ?run = Inr ()" by code_simp
  with run have "res = Inr ()" by simp
  moreover have "idem_row ''key'' (td_idem sample_trans_db) = None"
    by (simp add: sample_trans_db_def select_one_def)
  ultimately have "transition_task sample_uuid ''t'' Task_Pending Task_Ready ''key'' db' = (Inr (), db')"
    using transition_task_effect [OF run] by blast
  with run \<open>res = Inr ()\<close> show ?thesis by simp
qed

end
