(* ===== verification/Lease.thy ===== *)
theory Lease
  imports Transition "HOL-Library.Word"
begin

text \<open>
  Workspace leases with fencing tokens, \<open>harness-runtime/src/lease\<close>: \<open>service.rs\<close>, \<open>transition.rs\<close>
  and \<open>access_validator.rs\<close>. \<open>acquire_lease\<close> checks its preconditions outside the transaction
  (\<open>acquire_precheck\<close>) and then, in one transaction, bumps the worktree's epoch, expires the active
  leases of the same worktree, task and execution, and inserts the new lease (\<open>acquire_commit\<close>).
  The clock is in milliseconds, stored times are the seconds of their SQL text. File system, sidecar
  and git observations are the record \<open>WorktreeWorld\<close>.
\<close>

section \<open>Records\<close>

record WorktreeRow =
  wt_id :: string
  wt_path :: string
  wt_status :: string
  wt_owner_supervisor_id :: string
  wt_repository_identity :: string
  wt_branch_name :: string
  wt_lease_epoch :: int
  wt_version :: int

record LeaseRow =
  lr_id :: string
  lr_worktree_id :: "string option"
  lr_project_id :: string
  lr_task_id :: string
  lr_owner_execution_id :: "string option"
  lr_owner_supervisor_id :: string
  lr_lease_token :: "string option"
  lr_fencing_token :: "int option"
  lr_lifecycle :: string
  lr_acquired_at :: int
  lr_heartbeat_at :: "int option"
  lr_expires_at :: int
  lr_released_at :: "int option"
  lr_release_reason :: "string option"
  lr_version :: int

record LeaseRecord =
  lc_lease_id :: string
  lc_worktree_id :: "string option"
  lc_project_id :: string
  lc_task_id :: string
  lc_owner_execution_id :: "string option"
  lc_owner_supervisor_id :: string
  lc_lease_token :: string
  lc_fencing_token :: int
  lc_lifecycle :: string
  lc_acquired_at :: int
  lc_heartbeat_at :: "int option"
  lc_expires_at :: int
  lc_released_at :: "int option"
  lc_release_reason :: "string option"
  lc_version :: int

record LeaseSpec =
  ls_worktree_id :: string
  ls_project_id :: string
  ls_task_id :: string
  ls_owner_execution_id :: string
  ls_owner_supervisor_id :: string
  ls_lease_duration_secs :: nat
  ls_idempotency_key :: string

text \<open>Durations of the configuration, in milliseconds.\<close>

record LeaseConfig =
  lcf_lease_duration :: int
  lcf_heartbeat_interval :: int
  lcf_renewal_margin :: int

definition lease_config_default :: LeaseConfig where
  "lease_config_default = \<lparr>lcf_lease_duration = 300000, lcf_heartbeat_interval = 60000,
     lcf_renewal_margin = 120000\<rparr>"

definition heartbeat_deadline :: "LeaseConfig \<Rightarrow> int" where
  "heartbeat_deadline c = max 0 (lcf_lease_duration c - 5000)"

datatype LeaseAcquireOutcome =
    LeaseAcquired LeaseRecord
  | LeaseAlreadyAcquired LeaseRecord
  | LeaseContested string
  | LeasePreconditionFailed string

datatype LeaseHeartbeatOutcome =
    HeartbeatOk | HeartbeatAtRisk int | HeartbeatTokenMismatch | HeartbeatFencingMismatch
  | HeartbeatExpired | HeartbeatNotActive

datatype LeaseReleaseOutcome =
    LeaseReleased | LeaseAlreadyReleased | ReleaseTokenMismatch | ReleaseNotActive

record Sidecar =
  sc_worktree_id :: string
  sc_repository_identity :: string
  sc_branch :: string
  sc_worktree_path :: string

record GitVerification =
  gv_listed :: bool
  gv_admin_intact :: bool
  gv_ambiguous :: bool
  gv_common_dir_matches :: bool
  gv_branch_matches :: bool

record WorktreeWorld =
  ww_path_exists :: "string \<Rightarrow> bool"
  ww_sidecar_path :: "string \<Rightarrow> string"
  ww_read_sidecar :: "string \<Rightarrow> (CoreError, Sidecar option) result"
  ww_canonicalize_for_git :: "string \<Rightarrow> string option"
  ww_git_verifier :: "(string \<Rightarrow> string \<Rightarrow> string \<Rightarrow> (CoreError, GitVerification) result) option"

record LeaseDb =
  ld_worktrees :: "WorktreeRow list"
  ld_leases :: "LeaseRow list"
  ld_executions :: "EntityRow list"
  ld_idem :: "IdemRow list"
  ld_events :: "EventLogEntry list"

section \<open>Queries\<close>

abbreviation ls_err :: "string \<Rightarrow> (CoreError, 'a) result" where
  "ls_err msg \<equiv> fail_with WorkspaceError msg"

definition into_record :: "LeaseRow \<Rightarrow> LeaseRecord" where
  "into_record r =
     \<lparr>lc_lease_id = lr_id r, lc_worktree_id = lr_worktree_id r, lc_project_id = lr_project_id r,
      lc_task_id = lr_task_id r, lc_owner_execution_id = lr_owner_execution_id r,
      lc_owner_supervisor_id = lr_owner_supervisor_id r,
      lc_lease_token = (case lr_lease_token r of None \<Rightarrow> '''' | Some t \<Rightarrow> t),
      lc_fencing_token = (case lr_fencing_token r of None \<Rightarrow> 0 | Some f \<Rightarrow> f),
      lc_lifecycle = lr_lifecycle r, lc_acquired_at = lr_acquired_at r,
      lc_heartbeat_at = lr_heartbeat_at r, lc_expires_at = lr_expires_at r,
      lc_released_at = lr_released_at r, lc_release_reason = lr_release_reason r,
      lc_version = lr_version r\<rparr>"

definition load_optional_record :: "string \<Rightarrow> LeaseDb \<Rightarrow> LeaseRecord option" where
  "load_optional_record lease_id db =
     map_option into_record (select_one (\<lambda>r. lr_id r = lease_id) (ld_leases db))"

definition load_record :: "string \<Rightarrow> LeaseDb \<Rightarrow> (CoreError, LeaseRecord) result" where
  "load_record lease_id db =
     (case load_optional_record lease_id db of
        None \<Rightarrow> ls_err (''lease not found: '' @ lease_id) | Some r \<Rightarrow> Inr r)"

definition get_worktree_row :: "string \<Rightarrow> LeaseDb \<Rightarrow> (CoreError, WorktreeRow) result" where
  "get_worktree_row worktree_id db =
     (case select_one (\<lambda>w. wt_id w = worktree_id) (ld_worktrees db) of
        None \<Rightarrow> ls_err (''worktree not found: '' @ worktree_id) | Some w \<Rightarrow> Inr w)"

definition get_active_by :: "(LeaseRow \<Rightarrow> bool) \<Rightarrow> LeaseDb \<Rightarrow> LeaseRecord option" where
  "get_active_by P db =
     map_option into_record (select_one (\<lambda>r. P r \<and> lr_lifecycle r = ''active'') (ld_leases db))"

definition get_active_for_worktree :: "string \<Rightarrow> LeaseDb \<Rightarrow> LeaseRecord option" where
  "get_active_for_worktree worktree_id db = get_active_by (\<lambda>r. lr_worktree_id r = Some worktree_id) db"

definition get_active_for_task :: "string \<Rightarrow> LeaseDb \<Rightarrow> LeaseRecord option" where
  "get_active_for_task task_id db = get_active_by (\<lambda>r. lr_task_id r = task_id) db"

definition get_active_for_execution :: "string \<Rightarrow> LeaseDb \<Rightarrow> LeaseRecord option" where
  "get_active_for_execution execution_id db = get_active_by (\<lambda>r. lr_owner_execution_id r = Some execution_id) db"

definition list_expiring_before :: "int \<Rightarrow> LeaseDb \<Rightarrow> LeaseRecord list" where
  "list_expiring_before timestamp db =
     map into_record (filter (\<lambda>r. lr_lifecycle r = ''active'' \<and> lr_expires_at r < timestamp) (ld_leases db))"

definition is_execution_terminal :: "string \<Rightarrow> bool" where
  "is_execution_terminal lc \<longleftrightarrow> lc \<in> {''completed'', ''failed'', ''lost'', ''cancelled''}"

definition expire_passed :: "int \<Rightarrow> int \<Rightarrow> bool" where
  "expire_passed expires_at now \<longleftrightarrow> expires_at * 1000 < now"

section \<open>Preconditions\<close>

definition verify_git ::
  "WorktreeWorld \<Rightarrow> WorktreeRow \<Rightarrow> (CoreError, unit) result" where
  "verify_git world row =
     (case ww_git_verifier world of
        None \<Rightarrow> Inr ()
      | Some verify \<Rightarrow>
          and_then (verify (wt_path row) (wt_repository_identity row) (wt_branch_name row)) (\<lambda>gv.
            if \<not> gv_listed gv then
              ls_err (''worktree not listed in git worktree list: '' @ wt_path row)
            else if \<not> gv_admin_intact gv \<or> gv_ambiguous gv then
              ls_err ''git administrative metadata missing or ambiguous''
            else if \<not> gv_common_dir_matches gv then
              ls_err ''git common-dir does not match record''
            else if \<not> gv_branch_matches gv then
              ls_err ''actual branch does not match record''
            else Inr ()))"

definition verify_worktree_ready ::
  "WorktreeWorld \<Rightarrow> string \<Rightarrow> LeaseDb \<Rightarrow> (CoreError, unit) result" where
  "verify_worktree_ready world worktree_id db =
     and_then (get_worktree_row worktree_id db) (\<lambda>row.
       let path = wt_path row; sidecar_path = ww_sidecar_path world path in
       if wt_status row = ''removing'' \<or> wt_status row = ''removed'' then
         ls_err (''worktree '' @ worktree_id @ '' is '' @ wt_status row)
       else if \<not> ww_path_exists world path then
         ls_err (''worktree path does not exist: '' @ path)
       else if \<not> ww_path_exists world sidecar_path then
         ls_err (''worktree ownership sidecar missing: '' @ sidecar_path)
       else and_then (ww_read_sidecar world path) (\<lambda>found.
         and_then (ok_or (core_error_new WorkspaceError ''worktree sidecar unreadable or corrupt'' SrcSystem) found) (\<lambda>meta.
         if sc_worktree_id meta \<noteq> worktree_id then
           ls_err (''sidecar worktree_id mismatch: expected '' @ worktree_id @ '', got '' @ sc_worktree_id meta)
         else if sc_repository_identity meta \<noteq> wt_repository_identity row then
           ls_err ''sidecar repository identity mismatch''
         else if sc_branch meta \<noteq> wt_branch_name row then
           ls_err (''sidecar branch mismatch: expected '' @ wt_branch_name row @ '', got '' @ sc_branch meta)
         else let canonical_path = (case ww_canonicalize_for_git world path of None \<Rightarrow> path | Some p \<Rightarrow> p)
              in if sc_worktree_path meta \<noteq> path \<and> sc_worktree_path meta \<noteq> canonical_path then
                   ls_err (''sidecar path mismatch: record has '' @ path @ '', sidecar has '' @
                     sc_worktree_path meta)
                 else verify_git world row)))"

definition verify_execution_nonterminal :: "string \<Rightarrow> LeaseDb \<Rightarrow> (CoreError, unit) result" where
  "verify_execution_nonterminal execution_id db =
     (case entity_row execution_id (ld_executions db) of
        None \<Rightarrow> ls_err (''execution not found: '' @ execution_id)
      | Some r \<Rightarrow>
          (if is_execution_terminal (en_lifecycle r) then
             ls_err (''execution '' @ execution_id @ '' is in terminal state: '' @ en_lifecycle r)
           else Inr ()))"

definition verify_no_active_lease :: "string \<Rightarrow> string \<Rightarrow> string \<Rightarrow> LeaseDb \<Rightarrow> (CoreError, unit) result" where
  "verify_no_active_lease worktree_id task_id execution_id db =
     (if length (filter (\<lambda>r. lr_lifecycle r = ''active'' \<and>
           (lr_worktree_id r = Some worktree_id \<or> lr_task_id r = task_id \<or>
            lr_owner_execution_id r = Some execution_id)) (ld_leases db)) > 0
      then ls_err (''active lease already exists for worktree/task/execution: '' @ worktree_id @ ''/'' @ task_id)
      else Inr ())"

text \<open>\<open>Inr (Some out)\<close> is an early return, \<open>Inr None\<close> goes on to the transaction.\<close>

definition acquire_precheck ::
  "WorktreeWorld \<Rightarrow> LeaseSpec \<Rightarrow> LeaseDb \<Rightarrow> (CoreError, LeaseAcquireOutcome option) result" where
  "acquire_precheck world spec db =
     (case idem_row (ls_idempotency_key spec) (ld_idem db) of
        Some row \<Rightarrow>
          (case ir_result_json row of
             None \<Rightarrow> Inr (Some (LeasePreconditionFailed ''idempotency record has no lease id''))
           | Some lid \<Rightarrow> and_then (load_record lid db) (\<lambda>record. Inr (Some (LeaseAlreadyAcquired record))))
      | None \<Rightarrow>
          and_then (get_worktree_row (ls_worktree_id spec) db) (\<lambda>_.
          and_then (verify_worktree_ready world (ls_worktree_id spec) db) (\<lambda>_.
          and_then (verify_execution_nonterminal (ls_owner_execution_id spec) db) (\<lambda>_.
          and_then (verify_no_active_lease (ls_worktree_id spec) (ls_task_id spec)
                      (ls_owner_execution_id spec) db) (\<lambda>_. Inr None)))))"

section \<open>Acquisition\<close>

text \<open>The partial unique indexes: a lease that is neither released nor expired is alone with its
  worktree, task, execution and token.\<close>

definition lease_open :: "LeaseRow \<Rightarrow> bool" where
  "lease_open r \<longleftrightarrow> lr_lifecycle r \<notin> {''released'', ''expired''}"

definition lease_clashes :: "LeaseRow \<Rightarrow> LeaseRow \<Rightarrow> bool" where
  "lease_clashes a b \<longleftrightarrow>
     lr_id a = lr_id b \<or>
     (lease_open a \<and> lease_open b \<and>
      ((lr_worktree_id a = lr_worktree_id b \<and> lr_worktree_id a \<noteq> None) \<or> lr_task_id a = lr_task_id b \<or>
       (lr_owner_execution_id a = lr_owner_execution_id b \<and> lr_owner_execution_id a \<noteq> None) \<or>
       (lr_lease_token a = lr_lease_token b \<and> lr_lease_token a \<noteq> None)))"

definition expire_active_for :: "(LeaseRow \<Rightarrow> bool) \<Rightarrow> int \<Rightarrow> LeaseRow list \<Rightarrow> LeaseRow list" where
  "expire_active_for column_matches now rows =
     update_where (\<lambda>r. column_matches r \<and> lr_lifecycle r = ''active'')
       (\<lambda>r. r\<lparr>lr_lifecycle := ''expired'', lr_expires_at := now, lr_version := lr_version r + 1\<rparr>) rows"

definition lease_duration_u32 :: "LeaseSpec \<Rightarrow> 32 word" where
  "lease_duration_u32 spec = word_of_int (int (max (ls_lease_duration_secs spec) 1))"

definition acquired_lease :: "string \<Rightarrow> string \<Rightarrow> int \<Rightarrow> LeaseSpec \<Rightarrow> int \<Rightarrow> LeaseRow" where
  "acquired_lease lease_id lease_token now_ms spec fencing_token =
     \<lparr>lr_id = lease_id, lr_worktree_id = Some (ls_worktree_id spec), lr_project_id = ls_project_id spec,
      lr_task_id = ls_task_id spec, lr_owner_execution_id = Some (ls_owner_execution_id spec),
      lr_owner_supervisor_id = ls_owner_supervisor_id spec, lr_lease_token = Some lease_token,
      lr_fencing_token = Some fencing_token, lr_lifecycle = ''active'',
      lr_acquired_at = now_ms div 1000, lr_heartbeat_at = Some (now_ms div 1000),
      lr_expires_at = (now_ms + uint (lease_duration_u32 spec) * 1000) div 1000,
      lr_released_at = None, lr_release_reason = None, lr_version = 1\<rparr>"

definition pending_idem :: "string \<Rightarrow> string \<Rightarrow> IdemRow" where
  "pending_idem key result =
     \<lparr>ir_key = key, ir_request_hash = ''active'', ir_status = ''pending'', ir_owner_token = None,
      ir_lease_expires_at = None, ir_attempt_count = 1, ir_result_json = Some result,
      ir_error_json = None, ir_version = 1, ir_fencing_token = 1\<rparr>"

definition expire_rivals :: "LeaseSpec \<Rightarrow> int \<Rightarrow> LeaseRow list \<Rightarrow> LeaseRow list" where
  "expire_rivals spec now rows =
     expire_active_for (\<lambda>r. lr_owner_execution_id r = Some (ls_owner_execution_id spec)) now
       (expire_active_for (\<lambda>r. lr_task_id r = ls_task_id spec) now
         (expire_active_for (\<lambda>r. lr_worktree_id r = Some (ls_worktree_id spec)) now rows))"

definition acquire_commit ::
  "string \<Rightarrow> string \<Rightarrow> int \<Rightarrow> LeaseSpec \<Rightarrow> LeaseDb \<Rightarrow> (CoreError, unit) result \<times> LeaseDb" where
  "acquire_commit lease_id lease_token now_ms spec db =
     (let epoch_before = (case select_one (\<lambda>w. wt_id w = ls_worktree_id spec) (ld_worktrees db) of
            None \<Rightarrow> 0 | Some w \<Rightarrow> wt_lease_epoch w);
          new_epoch = epoch_before + 1;
          worktrees = update_where (\<lambda>w. wt_id w = ls_worktree_id spec)
            (\<lambda>w. w\<lparr>wt_lease_epoch := new_epoch, wt_version := wt_version w + 1\<rparr>) (ld_worktrees db);
          leases = expire_rivals spec (now_ms div 1000) (ld_leases db);
          lease = acquired_lease lease_id lease_token now_ms spec new_epoch
      in if list_ex (lease_clashes lease) leases then
           (Inl (db_err ''UNIQUE constraint failed: workspace_leases''), db)
         else if idem_row (ls_idempotency_key spec) (ld_idem db) \<noteq> None then
           (Inl (db_err ''UNIQUE constraint failed: idempotency_records.key''), db)
         else (Inr (), db\<lparr>ld_worktrees := worktrees, ld_leases := leases @ [lease],
                          ld_idem := ld_idem db @ [pending_idem (ls_idempotency_key spec) lease_id]\<rparr>))"

definition write_lease_event ::
  "(nat \<Rightarrow> string) \<Rightarrow> string \<Rightarrow> string \<Rightarrow> string \<Rightarrow> string \<Rightarrow> LeaseDb \<Rightarrow> (CoreError, unit) result \<times> LeaseDb" where
  "write_lease_event uuid lease_id from to ikey db =
     (if is_duplicate ikey (ld_idem db) then (Inr (), db)
      else case insert_event (lifecycle_event uuid lease_id 1 ''workspace_lease_lifecycle_changed''
                  [(''from'', JStr from), (''to'', JStr to)] ikey) (ld_events db) of
             Inl e \<Rightarrow> (Inl e, db)
           | Inr log \<Rightarrow> (Inr (), db\<lparr>ld_events := log, ld_idem := record_in_tx ikey ''ok'' (ld_idem db)\<rparr>))"

text \<open>UUIDs in the order they are drawn: lease id, lease token, then those of the event.\<close>

definition acquire_lease ::
  "WorktreeWorld \<Rightarrow> (nat \<Rightarrow> string) \<Rightarrow> int \<Rightarrow> LeaseSpec \<Rightarrow> LeaseDb \<Rightarrow>
   (CoreError, LeaseAcquireOutcome) result \<times> LeaseDb" where
  "acquire_lease world uuid now_ms spec db =
     (let lease_id = ''lease-'' @ uuid 0; lease_token = uuid 1
      in case acquire_precheck world spec db of
           Inl e \<Rightarrow> (Inl e, db)
         | Inr (Some out) \<Rightarrow> (Inr out, db)
         | Inr None \<Rightarrow>
             (case acquire_commit lease_id lease_token now_ms spec db of
                (Inl e, db') \<Rightarrow> (Inl e, db')
              | (Inr _, db') \<Rightarrow>
                  (case write_lease_event (\<lambda>n. uuid (n + 2)) lease_id ''acquired'' ''active''
                          (lease_id @ ''-acquire'') db' of
                     (Inl e, db'') \<Rightarrow> (Inl e, db'')
                   | (Inr _, db'') \<Rightarrow>
                       (and_then (load_record lease_id db'') (\<lambda>record. Inr (LeaseAcquired record)), db''))))"

section \<open>Transitions\<close>

definition lease_serde :: "LeaseLifecycle \<Rightarrow> string" where
  "lease_serde s = (case s of Lease_Acquired \<Rightarrow> ''acquired'' | Lease_Active \<Rightarrow> ''active''
     | Lease_Released \<Rightarrow> ''released'' | Lease_Expired \<Rightarrow> ''expired'')"

definition lease_debug :: "LeaseLifecycle \<Rightarrow> string" where
  "lease_debug s = (case s of Lease_Acquired \<Rightarrow> ''Acquired'' | Lease_Active \<Rightarrow> ''Active''
     | Lease_Released \<Rightarrow> ''Released'' | Lease_Expired \<Rightarrow> ''Expired'')"

text \<open>What the reads of \<open>transition_lease\<close> decide: duplicate key, only the event is missing, or the
  guarded update from the version read.\<close>

datatype LeasePlan = PlanDuplicate | PlanNote int | PlanUpdate int

definition transition_lease_read ::
  "string \<Rightarrow> LeaseLifecycle \<Rightarrow> LeaseLifecycle \<Rightarrow> string \<Rightarrow> LeaseDb \<Rightarrow> (CoreError, LeasePlan) result" where
  "transition_lease_read lease_id from to idempotency_key db =
     (if is_duplicate idempotency_key (ld_idem db) then Inr PlanDuplicate
      else if lease_is_terminal from then
        ls_err (''terminal lease cannot transition: '' @ lease_id @ '' '' @ lease_debug from @ '' -> '' @ lease_debug to)
      else if \<not> lease_can_transition from to then
        ls_err (''illegal lease transition: '' @ lease_id @ '' '' @ lease_debug from @ '' -> '' @ lease_debug to)
      else (case select_one (\<lambda>r. lr_id r = lease_id) (ld_leases db) of
              None \<Rightarrow> ls_err (''lease not found: '' @ lease_id)
            | Some r \<Rightarrow>
                (if lr_lifecycle r = lease_serde to then Inr (PlanNote (lr_version r))
                 else if lr_lifecycle r \<noteq> lease_serde from then
                   ls_err (''lease lifecycle mismatch: expected '' @ lease_serde from @ '', got '' @ lr_lifecycle r)
                 else Inr (PlanUpdate (lr_version r)))))"

definition log_lease_change ::
  "(nat \<Rightarrow> string) \<Rightarrow> string \<Rightarrow> LeaseLifecycle \<Rightarrow> LeaseLifecycle \<Rightarrow> string \<Rightarrow> bool \<Rightarrow> int \<Rightarrow> LeaseDb \<Rightarrow>
   (CoreError, LeaseDb) result" where
  "log_lease_change uuid lease_id from to idempotency_key write_event version db =
     and_then (if write_event then insert_event (lifecycle_event uuid lease_id (version + 1)
                 ''workspace_lease_lifecycle_changed''
                 [(''from'', JStr (lease_serde from)), (''to'', JStr (lease_serde to))] idempotency_key)
                 (ld_events db)
               else Inr (ld_events db))
       (\<lambda>log. Inr (db\<lparr>ld_events := log, ld_idem := record_in_tx idempotency_key ''ok'' (ld_idem db)\<rparr>))"

definition transition_lease_exec ::
  "(nat \<Rightarrow> string) \<Rightarrow> string \<Rightarrow> LeaseLifecycle \<Rightarrow> LeaseLifecycle \<Rightarrow> string \<Rightarrow> bool \<Rightarrow> LeasePlan \<Rightarrow> LeaseDb \<Rightarrow>
   (CoreError, unit) result \<times> LeaseDb" where
  "transition_lease_exec uuid lease_id from to idempotency_key write_event plan db =
     (case plan of
        PlanDuplicate \<Rightarrow> (Inr (), db)
      | PlanNote version \<Rightarrow>
          (case log_lease_change uuid lease_id from to idempotency_key write_event version db of
             Inl e \<Rightarrow> (Inl e, db) | Inr db' \<Rightarrow> (Inr (), db'))
      | PlanUpdate version \<Rightarrow>
          (let P = (\<lambda>r. lr_id r = lease_id \<and> lr_lifecycle r = lease_serde from \<and> lr_version r = version)
           in if rows_affected P (ld_leases db) = 0 then
                (ls_err (''lease transition optimistic conflict: '' @ lease_id @ '' version='' @ show_int version), db)
              else (case log_lease_change uuid lease_id from to idempotency_key write_event version
                      (db\<lparr>ld_leases := update_where P
                         (\<lambda>r. r\<lparr>lr_lifecycle := lease_serde to, lr_version := lr_version r + 1\<rparr>) (ld_leases db)\<rparr>) of
                      Inl e \<Rightarrow> (Inl e, db) | Inr db' \<Rightarrow> (Inr (), db'))))"

definition transition_lease ::
  "(nat \<Rightarrow> string) \<Rightarrow> string \<Rightarrow> LeaseLifecycle \<Rightarrow> LeaseLifecycle \<Rightarrow> string \<Rightarrow> bool \<Rightarrow> LeaseDb \<Rightarrow>
   (CoreError, unit) result \<times> LeaseDb" where
  "transition_lease uuid lease_id from to idempotency_key write_event db =
     (case transition_lease_read lease_id from to idempotency_key db of
        Inl e \<Rightarrow> (Inl e, db)
      | Inr plan \<Rightarrow> transition_lease_exec uuid lease_id from to idempotency_key write_event plan db)"

section \<open>Heartbeat, renewal, validation, release and expiry\<close>

definition touch_guard :: "string \<Rightarrow> string \<Rightarrow> int \<Rightarrow> LeaseRow \<Rightarrow> bool" where
  "touch_guard lease_id lease_token version r \<longleftrightarrow>
     lr_id r = lease_id \<and> lr_lifecycle r = ''active'' \<and> lr_lease_token r = Some lease_token \<and>
     lr_version r = version"

definition touch_lease :: "string \<Rightarrow> string \<Rightarrow> int \<Rightarrow> int \<Rightarrow> int \<Rightarrow> LeaseDb \<Rightarrow> LeaseDb" where
  "touch_lease lease_id lease_token version now expires db =
     db\<lparr>ld_leases := update_where (touch_guard lease_id lease_token version)
        (\<lambda>r. r\<lparr>lr_heartbeat_at := Some now, lr_expires_at := expires, lr_version := lr_version r + 1\<rparr>)
        (ld_leases db)\<rparr>"

definition heartbeat ::
  "LeaseConfig \<Rightarrow> (nat \<Rightarrow> string) \<Rightarrow> int \<Rightarrow> string \<Rightarrow> string \<Rightarrow> int \<Rightarrow> LeaseDb \<Rightarrow>
   (CoreError, LeaseHeartbeatOutcome) result \<times> LeaseDb" where
  "heartbeat config uuid now lease_id lease_token fencing_token db =
     (case load_optional_record lease_id db of
        None \<Rightarrow> (Inr HeartbeatNotActive, db)
      | Some rec \<Rightarrow>
          if lc_lifecycle rec \<noteq> ''active'' then (Inr HeartbeatNotActive, db)
          else if lc_lease_token rec \<noteq> lease_token then (Inr HeartbeatTokenMismatch, db)
          else if lc_fencing_token rec \<noteq> fencing_token then (Inr HeartbeatFencingMismatch, db)
          else if expire_passed (lc_expires_at rec) now then
            (Inr HeartbeatExpired, snd (transition_lease uuid lease_id Lease_Active Lease_Expired
               (lease_id @ ''-expire'') True db))
          else
            (let extension = lcf_lease_duration config;
                 expires = (now + extension) div 1000
             in if rows_affected (touch_guard lease_id lease_token (lc_version rec)) (ld_leases db) = 0 then
                  ((case load_optional_record lease_id db of
                      Some f \<Rightarrow>
                        (if lc_lifecycle f = ''active'' \<and> lc_lease_token f \<noteq> lease_token
                         then Inr HeartbeatTokenMismatch
                         else if lc_lifecycle f = ''expired'' then Inr HeartbeatExpired
                         else Inr HeartbeatNotActive)
                    | None \<Rightarrow> Inr HeartbeatNotActive), db)
                else (let db' = touch_lease lease_id lease_token (lc_version rec) (now div 1000) expires db
                      in if now + extension \<le> now + lcf_renewal_margin config
                         then (Inr (HeartbeatAtRisk expires), db') else (Inr HeartbeatOk, db'))))"

definition renew_lease ::
  "int \<Rightarrow> string \<Rightarrow> string \<Rightarrow> int \<Rightarrow> LeaseDb \<Rightarrow> (CoreError, LeaseHeartbeatOutcome) result \<times> LeaseDb" where
  "renew_lease now lease_id lease_token extension db =
     (case load_optional_record lease_id db of
        None \<Rightarrow> (Inr HeartbeatNotActive, db)
      | Some rec \<Rightarrow>
          if lc_lifecycle rec \<noteq> ''active'' then (Inr HeartbeatNotActive, db)
          else if lc_lease_token rec \<noteq> lease_token then (Inr HeartbeatTokenMismatch, db)
          else (let expires = (now + extension) div 1000
                in if rows_affected (touch_guard lease_id lease_token (lc_version rec)) (ld_leases db) = 0 then
                     ((case load_optional_record lease_id db of
                         Some f \<Rightarrow> (if lc_lifecycle f = ''active'' \<and> lc_lease_token f \<noteq> lease_token
                                   then Inr HeartbeatTokenMismatch else Inr HeartbeatNotActive)
                       | None \<Rightarrow> Inr HeartbeatNotActive), db)
                   else (Inr HeartbeatOk,
                         touch_lease lease_id lease_token (lc_version rec) (now div 1000) expires db)))"

definition validate_lease :: "string \<Rightarrow> string \<Rightarrow> int \<Rightarrow> LeaseDb \<Rightarrow> (CoreError, unit) result" where
  "validate_lease lease_id lease_token fencing_token db =
     (case load_optional_record lease_id db of
        None \<Rightarrow> ls_err (''lease not found: '' @ lease_id)
      | Some rec \<Rightarrow>
          if lc_lifecycle rec \<noteq> ''active'' then ls_err (''lease not active: '' @ lease_id)
          else if lc_lease_token rec \<noteq> lease_token then ls_err (''lease token mismatch for '' @ lease_id)
          else if lc_fencing_token rec \<noteq> fencing_token then
            ls_err (''lease fencing token mismatch for '' @ lease_id @ '': expected '' @ show_int fencing_token @
              '', current '' @ show_int (lc_fencing_token rec))
          else (case lc_worktree_id rec of
                  None \<Rightarrow> Inr ()
                | Some wt \<Rightarrow> and_then (get_worktree_row wt db) (\<lambda>wrow.
                    if wt_owner_supervisor_id wrow \<noteq> lc_owner_supervisor_id rec then
                      ls_err (''worktree ownership changed for '' @ wt)
                    else Inr ())))"

definition release_lease ::
  "(nat \<Rightarrow> string) \<Rightarrow> string \<Rightarrow> string \<Rightarrow> LeaseDb \<Rightarrow> (CoreError, LeaseReleaseOutcome) result \<times> LeaseDb" where
  "release_lease uuid lease_id lease_token db =
     (case load_optional_record lease_id db of
        None \<Rightarrow> (Inr ReleaseNotActive, db)
      | Some rec \<Rightarrow>
          if lc_lifecycle rec = ''released'' then (Inr LeaseAlreadyReleased, db)
          else if lc_lifecycle rec \<noteq> ''active'' then (Inr ReleaseNotActive, db)
          else if lc_lease_token rec \<noteq> lease_token then (Inr ReleaseTokenMismatch, db)
          else (case transition_lease uuid lease_id Lease_Active Lease_Released (lease_id @ ''-release'') True db of
                  (Inr _, db') \<Rightarrow> (Inr LeaseReleased, db')
                | (Inl e, db') \<Rightarrow>
                    ((case load_optional_record lease_id db' of
                        Some f \<Rightarrow> (if lc_lifecycle f = ''released'' then Inr LeaseAlreadyReleased
                                  else Inr ReleaseTokenMismatch)
                      | None \<Rightarrow> Inr ReleaseTokenMismatch), db')))"

fun expire_leases :: "(nat \<Rightarrow> string) \<Rightarrow> nat \<Rightarrow> string list \<Rightarrow> LeaseDb \<Rightarrow> string list \<times> LeaseDb" where
  "expire_leases uuid n [] db = ([], db)"
| "expire_leases uuid n (i # ids) db =
     (let (r, db') = transition_lease (\<lambda>k. uuid (n + k)) i Lease_Active Lease_Expired (i @ ''-expire'') True db;
          (expired, db'') = expire_leases uuid (n + 2) ids db'
      in (if is_ok r then i # expired else expired, db''))"

definition expire_due_leases :: "(nat \<Rightarrow> string) \<Rightarrow> int \<Rightarrow> LeaseDb \<Rightarrow> string list \<times> LeaseDb" where
  "expire_due_leases uuid now_ms db =
     expire_leases uuid 0 (map lr_id (filter (\<lambda>r. lr_lifecycle r = ''active'' \<and>
       lr_expires_at r < now_ms div 1000) (ld_leases db))) db"

section \<open>Access validation for worktree removal\<close>

record LeaseCredential =
  lcr_lease_id :: string
  lcr_lease_token :: string
  lcr_fencing_token :: int

datatype LeaseAccessResult =
  Allowed | BlockedByActiveLease string string | StaleFencingToken | Unauthorized

definition can_remove_worktree :: "string \<Rightarrow> LeaseCredential option \<Rightarrow> LeaseDb \<Rightarrow> LeaseAccessResult" where
  "can_remove_worktree worktree_id credential db =
     (case get_active_for_worktree worktree_id db of
        None \<Rightarrow> Allowed
      | Some lease \<Rightarrow>
          (case credential of
             Some cred \<Rightarrow>
               (if lcr_lease_id cred = lc_lease_id lease \<and> lcr_fencing_token cred = lc_fencing_token lease \<and>
                   is_ok (validate_lease (lcr_lease_id cred) (lcr_lease_token cred) (lcr_fencing_token cred) db)
                then Allowed else StaleFencingToken)
           | None \<Rightarrow> BlockedByActiveLease (lc_lease_id lease) (lc_owner_supervisor_id lease)))"

definition validate_force_credential :: "string \<Rightarrow> LeaseCredential \<Rightarrow> LeaseDb \<Rightarrow> bool" where
  "validate_force_credential worktree_id credential db =
     (case load_optional_record (lcr_lease_id credential) db of
        None \<Rightarrow> False
      | Some lease \<Rightarrow>
          lc_worktree_id lease = Some worktree_id \<and>
          is_ok (validate_lease (lcr_lease_id credential) (lcr_lease_token credential)
                   (lcr_fencing_token credential) db))"

section \<open>Concurrent callers\<close>

text \<open>The transactions and single statements that write the tables, in any order: whatever callers
  have read before, and whether or not their preconditions still hold. Other components may rewrite
  worktree rows but not their identity or epoch, and executions at will.\<close>

definition worktree_frame :: "(WorktreeRow \<Rightarrow> WorktreeRow) \<Rightarrow> bool" where
  "worktree_frame f \<longleftrightarrow> (\<forall>w. wt_id (f w) = wt_id w \<and> wt_lease_epoch (f w) = wt_lease_epoch w)"

inductive lease_step :: "LeaseDb \<Rightarrow> LeaseDb \<Rightarrow> bool" where
  acquire: "ls_worktree_id spec \<in> wt_id ` set (ld_worktrees db) \<Longrightarrow>
     lease_step db (snd (acquire_commit lease_id token now spec db))"
| acquire_event: "lease_step db (snd (write_lease_event uuid lease_id from to k db))"
| transit: "lease_can_transition from to \<Longrightarrow>
     lease_step db (snd (transition_lease_exec uuid lease_id from to k we plan db))"
| touch: "lease_step db (touch_lease lease_id token version now expires db)"
| worktree: "worktree_frame f \<Longrightarrow> lease_step db (db\<lparr>ld_worktrees := map f (ld_worktrees db)\<rparr>)"
| execution: "lease_step db (db\<lparr>ld_executions := ex\<rparr>)"

definition is_active :: "LeaseRow \<Rightarrow> bool" where
  "is_active r \<longleftrightarrow> lr_lifecycle r = ''active''"

definition rivals :: "LeaseRow \<Rightarrow> LeaseRow \<Rightarrow> bool" where
  "rivals a b \<longleftrightarrow>
     (lr_worktree_id a = lr_worktree_id b \<and> lr_worktree_id a \<noteq> None) \<or> lr_task_id a = lr_task_id b \<or>
     (lr_owner_execution_id a = lr_owner_execution_id b \<and> lr_owner_execution_id a \<noteq> None)"

definition token_current :: "WorktreeRow list \<Rightarrow> LeaseRow \<Rightarrow> bool" where
  "token_current worktrees r \<longleftrightarrow>
     (\<exists>w \<in> set worktrees. \<exists>f. lr_worktree_id r = Some (wt_id w) \<and> lr_fencing_token r = Some f \<and>
        f \<le> wt_lease_epoch w \<and> (is_active r \<longrightarrow> f = wt_lease_epoch w))"

definition lease_inv :: "LeaseDb \<Rightarrow> bool" where
  "lease_inv db \<longleftrightarrow>
     distinct (map wt_id (ld_worktrees db)) \<and> distinct (map lr_id (ld_leases db)) \<and>
     (\<forall>r \<in> set (ld_leases db). lr_lifecycle r \<in> {''active'', ''released'', ''expired''} \<and>
        token_current (ld_worktrees db) r) \<and>
     (\<forall>a \<in> set (ld_leases db). \<forall>b \<in> set (ld_leases db).
        is_active a \<and> is_active b \<and> rivals a b \<longrightarrow> lr_id a = lr_id b)"

text \<open>A row update that keeps the identifying columns and never activates.\<close>

definition row_frame :: "LeaseRow \<Rightarrow> LeaseRow \<Rightarrow> bool" where
  "row_frame r r' \<longleftrightarrow> lr_id r' = lr_id r \<and> lr_worktree_id r' = lr_worktree_id r \<and>
     lr_task_id r' = lr_task_id r \<and> lr_owner_execution_id r' = lr_owner_execution_id r \<and>
     lr_fencing_token r' = lr_fencing_token r \<and> (is_active r' \<longrightarrow> is_active r) \<and>
     lr_lifecycle r' \<in> {''active'', ''released'', ''expired''}"

lemma rivals_frame: "row_frame a a' \<Longrightarrow> row_frame b b' \<Longrightarrow> rivals a' b' = rivals a b"
  by (simp add: row_frame_def rivals_def)

lemma token_current_frame: "token_current ws r \<Longrightarrow> row_frame r r' \<Longrightarrow> token_current ws r'"
  by (auto simp: token_current_def row_frame_def)

lemma lease_inv_map:
  assumes "lease_inv db" and "\<And>r. r \<in> set (ld_leases db) \<Longrightarrow> row_frame r (g r)"
  shows "lease_inv (db\<lparr>ld_leases := map g (ld_leases db)\<rparr>)"
proof -
  have ids: "map lr_id (map g (ld_leases db)) = map lr_id (ld_leases db)"
    using assms(2) by (simp add: row_frame_def)
  have dist: "distinct (map lr_id (map g (ld_leases db)))"
    unfolding ids using assms(1) by (simp add: lease_inv_def)
  have rows: "lr_lifecycle (g r) \<in> {''active'', ''released'', ''expired''} \<and> token_current (ld_worktrees db) (g r)"
    if "r \<in> set (ld_leases db)" for r
    using that assms token_current_frame [of _ r "g r"] by (auto simp: lease_inv_def row_frame_def)
  have "lr_id (g a) = lr_id (g b)"
    if "a \<in> set (ld_leases db)" "b \<in> set (ld_leases db)" "is_active (g a)" "is_active (g b)" "rivals (g a) (g b)" for a b
  proof -
    have "row_frame a (g a)" "row_frame b (g b)" using assms(2) that by auto
    then have "is_active a" "is_active b" "rivals a b" "lr_id (g a) = lr_id a" "lr_id (g b) = lr_id b"
      using that(3-5) rivals_frame by (auto simp: row_frame_def)
    with that(1,2) assms(1) show ?thesis by (auto simp: lease_inv_def)
  qed
  then show ?thesis using assms(1) dist rows unfolding lease_inv_def by auto
qed

lemma lease_inv_update:
  assumes "lease_inv db" and "\<And>r. r \<in> set (ld_leases db) \<Longrightarrow> P r \<Longrightarrow> row_frame r (f r)"
  shows "lease_inv (db\<lparr>ld_leases := update_where P f (ld_leases db)\<rparr>)"
  unfolding update_where_def using assms
  by (intro lease_inv_map) (auto simp: row_frame_def lease_inv_def)

lemma lease_inv_logs: "lease_inv (db\<lparr>ld_events := ev, ld_idem := im\<rparr>) = lease_inv db"
  by (simp add: lease_inv_def)

subsection \<open>Acquisition keeps the invariant\<close>

definition expired_row :: "int \<Rightarrow> LeaseRow \<Rightarrow> LeaseRow" where
  "expired_row now r = r\<lparr>lr_lifecycle := ''expired'', lr_expires_at := now, lr_version := lr_version r + 1\<rparr>"

definition rival_of_spec :: "LeaseSpec \<Rightarrow> LeaseRow \<Rightarrow> bool" where
  "rival_of_spec spec r \<longleftrightarrow> lr_worktree_id r = Some (ls_worktree_id spec) \<or> lr_task_id r = ls_task_id spec \<or>
     lr_owner_execution_id r = Some (ls_owner_execution_id spec)"

lemma expired_row_sel [simp]:
  "\<not> is_active (expired_row now r)" "lr_worktree_id (expired_row now r) = lr_worktree_id r"
  "lr_task_id (expired_row now r) = lr_task_id r"
  "lr_owner_execution_id (expired_row now r) = lr_owner_execution_id r"
  by (simp_all add: expired_row_def is_active_def)

lemma expire_active_for_map:
  "expire_active_for Q now rows = map (\<lambda>r. if is_active r \<and> Q r then expired_row now r else r) rows"
  unfolding expire_active_for_def update_where_def is_active_def expired_row_def
  by (rule map_cong) auto

lemma expire_rivals_map:
  "expire_rivals spec now rows =
     map (\<lambda>r. if is_active r \<and> rival_of_spec spec r then expired_row now r else r) rows"
  unfolding expire_rivals_def expire_active_for_map map_map
  by (rule map_cong) (auto simp: rival_of_spec_def)

lemma expired_row_frame: "row_frame r (expired_row now r)"
  by (simp add: row_frame_def expired_row_def is_active_def)

lemma acquired_lease_sel [simp]:
  "lr_id (acquired_lease i t n s f) = i" "lr_worktree_id (acquired_lease i t n s f) = Some (ls_worktree_id s)"
  "lr_task_id (acquired_lease i t n s f) = ls_task_id s"
  "lr_owner_execution_id (acquired_lease i t n s f) = Some (ls_owner_execution_id s)"
  "lr_fencing_token (acquired_lease i t n s f) = Some f" "lr_lifecycle (acquired_lease i t n s f) = ''active''"
  "lr_lease_token (acquired_lease i t n s f) = Some t"
  by (simp_all add: acquired_lease_def)

lemma rivals_acquired:
  "rivals (acquired_lease i t n s f) r \<longleftrightarrow> rival_of_spec s r" "rivals r (acquired_lease i t n s f) \<longleftrightarrow> rival_of_spec s r"
  by (auto simp: rivals_def rival_of_spec_def)

text \<open>
  A commit raises the epoch of its worktree: the tokens of leases that are not active there stay current, and a
  lease that carries the new epoch is current.
\<close>

lemma token_current_bump:
  fixes ws :: "WorktreeRow list" and k :: string
  defines "f \<equiv> \<lambda>e w. w\<lparr>wt_lease_epoch := e, wt_version := wt_version w + 1\<rparr>"
  assumes dist: "distinct (map wt_id ws)" and w: "w \<in> set ws" "wt_id w = k" and cur: "token_current ws r"
    and idle: "lr_worktree_id r = Some k \<Longrightarrow> \<not> is_active r"
  shows "token_current (update_where (\<lambda>w. wt_id w = k) (f (wt_lease_epoch w + 1)) ws) r"
proof -
  let ?ws = "update_where (\<lambda>w. wt_id w = k) (f (wt_lease_epoch w + 1)) ws"
  obtain u t where u: "u \<in> set ws" "lr_worktree_id r = Some (wt_id u)" "lr_fencing_token r = Some t"
      "t \<le> wt_lease_epoch u" "is_active r \<longrightarrow> t = wt_lease_epoch u"
    using cur unfolding token_current_def by blast
  show ?thesis
  proof (cases "wt_id u = k")
    case True
    then have "u = w" using distinct_key_eq [OF dist u(1) w(1)] w(2) by simp
    moreover have "f (wt_lease_epoch w + 1) u \<in> set ?ws" using u(1) True by (auto simp: set_update_where)
    ultimately show ?thesis using u True idle
      by (auto simp: token_current_def f_def intro!: bexI [of _ "f (wt_lease_epoch w + 1) u"])
  next
    case False
    then have "u \<in> set ?ws" using u(1) by (force simp: set_update_where)
    then show ?thesis using u by (auto simp: token_current_def)
  qed
qed

lemma token_current_acquired:
  assumes "w \<in> set ws" "wt_id w = ls_worktree_id spec"
  shows "token_current (update_where (\<lambda>w. wt_id w = ls_worktree_id spec)
    (\<lambda>u. u\<lparr>wt_lease_epoch := e, wt_version := wt_version u + 1\<rparr>) ws) (acquired_lease i t now spec e)"
proof -
  let ?f = "\<lambda>u. u\<lparr>wt_lease_epoch := e, wt_version := wt_version u + 1\<rparr>"
  have "?f w \<in> set (update_where (\<lambda>w. wt_id w = ls_worktree_id spec) ?f ws)"
    using assms by (auto simp: set_update_where)
  then show ?thesis using assms(2) by (auto simp: token_current_def intro!: bexI [of _ "?f w"])
qed

text \<open>Inserting the lease keeps the invariant once its rivals are expired.\<close>

lemma lease_inv_insert:
  assumes old: "lease_inv (db\<lparr>ld_leases := ls\<rparr>)" and fresh: "\<not> list_ex (lease_clashes (acquired_lease i t now spec e)) ls"
    and norival: "\<And>r. r \<in> set ls \<Longrightarrow> \<not> (is_active r \<and> rival_of_spec spec r)"
    and ids: "map wt_id ws = map wt_id (ld_worktrees db)"
    and cur: "\<And>r. r \<in> set (ls @ [acquired_lease i t now spec e]) \<Longrightarrow> token_current ws r"
  shows "lease_inv (db\<lparr>ld_worktrees := ws, ld_leases := ls @ [acquired_lease i t now spec e], ld_idem := im\<rparr>)"
proof -
  let ?new = "acquired_lease i t now spec e"
  have "i \<notin> lr_id ` set ls" using fresh by (auto simp: list_ex_iff lease_clashes_def)
  moreover have "\<not> is_active r \<or> (\<not> rivals ?new r \<and> \<not> rivals r ?new)" if "r \<in> set ls" for r
    using norival [OF that] by (simp add: rivals_acquired)
  then have "\<forall>a \<in> set (ls @ [?new]). \<forall>b \<in> set (ls @ [?new]). is_active a \<and> is_active b \<and> rivals a b \<longrightarrow> lr_id a = lr_id b"
    using old by (auto simp: lease_inv_def)
  moreover have "\<forall>r \<in> set ls. lr_lifecycle r \<in> {''active'', ''released'', ''expired''}"
    and "distinct (map lr_id ls)" "distinct (map wt_id (ld_worktrees db))"
    using old by (simp_all add: lease_inv_def)
  ultimately show ?thesis using cur ids unfolding lease_inv_def by simp
qed

lemma acquire_commit_inv:
  assumes inv: "lease_inv db" and wt: "ls_worktree_id spec \<in> wt_id ` set (ld_worktrees db)"
  shows "lease_inv (snd (acquire_commit i t now spec db))"
proof -
  let ?w = "ls_worktree_id spec"
  obtain w where w: "w \<in> set (ld_worktrees db)" "wt_id w = ?w" using wt by auto
  have dist: "distinct (map wt_id (ld_worktrees db))" using inv by (simp add: lease_inv_def)
  have sel: "select_one (\<lambda>w. wt_id w = ?w) (ld_worktrees db) = Some w"
    by (rule select_one_key [OF dist w])
  let ?e = "wt_lease_epoch w + 1"
  let ?ws = "update_where (\<lambda>w. wt_id w = ?w) (\<lambda>u. u\<lparr>wt_lease_epoch := ?e, wt_version := wt_version u + 1\<rparr>) (ld_worktrees db)"
  define ls where "ls = map (\<lambda>r. if is_active r \<and> rival_of_spec spec r then expired_row (now div 1000) r else r) (ld_leases db)"
  have old: "lease_inv (db\<lparr>ld_leases := ls\<rparr>)"
    unfolding ls_def using inv expired_row_frame
    by (intro lease_inv_map) (auto simp: row_frame_def lease_inv_def)
  have norival: "\<not> (is_active r \<and> rival_of_spec spec r)" if "r \<in> set ls" for r
    using that by (auto simp: ls_def)
  have "token_current ?ws r" if "r \<in> set ls" for r
    using old that norival [OF that] w dist by (intro token_current_bump) (auto simp: lease_inv_def rival_of_spec_def)
  then have cur: "token_current ?ws r" if "r \<in> set (ls @ [acquired_lease i t now spec ?e])" for r
    using that token_current_acquired [OF w] by auto
  have "lease_inv (db\<lparr>ld_worktrees := ?ws, ld_leases := ls @ [acquired_lease i t now spec ?e], ld_idem := im\<rparr>)"
    if "\<not> list_ex (lease_clashes (acquired_lease i t now spec ?e)) ls" for im
    by (rule lease_inv_insert [OF old that norival _ cur]) (simp_all add: map_update_where)
  then show ?thesis
    using inv unfolding acquire_commit_def sel expire_rivals_map ls_def [symmetric] by (simp add: Let_def)
qed

subsection \<open>The other steps\<close>

lemma log_lease_change_Inr:
  "log_lease_change uuid i from to k we v db = Inr db' \<Longrightarrow>
     \<exists>ev im. db' = db\<lparr>ld_events := ev, ld_idem := im\<rparr>"
  by (auto simp: log_lease_change_def and_then_Inr_iff)

lemma transition_row_frame:
  assumes "lease_can_transition from to" and "lr_lifecycle r = lease_serde from"
    and "lr_lifecycle r \<in> {''active'', ''released'', ''expired''}"
  shows "row_frame r (r\<lparr>lr_lifecycle := lease_serde to, lr_version := lr_version r + 1\<rparr>)"
  using assms
  by (cases "from"; cases to)
     (auto simp: lease_can_transition_def lease_is_terminal_def lease_serde_def row_frame_def is_active_def)

lemma db_logs_same: "\<exists>ev im. db = db\<lparr>ld_events := ev, ld_idem := im\<rparr>"
  by (rule exI [of _ "ld_events db"], rule exI [of _ "ld_idem db"]) simp

text \<open>The leases after a transition: unchanged, or the guarded update.\<close>

lemma transition_lease_exec_cases:
  obtains (same) ev im where
    "snd (transition_lease_exec uuid i from to k we plan db) = db\<lparr>ld_events := ev, ld_idem := im\<rparr>"
  | (update) v ev im where "snd (transition_lease_exec uuid i from to k we plan db) =
      db\<lparr>ld_leases := update_where (\<lambda>r. lr_id r = i \<and> lr_lifecycle r = lease_serde from \<and> lr_version r = v)
         (\<lambda>r. r\<lparr>lr_lifecycle := lease_serde to, lr_version := lr_version r + 1\<rparr>) (ld_leases db)\<rparr>
        \<lparr>ld_events := ev, ld_idem := im\<rparr>"
proof (cases plan)
  case PlanDuplicate
  then show ?thesis using same db_logs_same [of db] by (auto simp: transition_lease_exec_def)
next
  case (PlanNote v)
  show ?thesis
  proof (cases "log_lease_change uuid i from to k we v db")
    case (Inl e)
    with PlanNote same db_logs_same [of db] show ?thesis by (auto simp: transition_lease_exec_def)
  next
    case (Inr db')
    with PlanNote same log_lease_change_Inr [OF Inr] show ?thesis by (auto simp: transition_lease_exec_def)
  qed
next
  case (PlanUpdate v)
  let ?P = "\<lambda>r. lr_id r = i \<and> lr_lifecycle r = lease_serde from \<and> lr_version r = v"
  let ?db = "db\<lparr>ld_leases := update_where ?P
     (\<lambda>r. r\<lparr>lr_lifecycle := lease_serde to, lr_version := lr_version r + 1\<rparr>) (ld_leases db)\<rparr>"
  have exec: "snd (transition_lease_exec uuid i from to k we plan db) =
      (if rows_affected ?P (ld_leases db) = 0 then db
       else case log_lease_change uuid i from to k we v ?db of Inl e \<Rightarrow> db | Inr db' \<Rightarrow> db')"
    using PlanUpdate by (simp add: transition_lease_exec_def split: sum.split)
  show ?thesis
  proof (cases "rows_affected ?P (ld_leases db) = 0")
    case True
    with exec same db_logs_same [of db] show ?thesis by metis
  next
    case False
    show ?thesis
    proof (cases "log_lease_change uuid i from to k we v ?db")
      case (Inl e)
      with False exec same db_logs_same [of db] show ?thesis by fastforce
    next
      case (Inr db')
      with False exec update log_lease_change_Inr [OF Inr] show ?thesis by fastforce
    qed
  qed
qed

lemma transition_lease_exec_inv:
  assumes "lease_inv db" and "lease_can_transition from to"
  shows "lease_inv (snd (transition_lease_exec uuid i from to k we plan db))"
proof (cases rule: transition_lease_exec_cases [of uuid i "from" to k we plan db])
  case (same ev im)
  then show ?thesis using assms(1) by (simp add: lease_inv_logs)
next
  case (update v ev im)
  have "row_frame r (r\<lparr>lr_lifecycle := lease_serde to, lr_version := lr_version r + 1\<rparr>)"
    if "r \<in> set (ld_leases db)" "lr_lifecycle r = lease_serde from" for r
    using transition_row_frame [OF assms(2) that(2)] assms(1) that(1) by (simp add: lease_inv_def)
  then show ?thesis
    unfolding update lease_inv_logs by (intro lease_inv_update [OF assms(1)]) blast
qed

lemma touch_lease_inv: "lease_inv db \<Longrightarrow> lease_inv (touch_lease i t v now e db)"
  unfolding touch_lease_def
  by (rule lease_inv_update) (auto simp: row_frame_def touch_guard_def is_active_def)

lemma write_lease_event_cases:
  "\<exists>ev im. snd (write_lease_event uuid i from to k db) = db\<lparr>ld_events := ev, ld_idem := im\<rparr>"
  using db_logs_same [of db] by (simp add: write_lease_event_def split: sum.split) blast

lemma lease_step_inv:
  assumes "lease_step db db'" and "lease_inv db"
  shows "lease_inv db'"
  using assms(1)
proof cases
  case (acquire spec i t now)
  then show ?thesis using acquire_commit_inv [OF assms(2)] by simp
next
  case (acquire_event uuid i src to k)
  then show ?thesis
    using write_lease_event_cases [of uuid i src to k db] lease_inv_logs assms(2) by metis
next
  case (transit src to uuid i k we plan)
  then show ?thesis using transition_lease_exec_inv [OF assms(2)] by simp
next
  case (touch i t v now e)
  then show ?thesis using touch_lease_inv [OF assms(2)] by simp
next
  case (worktree f)
  then have f: "wt_id (f w) = wt_id w" "wt_lease_epoch (f w) = wt_lease_epoch w" for w
    by (simp_all add: worktree_frame_def)
  have "token_current (map f (ld_worktrees db)) r" if "token_current (ld_worktrees db) r" for r
    using that unfolding token_current_def by (auto simp: f)
  moreover have "map wt_id (map f (ld_worktrees db)) = map wt_id (ld_worktrees db)" by (simp add: f)
  then have "distinct (map wt_id (map f (ld_worktrees db)))"
    using assms(2) by (simp add: lease_inv_def f comp_def)
  ultimately show ?thesis
    using worktree(1) assms(2) unfolding lease_inv_def by simp
next
  case (execution ex)
  then show ?thesis using assms(2) by (simp add: lease_inv_def)
qed

lemma lease_steps_inv: "lease_step\<^sup>*\<^sup>* db db' \<Longrightarrow> lease_inv db \<Longrightarrow> lease_inv db'"
  by (induction rule: rtranclp_induct) (auto intro: lease_step_inv)

subsection \<open>Dead leases stay dead\<close>

definition dead :: "string \<Rightarrow> LeaseDb \<Rightarrow> bool" where
  "dead i db \<longleftrightarrow> (\<exists>r \<in> set (ld_leases db). lr_id r = i \<and> \<not> is_active r)"

lemma dead_map:
  assumes "dead i db" and "lease_inv db" and "\<And>r. r \<in> set (ld_leases db) \<Longrightarrow> row_frame r (g r)"
    and "set (ld_leases db') \<supseteq> g ` set (ld_leases db)"
  shows "dead i db'"
proof -
  obtain r where r: "r \<in> set (ld_leases db)" "lr_id r = i" "\<not> is_active r"
    using assms(1) by (auto simp: dead_def)
  then have "g r \<in> set (ld_leases db')" "lr_id (g r) = i" "\<not> is_active (g r)"
    using assms(3) [OF r(1)] assms(4) by (auto simp: row_frame_def)
  then show ?thesis by (auto simp: dead_def)
qed

lemma row_frame_refl: "lease_inv db \<Longrightarrow> r \<in> set (ld_leases db) \<Longrightarrow> row_frame r r"
  by (simp add: row_frame_def lease_inv_def)

lemma dead_update:
  assumes "dead i db" and "lease_inv db" and "\<And>r. r \<in> set (ld_leases db) \<Longrightarrow> P r \<Longrightarrow> row_frame r (f r)"
    and "ld_leases db' = update_where P f (ld_leases db)"
  shows "dead i db'"
  using assms row_frame_refl [OF assms(2)]
  by (intro dead_map [OF assms(1,2), where g = "\<lambda>r. if P r then f r else r"]) (auto simp: update_where_def)

lemma acquire_commit_leases:
  "ld_leases (snd (acquire_commit j t now spec db)) = ld_leases db \<or>
   (\<exists>r. ld_leases (snd (acquire_commit j t now spec db)) =
      map (\<lambda>r. if is_active r \<and> rival_of_spec spec r then expired_row (now div 1000) r else r) (ld_leases db) @ [r])"
  by (simp add: acquire_commit_def Let_def expire_rivals_map)

lemma dead_step:
  assumes "lease_step db db'" and "lease_inv db" and "dead i db"
  shows "dead i db'"
  using assms(1)
proof cases
  case (acquire spec j t now)
  have frame: "row_frame r (if is_active r \<and> rival_of_spec spec r then expired_row (now div 1000) r else r)"
    if "r \<in> set (ld_leases db)" for r
    using that expired_row_frame row_frame_refl [OF assms(2)] by simp
  from acquire_commit_leases [of j t now spec db] show ?thesis
  proof
    assume "ld_leases (snd (acquire_commit j t now spec db)) = ld_leases db"
    with acquire(1) assms(3) show ?thesis by (simp add: dead_def)
  next
    assume "\<exists>r. ld_leases (snd (acquire_commit j t now spec db)) =
      map (\<lambda>r. if is_active r \<and> rival_of_spec spec r then expired_row (now div 1000) r else r) (ld_leases db) @ [r]"
    with acquire(1) show ?thesis by (intro dead_map [OF assms(3,2) frame]) auto
  qed
next
  case (acquire_event uuid j src to k)
  obtain ev im where "snd (write_lease_event uuid j src to k db) = db\<lparr>ld_events := ev, ld_idem := im\<rparr>"
    using write_lease_event_cases by blast
  with acquire_event assms(3) show ?thesis by (simp add: dead_def)
next
  case (transit src to uuid j k we plan)
  show ?thesis
  proof (cases rule: transition_lease_exec_cases [of uuid j src to k we plan db])
    case (same ev im)
    with transit assms(3) show ?thesis by (simp add: dead_def)
  next
    case (update v ev im)
    have "row_frame r (r\<lparr>lr_lifecycle := lease_serde to, lr_version := lr_version r + 1\<rparr>)"
      if "r \<in> set (ld_leases db)" "lr_lifecycle r = lease_serde src" for r
      using transition_row_frame [OF transit(2) that(2)] assms(2) that(1) by (simp add: lease_inv_def)
    with update transit(1) show ?thesis by (intro dead_update [OF assms(3,2)]) auto
  qed
next
  case (touch j t v now e)
  then show ?thesis
    by (intro dead_update [OF assms(3,2)])
       (auto simp: touch_lease_def row_frame_def touch_guard_def is_active_def)
qed (use assms(3) in \<open>simp_all add: dead_def\<close>)

lemma dead_steps:
  assumes "lease_step\<^sup>*\<^sup>* db db'" and "lease_inv db" and "dead i db"
  shows "dead i db' \<and> lease_inv db'"
  using assms by (induction rule: rtranclp_induct) (auto intro: dead_step lease_step_inv)

lemma dead_not_valid:
  assumes "dead i db" and "lease_inv db"
  shows "\<not> is_ok (validate_lease i t f db)"
proof -
  obtain r where r: "r \<in> set (ld_leases db)" "lr_id r = i" "\<not> is_active r"
    using assms(1) by (auto simp: dead_def)
  have "select_one (\<lambda>r. lr_id r = i) (ld_leases db) = Some r"
    using assms(2) r by (intro select_one_key) (auto simp: lease_inv_def)
  then show ?thesis using r(3) by (simp add: validate_lease_def load_optional_record_def into_record_def is_active_def)
qed

section \<open>The service operations are sequences of steps\<close>

lemma transition_lease_steps:
  "lease_step\<^sup>*\<^sup>* db (snd (transition_lease uuid i from to k we db))"
proof (cases "transition_lease_read i from to k db")
  case (Inl e)
  then show ?thesis by (simp add: transition_lease_def)
next
  case (Inr plan)
  show ?thesis
  proof (cases "plan = PlanDuplicate")
    case True
    with Inr show ?thesis by (simp add: transition_lease_def transition_lease_exec_def)
  next
    case False
    with Inr have "lease_can_transition from to"
      by (auto simp: transition_lease_read_def split: if_splits option.splits)
    then have "lease_step db (snd (transition_lease_exec uuid i from to k we plan db))"
      by (rule lease_step.transit)
    with Inr show ?thesis by (simp add: transition_lease_def)
  qed
qed

lemma precheck_worktree:
  "acquire_precheck world spec db = Inr None \<Longrightarrow> ls_worktree_id spec \<in> wt_id ` set (ld_worktrees db)"
  by (auto simp: acquire_precheck_def and_then_Inr_iff get_worktree_row_def split: option.splits
      dest!: select_one_Some intro: rev_image_eqI)

lemma acquire_lease_steps: "lease_step\<^sup>*\<^sup>* db (snd (acquire_lease world uuid now spec db))"
proof (cases "acquire_precheck world spec db = Inr None")
  case True
  let ?i = "''lease-'' @ uuid 0"
  obtain r1 db1 where c: "acquire_commit ?i (uuid 1) now spec db = (r1, db1)" by fastforce
  have s1: "lease_step db db1"
    using lease_step.acquire [OF precheck_worktree [OF True], of ?i "uuid 1" now] c by simp
  obtain r2 db2 where e: "write_lease_event (\<lambda>n. uuid (n + 2)) ?i ''acquired'' ''active'' (?i @ ''-acquire'') db1 = (r2, db2)"
    by fastforce
  have s2: "lease_step db1 db2"
    using lease_step.acquire_event [of db1 "\<lambda>n. uuid (n + 2)" ?i "''acquired''" "''active''" "?i @ ''-acquire''"] e
    by simp
  have "snd (acquire_lease world uuid now spec db) \<in> {db1, db2}"
    using True c e by (auto simp: acquire_lease_def Let_def split: sum.split)
  with s1 s2 show ?thesis by (auto intro: converse_rtranclp_into_rtranclp r_into_rtranclp)
next
  case False
  then have "snd (acquire_lease world uuid now spec db) = db"
    by (auto simp: acquire_lease_def Let_def split: sum.split option.split)
  then show ?thesis by simp
qed

lemma heartbeat_steps: "lease_step\<^sup>*\<^sup>* db (snd (heartbeat cfg uuid now i t f db))"
  using transition_lease_steps [of db] lease_step.touch [of db]
  by (auto simp: heartbeat_def Let_def split: option.split)

lemma renew_lease_steps: "lease_step\<^sup>*\<^sup>* db (snd (renew_lease now i t ext db))"
  using lease_step.touch [of db] by (auto simp: renew_lease_def Let_def split: option.split)

lemma release_lease_steps: "lease_step\<^sup>*\<^sup>* db (snd (release_lease uuid i t db))"
proof -
  let ?r = "transition_lease uuid i Lease_Active Lease_Released (i @ ''-release'') True db"
  have "snd (release_lease uuid i t db) \<in> {db, snd ?r}"
    by (cases ?r) (auto simp: release_lease_def split: option.split sum.split)
  then show ?thesis using transition_lease_steps [of db] by auto
qed

lemma expire_leases_steps: "lease_step\<^sup>*\<^sup>* db (snd (expire_leases uuid n ids db))"
proof (induction uuid n ids db rule: expire_leases.induct)
  case (2 uuid n i ids db)
  obtain r db1 where t: "transition_lease (\<lambda>k. uuid (n + k)) i Lease_Active Lease_Expired (i @ ''-expire'') True db = (r, db1)"
    by fastforce
  then have "lease_step\<^sup>*\<^sup>* db db1" using transition_lease_steps by (metis snd_conv)
  moreover have "lease_step\<^sup>*\<^sup>* db1 (snd (expire_leases uuid (n + 2) ids db1))"
    using "2.IH" t by simp
  ultimately show ?case by (simp add: t split_def Let_def)
qed simp

text \<open>Any sequence of calls of the service, with the steps of other components in between.\<close>

inductive lease_call :: "LeaseDb \<Rightarrow> LeaseDb \<Rightarrow> bool" where
  "lease_call db (snd (acquire_lease world uuid now spec db))"
| "lease_call db (snd (heartbeat cfg uuid now i t f db))"
| "lease_call db (snd (renew_lease now i t ext db))"
| "lease_call db (snd (release_lease uuid i t db))"
| "lease_call db (snd (expire_due_leases uuid now db))"
| "lease_step db db' \<Longrightarrow> lease_call db db'"

lemma lease_call_steps: "lease_call db db' \<Longrightarrow> lease_step\<^sup>*\<^sup>* db db'"
  by (induction rule: lease_call.induct)
     (simp_all add: acquire_lease_steps heartbeat_steps renew_lease_steps release_lease_steps
       expire_due_leases_def expire_leases_steps r_into_rtranclp)

lemma lease_calls_steps: "lease_call\<^sup>*\<^sup>* db db' \<Longrightarrow> lease_step\<^sup>*\<^sup>* db db'"
  by (induction rule: rtranclp_induct) (auto dest: lease_call_steps)

lemma lease_inv_initial:
  "distinct (map wt_id (ld_worktrees db)) \<Longrightarrow> ld_leases db = [] \<Longrightarrow> lease_inv db"
  by (simp add: lease_inv_def)

text \<open>
  C2. At every moment, under every interleaving of acquisitions, heartbeats, renewals,
  releases, expiries and their single transactions, at most one active lease exists per worktree,
  task and execution, and an active lease's fencing token is the current epoch of its worktree while
  every other lease of that worktree carries a token at most that.
\<close>

theorem active_lease_exclusive:
  assumes "lease_call\<^sup>*\<^sup>* db0 db" and "distinct (map wt_id (ld_worktrees db0))" and "ld_leases db0 = []"
  shows "(\<forall>a \<in> set (ld_leases db). \<forall>b \<in> set (ld_leases db).
        is_active a \<and> is_active b \<and> rivals a b \<longrightarrow> a = b) \<and>
    (\<forall>r \<in> set (ld_leases db). \<exists>w \<in> set (ld_worktrees db). \<exists>f.
        lr_worktree_id r = Some (wt_id w) \<and> lr_fencing_token r = Some f \<and> f \<le> wt_lease_epoch w \<and>
        (is_active r \<longrightarrow> f = wt_lease_epoch w))"
proof -
  have inv: "lease_inv db"
    using lease_steps_inv [OF lease_calls_steps [OF assms(1)]] lease_inv_initial assms(2,3) by blast
  have "a = b" if "a \<in> set (ld_leases db)" "b \<in> set (ld_leases db)" "is_active a" "is_active b" "rivals a b" for a b
  proof -
    have "lr_id a = lr_id b" using inv that unfolding lease_inv_def by blast
    with inv that(1,2) show ?thesis
      using distinct_key_eq [of lr_id "ld_leases db" a b] unfolding lease_inv_def by blast
  qed
  moreover have "token_current (ld_worktrees db) r" if "r \<in> set (ld_leases db)" for r
    using inv that by (simp add: lease_inv_def)
  ultimately show ?thesis unfolding token_current_def by blast
qed

text \<open>
  C3. Fencing: once another acquisition for the worktree commits, the previous holder's lease
  never validates again, with any token, however long the system keeps running.
\<close>

theorem superseded_lease_fenced_out:
  assumes "lease_call\<^sup>*\<^sup>* db0 db" and "distinct (map wt_id (ld_worktrees db0))" and "ld_leases db0 = []"
    and "r \<in> set (ld_leases db)" and "lr_worktree_id r = Some (ls_worktree_id spec)"
    and "acquire_commit i t now spec db = (Inr (), db1)" and "lease_call\<^sup>*\<^sup>* db1 db2"
  shows "\<not> is_ok (validate_lease (lr_id r) token fencing db2)"
proof -
  have inv: "lease_inv db"
    using lease_steps_inv [OF lease_calls_steps [OF assms(1)]] lease_inv_initial assms(2,3) by blast
  then have "token_current (ld_worktrees db) r" using assms(4) by (simp add: lease_inv_def)
  then have "ls_worktree_id spec \<in> wt_id ` set (ld_worktrees db)"
    using assms(5) by (auto simp: token_current_def)
  then have inv1: "lease_inv db1" using acquire_commit_inv [OF inv, of spec i t now] assms(6) by simp
  let ?g = "\<lambda>r. if is_active r \<and> rival_of_spec spec r then expired_row (now div 1000) r else r"
  have "?g r \<in> set (ld_leases db1)"
    using assms(4,6) by (auto simp: acquire_commit_def Let_def expire_rivals_map split: if_splits)
  moreover have "lr_id (?g r) = lr_id r" "\<not> is_active (?g r)"
    using assms(5) by (auto simp: rival_of_spec_def) (simp add: expired_row_def)
  ultimately have "dead (lr_id r) db1" by (auto simp: dead_def)
  with dead_steps [OF lease_calls_steps [OF assms(7)] inv1] show ?thesis
    using dead_not_valid by blast
qed

section \<open>Concrete runs\<close>

definition sample_lease_db :: LeaseDb where
  "sample_lease_db = \<lparr>ld_worktrees = [\<lparr>wt_id = ''w'', wt_path = ''/w'', wt_status = ''active'',
       wt_owner_supervisor_id = ''s'', wt_repository_identity = ''repo'', wt_branch_name = ''b'',
       wt_lease_epoch = 0, wt_version = 1\<rparr>],
     ld_leases = [], ld_executions = [\<lparr>en_id = ''e1'', en_lifecycle = ''running'', en_version = 1\<rparr>,
       \<lparr>en_id = ''e2'', en_lifecycle = ''running'', en_version = 1\<rparr>],
     ld_idem = [], ld_events = []\<rparr>"

definition sample_world :: WorktreeWorld where
  "sample_world = \<lparr>ww_path_exists = (\<lambda>_. True), ww_sidecar_path = (\<lambda>p. p @ ''.sidecar''),
     ww_read_sidecar = (\<lambda>_. Inr (Some \<lparr>sc_worktree_id = ''w'', sc_repository_identity = ''repo'',
        sc_branch = ''b'', sc_worktree_path = ''/w''\<rparr>)),
     ww_canonicalize_for_git = (\<lambda>_. None), ww_git_verifier = None\<rparr>"

definition sample_spec :: "string \<Rightarrow> string \<Rightarrow> LeaseSpec" where
  "sample_spec task ex = \<lparr>ls_worktree_id = ''w'', ls_project_id = ''p'', ls_task_id = task,
     ls_owner_execution_id = ex, ls_owner_supervisor_id = ''s'', ls_lease_duration_secs = 60,
     ls_idempotency_key = ''key-'' @ task\<rparr>"

definition sample_lease_1 :: LeaseDb where
  "sample_lease_1 = snd (acquire_lease sample_world (\<lambda>n. ''u'' @ show_nat n) 1000 (sample_spec ''t1'' ''e1'') sample_lease_db)"

lemma sample_lease_1_leases:
  "map (\<lambda>r. (lr_id r, lr_lifecycle r, lr_fencing_token r)) (ld_leases sample_lease_1) =
     [(''lease-u0'', ''active'', Some 1)]"
  by code_simp

lemma sample_lease_1_reach: "lease_call\<^sup>*\<^sup>* sample_lease_db sample_lease_1"
  unfolding sample_lease_1_def by (intro r_into_rtranclp lease_call.intros)

theorem active_lease_exclusive_witness:
  "map lr_lifecycle (ld_leases sample_lease_1) = [''active''] \<and>
   list_all (\<lambda>r. \<exists>w \<in> set (ld_worktrees sample_lease_1). lr_fencing_token r = Some (wt_lease_epoch w))
     (ld_leases sample_lease_1)"
proof -
  have lc: "map lr_lifecycle (ld_leases sample_lease_1) = [''active'']" by code_simp
  then have act: "is_active r" if "r \<in> set (ld_leases sample_lease_1)" for r
    using that unfolding is_active_def by (metis in_set_conv_nth length_map list.size(3,4) One_nat_def
        less_one nth_Cons_0 nth_map add_0)
  have "distinct (map wt_id (ld_worktrees sample_lease_db))" "ld_leases sample_lease_db = []"
    by (simp_all add: sample_lease_db_def)
  from active_lease_exclusive [OF sample_lease_1_reach this] have
    "\<forall>r \<in> set (ld_leases sample_lease_1). \<exists>w \<in> set (ld_worktrees sample_lease_1).
      lr_fencing_token r = Some (wt_lease_epoch w)"
    using act by metis
  with lc show ?thesis by (simp add: list_all_iff)
qed

theorem superseded_lease_fenced_out_witness:
  "let (res, db1) = acquire_commit ''lease-2'' ''tok2'' 5000 (sample_spec ''t2'' ''e2'') sample_lease_1
   in res = Inr () \<and> \<not> is_ok (validate_lease ''lease-u0'' ''u1'' 1 db1)"
proof -
  let ?run = "acquire_commit ''lease-2'' ''tok2'' 5000 (sample_spec ''t2'' ''e2'') sample_lease_1"
  have ok: "fst ?run = Inr ()" by code_simp
  then have run: "?run = (Inr (), snd ?run)" by (metis prod.collapse)
  have row: "map (\<lambda>r. (lr_id r, lr_worktree_id r)) (ld_leases sample_lease_1) = [(''lease-u0'', Some ''w'')]"
    by code_simp
  then obtain r where r: "r \<in> set (ld_leases sample_lease_1)" "lr_id r = ''lease-u0''" "lr_worktree_id r = Some ''w''"
    by (cases "ld_leases sample_lease_1") auto
  have "distinct (map wt_id (ld_worktrees sample_lease_db))" "ld_leases sample_lease_db = []"
    by (simp_all add: sample_lease_db_def)
  from superseded_lease_fenced_out [OF sample_lease_1_reach this r(1) _ run rtranclp.rtrancl_refl, of "''u1''" 1]
  have "\<not> is_ok (validate_lease ''lease-u0'' ''u1'' 1 (snd ?run))"
    using r by (simp add: sample_spec_def)
  with ok show ?thesis by (simp add: split_def)
qed

text \<open>
  Exclusivity is by preemption, not by refusal: two callers whose precondition checks both
  ran before either transaction both succeed, and the second expires the first one's lease before
  its time. A caller that checks after the first transaction is refused instead.
\<close>

theorem concurrent_acquire_preempts:
  "let spec1 = sample_spec ''t1'' ''e1''; spec2 = sample_spec ''t2'' ''e2'';
       (r1, db1) = acquire_commit ''lease-1'' ''tok1'' 1000 spec1 sample_lease_db;
       (r2, db2) = acquire_commit ''lease-2'' ''tok2'' 1001 spec2 db1
   in acquire_precheck sample_world spec1 sample_lease_db = Inr None \<and>
      acquire_precheck sample_world spec2 sample_lease_db = Inr None \<and>
      r1 = Inr () \<and> r2 = Inr () \<and>
      is_ok (validate_lease ''lease-1'' ''tok1'' 1 db1) \<and>
      \<not> is_ok (validate_lease ''lease-1'' ''tok1'' 1 db2) \<and>
      is_ok (validate_lease ''lease-2'' ''tok2'' 2 db2) \<and>
      \<not> is_ok (acquire_precheck sample_world spec2 db1)"
  by code_simp

text \<open>
  Renewal revives what a heartbeat would not: one hour after its expiry an unswept lease is
  refused by \<open>heartbeat\<close>, which expires it, but extended by \<open>renew_lease\<close>; and \<open>validate_lease\<close>
  accepts it although its time has passed.
\<close>

theorem renew_revives_expired_lease:
  "let late = 3600000
   in expire_passed 61 late \<and>
      fst (heartbeat lease_config_default (\<lambda>n. ''x'' @ show_nat n) late ''lease-u0'' ''u1'' 1 sample_lease_1) =
        Inr HeartbeatExpired \<and>
      fst (renew_lease late ''lease-u0'' ''u1'' 60000 sample_lease_1) = Inr HeartbeatOk \<and>
      map lr_expires_at (ld_leases sample_lease_1) = [61] \<and>
      map lr_expires_at (ld_leases (snd (renew_lease late ''lease-u0'' ''u1'' 60000 sample_lease_1))) = [3660] \<and>
      is_ok (validate_lease ''lease-u0'' ''u1'' 1 sample_lease_1)"
  by code_simp

lemma validate_lease_holder:
  assumes "lease_inv db" and "validate_lease i t f db = Inr ()"
  shows "\<exists>r \<in> set (ld_leases db). \<exists>w \<in> set (ld_worktrees db). lr_id r = i \<and> is_active r \<and>
    lr_worktree_id r = Some (wt_id w) \<and> wt_lease_epoch w = f \<and>
    (case lr_lease_token r of None \<Rightarrow> '''' | Some x \<Rightarrow> x) = t \<and>
    wt_owner_supervisor_id w = lr_owner_supervisor_id r"
proof -
  obtain r where sel: "select_one (\<lambda>r. lr_id r = i) (ld_leases db) = Some r"
    using assms(2) by (cases "select_one (\<lambda>r. lr_id r = i) (ld_leases db)")
      (auto simp: validate_lease_def load_optional_record_def)
  then have r: "r \<in> set (ld_leases db)" "lr_id r = i" by (simp_all add: select_one_Some [OF sel])
  have v: "is_active r" "(case lr_lease_token r of None \<Rightarrow> '''' | Some x \<Rightarrow> x) = t"
    "(case lr_fencing_token r of None \<Rightarrow> 0 | Some x \<Rightarrow> x) = f"
    using assms(2) sel
    by (auto simp: validate_lease_def load_optional_record_def into_record_def is_active_def split: if_splits)
  from assms(1) r(1) obtain w g where w: "w \<in> set (ld_worktrees db)" "lr_worktree_id r = Some (wt_id w)"
    "lr_fencing_token r = Some g" "is_active r \<longrightarrow> g = wt_lease_epoch w"
    by (auto simp: lease_inv_def token_current_def)
  have "select_one (\<lambda>u. wt_id u = wt_id w) (ld_worktrees db) = Some w"
    using assms(1) w(1) by (intro select_one_key) (simp_all add: lease_inv_def)
  then have "wt_owner_supervisor_id w = lr_owner_supervisor_id r"
    using assms(2) sel w(2)
    by (auto simp: validate_lease_def load_optional_record_def into_record_def get_worktree_row_def split: if_splits)
  with r v w show ?thesis by auto
qed

text \<open>
  A worktree under an active lease is not removed behind its holder's back: while
  an active lease exists, a removal is allowed only to a caller that presents that lease's own id,
  a token and the fencing token with which the lease validates.
\<close>

theorem remove_needs_lease:
  assumes "lease_call\<^sup>*\<^sup>* db0 db" and "distinct (map wt_id (ld_worktrees db0))" and "ld_leases db0 = []"
    and "can_remove_worktree wid cred db = Allowed" and "r \<in> set (ld_leases db)"
    and "lr_worktree_id r = Some wid" and "is_active r"
  shows "\<exists>c. cred = Some c \<and> lcr_lease_id c = lr_id r \<and> lr_fencing_token r = Some (lcr_fencing_token c) \<and>
    is_ok (validate_lease (lr_id r) (lcr_lease_token c) (lcr_fencing_token c) db)"
proof -
  have inv: "lease_inv db"
    using lease_steps_inv [OF lease_calls_steps [OF assms(1)]] lease_inv_initial assms(2,3) by blast
  obtain q where q: "select_one (\<lambda>r. lr_worktree_id r = Some wid \<and> lr_lifecycle r = ''active'') (ld_leases db) = Some q"
    using assms(5-7) select_one_ex [of "ld_leases db" "\<lambda>r. lr_worktree_id r = Some wid \<and> lr_lifecycle r = ''active''"]
    by (auto simp: is_active_def)
  then have q': "q \<in> set (ld_leases db)" "lr_worktree_id q = Some wid" "is_active q"
    using select_one_Some [OF q] by (auto simp: is_active_def)
  have "rivals q r" using q'(2) assms(6) by (simp add: rivals_def)
  then have "lr_id q = lr_id r" using inv q' assms(5,7) unfolding lease_inv_def by blast
  then have qr: "q = r" using inv q'(1) assms(5) distinct_key_eq [of lr_id "ld_leases db" q r]
    unfolding lease_inv_def by blast
  have get: "get_active_for_worktree wid db = Some (into_record r)"
    using q qr by (simp add: get_active_for_worktree_def get_active_by_def)
  then obtain c where c: "cred = Some c" "lcr_lease_id c = lr_id r"
    "lcr_fencing_token c = (case lr_fencing_token r of None \<Rightarrow> 0 | Some f \<Rightarrow> f)"
    "is_ok (validate_lease (lcr_lease_id c) (lcr_lease_token c) (lcr_fencing_token c) db)"
    using assms(4) by (cases cred) (auto simp: can_remove_worktree_def into_record_def split: if_splits)
  moreover have "lr_fencing_token r \<noteq> None"
    using inv assms(5) by (auto simp: lease_inv_def token_current_def)
  ultimately show ?thesis by auto
qed

theorem remove_needs_lease_witness:
  "can_remove_worktree ''w'' (Some \<lparr>lcr_lease_id = ''lease-u0'', lcr_lease_token = ''u1'', lcr_fencing_token = 1\<rparr>)
     sample_lease_1 = Allowed \<and>
   (\<exists>c. Some \<lparr>lcr_lease_id = ''lease-u0'', lcr_lease_token = ''u1'', lcr_fencing_token = 1\<rparr> = Some c \<and>
      lcr_lease_id c = ''lease-u0'')"
proof -
  let ?c = "Some \<lparr>lcr_lease_id = ''lease-u0'', lcr_lease_token = ''u1'', lcr_fencing_token = 1\<rparr>"
  have allowed: "can_remove_worktree ''w'' ?c sample_lease_1 = Allowed" by code_simp
  have row: "map (\<lambda>r. (lr_id r, lr_worktree_id r, lr_lifecycle r)) (ld_leases sample_lease_1) =
      [(''lease-u0'', Some ''w'', ''active'')]"
    by code_simp
  then obtain r where r: "r \<in> set (ld_leases sample_lease_1)" "lr_id r = ''lease-u0''"
      "lr_worktree_id r = Some ''w''" "is_active r"
    by (cases "ld_leases sample_lease_1") (auto simp: is_active_def)
  have "distinct (map wt_id (ld_worktrees sample_lease_db))" "ld_leases sample_lease_db = []"
    by (simp_all add: sample_lease_db_def)
  from remove_needs_lease [OF sample_lease_1_reach this allowed r(1,3,4)] allowed r(2) show ?thesis by auto
qed

end
