(* ===== verification/Claim_Lease.thy ===== *)
theory Claim_Lease
  imports Claim_Store Lease
begin

text \<open>
  \<open>LeaseServiceAdapter\<close> of \<open>harness-runtime/src/resource_claim/lease_adapter.rs\<close>: the lease service as
  the validator of the claim service. It discharges the laws \<open>lease_authority\<close> asks for, so what the
  claim service proves from them holds of the lease tables.
\<close>

definition lease_service_adapter :: "LeaseDb \<Rightarrow> LeaseValidator" where
  "lease_service_adapter db =
     \<lparr>lv_validate_lease = (\<lambda>lease_id lease_token fencing_token. validate_lease lease_id lease_token fencing_token db),
      lv_get_lease_expires_at = (\<lambda>lease_id.
        Inr (map_option (\<lambda>lr. Stamp (lc_expires_at lr)) (load_optional_record lease_id db)))\<rparr>"

definition lease_holds :: "LeaseDb \<Rightarrow> string \<Rightarrow> string \<Rightarrow> int \<Rightarrow> bool" where
  "lease_holds db l t f \<longleftrightarrow>
     (\<exists>rec. load_optional_record l db = Some rec \<and> lc_lifecycle rec = ''active'' \<and> lc_lease_token rec = t \<and>
        lc_fencing_token rec = f \<and> validate_lease l t f db = Inr ())"

interpretation adapter: lease_authority lease_service_adapter lease_holds
  "\<lambda>db l. map_option lc_expires_at (load_optional_record l db)"
proof
  fix s l t f assume "lv_validate_lease (lease_service_adapter s) l t f = Inr ()"
  then have v: "validate_lease l t f s = Inr ()" by (simp add: lease_service_adapter_def)
  then show "lease_holds s l t f"
    by (cases "load_optional_record l s") (auto simp: lease_holds_def validate_lease_def split: if_splits)
next
  fix s l e assume "lv_get_lease_expires_at (lease_service_adapter s) l = Inr (Some (Stamp e))"
  then show "map_option lc_expires_at (load_optional_record l s) = Some e"
    by (auto simp: lease_service_adapter_def)
qed

text \<open>
  C5. Claims are taken only under a live lease: when the claim service, validating against the
  lease tables, changes the claim store on behalf of a guard, the guard's lease is active, its
  fencing token is the current epoch of the lease's worktree, and the new group expires no later
  than the lease.
\<close>

theorem claims_need_current_lease:
  assumes "lease_call\<^sup>*\<^sup>* db0 ldb" and "distinct (map wt_id (ld_worktrees db0))" and "ld_leases db0 = []"
    and "service_acquire_group (lease_service_adapter ldb) env now_ms now spec guard k db = (res, db')"
    and "db' \<noteq> db"
  shows "\<exists>r \<in> set (ld_leases ldb). \<exists>w \<in> set (ld_worktrees ldb). \<exists>t.
     lr_id r = gd_lease_id guard \<and> is_active r \<and> lr_worktree_id r = Some (wt_id w) \<and>
     wt_lease_epoch w = gd_fencing_token guard \<and> t \<le> lr_expires_at r \<and>
     db' = snd (acquire_group env now spec guard k t db)"
proof -
  have inv: "lease_inv ldb"
    using lease_steps_inv [OF lease_calls_steps [OF assms(1)]] lease_inv_initial assms(2,3) by blast
  from adapter.acquire_needs_lease [OF assms(4,5)] obtain t lease where
    holds: "lease_holds ldb (gd_lease_id guard) (gd_lease_token guard) (gd_fencing_token guard)"
    and lease: "map_option lc_expires_at (load_optional_record (gd_lease_id guard) ldb) = Some lease"
    and t: "t \<le> lease" "db' = snd (acquire_group env now spec guard k t db)"
    by blast
  from holds have "validate_lease (gd_lease_id guard) (gd_lease_token guard) (gd_fencing_token guard) ldb = Inr ()"
    by (auto simp: lease_holds_def)
  from validate_lease_holder [OF inv this] obtain r w where r: "r \<in> set (ld_leases ldb)" "w \<in> set (ld_worktrees ldb)"
    "lr_id r = gd_lease_id guard" "is_active r" "lr_worktree_id r = Some (wt_id w)"
    "wt_lease_epoch w = gd_fencing_token guard"
    by blast
  have "select_one (\<lambda>q. lr_id q = gd_lease_id guard) (ld_leases ldb) = Some r"
    using inv r by (intro select_one_key) (simp_all add: lease_inv_def)
  then have "lease = lr_expires_at r"
    using lease by (simp add: load_optional_record_def into_record_def)
  with r t show ?thesis by blast
qed

definition sample_lease_guard :: ClaimGuard where
  "sample_lease_guard = \<lparr>gd_lease_id = ''lease-u0'', gd_lease_token = ''u1'', gd_fencing_token = 1,
     gd_worktree_id = ''w'', gd_project_id = ''p'', gd_task_id = ''t1'', gd_execution_id = ''e1''\<rparr>"

theorem claims_need_current_lease_witness:
  "let run = service_acquire_group (lease_service_adapter sample_lease_1) (sample_env ''a'') 2000 2
        (group_of [exact_file ''repo'' ''a.rs'' Write]) sample_lease_guard ''k'' empty_claim_db
   in map gr_expires_at (db_groups (snd run)) = [Some 61] \<and>
      (\<exists>r \<in> set (ld_leases sample_lease_1). lr_id r = ''lease-u0'' \<and> is_active r)"
proof -
  let ?run = "service_acquire_group (lease_service_adapter sample_lease_1) (sample_env ''a'') 2000 2
        (group_of [exact_file ''repo'' ''a.rs'' Write]) sample_lease_guard ''k'' empty_claim_db"
  have groups: "map gr_expires_at (db_groups (snd ?run)) = [Some 61]" by code_simp
  then have changed: "snd ?run \<noteq> empty_claim_db" by (auto simp: empty_claim_db_def)
  have "distinct (map wt_id (ld_worktrees sample_lease_db))" "ld_leases sample_lease_db = []"
    by (simp_all add: sample_lease_db_def)
  from claims_need_current_lease [OF sample_lease_1_reach this prod.collapse [symmetric] changed]
  have "\<exists>r \<in> set (ld_leases sample_lease_1). lr_id r = ''lease-u0'' \<and> is_active r"
    by (auto simp: sample_lease_guard_def)
  with groups show ?thesis by (simp add: Let_def)
qed

end
