(* ===== verification/Ipc.thy ===== *)
theory Ipc
  imports Core_Error "HOL-Library.Word"
begin

text \<open>
  Local IPC: the frames of \<open>ipc/framing.rs\<close> on a connection of \<open>ipc/transport.rs\<close>, the commands and envelopes of
  \<open>contracts/ipc.rs\<close>, and the loop of \<open>ipc/mod.rs\<close> that answers the requests of one connection. A connection
  delivers its bytes in pieces of any size; the frames a reader sees do not depend on the pieces.
\<close>

unbundle bit_operations_syntax

section \<open>Connections\<close>

text \<open>
  A connection: the pieces of input that successive reads find, how the input ends (closed, or broken with an
  error), what was written, and how many more writes and flushes succeed (\<open>None\<close>: all).
\<close>

type_synonym byte = "8 word"

record IpcConnection =
  ic_in :: "byte list list"
  ic_broken :: "string option"
  ic_out :: "byte list"
  ic_writes :: "nat option"

definition pending_bytes :: "IpcConnection \<Rightarrow> byte list" where
  "pending_bytes c = concat (ic_in c)"

text \<open>One \<open>read\<close> into a buffer of \<open>n\<close> bytes: at most \<open>n\<close> bytes of the first piece; none at the end of the input.\<close>

fun read_piece :: "nat \<Rightarrow> byte list list \<Rightarrow> byte list \<times> byte list list" where
  "read_piece n [] = ([], [])"
| "read_piece n (p # ps) =
     (if p = [] then read_piece n ps
      else (take n p, if length p \<le> n then ps else drop n p # ps))"

definition conn_read :: "nat \<Rightarrow> IpcConnection \<Rightarrow> (string, byte list) result \<times> IpcConnection" where
  "conn_read n c =
     (if n = 0 then (Inr [], c)
      else let (got, rest) = read_piece n (ic_in c)
           in (if got = [] then (case ic_broken c of Some e \<Rightarrow> Inl e | None \<Rightarrow> Inr []) else Inr got, c\<lparr>ic_in := rest\<rparr>))"

text \<open>The errors of \<open>read_exact\<close>: the end of the input before the buffer is full, or the error of a read.\<close>

datatype ReadError = UnexpectedEof | ReadFailed string

function read_exact :: "nat \<Rightarrow> IpcConnection \<Rightarrow> (ReadError, byte list) result \<times> IpcConnection" where
  "read_exact n c =
     (if n = 0 then (Inr [], c)
      else (case conn_read n c of
              (Inl e, c') \<Rightarrow> (Inl (ReadFailed e), c')
            | (Inr got, c') \<Rightarrow>
                if got = [] then (Inl UnexpectedEof, c')
                else (case read_exact (n - length got) c' of
                        (Inl e, c'') \<Rightarrow> (Inl e, c'')
                      | (Inr tail, c'') \<Rightarrow> (Inr (got @ tail), c''))))"
  by pat_completeness auto
termination read_exact
  by (relation "measure fst") auto

declare read_exact.simps [simp del]

definition write_all :: "byte list \<Rightarrow> IpcConnection \<Rightarrow> (string, unit) result \<times> IpcConnection" where
  "write_all bs c =
     (case ic_writes c of
        None \<Rightarrow> (Inr (), c\<lparr>ic_out := ic_out c @ bs\<rparr>)
      | Some 0 \<Rightarrow> (Inl ''broken pipe'', c)
      | Some (Suc k) \<Rightarrow> (Inr (), c\<lparr>ic_out := ic_out c @ bs, ic_writes := Some k\<rparr>))"

definition conn_flush :: "IpcConnection \<Rightarrow> (string, unit) result \<times> IpcConnection" where
  "conn_flush c =
     (case ic_writes c of
        None \<Rightarrow> (Inr (), c)
      | Some 0 \<Rightarrow> (Inl ''broken pipe'', c)
      | Some (Suc k) \<Rightarrow> (Inr (), c\<lparr>ic_writes := Some k\<rparr>))"


section \<open>Frames\<close>

datatype FrameReadError = Eof | TooLarge nat | FrameError CoreError

definition to_be_bytes :: "32 word \<Rightarrow> byte list" where
  "to_be_bytes w = [ucast (drop_bit 24 w), ucast (drop_bit 16 w), ucast (drop_bit 8 w), ucast w]"

fun from_be_bytes :: "byte list \<Rightarrow> 32 word" where
  "from_be_bytes [a, b, c, d] =
     push_bit 24 (ucast a) OR push_bit 16 (ucast b) OR push_bit 8 (ucast c) OR ucast d"
| "from_be_bytes _ = 0"

definition protocol_error :: "string \<Rightarrow> CoreError" where
  "protocol_error msg = core_error_new ProtocolError msg SrcSystem"

text \<open>The loop that drops an oversized frame, with the buffer size of the code.\<close>

function drain :: "nat \<Rightarrow> nat \<Rightarrow> IpcConnection \<Rightarrow> (CoreError, unit) result \<times> IpcConnection" where
  "drain buffer remaining c =
     (if remaining = 0 then (Inr (), c)
      else (case conn_read (min remaining buffer) c of
              (Inl e, c') \<Rightarrow> (Inl (protocol_error (''drain error: '' @ e)), c')
            | (Inr got, c') \<Rightarrow> if got = [] then (Inr (), c') else drain buffer (remaining - length got) c'))"
  by pat_completeness auto
termination drain
  by (relation "measure (\<lambda>(b, n, c). n)") auto

declare drain.simps [simp del]

definition read_error_text :: "ReadError \<Rightarrow> string" where
  "read_error_text e = (case e of UnexpectedEof \<Rightarrow> ''early eof'' | ReadFailed why \<Rightarrow> why)"

definition read_frame :: "nat \<Rightarrow> IpcConnection \<Rightarrow> (FrameReadError, byte list) result \<times> IpcConnection" where
  "read_frame max_size c =
     (case read_exact 4 c of
        (Inl UnexpectedEof, c1) \<Rightarrow> (Inl Eof, c1)
      | (Inl e, c1) \<Rightarrow> (Inl (FrameError (protocol_error (''frame length read error: '' @ read_error_text e))), c1)
      | (Inr len_buf, c1) \<Rightarrow>
          (let frame_len = unat (from_be_bytes len_buf)
           in if frame_len > max_size then
                (case drain (min max_size 65536) frame_len c1 of
                   (Inl e, c2) \<Rightarrow> (Inl (FrameError e), c2)
                 | (Inr _, c2) \<Rightarrow> (Inl (TooLarge frame_len), c2))
              else (case read_exact frame_len c1 of
                      (Inl e, c2) \<Rightarrow>
                        (Inl (FrameError (protocol_error (''frame payload read error: '' @ read_error_text e))), c2)
                    | (Inr payload, c2) \<Rightarrow> (Inr payload, c2))))"

definition write_frame :: "byte list \<Rightarrow> IpcConnection \<Rightarrow> (CoreError, unit) result \<times> IpcConnection" where
  "write_frame payload c =
     (let len = (word_of_nat (length payload) :: 32 word)
      in case write_all (to_be_bytes len) c of
           (Inl e, c1) \<Rightarrow> (Inl (protocol_error (''frame length write error: '' @ e)), c1)
         | (Inr _, c1) \<Rightarrow>
             (case write_all payload c1 of
                (Inl e, c2) \<Rightarrow> (Inl (protocol_error (''frame payload write error: '' @ e)), c2)
              | (Inr _, c2) \<Rightarrow>
                  (case conn_flush c2 of
                     (Inl e, c3) \<Rightarrow> (Inl (protocol_error (''frame flush error: '' @ e)), c3)
                   | (Inr _, c3) \<Rightarrow> (Inr (), c3))))"



section \<open>What the reads deliver\<close>

text \<open>Two states of a connection between which only input was read.\<close>

definition only_read :: "IpcConnection \<Rightarrow> IpcConnection \<Rightarrow> bool" where
  "only_read c c' \<longleftrightarrow> ic_broken c' = ic_broken c \<and> ic_out c' = ic_out c \<and> ic_writes c' = ic_writes c"

lemma only_read_basic [simp]: "only_read c c" "only_read c (c\<lparr>ic_in := ps\<rparr>)"
  by (simp_all add: only_read_def)

lemma only_read_trans [trans]: "only_read c c1 \<Longrightarrow> only_read c1 c2 \<Longrightarrow> only_read c c2"
  by (simp add: only_read_def)

lemma read_piece_take:
  assumes "read_piece n ps = (got, rest)" and "0 < n"
  shows "\<exists>k \<le> n. got = take k (concat ps) \<and> concat rest = drop k (concat ps) \<and> length got = k \<and> (k = 0 \<longrightarrow> concat ps = [])"
  using assms
proof (induction n ps rule: read_piece.induct)
  case (2 n p ps)
  show ?case
  proof (cases "p = []")
    case False
    then have "got = take n p" "rest = (if length p \<le> n then ps else drop n p # ps)" using 2(2) by auto
    then show ?thesis using False 2(3) by (intro exI [of _ "min n (length p)"]) auto
  qed (use 2 in auto)
qed simp

lemma conn_read_cases:
  assumes "0 < n"
  obtains (more) k c' where "0 < k" "k \<le> n" "k \<le> length (pending_bytes c)"
      "conn_read n c = (Inr (take k (pending_bytes c)), c')"
      "pending_bytes c' = drop k (pending_bytes c)" "only_read c c'"
  | (ended) c' where "pending_bytes c = []" "pending_bytes c' = []" "only_read c c'"
      "conn_read n c = (case ic_broken c of Some e \<Rightarrow> Inl e | None \<Rightarrow> Inr [], c')"
proof -
  obtain got rest where r: "read_piece n (ic_in c) = (got, rest)" by fastforce
  obtain k where k: "k \<le> n" "got = take k (pending_bytes c)" "concat rest = drop k (pending_bytes c)"
    "length got = k" "k = 0 \<longrightarrow> pending_bytes c = []"
    using read_piece_take [OF r assms] unfolding pending_bytes_def by blast
  show thesis
  proof (cases "k = 0")
    case True
    then show thesis using k r assms
      by (intro ended [of "c\<lparr>ic_in := rest\<rparr>"]) (auto simp: conn_read_def pending_bytes_def)
  next
    case False
    then have "got \<noteq> []" using k(4) by auto
    then show thesis using False k r assms
      by (intro more [of k "c\<lparr>ic_in := rest\<rparr>"]) (auto simp: conn_read_def pending_bytes_def)
  qed
qed

text \<open>\<open>read_exact\<close> takes the next bytes, however they are cut into pieces.\<close>

lemma read_exact_enough:
  "n \<le> length (pending_bytes c) \<Longrightarrow>
   \<exists>c'. read_exact n c = (Inr (take n (pending_bytes c)), c') \<and> pending_bytes c' = drop n (pending_bytes c) \<and>
     only_read c c'"
proof (induction n arbitrary: c rule: less_induct)
  case (less n)
  show ?case
  proof (cases "n = 0")
    case False
    then have "0 < n" by simp
    then show ?thesis
    proof (cases rule: conn_read_cases [of n c])
      case (more k c1)
      have "n - k < n" "n - k \<le> length (pending_bytes c1)" using more less.prems False by auto
      then obtain c2 where "read_exact (n - k) c1 = (Inr (take (n - k) (pending_bytes c1)), c2)"
        "pending_bytes c2 = drop (n - k) (pending_bytes c1)" "only_read c1 c2"
        using less.IH by blast
      moreover have "take n (pending_bytes c) = take k (pending_bytes c) @ take (n - k) (drop k (pending_bytes c))"
        using more(2) by (metis le_add_diff_inverse take_add)
      moreover have "only_read c c2" using calculation(3) more(6) only_read_trans by blast
      ultimately show ?thesis using more False by (subst read_exact.simps) (auto simp: min_def)
    qed (use less.prems False in simp)
  qed (simp add: read_exact.simps)
qed

lemma read_exact_short:
  "length (pending_bytes c) < n \<Longrightarrow>
   \<exists>c'. read_exact n c = (Inl (case ic_broken c of None \<Rightarrow> UnexpectedEof | Some e \<Rightarrow> ReadFailed e), c') \<and>
     pending_bytes c' = [] \<and> only_read c c'"
proof (induction n arbitrary: c rule: less_induct)
  case (less n)
  then have "0 < n" by simp
  then show ?case
  proof (cases rule: conn_read_cases [of n c])
    case (more k c1)
    have "n - k < n" "length (pending_bytes c1) < n - k" using more less.prems by auto
    then obtain c2 where "read_exact (n - k) c1 =
        (Inl (case ic_broken c1 of None \<Rightarrow> UnexpectedEof | Some e \<Rightarrow> ReadFailed e), c2)"
      "pending_bytes c2 = []" "only_read c1 c2"
      using less.IH by blast
    moreover have "ic_broken c1 = ic_broken c" "only_read c c2"
      using more(6) calculation(3) only_read_trans by (auto simp: only_read_def)
    ultimately show ?thesis using more \<open>0 < n\<close> by (subst read_exact.simps) (auto simp: min_def)
  next
    case (ended c1)
    then show ?thesis using \<open>0 < n\<close> by (subst read_exact.simps) (simp split: option.split)
  qed
qed

lemma drain_enough:
  "0 < buffer \<Longrightarrow> n \<le> length (pending_bytes c) \<Longrightarrow>
   \<exists>c'. drain buffer n c = (Inr (), c') \<and> pending_bytes c' = drop n (pending_bytes c) \<and> only_read c c'"
proof (induction n arbitrary: c rule: less_induct)
  case (less n)
  show ?case
  proof (cases "n = 0")
    case False
    then have "0 < min n buffer" using less.prems by simp
    then show ?thesis
    proof (cases rule: conn_read_cases [of _ c])
      case (more k c1)
      have "n - k < n" "n - k \<le> length (pending_bytes c1)" using more less.prems False by auto
      then obtain c2 where "drain buffer (n - k) c1 = (Inr (), c2)"
        "pending_bytes c2 = drop (n - k) (pending_bytes c1)" "only_read c1 c2"
        using less.IH less.prems(1) by blast
      moreover have "only_read c c2" using calculation(3) more(6) only_read_trans by blast
      ultimately show ?thesis using more False by (subst drain.simps) (auto simp: min_def split: if_splits)
    qed (use less.prems False in simp)
  qed (simp add: drain.simps)
qed

lemma from_to_be_bytes [simp]: "from_be_bytes (to_be_bytes w) = w"
proof (rule bit_word_eqI)
  fix n assume "n < LENGTH(32)"
  then consider "n < 8" | "8 \<le> n" "n < 16" | "16 \<le> n" "n < 24" | "24 \<le> n" "n < 32" by fastforce
  then show "bit (from_be_bytes (to_be_bytes w)) n = bit w n"
    by cases (auto simp: to_be_bytes_def bit_simps)
qed

lemma length_to_be_bytes [simp]: "length (to_be_bytes w) = 4"
  by (simp add: to_be_bytes_def)

text \<open>The bytes of a frame.\<close>

definition frame_bytes :: "byte list \<Rightarrow> byte list" where
  "frame_bytes payload = to_be_bytes (word_of_nat (length payload)) @ payload"

lemma write_frame_ok:
  "write_frame payload c = (Inr (), c') \<Longrightarrow> ic_out c' = ic_out c @ frame_bytes payload"
  by (auto simp: write_frame_def write_all_def conn_flush_def frame_bytes_def Let_def split: option.splits nat.splits)

lemma write_frame_in [simp]: "ic_in (snd (write_frame payload c)) = ic_in c"
  by (simp add: write_frame_def write_all_def conn_flush_def Let_def split: option.splits nat.splits)

lemma write_frame_open [simp]:
  "ic_writes c = None \<Longrightarrow> write_frame payload c = (Inr (), c\<lparr>ic_out := ic_out c @ frame_bytes payload\<rparr>)"
  by (simp add: write_frame_def write_all_def conn_flush_def frame_bytes_def Let_def)

lemma read_frame_frame:
  assumes "pending_bytes c = frame_bytes payload @ rest" and "length payload < 2 ^ 32" and "length payload \<le> max_size"
  shows "\<exists>c'. read_frame max_size c = (Inr payload, c') \<and> pending_bytes c' = rest \<and> only_read c c'"
proof -
  have "4 \<le> length (pending_bytes c)" using assms(1) by (simp add: frame_bytes_def)
  then obtain c1 where c1: "read_exact 4 c = (Inr (take 4 (pending_bytes c)), c1)"
    "pending_bytes c1 = drop 4 (pending_bytes c)" "only_read c c1"
    using read_exact_enough by blast
  have len: "unat (word_of_nat (length payload) :: 32 word) = length payload"
    using assms(2) by (simp add: unat_of_nat)
  have p1: "pending_bytes c1 = payload @ rest" using c1(2) assms(1) by (simp add: frame_bytes_def)
  then obtain c2 where c2: "read_exact (length payload) c1 = (Inr payload, c2)" "pending_bytes c2 = rest" "only_read c1 c2"
    using read_exact_enough [of "length payload" c1] by auto
  have "take 4 (pending_bytes c) = to_be_bytes (word_of_nat (length payload))"
    using assms(1) by (simp add: frame_bytes_def)
  then have "read_frame max_size c = (Inr payload, c2)"
    using c1(1) c2(1) assms(3) by (simp add: read_frame_def len)
  then show ?thesis using c2 c1(3) only_read_trans by blast
qed

text \<open>A frame that is too large is dropped as a whole, and the next frame is found behind it.\<close>

lemma read_frame_too_large:
  assumes "pending_bytes c = frame_bytes payload @ rest" and "length payload < 2 ^ 32"
    and "0 < max_size" and "max_size < length payload"
  shows "\<exists>c'. read_frame max_size c = (Inl (TooLarge (length payload)), c') \<and> pending_bytes c' = rest \<and> only_read c c'"
proof -
  have "4 \<le> length (pending_bytes c)" using assms(1) by (simp add: frame_bytes_def)
  then obtain c1 where c1: "read_exact 4 c = (Inr (take 4 (pending_bytes c)), c1)"
    "pending_bytes c1 = drop 4 (pending_bytes c)" "only_read c c1"
    using read_exact_enough by blast
  have len: "unat (word_of_nat (length payload) :: 32 word) = length payload"
    using assms(2) by (simp add: unat_of_nat)
  have p1: "pending_bytes c1 = payload @ rest" using c1(2) assms(1) by (simp add: frame_bytes_def)
  then obtain c2 where c2: "drain (min max_size 65536) (length payload) c1 = (Inr (), c2)" "pending_bytes c2 = rest"
    "only_read c1 c2"
    using drain_enough [of "min max_size 65536" "length payload" c1] assms(3) by auto
  have "take 4 (pending_bytes c) = to_be_bytes (word_of_nat (length payload))"
    using assms(1) by (simp add: frame_bytes_def)
  then have "read_frame max_size c = (Inl (TooLarge (length payload)), c2)"
    using c1(1) c2(1) assms(4) by (simp add: read_frame_def len)
  then show ?thesis using c2 c1(3) only_read_trans by blast
qed


section \<open>Commands and envelopes\<close>

datatype IpcCommand =
    SupervisorStatus | SupervisorStop | TaskStart | TaskStatus | TaskResume | TaskCancel | TaskInspect
   | TaskDryRunDecision | ReviewCreate | ReviewShow | ReviewRun | ReviewList | IntegrationEnqueue
   | IntegrationRunNext | IntegrationShow | IntegrationList | IntegrationCancel | IntegrationRecover
   | Inspect | Cancel | Subscribe | Unsubscribe | GoalCreate | GoalStart | GoalShow | GoalList
   | GoalStatus | GoalPause | GoalResume | GoalCancel | GoalReplan | GoalApprovals | GoalApprove
   | GoalReject | GoalAnswer | GoalEvents | GoalSnapshot | GoalRequestChanges | GoalIntervene | Health
   | Diagnostics

definition ipc_command_as_str :: "IpcCommand \<Rightarrow> string" where
  "ipc_command_as_str c =
     (case c of
        SupervisorStatus \<Rightarrow> ''supervisor.status''
      | SupervisorStop \<Rightarrow> ''supervisor.stop''
      | TaskStart \<Rightarrow> ''task.start''
      | TaskStatus \<Rightarrow> ''task.status''
      | TaskResume \<Rightarrow> ''task.resume''
      | TaskCancel \<Rightarrow> ''task.cancel''
      | TaskInspect \<Rightarrow> ''task.inspect''
      | TaskDryRunDecision \<Rightarrow> ''task.dry_run_decision''
      | ReviewCreate \<Rightarrow> ''review.create''
      | ReviewShow \<Rightarrow> ''review.show''
      | ReviewRun \<Rightarrow> ''review.run''
      | ReviewList \<Rightarrow> ''review.list''
      | IntegrationEnqueue \<Rightarrow> ''integration.enqueue''
      | IntegrationRunNext \<Rightarrow> ''integration.run_next''
      | IntegrationShow \<Rightarrow> ''integration.show''
      | IntegrationList \<Rightarrow> ''integration.list''
      | IntegrationCancel \<Rightarrow> ''integration.cancel''
      | IntegrationRecover \<Rightarrow> ''integration.recover''
      | Inspect \<Rightarrow> ''inspect''
      | Cancel \<Rightarrow> ''cancel''
      | Subscribe \<Rightarrow> ''subscribe''
      | Unsubscribe \<Rightarrow> ''unsubscribe''
      | Health \<Rightarrow> ''health''
      | Diagnostics \<Rightarrow> ''diagnostics''
      | GoalCreate \<Rightarrow> ''goal.create''
      | GoalStart \<Rightarrow> ''goal.start''
      | GoalShow \<Rightarrow> ''goal.show''
      | GoalList \<Rightarrow> ''goal.list''
      | GoalStatus \<Rightarrow> ''goal.status''
      | GoalPause \<Rightarrow> ''goal.pause''
      | GoalResume \<Rightarrow> ''goal.resume''
      | GoalCancel \<Rightarrow> ''goal.cancel''
      | GoalReplan \<Rightarrow> ''goal.replan''
      | GoalApprovals \<Rightarrow> ''goal.approvals''
      | GoalApprove \<Rightarrow> ''goal.approve''
      | GoalReject \<Rightarrow> ''goal.reject''
      | GoalAnswer \<Rightarrow> ''goal.answer''
      | GoalEvents \<Rightarrow> ''goal.events''
      | GoalSnapshot \<Rightarrow> ''goal.snapshot''
      | GoalRequestChanges \<Rightarrow> ''goal.request_changes''
      | GoalIntervene \<Rightarrow> ''goal.intervene'')"

definition ipc_command_parse :: "string \<Rightarrow> IpcCommand option" where
  "ipc_command_parse s =
     (if s = ''supervisor.status'' then Some SupervisorStatus
      else if s = ''supervisor.stop'' then Some SupervisorStop
      else if s = ''task.start'' then Some TaskStart
      else if s = ''task.status'' then Some TaskStatus
      else if s = ''task.resume'' then Some TaskResume
      else if s = ''task.cancel'' then Some TaskCancel
      else if s = ''task.inspect'' then Some TaskInspect
      else if s = ''task.dry_run_decision'' then Some TaskDryRunDecision
      else if s = ''review.create'' then Some ReviewCreate
      else if s = ''review.show'' then Some ReviewShow
      else if s = ''review.run'' then Some ReviewRun
      else if s = ''review.list'' then Some ReviewList
      else if s = ''integration.enqueue'' then Some IntegrationEnqueue
      else if s = ''integration.run_next'' then Some IntegrationRunNext
      else if s = ''integration.show'' then Some IntegrationShow
      else if s = ''integration.list'' then Some IntegrationList
      else if s = ''integration.cancel'' then Some IntegrationCancel
      else if s = ''integration.recover'' then Some IntegrationRecover
      else if s = ''inspect'' then Some Inspect
      else if s = ''cancel'' then Some Cancel
      else if s = ''subscribe'' then Some Subscribe
      else if s = ''unsubscribe'' then Some Unsubscribe
      else if s = ''health'' then Some Health
      else if s = ''diagnostics'' then Some Diagnostics
      else if s = ''goal.create'' then Some GoalCreate
      else if s = ''goal.start'' then Some GoalStart
      else if s = ''goal.show'' then Some GoalShow
      else if s = ''goal.list'' then Some GoalList
      else if s = ''goal.status'' then Some GoalStatus
      else if s = ''goal.pause'' then Some GoalPause
      else if s = ''goal.resume'' then Some GoalResume
      else if s = ''goal.cancel'' then Some GoalCancel
      else if s = ''goal.replan'' then Some GoalReplan
      else if s = ''goal.approvals'' then Some GoalApprovals
      else if s = ''goal.approve'' then Some GoalApprove
      else if s = ''goal.reject'' then Some GoalReject
      else if s = ''goal.answer'' then Some GoalAnswer
      else if s = ''goal.events'' then Some GoalEvents
      else if s = ''goal.snapshot'' then Some GoalSnapshot
      else if s = ''goal.request_changes'' then Some GoalRequestChanges
      else if s = ''goal.intervene'' then Some GoalIntervene
      else None)"

definition has_side_effects :: "IpcCommand \<Rightarrow> bool" where
  "has_side_effects c \<longleftrightarrow>
     c \<notin> {SupervisorStatus, TaskStatus, TaskInspect, TaskDryRunDecision, ReviewShow, ReviewList
       , IntegrationShow, IntegrationList, Inspect, Health, Diagnostics, GoalShow, GoalList, GoalStatus
       , GoalApprovals, GoalEvents, GoalSnapshot}"

lemma ipc_command_parse_as_str: "ipc_command_parse (ipc_command_as_str c) = Some c"
  by (cases c) (simp_all add: ipc_command_as_str_def ipc_command_parse_def)

datatype IpcResponseStatus =
    Status_Success | Status_Accepted | Status_BadRequest | Status_Rejected | Status_Error | Status_Duplicate
  | Status_Conflict | Status_NotReady

text \<open>Envelopes, with the type of JSON values as a parameter.\<close>

record 'j IpcRequestEnvelope =
  rq_protocol_version :: string
  rq_request_id :: string
  rq_idempotency_key :: string
  rq_command :: string
  rq_payload :: 'j
  rq_client_pid :: "32 word"
  rq_sent_at :: int

record 'j StructuredIpcError =
  se_code :: string
  se_message :: string
  se_details :: "'j option"

record 'j IpcResponseEnvelope =
  rs_protocol_version :: string
  rs_request_id :: string
  rs_status :: IpcResponseStatus
  rs_payload :: "'j option"
  rs_error :: "'j StructuredIpcError option"
  rs_completed_at :: int

record IpcRequestContext =
  ctx_request_id :: string
  ctx_idempotency_key :: string
  ctx_client_pid :: "32 word"

record 'j IpcHandlerOutcome =
  ho_status :: IpcResponseStatus
  ho_payload :: 'j

text \<open>
  What the server is given: JSON conversion, the clock (its reading for the \<open>n\<close>-th response), the texts of an
  error code, and the handler of commands, a function of the state it keeps.
\<close>

record ('j, 's) IpcEnv =
  ie_from_slice :: "byte list \<Rightarrow> (string, 'j IpcRequestEnvelope) result"
  ie_to_vec :: "'j IpcResponseEnvelope \<Rightarrow> byte list option"
  ie_now :: "nat \<Rightarrow> int"
  ie_code_debug :: "ErrorCode \<Rightarrow> string"
  ie_code_json :: "ErrorCode \<Rightarrow> string"
  ie_handle_request :: "IpcRequestContext \<Rightarrow> IpcCommand \<Rightarrow> 'j \<Rightarrow> 's \<Rightarrow> (CoreError, 'j IpcHandlerOutcome) result \<times> 's"


section \<open>The loop of a connection\<close>

definition bad_request :: "int \<Rightarrow> string \<Rightarrow> string \<Rightarrow> string \<Rightarrow> 'j IpcResponseEnvelope" where
  "bad_request now request_id code message =
     \<lparr>rs_protocol_version = ''1.0'', rs_request_id = request_id, rs_status = Status_BadRequest, rs_payload = None,
      rs_error = Some \<lparr>se_code = code, se_message = message, se_details = None\<rparr>, rs_completed_at = now\<rparr>"

text \<open>
  The response to one frame, whether the handler answered it (a failed write then ends the loop), and the handler's
  state afterwards.
\<close>

definition answer ::
  "('j, 's) IpcEnv \<Rightarrow> nat \<Rightarrow> byte list \<Rightarrow> 's \<Rightarrow> 'j IpcResponseEnvelope \<times> bool \<times> 's" where
  "answer env n frame s =
     (case ie_from_slice env frame of
        Inl e \<Rightarrow> (bad_request (ie_now env n) ''unknown'' ''invalid_json'' (''failed to parse request: '' @ e), False, s)
      | Inr request \<Rightarrow>
          if rq_protocol_version request \<noteq> ''1.0'' then
            (bad_request (ie_now env n) (rq_request_id request) ''protocol_version_mismatch''
               (''expected protocol version 1.0, got '' @ rq_protocol_version request), False, s)
          else (case ipc_command_parse (rq_command request) of
              None \<Rightarrow> (bad_request (ie_now env n) (rq_request_id request) ''unknown_command''
                        (''unknown command: '' @ rq_command request), False, s)
            | Some command \<Rightarrow>
                (case ie_handle_request env
                    \<lparr>ctx_request_id = rq_request_id request, ctx_idempotency_key = rq_idempotency_key request,
                     ctx_client_pid = rq_client_pid request\<rparr> command (rq_payload request) s of
                   (Inr outcome, s') \<Rightarrow>
                     (\<lparr>rs_protocol_version = ''1.0'', rs_request_id = rq_request_id request,
                       rs_status = ho_status outcome, rs_payload = Some (ho_payload outcome), rs_error = None,
                       rs_completed_at = ie_now env n\<rparr>, True, s')
                 | (Inl e, s') \<Rightarrow>
                     (\<lparr>rs_protocol_version = ''1.0'', rs_request_id = rq_request_id request,
                       rs_status = (if ce_code e = ErrConflict then Status_Conflict else Status_Error),
                       rs_payload = None,
                       rs_error = Some \<lparr>se_code = to_lowercase (ie_code_debug env (ce_code e)),
                         se_message = core_error_display (ie_code_json env) e, se_details = None\<rparr>,
                       rs_completed_at = ie_now env n\<rparr>, False, s'))))"

definition response_json :: "('j, 's) IpcEnv \<Rightarrow> 'j IpcResponseEnvelope \<Rightarrow> byte list" where
  "response_json env r = (case ie_to_vec env r of Some bs \<Rightarrow> bs | None \<Rightarrow> [])"

lemma read_exact_in:
  "read_exact n c = (Inr bs, c') \<Longrightarrow> length bs = n \<and> length (pending_bytes c') + n = length (pending_bytes c)"
  using read_exact_enough [of n c] read_exact_short [of c n] by (cases "n \<le> length (pending_bytes c)") auto

lemma read_frame_consumes:
  "read_frame max_size c = (Inr frame, c') \<Longrightarrow> length (pending_bytes c') < length (pending_bytes c)"
  by (auto simp: read_frame_def Let_def dest!: read_exact_in split: prod.splits sum.splits ReadError.splits if_splits)

function process_connection_loop ::
  "('j, 's) IpcEnv \<Rightarrow> nat \<Rightarrow> nat \<Rightarrow> 's \<Rightarrow> IpcConnection \<Rightarrow> (CoreError, unit) result \<times> 's \<times> IpcConnection" where
  "process_connection_loop env max_frame_bytes n s c =
     (case read_frame max_frame_bytes c of
        (Inl Eof, c1) \<Rightarrow> (Inr (), s, c1)
      | (Inl (FrameError e), c1) \<Rightarrow> (Inl e, s, c1)
      | (Inl (TooLarge frame_size), c1) \<Rightarrow>
          (Inr (), s, snd (write_frame (response_json env (bad_request (ie_now env n) ''unknown'' ''frame_too_large''
             (''frame size '' @ show_nat frame_size @ '' exceeds max '' @ show_nat max_frame_bytes))) c1))
      | (Inr frame, c1) \<Rightarrow>
          (let (response, handled, s1) = answer env n frame s;
               (written, c2) = write_frame (response_json env response) c1
           in if handled \<and> \<not> is_ok written then (Inr (), s1, c2)
              else process_connection_loop env max_frame_bytes (Suc n) s1 c2))"
  by pat_completeness auto
termination process_connection_loop
proof (relation "measure (\<lambda>(env, m, n, s, c). length (pending_bytes c))", goal_cases)
  case (2 env m n s c a c1 frame x response rest handled s1 y written c2)
  then have "ic_in c2 = ic_in c1" by (metis snd_conv write_frame_in)
  then show ?case using 2 read_frame_consumes [of m c frame c1] by (simp add: pending_bytes_def)
qed simp

declare process_connection_loop.simps [simp del]


section \<open>Properties\<close>

text \<open>
  C9. Frames survive transport: whatever was written as a frame of less than 4 GiB, and lies within the reader's limit,
  is read as exactly that payload, however the pipe cuts the bytes into pieces and whatever follows, and the reader
  stops exactly behind the frame.
\<close>

theorem frame_round_trip:
  assumes "write_frame payload w = (Inr (), w')" and "length payload < 2 ^ 32" and "length payload \<le> max_size"
    and "pending_bytes c = drop (length (ic_out w)) (ic_out w') @ rest"
  shows "\<exists>c'. read_frame max_size c = (Inr payload, c') \<and> pending_bytes c' = rest \<and> ic_out c' = ic_out c"
proof -
  have "pending_bytes c = frame_bytes payload @ rest" using assms(4) write_frame_ok [OF assms(1)] by simp
  then show ?thesis using read_frame_frame assms(2,3) only_read_def by blast
qed

definition sample_conn :: "byte list list \<Rightarrow> IpcConnection" where
  "sample_conn ps = \<lparr>ic_in = ps, ic_broken = None, ic_out = [], ic_writes = None\<rparr>"

theorem frame_round_trip_witness:
  "\<exists>c'. read_frame 16 (sample_conn [[0, 0], [0, 3, 7], [], [8, 9, 5]]) = (Inr [7, 8, 9], c') \<and> pending_bytes c' = [5]"
proof -
  have "write_frame [7, 8, 9] (sample_conn []) = (Inr (), (sample_conn [])\<lparr>ic_out := frame_bytes [7, 8, 9]\<rparr>)"
    by (simp add: sample_conn_def)
  from frame_round_trip [OF this, of 16 "sample_conn [[0, 0], [0, 3, 7], [], [8, 9, 5]]" "[5]"] show ?thesis
    by (auto simp: sample_conn_def pending_bytes_def frame_bytes_def to_be_bytes_def)
qed

text \<open>The responses to a list of frames.\<close>

fun answers :: "('j, 's) IpcEnv \<Rightarrow> nat \<Rightarrow> byte list list \<Rightarrow> 's \<Rightarrow> 'j IpcResponseEnvelope list \<times> 's" where
  "answers env n [] s = ([], s)"
| "answers env n (frame # frames) s =
     (let (response, handled, s1) = answer env n frame s; (responses, s2) = answers env (Suc n) frames s1
      in (response # responses, s2))"

definition request_id_of :: "('j, 's) IpcEnv \<Rightarrow> byte list \<Rightarrow> string" where
  "request_id_of env frame = (case ie_from_slice env frame of Inr request \<Rightarrow> rq_request_id request | Inl _ \<Rightarrow> ''unknown'')"

lemma answer_request_id: "rs_request_id (fst (answer env n frame s)) = request_id_of env frame"
  by (simp add: answer_def request_id_of_def bad_request_def split: sum.split option.split prod.split)

lemma answers_request_ids: "map rs_request_id (fst (answers env n frames s)) = map (request_id_of env) frames"
proof (induction env n frames s rule: answers.induct)
  case (2 env n frame frames s)
  obtain r h s1 where a: "answer env n frame s = (r, h, s1)" by (cases "answer env n frame s") auto
  then show ?case using 2 answer_request_id [of env n frame s] by (simp add: split_beta)
qed simp

lemma read_frame_end:
  assumes "pending_bytes c = []" and "ic_broken c = None"
  shows "\<exists>c'. read_frame max_size c = (Inl Eof, c') \<and> ic_out c' = ic_out c"
  using read_exact_short [of c 4] assms by (auto simp: read_frame_def only_read_def)

lemma loop_answers:
  assumes "ic_broken c = None" and "ic_writes c = None"
    and "list_all (\<lambda>f. length f < 2 ^ 32 \<and> length f \<le> max_size) frames"
    and "pending_bytes c = concat (map frame_bytes frames)"
  shows "\<exists>c'. process_connection_loop env max_size n s c = (Inr (), snd (answers env n frames s), c') \<and>
    ic_out c' = ic_out c @ concat (map (\<lambda>r. frame_bytes (response_json env r)) (fst (answers env n frames s)))"
  using assms
proof (induction frames arbitrary: c n s)
  case Nil
  then show ?case using read_frame_end [of c max_size] by (subst process_connection_loop.simps) auto
next
  case (Cons f frames)
  obtain r h s1 where a: "answer env n f s = (r, h, s1)" by (cases "answer env n f s") auto
  obtain c1 where c1: "read_frame max_size c = (Inr f, c1)" "pending_bytes c1 = concat (map frame_bytes frames)"
    "only_read c c1"
    using read_frame_frame [of c f "concat (map frame_bytes frames)" max_size] Cons.prems by auto
  let ?c2 = "c1\<lparr>ic_out := ic_out c1 @ frame_bytes (response_json env r)\<rparr>"
  have kept: "ic_writes c1 = None" "ic_broken c1 = None" "ic_out c1 = ic_out c"
    using c1(3) Cons.prems by (simp_all add: only_read_def)
  have "\<exists>c'. process_connection_loop env max_size (Suc n) s1 ?c2 = (Inr (), snd (answers env (Suc n) frames s1), c') \<and>
    ic_out c' = ic_out ?c2 @ concat (map (\<lambda>r. frame_bytes (response_json env r)) (fst (answers env (Suc n) frames s1)))"
    using Cons.prems kept c1(2) by (intro Cons.IH) (simp_all add: pending_bytes_def)
  then show ?case using c1(1) a kept
    by (subst process_connection_loop.simps) (auto simp: split_beta)
qed

text \<open>
  C11. Every request gets one response, in order: a connection that carries frames within the limit, in any pieces, and is
  then closed ends without error; what the server wrote are the responses to those frames one after the other, the
  handler's state threaded through them, and each response carries the identifier of its request (\<open>unknown\<close> when the
  request cannot be parsed).
\<close>

theorem requests_answered_in_order:
  assumes "ic_broken c = None" and "ic_writes c = None"
    and "list_all (\<lambda>f. length f < 2 ^ 32 \<and> length f \<le> max_size) frames"
    and "pending_bytes c = concat (map frame_bytes frames)"
  shows "\<exists>responses s' c'. process_connection_loop env max_size n s c = (Inr (), s', c') \<and>
    answers env n frames s = (responses, s') \<and>
    ic_out c' = ic_out c @ concat (map (\<lambda>r. frame_bytes (response_json env r)) responses) \<and>
    map rs_request_id responses = map (request_id_of env) frames"
  using loop_answers [OF assms, of env n s] answers_request_ids [of env n frames s]
  by (metis prod.collapse)

definition sample_ipc :: "(nat, nat) IpcEnv" where
  "sample_ipc = \<lparr>ie_from_slice = (\<lambda>bs. if bs = [] then Inl ''EOF'' else
       Inr \<lparr>rq_protocol_version = ''1.0'', rq_request_id = ''r1'', rq_idempotency_key = '''',
         rq_command = ''health'', rq_payload = 0, rq_client_pid = 1, rq_sent_at = 0\<rparr>),
     ie_to_vec = (\<lambda>r. Some (map (\<lambda>ch. of_nat (of_char ch)) (rs_request_id r))), ie_now = (\<lambda>_. 0),
     ie_code_debug = (\<lambda>_. ''''), ie_code_json = (\<lambda>_. ''''),
     ie_handle_request = (\<lambda>_ _ j s. (Inr \<lparr>ho_status = Status_Success, ho_payload = s\<rparr>, Suc s))\<rparr>"

theorem requests_answered_in_order_witness:
  "\<exists>responses s' c'. process_connection_loop sample_ipc 16 0 0 (sample_conn [[0, 0, 0, 1], [9, 0, 0], [0, 0]]) = (Inr (), s', c') \<and>
     s' = 1 \<and> map rs_request_id responses = [''r1'', ''unknown''] \<and>
     ic_out c' = concat (map (\<lambda>r. frame_bytes (response_json sample_ipc r)) responses)"
proof -
  have frames: "pending_bytes (sample_conn [[0, 0, 0, 1], [9, 0, 0], [0, 0]]) = concat (map frame_bytes [[9], []])"
    by (simp add: sample_conn_def pending_bytes_def frame_bytes_def to_be_bytes_def)
  have "snd (answers sample_ipc 0 [[9], []] 0) = 1" "map (request_id_of sample_ipc) [[9], []] = [''r1'', ''unknown'']"
    by (simp_all add: answer_def sample_ipc_def request_id_of_def ipc_command_parse_def)
  moreover obtain responses s' c' where
    "process_connection_loop sample_ipc 16 0 0 (sample_conn [[0, 0, 0, 1], [9, 0, 0], [0, 0]]) = (Inr (), s', c')"
    "answers sample_ipc 0 [[9], []] 0 = (responses, s')"
    "ic_out c' = [] @ concat (map (\<lambda>r. frame_bytes (response_json sample_ipc r)) responses)"
    "map rs_request_id responses = map (request_id_of sample_ipc) [[9], []]"
    using requests_answered_in_order [OF _ _ _ frames, of 16 sample_ipc 0 0] by (auto simp: sample_conn_def)
  ultimately show ?thesis by (metis append_Nil snd_conv)
qed

text \<open>
  An oversized frame is answered with one error and ends the loop; what follows it on the connection is not read
  any more. An incomplete length prefix counts as a clean end.
\<close>

theorem oversized_frame_ends_connection:
  assumes "ic_writes c = None" and "pending_bytes c = frame_bytes payload @ rest" and "length payload < 2 ^ 32"
    and "0 < max_size" and "max_size < length payload"
  shows "\<exists>c'. process_connection_loop env max_size n s c = (Inr (), s, c') \<and> pending_bytes c' = rest \<and>
    ic_out c' = ic_out c @ frame_bytes (response_json env (bad_request (ie_now env n) ''unknown'' ''frame_too_large''
      (''frame size '' @ show_nat (length payload) @ '' exceeds max '' @ show_nat max_size)))"
proof -
  obtain c1 where c1: "read_frame max_size c = (Inl (TooLarge (length payload)), c1)" "pending_bytes c1 = rest" "only_read c c1"
    using read_frame_too_large [OF assms(2-5)] by blast
  moreover have "ic_writes c1 = None" "ic_out c1 = ic_out c" using c1(3) assms(1) by (simp_all add: only_read_def)
  ultimately show ?thesis by (subst process_connection_loop.simps) (simp add: pending_bytes_def)
qed

text \<open>
  A payload of 4 GiB or more is announced with its length modulo \<open>2^32\<close>: the reader takes the first part for the frame and
  finds the rest of the payload where the next length should be.
\<close>

theorem long_frame_desynchronises:
  assumes "pending_bytes c = frame_bytes payload @ rest" and "length payload mod 2 ^ 32 \<le> max_size"
  shows "\<exists>c'. read_frame max_size c = (Inr (take (length payload mod 2 ^ 32) payload), c') \<and>
    pending_bytes c' = drop (length payload mod 2 ^ 32) payload @ rest"
proof -
  define k where "k = length payload mod 2 ^ 32"
  have k: "k < 2 ^ 32" "k \<le> length payload" by (simp_all add: k_def)
  have "word_of_nat (length payload) = (word_of_nat k :: 32 word)" by (simp add: k_def word_unat_eq_iff unat_of_nat)
  then have "frame_bytes payload = frame_bytes (take k payload) @ drop k payload"
    using k by (simp add: frame_bytes_def min_def)
  then have "pending_bytes c = frame_bytes (take k payload) @ drop k payload @ rest" using assms(1) by simp
  moreover have "length (take k payload) < 2 ^ 32" "length (take k payload) \<le> max_size"
    using k assms(2) unfolding k_def [symmetric] by (simp_all add: min_absorb2)
  ultimately show ?thesis unfolding k_def using read_frame_frame by blast
qed


end
