(* ===== verification/Effects.thy ===== *)
theory Effects
  imports Core_Error
begin

text \<open>
  Operations of services that run statement by statement, without a transaction around them: functions from a
  state to a result and a state, in which an error keeps the writes made before it. The theory has the
  combinators (\<open>?\<close> of Rust is \<open>then_do\<close>), what they compute, and a small calculus for the parts of the state that an
  operation leaves alone.
\<close>

type_synonym ('s, 'a) op = "'s \<Rightarrow> (CoreError, 'a) result \<times> 's"

definition return :: "'a \<Rightarrow> ('s, 'a) op" where
  "return x db = (Inr x, db)"

definition raise :: "CoreError \<Rightarrow> ('s, 'a) op" where
  "raise e db = (Inl e, db)"

definition then_do :: "('s, 'a) op \<Rightarrow> ('a \<Rightarrow> ('s, 'b) op) \<Rightarrow> ('s, 'b) op" where
  "then_do m f db = (case m db of (Inl e, db1) \<Rightarrow> (Inl e, db1) | (Inr x, db1) \<Rightarrow> f x db1)"

text \<open>\<open>let _ = \<dots>\<close>: the result is dropped, an error too.\<close>

definition ignoring :: "('s, 'a) op \<Rightarrow> ('s, unit) op" where
  "ignoring m db = (Inr (), snd (m db))"

definition select :: "('s \<Rightarrow> 'a) \<Rightarrow> ('s, 'a) op" where
  "select f db = (Inr (f db), db)"

fun each :: "('a \<Rightarrow> ('s, unit) op) \<Rightarrow> 'a list \<Rightarrow> ('s, unit) op" where
  "each f [] = return ()"
| "each f (x # xs) = then_do (f x) (\<lambda>_. each f xs)"

definition require :: "CoreError \<Rightarrow> ('s \<Rightarrow> 'a option) \<Rightarrow> ('s, 'a) op" where
  "require e f db = (case f db of None \<Rightarrow> (Inl e, db) | Some x \<Rightarrow> (Inr x, db))"

definition harness_error :: "ErrorCode \<Rightarrow> string \<Rightarrow> CoreError" where
  "harness_error code message = core_error_new code message SrcHarness"

text \<open>The result of an operation as a value, for code that matches on it.\<close>

definition attempt :: "('s, 'a) op \<Rightarrow> ('s, (CoreError, 'a) result) op" where
  "attempt m s = (let (r, s') = m s in (Inr r, s'))"

named_theorems op_simps \<open>composition of database operations\<close>

lemma then_do_steps [op_simps]:
  "then_do (return x1) f1 = f1 x1" "then_do (raise e) f2 = raise e"
  "then_do (select g) f3 db = f3 (g db) db"
  "then_do (require e h) f4 db = (case h db of None \<Rightarrow> (Inl e, db) | Some x \<Rightarrow> f4 x db)"
  "then_do (then_do m k) f = then_do m (\<lambda>x. then_do (k x) f)"
  "then_do (ignoring n) i db = i () (snd (n db))"
  "then_do (attempt n2) i2 db = i2 (fst (n2 db)) (snd (n2 db))"
  by (auto simp: then_do_def return_def raise_def select_def require_def ignoring_def attempt_def fun_eq_iff
    split: prod.split sum.split option.split)

lemma op_results [op_simps]:
  "return x db = (Inr x, db)" "raise e db = (Inl e, db)" "select g db = (Inr (g db), db)"
  by (simp_all add: return_def raise_def select_def)

lemma then_do_ok: "m db = (Inr x, db1) \<Longrightarrow> then_do m f db = f x db1"
  by (simp add: then_do_def)

lemma then_do_error: "m db = (Inl e, db1) \<Longrightarrow> then_do m f db = (Inl e, db1)"
  by (simp add: then_do_def)

lemma then_do_InrE:
  assumes "then_do m f db = (Inr y, db')"
  obtains x db1 where "m db = (Inr x, db1)" "f x db1 = (Inr y, db')"
  using assms by (auto simp: then_do_def split: prod.splits sum.splits)

section \<open>Parts of the state an operation keeps\<close>

definition keeps :: "('s \<Rightarrow> 'x) \<Rightarrow> ('s, 'a) op \<Rightarrow> bool" where
  "keeps part m \<longleftrightarrow> (\<forall>db. part (snd (m db)) = part db)"

named_theorems keeps_intros \<open>operations that keep a part\<close>

lemma keeps_then_do [keeps_intros]: "keeps part m \<Longrightarrow> (\<And>x. keeps part (f x)) \<Longrightarrow> keeps part (then_do m f)"
proof (unfold keeps_def, intro allI)
  fix db assume m: "\<forall>db. part (snd (m db)) = part db" and f: "\<And>x. \<forall>db. part (snd (f x db)) = part db"
  obtain r db1 where "m db = (r, db1)" by fastforce
  then show "part (snd (then_do m f db)) = part db"
    using m [rule_format, of db] f by (cases r) (simp_all add: then_do_def)
qed

lemma keeps_basic [keeps_intros]:
  "keeps part (return x)" "keeps part (raise e)" "keeps part (select f)" "keeps part (require e h)"
  by (simp_all add: keeps_def return_def raise_def select_def require_def split: option.split)

lemma keeps_ignoring [keeps_intros]:
  "keeps part m \<Longrightarrow> keeps part (ignoring m)" "keeps part m \<Longrightarrow> keeps part (attempt m)"
  by (simp_all add: keeps_def ignoring_def attempt_def split_beta)

lemma keeps_if [keeps_intros]: "keeps part m \<Longrightarrow> keeps part n \<Longrightarrow> keeps part (if b then m else n)"
  by simp

lemma keeps_option [keeps_intros]:
  "keeps part m \<Longrightarrow> (\<And>x. keeps part (f x)) \<Longrightarrow> keeps part (case v of None \<Rightarrow> m | Some x \<Rightarrow> f x)"
  by (simp split: option.split)

end
