(* ===== verification/Supervisor.thy ===== *)
theory Supervisor
  imports Effects Lifecycles "HOL-Library.Word"
begin

text \<open>
  The supervisor: its lifecycle (\<open>supervisor/lifecycle.rs\<close>), the tables of instances, leases and events
  (\<open>supervisor/repo.rs\<close>), ownership by lease and fencing token (\<open>supervisor/ownership.rs\<close>), the heartbeat, and the
  start, takeover and shutdown sequences of \<open>supervisor/mod.rs\<close>. The IPC server, the control loop and the startup
  recovery that run while the supervisor is ready do not touch these tables. Clock readings are integers counting
  milliseconds.
\<close>

unbundle bit_operations_syntax

section \<open>Lifecycle\<close>

datatype SupervisorState =
    Sup_Created | Sup_Starting | Sup_AcquiringOwnership | Sup_Recovering | Sup_Ready | Sup_Draining | Sup_Stopping
  | Sup_Stopped | Sup_Failed | Sup_TakingOver

definition sup_is_terminal :: "SupervisorState \<Rightarrow> bool" where
  "sup_is_terminal s \<longleftrightarrow> s \<in> {Sup_Stopped, Sup_Failed}"

definition sup_is_active :: "SupervisorState \<Rightarrow> bool" where
  "sup_is_active s \<longleftrightarrow> s \<in> {Sup_Ready, Sup_Recovering, Sup_AcquiringOwnership, Sup_Draining}"

definition accepts_writes :: "SupervisorState \<Rightarrow> bool" where
  "accepts_writes s \<longleftrightarrow> s = Sup_Ready"

definition accepts_health :: "SupervisorState \<Rightarrow> bool" where
  "accepts_health s \<longleftrightarrow>
     s \<in> {Sup_Starting, Sup_AcquiringOwnership, Sup_Recovering, Sup_Ready, Sup_Draining, Sup_Stopping}"

definition state_str :: "SupervisorState \<Rightarrow> string" where
  "state_str s =
     (case s of
        Sup_Created \<Rightarrow> ''created'' | Sup_Starting \<Rightarrow> ''starting'' | Sup_AcquiringOwnership \<Rightarrow> ''acquiring_ownership''
      | Sup_Recovering \<Rightarrow> ''recovering'' | Sup_Ready \<Rightarrow> ''ready'' | Sup_Draining \<Rightarrow> ''draining''
      | Sup_Stopping \<Rightarrow> ''stopping'' | Sup_Stopped \<Rightarrow> ''stopped'' | Sup_Failed \<Rightarrow> ''failed''
      | Sup_TakingOver \<Rightarrow> ''taking_over'')"

definition parse_state :: "string \<Rightarrow> SupervisorState" where
  "parse_state s =
     (if s = ''created'' then Sup_Created else if s = ''starting'' then Sup_Starting
      else if s = ''acquiring_ownership'' then Sup_AcquiringOwnership else if s = ''recovering'' then Sup_Recovering
      else if s = ''ready'' then Sup_Ready else if s = ''draining'' then Sup_Draining
      else if s = ''stopping'' then Sup_Stopping else if s = ''stopped'' then Sup_Stopped
      else if s = ''failed'' then Sup_Failed else if s = ''taking_over'' then Sup_TakingOver else Sup_Created)"

lemma parse_state_str [simp]: "parse_state (state_str s) = s"
  by (cases s) (simp_all add: state_str_def parse_state_def)

definition sup_edge :: "SupervisorState \<Rightarrow> SupervisorState \<Rightarrow> bool" where
  "sup_edge current next_state \<longleftrightarrow>
     (case (current, next_state) of
        (Sup_Created, Sup_Starting) \<Rightarrow> True
      | (Sup_Starting, Sup_AcquiringOwnership) \<Rightarrow> True
      | (Sup_AcquiringOwnership, Sup_Recovering) \<Rightarrow> True
      | (Sup_AcquiringOwnership, Sup_TakingOver) \<Rightarrow> True
      | (Sup_Recovering, Sup_Ready) \<Rightarrow> True
      | (Sup_TakingOver, Sup_Recovering) \<Rightarrow> True
      | (Sup_Ready, Sup_Draining) \<Rightarrow> True
      | (Sup_Draining, Sup_Stopping) \<Rightarrow> True
      | (Sup_Stopping, Sup_Stopped) \<Rightarrow> True
      | (Sup_Starting, Sup_Failed) \<Rightarrow> True
      | (Sup_AcquiringOwnership, Sup_Failed) \<Rightarrow> True
      | (Sup_Recovering, Sup_Failed) \<Rightarrow> True
      | (Sup_Ready, Sup_Failed) \<Rightarrow> True
      | (Sup_Draining, Sup_Failed) \<Rightarrow> True
      | (Sup_Stopping, Sup_Failed) \<Rightarrow> True
      | (Sup_TakingOver, Sup_Failed) \<Rightarrow> True
      | (Sup_Ready, Sup_Stopping) \<Rightarrow> True
      | _ \<Rightarrow> False)"

text \<open>A text in single quotes, and the arrow of the messages in UTF-8.\<close>

definition sq :: "string \<Rightarrow> string" where
  "sq s = CHR 0x27 # s @ [CHR 0x27]"

definition arrow :: string where
  "arrow = [CHR 0xE2, CHR 0x86, CHR 0x92]"

definition validate_transition :: "SupervisorState \<Rightarrow> SupervisorState \<Rightarrow> (string, unit) result" where
  "validate_transition current next_state =
     (if sup_is_terminal current then
        Inl (''cannot transition from terminal state '' @ sq (state_str current) @ '' to '' @ sq (state_str next_state))
      else if current = next_state then Inr ()
      else if sup_edge current next_state then Inr ()
      else Inl (''illegal state transition: '' @ sq (state_str current) @ '' '' @ arrow @ '' '' @ sq (state_str next_state)))"

definition sup_rank :: "SupervisorState \<Rightarrow> nat" where
  "sup_rank s =
     (case s of Sup_Created \<Rightarrow> 0 | Sup_Starting \<Rightarrow> 1 | Sup_AcquiringOwnership \<Rightarrow> 2 | Sup_TakingOver \<Rightarrow> 3
      | Sup_Recovering \<Rightarrow> 4 | Sup_Ready \<Rightarrow> 5 | Sup_Draining \<Rightarrow> 6 | Sup_Stopping \<Rightarrow> 7 | _ \<Rightarrow> 8)"

interpretation sup: progressive_lifecycle sup_edge sup_is_terminal sup_rank 8
proof unfold_locales
  show "sup_edge s t \<Longrightarrow> sup_rank s < sup_rank t" for s t
    by (cases s; cases t) (simp_all add: sup_edge_def sup_rank_def)
  show "\<not> sup_is_terminal s \<Longrightarrow> \<exists>t. sup_edge s t" for s
    by (cases s) (auto simp: sup_edge_def sup_is_terminal_def intro: exI [of _ Sup_Failed] exI [of _ Sup_Starting])
qed (auto simp: sup_edge_def sup_rank_def sup_is_terminal_def split: SupervisorState.split)

lemma validate_transition_ok:
  "is_ok (validate_transition s t) \<longleftrightarrow> \<not> sup_is_terminal s \<and> (s = t \<or> sup_edge s t)"
  by (simp add: validate_transition_def)


section \<open>Tables\<close>

text \<open>
  A stored time: the code's own format, which reads back, or the format of SQLite's \<open>datetime('now')\<close>, which neither of
  the two parsers accepts, so that the current time is read instead.
\<close>

datatype sup_time = IsoMs int | SqlNow int

definition parse_time :: "int \<Rightarrow> sup_time \<Rightarrow> int" where
  "parse_time now t = (case t of IsoMs x \<Rightarrow> x | SqlNow _ \<Rightarrow> now)"

text \<open>An instance, in memory and as a row (with the process id as \<open>i64\<close> and texts for state and times).\<close>

record ('p, 's, 't) SupervisorInstance =
  si_instance_id :: string
  si_state_directory_id :: string
  si_pid :: 'p
  si_process_started_at :: 't
  si_boot_nonce :: string
  si_state :: 's
  si_fencing_token :: int
  si_started_at :: 't
  si_heartbeat_at :: 't
  si_lease_expires_at :: 't
  si_protocol_version :: string
  si_binary_version :: string

type_synonym sup_instance = "(32 word, SupervisorState, int) SupervisorInstance"
type_synonym SupervisorInstanceRow = "(int, string, sup_time) SupervisorInstance"

record SupervisorLeaseRow =
  sl_id :: nat
  sl_state_directory_id :: string
  sl_instance_id :: string
  sl_fencing_token :: int
  sl_acquired_at :: sup_time
  sl_expires_at :: sup_time
  sl_is_active :: bool

datatype SupervisorEvent =
    SupervisorStarting string "32 word" int int
  | SupervisorOwnershipAcquired string int int
  | SupervisorOwnershipRejected string string "string option" int
  | SupervisorHeartbeat string int int
  | SupervisorReady string int
  | SupervisorDraining string string int
  | SupervisorStopping string int
  | SupervisorStopped string int
  | SupervisorLeaseLost string string int
  | SupervisorStaleOwnerDetected string string int int
  | SupervisorTakeoverStarted string string int int
  | SupervisorTakeoverCompleted string int int
  | SupervisorFailed string string int

definition event_type_str :: "SupervisorEvent \<Rightarrow> string" where
  "event_type_str e =
     (case e of
        SupervisorStarting _ _ _ _ \<Rightarrow> ''supervisor_starting''
      | SupervisorOwnershipAcquired _ _ _ \<Rightarrow> ''supervisor_ownership_acquired''
      | SupervisorOwnershipRejected _ _ _ _ \<Rightarrow> ''supervisor_ownership_rejected''
      | SupervisorHeartbeat _ _ _ \<Rightarrow> ''supervisor_heartbeat''
      | SupervisorReady _ _ \<Rightarrow> ''supervisor_ready''
      | SupervisorDraining _ _ _ \<Rightarrow> ''supervisor_draining''
      | SupervisorStopping _ _ \<Rightarrow> ''supervisor_stopping''
      | SupervisorStopped _ _ \<Rightarrow> ''supervisor_stopped''
      | SupervisorLeaseLost _ _ _ \<Rightarrow> ''supervisor_lease_lost''
      | SupervisorStaleOwnerDetected _ _ _ _ \<Rightarrow> ''supervisor_stale_owner_detected''
      | SupervisorTakeoverStarted _ _ _ _ \<Rightarrow> ''supervisor_takeover_started''
      | SupervisorTakeoverCompleted _ _ _ \<Rightarrow> ''supervisor_takeover_completed''
      | SupervisorFailed _ _ _ \<Rightarrow> ''supervisor_failed'')"

text \<open>An event row; the payload column holds the event itself.\<close>

record SupervisorEventRow =
  sv_instance_id :: string
  sv_event_type :: string
  sv_payload :: SupervisorEvent
  sv_sequence_num :: nat

record SupervisorDb =
  sd_instances :: "SupervisorInstanceRow list"
  sd_leases :: "SupervisorLeaseRow list"
  sd_events :: "SupervisorEventRow list"

definition persistence :: "string \<Rightarrow> CoreError" where
  "persistence msg = core_error_new PersistenceError msg SrcSystem"


section \<open>The repository\<close>

definition instance_row :: "sup_instance \<Rightarrow> SupervisorInstanceRow" where
  "instance_row i = \<lparr>si_instance_id = si_instance_id i, si_state_directory_id = si_state_directory_id i,
     si_pid = uint (si_pid i), si_process_started_at = IsoMs (si_process_started_at i), si_boot_nonce = si_boot_nonce i,
     si_state = state_str (si_state i), si_fencing_token = si_fencing_token i, si_started_at = IsoMs (si_started_at i),
     si_heartbeat_at = IsoMs (si_heartbeat_at i), si_lease_expires_at = IsoMs (si_lease_expires_at i),
     si_protocol_version = si_protocol_version i, si_binary_version = si_binary_version i\<rparr>"

definition into_instance :: "int \<Rightarrow> SupervisorInstanceRow \<Rightarrow> sup_instance" where
  "into_instance now r = \<lparr>si_instance_id = si_instance_id r, si_state_directory_id = si_state_directory_id r,
     si_pid = word_of_int (si_pid r), si_process_started_at = parse_time now (si_process_started_at r),
     si_boot_nonce = si_boot_nonce r, si_state = parse_state (si_state r), si_fencing_token = si_fencing_token r,
     si_started_at = parse_time now (si_started_at r), si_heartbeat_at = parse_time now (si_heartbeat_at r),
     si_lease_expires_at = parse_time now (si_lease_expires_at r), si_protocol_version = si_protocol_version r,
     si_binary_version = si_binary_version r\<rparr>"

definition insert_instance :: "sup_instance \<Rightarrow> (SupervisorDb, unit) op" where
  "insert_instance i db =
     (if list_ex (\<lambda>r. si_instance_id r = si_instance_id i) (sd_instances db) then
        (Inl (persistence ''insert supervisor instance: UNIQUE constraint failed''), db)
      else (Inr (), db\<lparr>sd_instances := sd_instances db @ [instance_row i]\<rparr>))"

definition get_instance :: "int \<Rightarrow> string \<Rightarrow> SupervisorDb \<Rightarrow> sup_instance option" where
  "get_instance now instance_id db =
     map_option (into_instance now) (select_one (\<lambda>r. si_instance_id r = instance_id) (sd_instances db))"

definition update_instance ::
  "(SupervisorInstanceRow \<Rightarrow> bool) \<Rightarrow> (SupervisorInstanceRow \<Rightarrow> SupervisorInstanceRow) \<Rightarrow> (SupervisorDb, nat) op" where
  "update_instance P f db =
     (Inr (rows_affected P (sd_instances db)), db\<lparr>sd_instances := update_where P f (sd_instances db)\<rparr>)"

definition update_state_no_event :: "string \<Rightarrow> SupervisorState \<Rightarrow> (SupervisorDb, unit) op" where
  "update_state_no_event instance_id new_state =
     then_do (update_instance (\<lambda>r. si_instance_id r = instance_id) (\<lambda>r. r\<lparr>si_state := state_str new_state\<rparr>))
       (\<lambda>_. return ())"

definition append_event :: "string \<Rightarrow> string \<Rightarrow> SupervisorEvent \<Rightarrow> (SupervisorDb, unit) op" where
  "append_event instance_id event_type payload db =
     (let seq = Suc (fold max (map sv_sequence_num (filter (\<lambda>e. sv_instance_id e = instance_id) (sd_events db))) 0)
      in (Inr (), db\<lparr>sd_events := sd_events db @ [\<lparr>sv_instance_id = instance_id, sv_event_type = event_type,
            sv_payload = payload, sv_sequence_num = seq\<rparr>]\<rparr>))"

definition update_state_and_append_event :: "string \<Rightarrow> SupervisorState \<Rightarrow> SupervisorEvent \<Rightarrow> (SupervisorDb, unit) op" where
  "update_state_and_append_event instance_id new_state event =
     then_do (update_state_no_event instance_id new_state) (\<lambda>_.
     append_event instance_id (event_type_str event) event)"

definition update_fencing_token :: "string \<Rightarrow> int \<Rightarrow> (SupervisorDb, unit) op" where
  "update_fencing_token instance_id new_token =
     then_do (update_instance (\<lambda>r. si_instance_id r = instance_id) (\<lambda>r. r\<lparr>si_fencing_token := new_token\<rparr>))
       (\<lambda>_. return ())"

definition heartbeat_cas :: "int \<Rightarrow> string \<Rightarrow> int \<Rightarrow> int \<Rightarrow> (SupervisorDb, bool) op" where
  "heartbeat_cas now instance_id expected_fencing_token new_lease_expires_at =
     then_do (update_instance
         (\<lambda>r. si_instance_id r = instance_id \<and> si_fencing_token r = expected_fencing_token \<and>
              si_state r \<in> {''ready'', ''recovering'', ''draining''})
         (\<lambda>r. r\<lparr>si_heartbeat_at := SqlNow now, si_lease_expires_at := IsoMs new_lease_expires_at\<rparr>))
       (\<lambda>n. return (n > 0))"

text \<open>
  The insertion of a lease against the partial unique index on the active lease of a directory, with SQLite's
  message for it.
\<close>

definition lease_unique_error :: string where
  "lease_unique_error =
     ''error returned from database: (code: 2067) UNIQUE constraint failed: supervisor_leases.state_directory_id''"

definition acquire_lease_row :: "int \<Rightarrow> string \<Rightarrow> string \<Rightarrow> int \<Rightarrow> int \<Rightarrow> (SupervisorDb, unit) op" where
  "acquire_lease_row now instance_id state_directory_id fencing_token expires_at db =
     (if list_ex (\<lambda>l. sl_state_directory_id l = state_directory_id \<and> sl_is_active l) (sd_leases db) then
        (Inl (if contains_str lease_unique_error ''UNIQUE constraint failed'' \<and>
                 contains_str lease_unique_error ''idx_supervisor_lease_one_active'' then
                harness_error ErrConflict (''active lease already exists for state directory '' @ sq state_directory_id)
              else harness_error ErrConflict (''lease conflict for state directory '' @ sq state_directory_id @ '': '' @
                lease_unique_error)), db)
      else (Inr (), db\<lparr>sd_leases := sd_leases db @ [\<lparr>sl_id = Suc (length (sd_leases db)),
              sl_state_directory_id = state_directory_id, sl_instance_id = instance_id, sl_fencing_token = fencing_token,
              sl_acquired_at = SqlNow now, sl_expires_at = IsoMs expires_at, sl_is_active = True\<rparr>]\<rparr>))"

definition active_for :: "string \<Rightarrow> SupervisorLeaseRow \<Rightarrow> bool" where
  "active_for state_directory_id l \<longleftrightarrow> sl_state_directory_id l = state_directory_id \<and> sl_is_active l"

definition get_active_lease :: "string \<Rightarrow> SupervisorDb \<Rightarrow> SupervisorLeaseRow option" where
  "get_active_lease state_directory_id db = select_one (active_for state_directory_id) (sd_leases db)"

definition update_lease ::
  "(SupervisorLeaseRow \<Rightarrow> bool) \<Rightarrow> (SupervisorLeaseRow \<Rightarrow> SupervisorLeaseRow) \<Rightarrow> (SupervisorDb, nat) op" where
  "update_lease P f db = (Inr (rows_affected P (sd_leases db)), db\<lparr>sd_leases := update_where P f (sd_leases db)\<rparr>)"

definition release_lease_cas :: "string \<Rightarrow> int \<Rightarrow> (SupervisorDb, bool) op" where
  "release_lease_cas instance_id expected_fencing_token =
     then_do (update_lease (\<lambda>l. sl_instance_id l = instance_id \<and> sl_fencing_token l = expected_fencing_token \<and> sl_is_active l)
         (\<lambda>l. l\<lparr>sl_is_active := False\<rparr>))
       (\<lambda>n. return (n > 0))"

definition deactivate_lease :: "string \<Rightarrow> (SupervisorDb, unit) op" where
  "deactivate_lease state_directory_id =
     then_do (update_lease (active_for state_directory_id) (\<lambda>l. l\<lparr>sl_is_active := False\<rparr>)) (\<lambda>_. return ())"

definition force_deactivate_lease :: "string \<Rightarrow> (SupervisorDb, SupervisorLeaseRow option) op" where
  "force_deactivate_lease state_directory_id =
     then_do (select (get_active_lease state_directory_id)) (\<lambda>old_lease.
     then_do (deactivate_lease state_directory_id) (\<lambda>_.
     return old_lease))"

definition validate_fencing_for_write :: "string \<Rightarrow> int \<Rightarrow> SupervisorDb \<Rightarrow> bool" where
  "validate_fencing_for_write state_directory_id writer_fencing_token db =
     (case get_active_lease state_directory_id db of
        Some l \<Rightarrow> writer_fencing_token \<ge> sl_fencing_token l
      | None \<Rightarrow> False)"


section \<open>Process identity\<close>

text \<open>
  What the system reports for a process identifier. Windows: no process; or its exit code and its creation time as the two
  halves of a \<open>FILETIME\<close>, each possibly unavailable. Unix: the text of \<open>/proc/<pid>/stat\<close>, if it can be read.
\<close>

record OsProcess =
  os_exit_code :: "32 word option"
  os_creation :: "(32 word \<times> 32 word) option"

definition filetime_ticks :: "32 word \<times> 32 word \<Rightarrow> 64 word" where
  "filetime_ticks t = (case t of (high, low) \<Rightarrow> push_bit 32 (ucast high) OR ucast low)"

definition unix_epoch_ticks :: "64 word" where
  "unix_epoch_ticks = 11644473600000000000"

definition abs_diff :: "64 word \<Rightarrow> 64 word \<Rightarrow> 64 word" where
  "abs_diff a b = (if a < b then b - a else a - b)"

datatype OperatingSystem = Windows "32 word \<Rightarrow> OsProcess option" | Unix "32 word \<Rightarrow> string option"

definition windows_process_alive :: "(32 word \<Rightarrow> OsProcess option) \<Rightarrow> 32 word \<Rightarrow> int \<Rightarrow> bool" where
  "windows_process_alive os pid expected_start_time =
     (case os pid of
        None \<Rightarrow> False
      | Some p \<Rightarrow>
          (case os_exit_code p of
             None \<Rightarrow> False
           | Some exit_code \<Rightarrow>
               if exit_code \<noteq> 259 then False
               else (case os_creation p of
                       None \<Rightarrow> False
                     | Some creation \<Rightarrow>
                         (let ticks = filetime_ticks creation
                          in if ticks > unix_epoch_ticks then
                               (let creation_secs = (ticks - unix_epoch_ticks) div 10000000;
                                    expected_secs = word_of_int (expected_start_time div 1000)
                                in \<not> abs_diff creation_secs expected_secs > 2)
                             else True))))"

text \<open>\<open>str::split_whitespace\<close>.\<close>

definition split_whitespace :: "string \<Rightarrow> string list" where
  "split_whitespace s = filter (\<lambda>w. w \<noteq> []) (split_on (CHR '' '') (map (\<lambda>c. if is_whitespace c then CHR '' '' else c) s))"

definition is_process_alive :: "OperatingSystem \<Rightarrow> 32 word \<Rightarrow> int \<Rightarrow> bool" where
  "is_process_alive os pid expected_start_time =
     (case os of
        Windows processes \<Rightarrow> windows_process_alive processes pid expected_start_time
      | Unix stat \<Rightarrow> (case stat pid of Some s \<Rightarrow> length (split_whitespace s) \<ge> 22 | None \<Rightarrow> False))"

definition get_process_start_time :: "int \<Rightarrow> (32 word \<times> 32 word) option \<Rightarrow> int" where
  "get_process_start_time now creation =
     (case creation of
        None \<Rightarrow> now
      | Some t \<Rightarrow>
          (let ticks = filetime_ticks t
           in if ticks > unix_epoch_ticks then
                (let secs = (ticks - unix_epoch_ticks) div 10000000;
                     nanos = ((ticks - unix_epoch_ticks) mod 10000000) * 100
                 in uint secs * 1000 + uint nanos div 1000000)
              else now))"


section \<open>Ownership\<close>

text \<open>
  What a call depends on besides the tables: the clock, the identifiers it draws, its own process, the processes of
  the machine, the configured lease duration, the texts of times and error codes, and the error of the startup recovery,
  which works on other tables.
\<close>

record SupEnv =
  se_now :: int
  se_uuid :: "nat \<Rightarrow> string"
  se_pid :: "32 word"
  se_creation :: "(32 word \<times> 32 word) option"
  se_os :: OperatingSystem
  se_lease_duration_secs :: nat
  se_binary_version :: string
  se_time_text :: "sup_time \<Rightarrow> string"
  se_code_json :: "ErrorCode \<Rightarrow> string"
  se_recovery :: "sup_instance \<Rightarrow> string option"

definition lease_end :: "SupEnv \<Rightarrow> int" where
  "lease_end env = se_now env + int (se_lease_duration_secs env) * 1000"

definition verify_owner_alive :: "SupEnv \<Rightarrow> string \<Rightarrow> SupervisorDb \<Rightarrow> bool" where
  "verify_owner_alive env instance_id db =
     (case get_instance (se_now env) instance_id db of
        Some i \<Rightarrow> is_process_alive (se_os env) (si_pid i) (si_process_started_at i)
      | None \<Rightarrow> False)"

definition verify_owner_dead :: "SupEnv \<Rightarrow> string \<Rightarrow> SupervisorDb \<Rightarrow> bool" where
  "verify_owner_dead env instance_id db =
     (case get_instance (se_now env) instance_id db of
        Some i \<Rightarrow> \<not> is_process_alive (se_os env) (si_pid i) (si_process_started_at i)
      | None \<Rightarrow> True)"

definition acquire :: "SupEnv \<Rightarrow> string \<Rightarrow> sup_instance \<Rightarrow> (SupervisorDb, unit) op" where
  "acquire env dir i =
     then_do (select (get_active_lease dir)) (\<lambda>existing.
     case existing of
       None \<Rightarrow> acquire_lease_row (se_now env) (si_instance_id i) dir 1 (lease_end env)
     | Some l \<Rightarrow>
         then_do (select (\<lambda>db. (verify_owner_dead env (sl_instance_id l) db, verify_owner_alive env (sl_instance_id l) db)))
           (\<lambda>(dead, alive).
         raise
          (if parse_time (se_now env) (sl_expires_at l) < se_now env then
             (if dead then
                harness_error InvalidState (''stale: lease expired at '' @ se_time_text env (sl_expires_at l) @
                  '' and owner '' @ sl_instance_id l @ '' is dead'')
              else harness_error ErrConflict (''active supervisor '' @ sl_instance_id l @
                  '' exists (lease expired but process still alive)''))
           else if alive then
             harness_error ErrConflict (''supervisor '' @ sl_instance_id l @ '' is already active with fencing_token '' @
               show_int (sl_fencing_token l))
           else harness_error InvalidState (''stale: lease active until '' @ se_time_text env (sl_expires_at l) @
               '' but owner '' @ sl_instance_id l @ '' process is dead''))))"

record TakeoverResult =
  tr_new_fencing_token :: int
  tr_previous_instance_id :: string

text \<open>The last part of a takeover, after the old lease was read and deactivated.\<close>

definition takeover_insert :: "SupEnv \<Rightarrow> string \<Rightarrow> sup_instance \<Rightarrow> SupervisorLeaseRow option \<Rightarrow> (SupervisorDb, TakeoverResult) op" where
  "takeover_insert env dir i old_lease =
     (let old_fencing_token = (case old_lease of Some l \<Rightarrow> sl_fencing_token l | None \<Rightarrow> 0);
          new_fencing_token = old_fencing_token + 1;
          previous_instance_id = (case old_lease of Some l \<Rightarrow> sl_instance_id l | None \<Rightarrow> ''unknown'')
      in then_do (acquire_lease_row (se_now env) (si_instance_id i) dir new_fencing_token (lease_end env)) (\<lambda>_.
         return \<lparr>tr_new_fencing_token = new_fencing_token, tr_previous_instance_id = previous_instance_id\<rparr>))"

definition takeover_and_acquire :: "SupEnv \<Rightarrow> string \<Rightarrow> sup_instance \<Rightarrow> (SupervisorDb, TakeoverResult) op" where
  "takeover_and_acquire env dir i =
     then_do (force_deactivate_lease dir) (\<lambda>old_lease. takeover_insert env dir i old_lease)"

definition release_lease_of :: "sup_instance \<Rightarrow> (SupervisorDb, unit) op" where
  "release_lease_of i = then_do (release_lease_cas (si_instance_id i) (si_fencing_token i)) (\<lambda>_. return ())"


section \<open>A supervisor process\<close>

text \<open>The instance a supervisor keeps in memory, and the database it shares with the others.\<close>

record SupState =
  ss_instance :: "sup_instance option"
  ss_db :: SupervisorDb

definition on_db :: "(SupervisorDb, 'a) op \<Rightarrow> (SupState, 'a) op" where
  "on_db m s = (let (r, db) = m (ss_db s) in (r, s\<lparr>ss_db := db\<rparr>))"

definition set_instance :: "sup_instance \<Rightarrow> (SupState, unit) op" where
  "set_instance i s = (Inr (), s\<lparr>ss_instance := Some i\<rparr>)"

text \<open>\<open>as_ref().unwrap()\<close>; the panic on \<open>None\<close> is an error here.\<close>

definition current_instance :: "(SupState, sup_instance) op" where
  "current_instance = require (harness_error Internal ''called unwrap on a None value'') ss_instance"

definition emit_event :: "sup_instance \<Rightarrow> SupervisorEvent \<Rightarrow> (SupState, unit) op" where
  "emit_event i event = on_db (append_event (si_instance_id i) (event_type_str event) event)"

definition create_instance :: "SupEnv \<Rightarrow> string \<Rightarrow> (SupState, sup_instance) op" where
  "create_instance env dir =
     (let started = get_process_start_time (se_now env) (se_creation env);
          i = \<lparr>si_instance_id = se_uuid env 0, si_state_directory_id = dir, si_pid = se_pid env,
               si_process_started_at = started, si_boot_nonce = se_uuid env 1, si_state = Sup_Created,
               si_fencing_token = 0, si_started_at = se_now env, si_heartbeat_at = se_now env,
               si_lease_expires_at = lease_end env, si_protocol_version = ''1.0'',
               si_binary_version = se_binary_version env\<rparr>
      in then_do (on_db (insert_instance i)) (\<lambda>_.
         then_do (emit_event i (SupervisorStarting (si_instance_id i) (si_pid i) started (se_now env))) (\<lambda>_.
         return i)))"

definition transition_event :: "int \<Rightarrow> SupervisorState \<Rightarrow> sup_instance \<Rightarrow> SupervisorEvent option" where
  "transition_event now new_state i =
     (case new_state of
        Sup_Starting \<Rightarrow> Some (SupervisorStarting (si_instance_id i) (si_pid i) (si_process_started_at i) now)
      | Sup_AcquiringOwnership \<Rightarrow> Some (SupervisorStarting (si_instance_id i) (si_pid i) (si_process_started_at i) now)
      | Sup_Ready \<Rightarrow> Some (SupervisorReady (si_instance_id i) now)
      | Sup_Draining \<Rightarrow> Some (SupervisorDraining (si_instance_id i) ''stop requested'' now)
      | Sup_Stopping \<Rightarrow> Some (SupervisorStopping (si_instance_id i) now)
      | Sup_Stopped \<Rightarrow> Some (SupervisorStopped (si_instance_id i) now)
      | Sup_Failed \<Rightarrow> Some (SupervisorFailed (si_instance_id i) ''ownership rejected'' now)
      | _ \<Rightarrow> None)"

definition transition_to :: "SupEnv \<Rightarrow> SupervisorState \<Rightarrow> sup_instance \<Rightarrow> (SupState, unit) op" where
  "transition_to env new_state i s =
     (let current_state = (case ss_instance s of Some inst \<Rightarrow> si_state inst | None \<Rightarrow> si_state i)
      in case validate_transition current_state new_state of
           Inl e \<Rightarrow> (Inl (harness_error (InvalidStateTransition (state_str (si_state i)) (state_str new_state))
                      (''illegal supervisor state transition: '' @ e)), s)
         | Inr _ \<Rightarrow>
             (let s1 = s\<lparr>ss_instance := map_option (\<lambda>inst. inst\<lparr>si_state := new_state\<rparr>) (ss_instance s)\<rparr>
              in case transition_event (se_now env) new_state i of
                   Some event \<Rightarrow> on_db (update_state_and_append_event (si_instance_id i) new_state event) s1
                 | None \<Rightarrow> on_db (update_state_no_event (si_instance_id i) new_state) s1))"

text \<open>
  \<open>run\<close> up to the attempt to acquire the lease; what it does with the outcome of the attempt; and the way to \<open>Ready\<close>.
  Other supervisors may act between the first two.
\<close>

definition run_startup :: "SupEnv \<Rightarrow> string \<Rightarrow> (SupState, sup_instance \<times> (CoreError, unit) result) op" where
  "run_startup env dir =
     then_do (create_instance env dir) (\<lambda>i0.
     then_do (set_instance i0) (\<lambda>_.
     then_do (transition_to env Sup_Starting i0) (\<lambda>_.
     then_do current_instance (\<lambda>i1.
     then_do (transition_to env Sup_AcquiringOwnership i1) (\<lambda>_.
     then_do current_instance (\<lambda>i2.
     then_do (attempt (on_db (acquire env dir i2))) (\<lambda>r.
     return (i2, r))))))))"

definition run_startup_recovery :: "SupEnv \<Rightarrow> sup_instance \<Rightarrow> (SupState, unit) op" where
  "run_startup_recovery env i =
     (case se_recovery env i of
        None \<Rightarrow> return ()
      | Some e \<Rightarrow> raise (harness_error Internal (''startup recovery failed: '' @ e)))"

definition run_ready :: "SupEnv \<Rightarrow> sup_instance \<Rightarrow> (SupState, sup_instance) op" where
  "run_ready env i =
     then_do (transition_to env Sup_Recovering i) (\<lambda>_.
     then_do (run_startup_recovery env i) (\<lambda>_.
     then_do (transition_to env Sup_Ready i) (\<lambda>_.
     return i)))"

definition run_outcome :: "SupEnv \<Rightarrow> string \<Rightarrow> sup_instance \<times> (CoreError, unit) result \<Rightarrow> (SupState, sup_instance) op" where
  "run_outcome env dir attempted =
     (case attempted of
        (i, Inr _) \<Rightarrow> run_ready env i
      | (i, Inl e) \<Rightarrow>
          (let msg = core_error_display (se_code_json env) e
           in if contains_str msg ''stale'' then
                then_do (transition_to env Sup_TakingOver i) (\<lambda>_.
                then_do (on_db (takeover_and_acquire env dir i)) (\<lambda>t.
                let updated = i\<lparr>si_fencing_token := tr_new_fencing_token t\<rparr>
                in then_do (on_db (update_fencing_token (si_instance_id i) (tr_new_fencing_token t))) (\<lambda>_.
                   then_do (set_instance updated) (\<lambda>_.
                   run_ready env updated))))
              else
                then_do (emit_event i (SupervisorOwnershipRejected (si_instance_id i) msg None (se_now env))) (\<lambda>_.
                then_do (transition_to env Sup_Failed i) (\<lambda>_.
                raise e))))"

definition run_to_ready :: "SupEnv \<Rightarrow> string \<Rightarrow> (SupState, sup_instance) op" where
  "run_to_ready env dir = then_do (run_startup env dir) (run_outcome env dir)"

text \<open>The shutdown sequence at the end of \<open>run\<close>.\<close>

definition run_shutdown :: "SupEnv \<Rightarrow> (SupState, unit) op" where
  "run_shutdown env =
     then_do current_instance (\<lambda>i1.
     then_do (transition_to env Sup_Draining i1) (\<lambda>_.
     then_do current_instance (\<lambda>i2.
     then_do (transition_to env Sup_Stopping i2) (\<lambda>_.
     then_do (on_db (release_lease_of i2)) (\<lambda>_.
     then_do current_instance (\<lambda>i3.
     transition_to env Sup_Stopped i3))))))"

definition stop :: "SupEnv \<Rightarrow> (SupState, unit) op" where
  "stop env =
     then_do (require (harness_error InvalidState ''supervisor not started'') ss_instance) (\<lambda>i.
     then_do (transition_to env Sup_Draining i) (\<lambda>_.
     then_do (transition_to env Sup_Stopping i) (\<lambda>_.
     then_do (on_db (release_lease_of i)) (\<lambda>_.
     transition_to env Sup_Stopped i))))"

text \<open>
  One round of the heartbeat loop: the counter of consecutive failures with which it goes on, or \<open>None\<close> when it ends.
  The statement cannot fail here, so the branch for database errors is the one of a lost comparison.
\<close>

definition heartbeat_round :: "SupEnv \<Rightarrow> string \<Rightarrow> int \<Rightarrow> nat \<Rightarrow> (SupState, nat option) op" where
  "heartbeat_round env instance_id fencing_token failures =
     then_do (on_db (heartbeat_cas (se_now env) instance_id fencing_token (lease_end env))) (\<lambda>renewed s.
       if renewed then
         (Inr (Some 0), s\<lparr>ss_instance := map_option
            (\<lambda>i. i\<lparr>si_heartbeat_at := se_now env, si_lease_expires_at := lease_end env\<rparr>) (ss_instance s)\<rparr>)
       else if Suc failures \<ge> 3 then
         (Inr None, s\<lparr>ss_instance := map_option (\<lambda>i. i\<lparr>si_state := Sup_Failed\<rparr>) (ss_instance s)\<rparr>)
       else (Inr (Some (Suc failures)), s))"


section \<open>Fencing\<close>

lemma deactivate_lease_ok:
  "deactivate_lease d db = (Inr (), db\<lparr>sd_leases := update_where (active_for d) (\<lambda>l. l\<lparr>sl_is_active := False\<rparr>) (sd_leases db)\<rparr>)"
  by (simp add: deactivate_lease_def update_lease_def then_do_def return_def)

lemma deactivate_active:
  "get_active_lease dir (snd (deactivate_lease d db)) = (if d = dir then None else get_active_lease dir db)"
proof -
  have "find (active_for dir) (update_where (active_for d) (\<lambda>l. l\<lparr>sl_is_active := False\<rparr>) rows) =
      (if d = dir then None else find (active_for dir) rows)" for rows
    by (induction rows) (auto simp: update_where_def active_for_def [abs_def])
  then show ?thesis by (simp add: get_active_lease_def deactivate_lease_ok select_one_def)
qed

text \<open>The row of a new lease.\<close>

definition new_lease :: "int \<Rightarrow> string \<Rightarrow> string \<Rightarrow> int \<Rightarrow> int \<Rightarrow> SupervisorDb \<Rightarrow> SupervisorLeaseRow" where
  "new_lease now iid dir tok expires db = \<lparr>sl_id = Suc (length (sd_leases db)), sl_state_directory_id = dir,
     sl_instance_id = iid, sl_fencing_token = tok, sl_acquired_at = SqlNow now, sl_expires_at = IsoMs expires,
     sl_is_active = True\<rparr>"

lemma acquire_lease_row_cases:
  "acquire_lease_row now iid d tok expires db =
     (case get_active_lease d db of
        None \<Rightarrow> (Inr (), db\<lparr>sd_leases := sd_leases db @ [new_lease now iid d tok expires db]\<rparr>)
      | Some l \<Rightarrow> (fst (acquire_lease_row now iid d tok expires db), db))"
  "get_active_lease d db \<noteq> None \<Longrightarrow> \<exists>e. fst (acquire_lease_row now iid d tok expires db) = Inl e"
  by (auto simp: acquire_lease_row_def get_active_lease_def active_for_def new_lease_def select_one_def list_ex_iff
    find_None_iff find_Some_iff split: option.split)

lemma get_active_lease_insert:
  "get_active_lease d db = None \<Longrightarrow>
   get_active_lease dir (db\<lparr>sd_leases := sd_leases db @ [new_lease now iid d tok expires db]\<rparr>) =
   (if dir = d then Some (new_lease now iid d tok expires db) else get_active_lease dir db)"
  by (auto simp: get_active_lease_def select_one_append select_one_single active_for_def new_lease_def split: option.split)

text \<open>The end of a takeover by a supervisor that read the lease \<open>old\<close> before, and a takeover with nothing in between.\<close>

definition taken_over :: "SupervisorLeaseRow option \<Rightarrow> TakeoverResult" where
  "taken_over old = \<lparr>tr_new_fencing_token = (case old of Some l \<Rightarrow> sl_fencing_token l | None \<Rightarrow> 0) + 1,
     tr_previous_instance_id = (case old of Some l \<Rightarrow> sl_instance_id l | None \<Rightarrow> ''unknown'')\<rparr>"

definition with_lease :: "SupEnv \<Rightarrow> string \<Rightarrow> sup_instance \<Rightarrow> int \<Rightarrow> SupervisorDb \<Rightarrow> SupervisorDb" where
  "with_lease env dir i tok db =
     db\<lparr>sd_leases := sd_leases db @ [new_lease (se_now env) (si_instance_id i) dir tok (lease_end env) db]\<rparr>"

lemma acquire_free:
  "get_active_lease dir db = None \<Longrightarrow>
   acquire_lease_row (se_now env) (si_instance_id i) dir tok (lease_end env) db = (Inr (), with_lease env dir i tok db)"
  by (subst acquire_lease_row_cases) (simp add: with_lease_def)

lemma acquire_fresh: "get_active_lease dir db = None \<Longrightarrow> acquire env dir i db = (Inr (), with_lease env dir i 1 db)"
  by (simp add: acquire_def op_simps acquire_free)

lemma get_active_with_lease:
  "get_active_lease d db = None \<Longrightarrow>
   get_active_lease dir (with_lease env d i tok db) =
   (if dir = d then Some (new_lease (se_now env) (si_instance_id i) d tok (lease_end env) db) else get_active_lease dir db)"
  by (simp add: with_lease_def get_active_lease_insert)

lemma takeover_after_read:
  "then_do (deactivate_lease dir) (\<lambda>_. takeover_insert env dir i old) db =
   (Inr (taken_over old), with_lease env dir i (tr_new_fencing_token (taken_over old)) (snd (deactivate_lease dir db)))"
proof -
  have free: "get_active_lease dir (snd (deactivate_lease dir db)) = None" by (simp add: deactivate_active)
  have "deactivate_lease dir db = (Inr (), snd (deactivate_lease dir db))" by (simp add: deactivate_lease_ok)
  then have "then_do (deactivate_lease dir) (\<lambda>_. takeover_insert env dir i old) db =
      takeover_insert env dir i old (snd (deactivate_lease dir db))"
    by (rule then_do_ok)
  also have "\<dots> = (Inr (taken_over old), with_lease env dir i (tr_new_fencing_token (taken_over old)) (snd (deactivate_lease dir db)))"
    using acquire_free [OF free] by (simp add: takeover_insert_def taken_over_def Let_def then_do_ok op_simps)
  finally show ?thesis .
qed

lemma takeover_alone:
  "takeover_and_acquire env dir i db =
   (Inr (taken_over (get_active_lease dir db)),
    with_lease env dir i (tr_new_fencing_token (taken_over (get_active_lease dir db))) (snd (deactivate_lease dir db)))"
  using takeover_after_read [of dir env i "get_active_lease dir db" db]
  by (simp add: takeover_and_acquire_def force_deactivate_lease_def op_simps)

text \<open>
  Acquisitions and takeovers of a directory, statement by statement, while none of its leases is released. An acquisition
  reads that there is no lease and inserts one; a takeover reads the lease, deactivates whatever is active, and inserts
  its own. They do not overlap each other: \<open>Idle\<close> is the state between them. Between any two statements, everything that
  leaves the active lease of the directory alone may happen: heartbeats, state changes, events, and all that
  supervisors of other directories do.
\<close>

datatype ownership_step = Idle | Read_Free | Read_Lease "SupervisorLeaseRow option" | Deactivated "SupervisorLeaseRow option"

inductive dir_step ::
  "string \<Rightarrow> ownership_step \<times> SupervisorDb \<Rightarrow> ownership_step \<times> SupervisorDb \<Rightarrow> bool" for dir where
  acquire_reads: "get_active_lease dir db = None \<Longrightarrow> dir_step dir (Idle, db) (Read_Free, db)"
| acquire_inserts: "dir_step dir (Read_Free, db)
    (Idle, snd (acquire_lease_row (se_now (env :: SupEnv)) (si_instance_id (i :: sup_instance)) dir 1 (lease_end env) db))"
| takeover_reads: "dir_step dir (Idle, db) (Read_Lease (get_active_lease dir db), db)"
| takeover_deactivates: "dir_step dir (Read_Lease old, db) (Deactivated old, snd (deactivate_lease dir db))"
| takeover_inserts: "dir_step dir (Deactivated old, db) (Idle, snd (takeover_insert env dir i old db))"
| others: "get_active_lease dir db' = get_active_lease dir db \<Longrightarrow> dir_step dir (s, db) (s, db')"

text \<open>The operations are such sequences.\<close>

lemma acquire_steps: "(dir_step dir)\<^sup>*\<^sup>* (Idle, db) (Idle, snd (acquire env dir i db))"
proof (cases "get_active_lease dir db")
  case None
  then have "acquire env dir i db = acquire_lease_row (se_now env) (si_instance_id i) dir 1 (lease_end env) db"
    by (simp add: acquire_def op_simps)
  then show ?thesis
    using rtranclp.rtrancl_into_rtrancl [OF r_into_rtranclp [of "dir_step dir", OF dir_step.acquire_reads [OF None]] dir_step.acquire_inserts]
    by simp
next
  case (Some l)
  then show ?thesis by (simp add: acquire_def op_simps)
qed









text \<open>
  Two takeovers that read the same stale lease both succeed, and with the same token: the second deactivates the lease
  of the first and inserts its own, but computes its token from the lease both of them read. Both supervisors hold a
  token that validates.
\<close>

theorem takeover_race_same_token:
  "let old = get_active_lease dir db;
       (r1, db1) = takeover_and_acquire env1 dir i1 db;
       (r2, db2) = then_do (deactivate_lease dir) (\<lambda>_. takeover_insert env2 dir i2 old) db1
   in \<exists>t1 t2. r1 = Inr t1 \<and> r2 = Inr t2 \<and> tr_new_fencing_token t1 = tr_new_fencing_token t2 \<and>
      map_option sl_instance_id (get_active_lease dir db1) = Some (si_instance_id i1) \<and>
      map_option sl_instance_id (get_active_lease dir db2) = Some (si_instance_id i2) \<and>
      validate_fencing_for_write dir (tr_new_fencing_token t1) db2"
proof -
  have free: "get_active_lease dir (snd (deactivate_lease dir db)) = None" for db by (simp add: deactivate_active)
  show ?thesis
    by (simp add: takeover_after_read takeover_alone get_active_with_lease [OF free] validate_fencing_for_write_def
      new_lease_def)
qed

text \<open>
  Without an active lease the next supervisor starts again with token 1, whatever tokens were given out before: every
  former owner of the directory passes the fencing check again.
\<close>

theorem fresh_lease_resets_fencing:
  assumes "get_active_lease dir db = None"
  shows "\<exists>db'. acquire env dir i db = (Inr (), db') \<and> map_option sl_fencing_token (get_active_lease dir db') = Some 1 \<and>
    validate_fencing_for_write dir token db' = (1 \<le> token)"
  using assms by (simp add: acquire_fresh get_active_with_lease validate_fencing_for_write_def new_lease_def)

text \<open>
  A supervisor does not notice that it was taken over: whatever its heartbeat answers before a takeover by another instance,
  it answers after it, since the heartbeat compares the token in the instance's own row, which no takeover changes.
\<close>

theorem heartbeat_blind_to_takeover:
  "fst (heartbeat_cas now iid token expires (snd (takeover_and_acquire env dir i db))) =
   fst (heartbeat_cas now iid token expires db)"
  by (simp add: heartbeat_cas_def update_instance_def takeover_alone with_lease_def deactivate_lease_ok then_do_def return_def)

text \<open>
  The check against a reused process identifier never runs: the constant for the Unix epoch is a hundred times too large, so
  for every process created before the year 38500 the creation time is not compared, and any running process with the
  identifier counts as the owner.
\<close>

theorem pid_reuse_not_detected:
  assumes "filetime_ticks t \<le> unix_epoch_ticks" and "os pid = Some \<lparr>os_exit_code = Some 259, os_creation = Some t\<rparr>"
  shows "is_process_alive (Windows os) pid expected_start_time"
proof -
  have "\<not> unix_epoch_ticks < filetime_ticks t" using assms(1) by (simp add: not_less)
  then show ?thesis using assms(2) by (simp add: is_process_alive_def windows_process_alive_def)
qed

theorem pid_reuse_not_detected_witness:
  "is_process_alive (Windows (\<lambda>_. Some \<lparr>os_exit_code = Some 259, os_creation = Some (0x01DC5A8E, 0)\<rparr>)) 4711 0"
  by (rule pid_reuse_not_detected [of "(0x01DC5A8E, 0)"]) (simp_all add: filetime_ticks_def unix_epoch_ticks_def)


section \<open>State changes\<close>

text \<open>The tables after a state change was written.\<close>

definition persisted :: "SupEnv \<Rightarrow> SupervisorState \<Rightarrow> sup_instance \<Rightarrow> SupervisorDb \<Rightarrow> SupervisorDb" where
  "persisted env t i db =
     (let db1 = snd (update_state_no_event (si_instance_id i) t db)
      in case transition_event (se_now env) t i of
           Some event \<Rightarrow> snd (append_event (si_instance_id i) (event_type_str event) event db1)
         | None \<Rightarrow> db1)"

lemma update_state_no_event_ok:
  "update_state_no_event iid t db = (Inr (), db\<lparr>sd_instances := update_where (\<lambda>r. si_instance_id r = iid)
     (\<lambda>r. r\<lparr>si_state := state_str t\<rparr>) (sd_instances db)\<rparr>)"
  by (simp add: update_state_no_event_def update_instance_def then_do_def return_def)

lemma persisted_sel [simp]:
  "sd_leases (persisted env t i db) = sd_leases db"
  "sd_instances (persisted env t i db) = update_where (\<lambda>r. si_instance_id r = si_instance_id i)
     (\<lambda>r. r\<lparr>si_state := state_str t\<rparr>) (sd_instances db)"
  by (simp_all add: persisted_def update_state_no_event_ok append_event_def Let_def split: option.split)

lemma get_active_lease_persisted [simp]: "get_active_lease dir (persisted env t i db) = get_active_lease dir db"
  by (simp add: get_active_lease_def)

lemma transition_to_result:
  assumes "ss_instance s = Some i0"
  shows "transition_to env t i s =
    (if is_ok (validate_transition (si_state i0) t) then
       (Inr (), s\<lparr>ss_instance := Some (i0\<lparr>si_state := t\<rparr>), ss_db := persisted env t i (ss_db s)\<rparr>)
     else (fst (transition_to env t i s), s))"
proof (cases "validate_transition (si_state i0) t")
  case (Inr u)
  then show ?thesis using assms
    by (simp add: transition_to_def on_db_def persisted_def update_state_and_append_event_def update_state_no_event_ok
      then_do_ok append_event_def Let_def split: option.split)
qed (use assms in \<open>simp add: transition_to_def\<close>)

text \<open>The supervisor's row has the state its memory has.\<close>

definition in_step :: "SupState \<Rightarrow> bool" where
  "in_step s \<longleftrightarrow> (case ss_instance s of
     None \<Rightarrow> False
   | Some i \<Rightarrow> map_option si_state (select_one (\<lambda>r. si_instance_id r = si_instance_id i) (sd_instances (ss_db s))) =
               Some (state_str (si_state i)))"

text \<open>
  State changes of a supervisor are durable and follow its machine: from a state in which memory and table agree, a change
  that succeeds was legal, left a state that is not terminal, and memory and table agree on the new state; a change
  that is refused leaves memory and tables as they were. Neither touches a lease.
\<close>

theorem transition_durable:
  assumes "in_step s" and "ss_instance s = Some i0" and "si_instance_id i = si_instance_id i0"
    and "transition_to env t i s = (r, s')"
  shows "sd_leases (ss_db s') = sd_leases (ss_db s) \<and> in_step s' \<and>
    (case r of
       Inr _ \<Rightarrow> \<not> sup_is_terminal (si_state i0) \<and> (si_state i0 = t \<or> sup_edge (si_state i0) t) \<and>
                ss_instance s' = Some (i0\<lparr>si_state := t\<rparr>)
     | Inl _ \<Rightarrow> s' = s)"
proof (cases "is_ok (validate_transition (si_state i0) t)")
  case True
  then have "s' = s\<lparr>ss_instance := Some (i0\<lparr>si_state := t\<rparr>), ss_db := persisted env t i (ss_db s)\<rparr>" "r = Inr ()"
    using transition_to_result [OF assms(2), of env t i] assms(4) by simp_all
  then show ?thesis using True assms(1-3)
    by (auto simp: in_step_def validate_transition_ok select_one_updated)
next
  case False
  then obtain e where "transition_to env t i s = (Inl e, s)"
    using assms(2) by (auto simp: transition_to_def validate_transition_def split: if_splits)
  then show ?thesis using assms(1,4) by auto
qed


section \<open>A first supervisor\<close>

definition first_instance :: "SupEnv \<Rightarrow> string \<Rightarrow> sup_instance" where
  "first_instance env dir = \<lparr>si_instance_id = se_uuid env 0, si_state_directory_id = dir, si_pid = se_pid env,
     si_process_started_at = get_process_start_time (se_now env) (se_creation env), si_boot_nonce = se_uuid env 1,
     si_state = Sup_Created, si_fencing_token = 0, si_started_at = se_now env, si_heartbeat_at = se_now env,
     si_lease_expires_at = lease_end env, si_protocol_version = ''1.0'', si_binary_version = se_binary_version env\<rparr>"

lemma create_instance_ok:
  assumes "\<not> list_ex (\<lambda>r. si_instance_id r = se_uuid env 0) (sd_instances (ss_db s))"
  obtains s1 where "create_instance env dir s = (Inr (first_instance env dir), s1)"
    "sd_leases (ss_db s1) = sd_leases (ss_db s)" "ss_instance s1 = ss_instance s"
  using assms by (simp add: create_instance_def first_instance_def Let_def on_db_def insert_instance_def emit_event_def
    append_event_def then_do_def return_def)

lemma run_to_ready_fresh:
  assumes "get_active_lease dir (ss_db s) = None"
    and "\<not> list_ex (\<lambda>r. si_instance_id r = se_uuid env 0) (sd_instances (ss_db s))"
    and "\<And>i. se_recovery env i = None"
  shows "\<exists>s1 l. run_to_ready env dir s = (Inr ((first_instance env dir)\<lparr>si_state := Sup_AcquiringOwnership\<rparr>), s1) \<and>
    ss_instance s1 = Some ((first_instance env dir)\<lparr>si_state := Sup_Ready\<rparr>) \<and>
    get_active_lease dir (ss_db s1) = Some l \<and> sl_instance_id l = se_uuid env 0 \<and> sl_fencing_token l = 1"
proof -
  let ?i = "first_instance env dir"
  obtain s0 where s0: "create_instance env dir s = (Inr ?i, s0)" "sd_leases (ss_db s0) = sd_leases (ss_db s)"
    using create_instance_ok [OF assms(2)] by blast
  have free: "get_active_lease dir (ss_db s0) = None" using assms(1) s0(2) by (simp add: get_active_lease_def)
  have new: "si_state ?i = Sup_Created" "si_instance_id ?i = se_uuid env 0" by (simp_all add: first_instance_def)
  show ?thesis
    by (simp add: run_to_ready_def run_startup_def run_outcome_def run_ready_def run_startup_recovery_def assms(3)
      op_simps s0(1)
      set_instance_def current_instance_def then_do_ok transition_to_result new validate_transition_ok sup_edge_def
      sup_is_terminal_def on_db_def acquire_fresh free get_active_with_lease new_lease_def)
qed


lemma release_lease_other:
  assumes "get_active_lease dir db = Some l" and "sl_fencing_token l \<noteq> si_fencing_token i"
  shows "\<exists>db'. release_lease_of i db = (Inr (), db') \<and> get_active_lease dir db' = Some l"
proof -
  let ?P = "\<lambda>l. sl_instance_id l = si_instance_id i \<and> sl_fencing_token l = si_fencing_token i \<and> sl_is_active l"
  have "select_one (active_for dir) (update_where ?P (\<lambda>l. l\<lparr>sl_is_active := False\<rparr>) rows) = Some l"
    if "select_one (active_for dir) rows = Some l" for rows
    using that assms(2) by (induction rows) (auto simp: select_one_def update_where_def active_for_def split: if_splits)
  then show ?thesis using assms(1)
    by (simp add: release_lease_of_def release_lease_cas_def update_lease_def get_active_lease_def then_do_def return_def)
qed

lemma run_shutdown_ready:
  assumes "ss_instance s = Some i" and "si_state i = Sup_Ready" and "get_active_lease dir (ss_db s) = Some l"
    and "sl_fencing_token l \<noteq> si_fencing_token i"
  shows "\<exists>s'. run_shutdown env s = (Inr (), s') \<and> ss_instance s' = Some (i\<lparr>si_state := Sup_Stopped\<rparr>) \<and>
    get_active_lease dir (ss_db s') = Some l"
proof -
  let ?db = "persisted env Sup_Stopping (i\<lparr>si_state := Sup_Draining\<rparr>) (persisted env Sup_Draining i (ss_db s))"
  obtain db' where "release_lease_of (i\<lparr>si_state := Sup_Draining\<rparr>) ?db = (Inr (), db')" "get_active_lease dir db' = Some l"
    using release_lease_other [of dir ?db l "i\<lparr>si_state := Sup_Draining\<rparr>"] assms(3,4) by auto
  then show ?thesis using assms(1,2)
    by (simp add: run_shutdown_def current_instance_def op_simps then_do_ok transition_to_result validate_transition_ok
      sup_edge_def sup_is_terminal_def on_db_def)
qed

text \<open>
  C40. A supervisor that starts in a directory without owner, and whose recovery succeeds, can neither write under its own token nor give its lease back. It keeps the
  token 0 it was created with while its lease has token 1, so that the fencing check refuses it, and a clean shutdown ends
  in state stopped with the lease still active; the next supervisor has to take over.
\<close>

theorem first_supervisor_leaks_lease:
  assumes "get_active_lease dir (ss_db s) = None"
    and "\<not> list_ex (\<lambda>r. si_instance_id r = se_uuid env 0) (sd_instances (ss_db s))"
    and "\<And>i. se_recovery env i = None"
  shows "\<exists>i s1 s2 l. run_to_ready env dir s = (Inr i, s1) \<and> run_shutdown env' s1 = (Inr (), s2) \<and>
    \<not> validate_fencing_for_write dir (si_fencing_token i) (ss_db s1) \<and>
    map_option si_state (ss_instance s2) = Some Sup_Stopped \<and>
    get_active_lease dir (ss_db s2) = Some l \<and> sl_instance_id l = si_instance_id i"
proof -
  let ?i = "first_instance env dir"
  obtain s1 l where s1: "run_to_ready env dir s = (Inr (?i\<lparr>si_state := Sup_AcquiringOwnership\<rparr>), s1)"
    "ss_instance s1 = Some (?i\<lparr>si_state := Sup_Ready\<rparr>)" "get_active_lease dir (ss_db s1) = Some l"
    "sl_instance_id l = se_uuid env 0" "sl_fencing_token l = 1"
    using run_to_ready_fresh [OF assms] by blast
  obtain s2 where "run_shutdown env' s1 = (Inr (), s2)" "ss_instance s2 = Some (?i\<lparr>si_state := Sup_Stopped\<rparr>)"
    "get_active_lease dir (ss_db s2) = Some l"
    using run_shutdown_ready [OF s1(2) _ s1(3), of env'] s1(5) by (auto simp: first_instance_def)
  then show ?thesis using s1 by (auto simp: validate_fencing_for_write_def first_instance_def)
qed


section \<open>Two supervisors at once\<close>

text \<open>
  A crashed owner's expired lease, and two supervisors that start after it: processes 11 and 12 are running, process 10
  is gone.
\<close>

definition sample_sup :: "32 word \<Rightarrow> string \<Rightarrow> SupEnv" where
  "sample_sup pid name = \<lparr>se_now = 100000, se_uuid = (\<lambda>n. name @ show_nat n), se_pid = pid, se_creation = Some (0x01DC5A8E, 0),
     se_os = Windows (\<lambda>p. if p = 11 \<or> p = 12 then Some \<lparr>os_exit_code = Some 259, os_creation = Some (0x01DC5A8E, 0)\<rparr> else None),
     se_lease_duration_secs = 30, se_binary_version = ''0.1.0'', se_time_text = (\<lambda>_. ''t''), se_code_json = (\<lambda>_. ''c''),
     se_recovery = (\<lambda>_. None)\<rparr>"

definition empty_sup_db :: SupervisorDb where
  "empty_sup_db = \<lparr>sd_instances = [], sd_leases = [], sd_events = []\<rparr>"

definition crashed_owner :: SupervisorDb where
  "crashed_owner = ss_db (snd (run_to_ready ((sample_sup 10 ''x'')\<lparr>se_now := 0\<rparr>) ''d'' \<lparr>ss_instance = None, ss_db = empty_sup_db\<rparr>))"

text \<open>
  Two supervisors of one directory can be ready at the same time: when both find the crashed owner's stale lease before either
  takes over, the second takes the lease of the first away although that process is running, and the heartbeat of the
  first goes on.
\<close>

theorem two_supervisors_ready:
  "let (r1, s1) = run_startup (sample_sup 11 ''a'') ''d'' \<lparr>ss_instance = None, ss_db = crashed_owner\<rparr>;
       (r2, s2) = run_startup (sample_sup 12 ''b'') ''d'' \<lparr>ss_instance = None, ss_db = ss_db s1\<rparr>;
       (q1, t1) = run_outcome (sample_sup 11 ''a'') ''d'' (projr r1) (s1\<lparr>ss_db := ss_db s2\<rparr>);
       (q2, t2) = run_outcome (sample_sup 12 ''b'') ''d'' (projr r2) (s2\<lparr>ss_db := ss_db t1\<rparr>)
   in map_option si_state (ss_instance t1) = Some Sup_Ready \<and> map_option si_state (ss_instance t2) = Some Sup_Ready \<and>
      map_option sl_instance_id (get_active_lease ''d'' (ss_db t2)) = Some ''b0'' \<and>
      is_process_alive (se_os (sample_sup 12 ''b'')) 11 100000 \<and>
      fst (heartbeat_cas 100001 ''a0'' 2 130001 (ss_db t2)) = Inr True"
  by code_simp


theorem fresh_lease_resets_fencing_witness:
  "\<exists>db'. acquire (sample_sup 11 ''a'') ''d'' (first_instance (sample_sup 11 ''a'') ''d'') empty_sup_db = (Inr (), db') \<and>
     map_option sl_fencing_token (get_active_lease ''d'' db') = Some 1 \<and> validate_fencing_for_write ''d'' 7 db'"
  using fresh_lease_resets_fencing [of "''d''" empty_sup_db "sample_sup 11 ''a''" "first_instance (sample_sup 11 ''a'') ''d''" 7]
  by (simp add: empty_sup_db_def get_active_lease_def select_one_def)

theorem transition_durable_witness:
  "let s = \<lparr>ss_instance = Some (first_instance (sample_sup 11 ''a'') ''d''),
            ss_db = snd (insert_instance (first_instance (sample_sup 11 ''a'') ''d'') empty_sup_db)\<rparr>;
       (r, s') = transition_to (sample_sup 11 ''a'') Sup_Starting (first_instance (sample_sup 11 ''a'') ''d'') s
   in in_step s' \<and> is_ok r"
proof -
  let ?i = "first_instance (sample_sup 11 ''a'') ''d''"
  let ?s = "\<lparr>ss_instance = Some ?i, ss_db = snd (insert_instance ?i empty_sup_db)\<rparr>"
  have s: "in_step ?s"
    by (simp add: in_step_def insert_instance_def empty_sup_db_def select_one_def instance_row_def)
  obtain r s' where r: "transition_to (sample_sup 11 ''a'') Sup_Starting ?i ?s = (r, s')" by fastforce
  have "is_ok (validate_transition (si_state ?i) Sup_Starting)"
    by (simp add: validate_transition_ok first_instance_def sup_is_terminal_def sup_edge_def)
  then have "is_ok r" using r transition_to_result [of ?s ?i "sample_sup 11 ''a''" Sup_Starting ?i] by simp
  moreover have "in_step s'" using transition_durable [OF s _ refl r] by simp
  ultimately show ?thesis by (simp add: r)
qed

theorem first_supervisor_leaks_lease_witness:
  "\<exists>i s1 s2 l. run_to_ready (sample_sup 11 ''a'') ''d'' \<lparr>ss_instance = None, ss_db = empty_sup_db\<rparr> = (Inr i, s1) \<and>
     run_shutdown (sample_sup 11 ''a'') s1 = (Inr (), s2) \<and> get_active_lease ''d'' (ss_db s2) = Some l \<and>
     sl_instance_id l = si_instance_id i"
proof -
  let ?s = "\<lparr>ss_instance = None, ss_db = empty_sup_db\<rparr>"
  have "get_active_lease ''d'' (ss_db ?s) = None"
    "\<not> list_ex (\<lambda>r. si_instance_id r = se_uuid (sample_sup 11 ''a'') 0) (sd_instances (ss_db ?s))"
    "se_recovery (sample_sup 11 ''a'') i = None" for i
    by (simp_all add: empty_sup_db_def get_active_lease_def select_one_def sample_sup_def)
  from first_supervisor_leaks_lease [OF this, of "sample_sup 11 ''a''"] show ?thesis by blast
qed

end
