(* ===== verification/Plan_Graph.thy ===== *)
theory Plan_Graph
  imports Prelude
begin

text \<open>
  The dependency check of plans, \<open>validate_dag_no_cycles\<close> of \<open>harness-core/src/contracts/plan.rs\<close>: a depth-first
  search that colours nodes and reports a text for every edge back into the current path. The hash map of
  dependencies is an association list with distinct keys whose order is the order the keys are iterated in; the
  theorem holds for each order.
\<close>

section \<open>The search\<close>

text \<open>The colours: absent or 0 for unvisited, 1 on the current path, 2 done.\<close>

type_synonym dep_map = "(string \<times> string list) list"
type_synonym search = "(string \<rightharpoonup> nat) \<times> string list"

fun position :: "('a \<Rightarrow> bool) \<Rightarrow> 'a list \<Rightarrow> nat option" where
  "position P [] = None"
| "position P (x # xs) = (if P x then Some 0 else map_option Suc (position P xs))"

definition cycle_text :: "string list \<Rightarrow> string \<Rightarrow> string" where
  "cycle_text cycle node = ''cycle: '' @ join_with '' -> '' cycle @ '' -> '' @ node"

definition deps_of :: "dep_map \<Rightarrow> string \<Rightarrow> string list" where
  "deps_of deps node = (case map_of deps node of Some dep_list \<Rightarrow> dep_list | None \<Rightarrow> [])"

text \<open>Nodes of the map that are not coloured yet; a call never takes a colour away.\<close>

definition fresh :: "dep_map \<Rightarrow> (string \<rightharpoonup> nat) \<Rightarrow> string set" where
  "fresh deps color = {n \<in> fst ` set deps. color n \<noteq> Some 1 \<and> color n \<noteq> Some 2}"

definition coloured :: "(string \<rightharpoonup> nat) \<Rightarrow> string set" where
  "coloured color = {n. color n = Some 1 \<or> color n = Some 2}"

function (sequential) dfs :: "dep_map \<Rightarrow> string \<Rightarrow> string list \<Rightarrow> search \<Rightarrow> search"
  and dfs_each :: "dep_map \<Rightarrow> string list \<Rightarrow> string list \<Rightarrow> search \<Rightarrow> search" where
  "dfs deps node path (color, cycle_paths) =
     (if color node = Some 2 then (color, cycle_paths)
      else if color node = Some 1 then
        (let cycle_start = (case position (\<lambda>n. n = node) path of Some i \<Rightarrow> i | None \<Rightarrow> 0)
         in (color, cycle_paths @ [cycle_text (drop cycle_start path) node]))
      else
        (let (color1, cycle_paths1) =
               dfs_each deps (deps_of deps node) (path @ [node]) (color(node \<mapsto> 1), cycle_paths)
         in (color1(node \<mapsto> 2), cycle_paths1)))"
| "dfs_each deps [] path st = st"
| "dfs_each deps (dep # dep_list) path st = dfs_each deps dep_list path (dfs deps dep path st)"
  by pat_completeness auto

lemma dfs_dom_coloured:
  "dfs_dfs_each_dom (Inl (deps, node, path, st)) \<Longrightarrow> coloured (fst st) \<subseteq> coloured (fst (dfs deps node path st))"
  "dfs_dfs_each_dom (Inr (deps, ds, path, st)) \<Longrightarrow> coloured (fst st) \<subseteq> coloured (fst (dfs_each deps ds path st))"
proof (induction rule: dfs_dfs_each.pinduct)
  case (1 deps node path color cps)
  show ?case
  proof (cases "color node = Some 1 \<or> color node = Some 2")
    case False
    then have "coloured (color(node \<mapsto> 1)) \<subseteq> coloured (fst (dfs_each deps (deps_of deps node) (path @ [node])
        (color(node \<mapsto> 1), cps)))"
      using 1(2) by (simp add: fun_upd_def)
    then show ?thesis using False
      by (simp add: dfs.psimps [OF 1(1)] split_beta coloured_def subset_iff)
  qed (auto simp: dfs.psimps [OF 1(1)] Let_def)
next
  case (3 deps dep ds path st)
  then show ?case by (force simp: dfs_each.psimps)
qed (simp add: dfs_each.psimps)

lemma fresh_mono: "coloured c \<subseteq> coloured c' \<Longrightarrow> fresh deps c' \<subseteq> fresh deps c"
  by (auto simp: fresh_def coloured_def)

lemma finite_fresh [simp]: "finite (fresh deps c)"
  by (simp add: fresh_def)

termination dfs
proof (relation "inv_image (less_than <*lex*> less_than) (\<lambda>call. case call of
    Inl (deps, node, path, st) \<Rightarrow> (card (fresh deps (fst st)), 1)
  | Inr (deps, ds, path, st) \<Rightarrow> (card (fresh deps (fst st)), 2 * length ds))")
  fix deps node path and color :: "string \<rightharpoonup> nat" and cps :: "string list"
  assume new: "color node \<noteq> Some 2" "color node \<noteq> Some 1"
  have sub: "fresh deps (color(node \<mapsto> 1)) = fresh deps color - {node}" using new by (auto simp: fresh_def)
  show "(Inr (deps, deps_of deps node, path @ [node], color(node \<mapsto> 1), cps), Inl (deps, node, path, color, cps)) \<in>
    inv_image (less_than <*lex*> less_than) (\<lambda>call. case call of
      Inl (deps, node, path, st) \<Rightarrow> (card (fresh deps (fst st)), 1)
    | Inr (deps, ds, path, st) \<Rightarrow> (card (fresh deps (fst st)), 2 * length ds))"
  proof (cases "node \<in> fst ` set deps")
    case True
    then have "node \<in> fresh deps color" using new by (simp add: fresh_def)
    then have "card (fresh deps color - {node}) < card (fresh deps color)" by (intro card_Diff1_less) simp_all
    then show ?thesis by (simp add: sub [simplified])
  next
    case False
    then have "map_of deps node = None" by (simp add: map_of_eq_None_iff)
    then have "node \<notin> fresh deps color" "deps_of deps node = []" using False by (simp_all add: fresh_def deps_of_def)
    then show ?thesis by (simp add: sub del: One_nat_def)
  qed
next
  fix deps dep ds path st
  assume "dfs_dfs_each_dom (Inl (deps, dep, path, st))"
  then have "coloured (fst st) \<subseteq> coloured (fst (dfs deps dep path st))" by (rule dfs_dom_coloured(1))
  then have "card (fresh deps (fst (dfs deps dep path st))) \<le> card (fresh deps (fst st))"
    by (intro card_mono fresh_mono) simp_all
  then show "(Inr (deps, ds, path, dfs deps dep path st), Inr (deps, dep # ds, path, st)) \<in>
    inv_image (less_than <*lex*> less_than) (\<lambda>call. case call of
      Inl (deps, node, path, st) \<Rightarrow> (card (fresh deps (fst st)), 1)
    | Inr (deps, ds, path, st) \<Rightarrow> (card (fresh deps (fst st)), 2 * length ds))"
    by auto
qed auto

definition validate_dag_no_cycles :: "dep_map \<Rightarrow> (string list, unit) result" where
  "validate_dag_no_cycles deps =
     (let (color, cycle_paths) = fold (\<lambda>node st. dfs deps node [] st) (map fst deps) (Map.empty, [])
      in if cycle_paths = [] then Inr () else Inl cycle_paths)"


section \<open>What a call keeps\<close>

lemma dfs_gray:
  "fst (dfs deps node path st) n = Some 1 \<longleftrightarrow> fst st n = Some 1"
  "fst (dfs_each deps ds path st) n = Some 1 \<longleftrightarrow> fst st n = Some 1"
  by (induction deps node path st and deps ds path st rule: dfs_dfs_each.induct)
    (auto simp: split_beta Let_def fun_upd_def)

lemma dfs_black:
  "fst st n = Some 2 \<Longrightarrow> fst (dfs deps node path st) n = Some 2"
  "fst st n = Some 2 \<Longrightarrow> fst (dfs_each deps ds path st) n = Some 2"
  by (induction deps node path st and deps ds path st rule: dfs_dfs_each.induct) (auto simp: split_beta Let_def)

lemma dfs_reports:
  "\<exists>ms. snd (dfs deps node path st) = snd st @ ms"
  "\<exists>ms. snd (dfs_each deps ds path st) = snd st @ ms"
proof (induction deps node path st and deps ds path st rule: dfs_dfs_each.induct)
  case (3 deps dep ds path st)
  then show ?case by (metis append.assoc dfs_each.simps(2))
qed (auto simp: split_beta Let_def)


section \<open>Soundness and completeness\<close>

definition dep_edges :: "dep_map \<Rightarrow> (string \<times> string) set" where
  "dep_edges deps = {(a, b). b \<in> set (deps_of deps a)}"

lemma deps_of_mem: "b \<in> set (deps_of deps a) \<longleftrightarrow> (\<exists>ds. map_of deps a = Some ds \<and> b \<in> set ds)"
  by (cases "map_of deps a") (simp_all add: deps_of_def)

text \<open>A report that names a real cycle: a closed walk along the dependencies.\<close>

definition names_cycle :: "dep_map \<Rightarrow> string \<Rightarrow> bool" where
  "names_cycle deps m \<longleftrightarrow> (\<exists>c. c \<noteq> [] \<and> m = cycle_text c (hd c) \<and>
     successively (\<lambda>a b. (a, b) \<in> dep_edges deps) (c @ [hd c]))"

lemma position_Some: "position P xs = Some i \<Longrightarrow> i < length xs \<and> P (xs ! i)"
  by (induction xs arbitrary: i) (auto split: if_splits)

lemma position_ex: "x \<in> set xs \<Longrightarrow> \<exists>i. position (\<lambda>n. n = x) xs = Some i"
  by (induction xs) auto

lemma successively_drop: "successively P xs \<Longrightarrow> successively P (drop i xs)"
  by (metis append_take_drop_id successively_append_iff)

lemma dfs_names_cycles:
  "{n. fst st n = Some 1} \<subseteq> set path \<Longrightarrow> successively (\<lambda>a b. (a, b) \<in> dep_edges deps) (path @ [node]) \<Longrightarrow>
   m \<in> set (snd (dfs deps node path st)) \<Longrightarrow> m \<in> set (snd st) \<or> names_cycle deps m"
  "{n. fst st n = Some 1} \<subseteq> set path \<Longrightarrow>
   (\<forall>d \<in> set ds. successively (\<lambda>a b. (a, b) \<in> dep_edges deps) (path @ [d])) \<Longrightarrow>
   m \<in> set (snd (dfs_each deps ds path st)) \<Longrightarrow> m \<in> set (snd st) \<or> names_cycle deps m"
proof (induction deps node path st and deps ds path st rule: dfs_dfs_each.induct)
  case (1 deps node path color cps)
  show ?case
  proof (cases "color node = Some 1")
    case True
    then have "node \<in> set path" using 1(2) by auto
    then obtain i where i: "position (\<lambda>n. n = node) path = Some i" using position_ex by fastforce
    have at: "i < length path" "path ! i = node" using position_Some [OF i] by simp_all
    then have "hd (drop i path) = node" "drop i path \<noteq> []" by (simp_all add: hd_drop_conv_nth)
    moreover have "successively (\<lambda>a b. (a, b) \<in> dep_edges deps) (drop i path @ [node])"
      using successively_drop [OF 1(3), of i] at(1) by simp
    ultimately have "names_cycle deps (cycle_text (drop i path) node)" unfolding names_cycle_def by metis
    then show ?thesis using 1(4) True i by auto
  next
    case gray: False
    show ?thesis
    proof (cases "color node = Some 2")
      case False
      have "successively (\<lambda>a b. (a, b) \<in> dep_edges deps) ((path @ [node]) @ [d])" if "d \<in> set (deps_of deps node)" for d
        using 1(3) that by (subst successively_append_iff) (simp add: dep_edges_def)
      moreover have "{n. (color(node \<mapsto> 1)) n = Some 1} \<subseteq> set (path @ [node])" using 1(2) by auto
      ultimately show ?thesis using 1(1) [OF False gray] 1(4) gray False by (simp add: split_beta)
    qed (use 1(4) in simp)
  qed
next
  case (3 deps dep ds path st)
  have "{n. fst (dfs deps dep path st) n = Some 1} \<subseteq> set path" using 3(3) unfolding dfs_gray .
  then show ?case using 3 by fastforce
qed simp

text \<open>Done nodes are closed under dependencies and lie on no cycle.\<close>

definition done_ok :: "dep_map \<Rightarrow> (string \<rightharpoonup> nat) \<Rightarrow> bool" where
  "done_ok deps color \<longleftrightarrow> (\<forall>a. color a = Some 2 \<longrightarrow>
     (\<forall>b. (a, b) \<in> dep_edges deps \<longrightarrow> color b = Some 2) \<and> (a, a) \<notin> (dep_edges deps)\<^sup>+)"

lemma done_ok_reach: "done_ok deps color \<Longrightarrow> color a = Some 2 \<Longrightarrow> (a, b) \<in> (dep_edges deps)\<^sup>* \<Longrightarrow> color b = Some 2"
  by (rotate_tac 2, induction rule: rtrancl_induct) (auto simp: done_ok_def)

lemma done_ok_finish:
  assumes "done_ok deps color" and "color node \<noteq> Some 2" and "\<And>b. b \<in> set (deps_of deps node) \<Longrightarrow> color b = Some 2"
  shows "done_ok deps (color(node \<mapsto> 2))"
proof -
  have "(node, node) \<notin> (dep_edges deps)\<^sup>+"
  proof
    assume "(node, node) \<in> (dep_edges deps)\<^sup>+"
    then obtain b where "(node, b) \<in> dep_edges deps" "(b, node) \<in> (dep_edges deps)\<^sup>*" by (meson tranclD)
    then show False using done_ok_reach [OF assms(1)] assms(2,3) by (auto simp: dep_edges_def)
  qed
  then show ?thesis using assms by (auto simp: done_ok_def dep_edges_def)
qed

lemma dfs_silent:
  "done_ok deps (fst st) \<Longrightarrow> snd (dfs deps node path st) = snd st \<Longrightarrow>
   done_ok deps (fst (dfs deps node path st)) \<and> fst (dfs deps node path st) node = Some 2"
  "done_ok deps (fst st) \<Longrightarrow> snd (dfs_each deps ds path st) = snd st \<Longrightarrow>
   done_ok deps (fst (dfs_each deps ds path st)) \<and> (\<forall>d \<in> set ds. fst (dfs_each deps ds path st) d = Some 2)"
proof (induction deps node path st and deps ds path st rule: dfs_dfs_each.induct)
  case (1 deps node path color cps)
  show ?case
  proof (cases "color node = Some 1 \<or> color node = Some 2")
    case False
    let ?r = "dfs_each deps (deps_of deps node) (path @ [node]) (color(node \<mapsto> 1), cps)"
    have "done_ok deps (color(node \<mapsto> 1))" using 1(2) False by (auto simp: done_ok_def)
    moreover have "snd ?r = cps" using 1(3) False by (simp add: split_beta)
    ultimately have r: "done_ok deps (fst ?r)" "\<forall>d \<in> set (deps_of deps node). fst ?r d = Some 2"
      using 1(1) False by (auto simp: fun_upd_def)
    have "fst ?r node = Some 1" using dfs_gray(2) [of deps _ _ _ node] by simp
    then show ?thesis using False done_ok_finish [OF r(1), of node] r(2) by (simp add: split_beta fun_upd_def)
  qed (use 1(2,3) in \<open>auto simp: Let_def\<close>)
next
  case (3 deps dep ds path st)
  let ?s = "dfs deps dep path st"
  obtain ms ms' where ms: "snd ?s = snd st @ ms" "snd (dfs_each deps ds path ?s) = snd ?s @ ms'"
    using dfs_reports by metis
  then have quiet: "snd ?s = snd st" "snd (dfs_each deps ds path ?s) = snd ?s" using 3(4) by simp_all
  have s: "done_ok deps (fst ?s)" "fst ?s dep = Some 2" using 3(1) [OF 3(3) quiet(1)] by simp_all
  show ?case using 3(2) [OF s(1) quiet(2)] dfs_black(2) [OF s(2)] by simp
qed simp

lemma validate_dag_unfold:
  "validate_dag_no_cycles deps = (let st = dfs_each deps (map fst deps) [] (Map.empty, [])
     in if snd st = [] then Inr () else Inl (snd st))"
proof -
  have "fold (\<lambda>node st. dfs deps node [] st) ns st = dfs_each deps ns [] st" for ns st
    by (induction ns arbitrary: st) simp_all
  then show ?thesis by (simp add: validate_dag_no_cycles_def split_beta Let_def)
qed

lemma successively_trancl:
  "successively (\<lambda>a b. (a, b) \<in> E) (c @ [y]) \<Longrightarrow> c \<noteq> [] \<Longrightarrow> (hd c, y) \<in> E\<^sup>+"
proof (induction c)
  case (Cons x c)
  then show ?case by (cases c) (auto intro: trancl_into_trancl2)
qed simp

lemma dag_reports_named: "m \<in> set (snd (dfs_each deps (map fst deps) [] (Map.empty, []))) \<Longrightarrow> names_cycle deps m"
  using dfs_names_cycles(2) [of "(Map.empty, [])" "[]" "map fst deps" deps m] by simp

lemma names_cycle_cyclic: "names_cycle deps m \<Longrightarrow> \<not> acyclic (dep_edges deps)"
  using successively_trancl [of "dep_edges deps"] unfolding names_cycle_def acyclic_def by blast

lemma dag_silent_acyclic:
  assumes "snd (dfs_each deps (map fst deps) [] (Map.empty, [])) = []"
  shows "acyclic (dep_edges deps)"
proof -
  let ?st = "dfs_each deps (map fst deps) [] (Map.empty, [])"
  have fin: "done_ok deps (fst ?st)" "\<forall>d \<in> set (map fst deps). fst ?st d = Some 2"
    using dfs_silent(2) [of deps "(Map.empty, [])" "map fst deps" "[]"] assms by (auto simp: done_ok_def)
  have "(a, a) \<notin> (dep_edges deps)\<^sup>+" for a
  proof
    assume cycle: "(a, a) \<in> (dep_edges deps)\<^sup>+"
    then obtain b where "(a, b) \<in> dep_edges deps" by (meson tranclD)
    then have "map_of deps a \<noteq> None" by (auto simp: dep_edges_def deps_of_mem)
    then have "a \<in> set (map fst deps)" by (simp add: map_of_eq_None_iff)
    then show False using fin cycle by (auto simp: done_ok_def)
  qed
  then show ?thesis by (simp add: acyclic_def)
qed

lemma validate_dag_acyclic: "validate_dag_no_cycles deps = Inr () \<longleftrightarrow> acyclic (dep_edges deps)"
proof (cases "snd (dfs_each deps (map fst deps) [] (Map.empty, [])) = []")
  case True
  then show ?thesis using dag_silent_acyclic by (simp add: validate_dag_unfold)
next
  case False
  then have "names_cycle deps (hd (snd (dfs_each deps (map fst deps) [] (Map.empty, []))))"
    by (intro dag_reports_named) simp
  then show ?thesis using False names_cycle_cyclic by (simp add: validate_dag_unfold Let_def)
qed

text \<open>
  C31. The dependency check terminates on every input and is exact: it accepts a map exactly when the
  dependencies have no cycle, and each text it reports otherwise names a closed walk along them. Names that
  are only depended on, duplicates in a list and self-dependencies are included.
\<close>

theorem validate_dag_exact:
  "case validate_dag_no_cycles deps of
     Inr _ \<Rightarrow> acyclic (dep_edges deps)
   | Inl reports \<Rightarrow> \<not> acyclic (dep_edges deps) \<and> reports \<noteq> [] \<and> list_all (names_cycle deps) reports"
  using validate_dag_acyclic [of deps] dag_reports_named [of _ deps]
  by (auto simp: validate_dag_unfold Let_def list_all_iff split: if_splits)

end
