(* ===== verification/Plan_Validation.thy ===== *)
theory Plan_Validation
  imports Plan_Graph Lifecycles "HOL-Library.Word"
begin

text \<open>
  The contracts of goals and plans (\<open>harness-core/src/contracts/goal.rs\<close>, \<open>plan.rs\<close>, and the proposal types of
  \<open>harness-runtime/src/goal/mod.rs\<close>), and the two deterministic checks of \<open>goal/validation.rs\<close>: of a plan
  that a planner proposes, and of a goal that is about to be completed. The SHA-256 digest and \<open>Debug\<close> texts
  are parameters. Hash sets and maps are lists in order of insertion; their order shows only in the order
  of reported texts.
\<close>

section \<open>Goals\<close>

datatype EvidencePolicy =
    TaskTerminalResult
  | VerificationCommand string
  | ReviewDecisionEvidence
  | CommitOid
  | IntegratedTargetHead
  | FileDigest string string
  | StructuredUserApproval
  | ExternalEvidence string

datatype VerificationPolicy = ExistenceOnly | DigestMatch | DeterministicScript string | HumanReview

datatype CriterionSubjectivity = Objective | Subjective

definition requires_human_approval :: "CriterionSubjectivity \<Rightarrow> bool" where
  "requires_human_approval s \<longleftrightarrow> s = Subjective"

record SuccessCriterion =
  sc_criterion_id :: string
  sc_description :: string
  sc_evidence_policy :: EvidencePolicy
  sc_verification_policy :: VerificationPolicy
  sc_subjectivity :: CriterionSubjectivity
  sc_required :: bool

datatype ConstraintType =
    FileExclusion "string list"
  | ResourceLimit string string
  | ToolExclusion "string list"
  | BehaviorConstraint string
  | CustomConstraint string string

record GoalConstraint =
  gc_constraint_id :: string
  gc_description :: string
  gc_constraint_type :: ConstraintType
  gc_blocking :: bool

record GoalBudget =
  gb_max_plan_revisions :: "32 word"
  gb_max_total_tasks :: "32 word"
  gb_max_active_tasks :: "32 word"
  gb_max_consecutive_failures :: "32 word"
  gb_max_no_progress_iterations :: "32 word"
  gb_max_total_agent_invocations :: "32 word"
  gb_max_planner_invocations :: "32 word"
  gb_max_evaluator_invocations :: "32 word"
  gb_max_elapsed_seconds :: "64 word"

definition goal_budget_default :: GoalBudget where
  "goal_budget_default = \<lparr>gb_max_plan_revisions = 5, gb_max_total_tasks = 20, gb_max_active_tasks = 4,
     gb_max_consecutive_failures = 3, gb_max_no_progress_iterations = 5, gb_max_total_agent_invocations = 50,
     gb_max_planner_invocations = 5, gb_max_evaluator_invocations = 10, gb_max_elapsed_seconds = 3600\<rparr>"

definition is_exhausted ::
  "GoalBudget \<Rightarrow> 32 word \<Rightarrow> 32 word \<Rightarrow> 32 word \<Rightarrow> 32 word \<Rightarrow> 32 word \<Rightarrow> bool" where
  "is_exhausted b plan_revisions_used total_tasks_used planner_invocations_used evaluator_invocations_used
     agent_invocations_used \<longleftrightarrow>
     plan_revisions_used \<ge> gb_max_plan_revisions b \<or> total_tasks_used \<ge> gb_max_total_tasks b \<or>
     planner_invocations_used \<ge> gb_max_planner_invocations b \<or>
     evaluator_invocations_used \<ge> gb_max_evaluator_invocations b \<or>
     agent_invocations_used \<ge> gb_max_total_agent_invocations b"

record ApprovalPolicy =
  ap_require_initial_plan_approval :: bool
  ap_require_high_risk_task_approval :: bool
  ap_require_scope_change_approval :: bool
  ap_require_budget_increase_approval :: bool
  ap_require_completion_approval :: bool
  ap_require_resume_after_no_progress_approval :: bool
  ap_approval_timeout_secs :: "64 word"

definition approval_policy_default :: ApprovalPolicy where
  "approval_policy_default = \<lparr>ap_require_initial_plan_approval = False, ap_require_high_risk_task_approval = True,
     ap_require_scope_change_approval = True, ap_require_budget_increase_approval = True,
     ap_require_completion_approval = False, ap_require_resume_after_no_progress_approval = True,
     ap_approval_timeout_secs = 86400\<rparr>"

datatype GoalCreator = CreatedByUser string "string option" | CreatedBySystem string string

record GoalSpec =
  gs_goal_id :: string
  gs_revision :: int
  gs_title :: string
  gs_objective :: string
  gs_repository_id :: string
  gs_target_ref :: string
  gs_initial_base_head :: string
  gs_success_criteria :: "SuccessCriterion list"
  gs_constraints :: "GoalConstraint list"
  gs_non_goals :: "string list"
  gs_budget :: GoalBudget
  gs_approval_policy :: ApprovalPolicy
  gs_created_by :: GoalCreator
  gs_created_at :: int

section \<open>Plans\<close>

primrec plan_as_str :: "PlanState \<Rightarrow> string" where
  "plan_as_str Plan_Proposed = ''proposed''"
| "plan_as_str Plan_Validating = ''validating''"
| "plan_as_str Plan_Validated = ''validated''"
| "plan_as_str Plan_Active = ''active''"
| "plan_as_str Plan_Superseded = ''superseded''"
| "plan_as_str Plan_Completed = ''completed''"
| "plan_as_str Plan_Rejected = ''rejected''"
| "plan_as_str Plan_Invalid = ''invalid''"
| "plan_as_str Plan_Cancelled = ''cancelled''"

datatype MilestoneState = Ms_Pending | Ms_InProgress | Ms_Completed | Ms_Blocked | Ms_Cancelled

definition milestone_is_terminal :: "MilestoneState \<Rightarrow> bool" where
  "milestone_is_terminal s \<longleftrightarrow> s \<in> {Ms_Completed, Ms_Cancelled}"

primrec milestone_as_str :: "MilestoneState \<Rightarrow> string" where
  "milestone_as_str Ms_Pending = ''pending''"
| "milestone_as_str Ms_InProgress = ''in_progress''"
| "milestone_as_str Ms_Completed = ''completed''"
| "milestone_as_str Ms_Blocked = ''blocked''"
| "milestone_as_str Ms_Cancelled = ''cancelled''"

datatype RiskLevel = Risk_Low | Risk_Medium | Risk_High | Risk_Critical

primrec risk_as_str :: "RiskLevel \<Rightarrow> string" where
  "risk_as_str Risk_Low = ''low''"
| "risk_as_str Risk_Medium = ''medium''"
| "risk_as_str Risk_High = ''high''"
| "risk_as_str Risk_Critical = ''critical''"

definition risk_parse :: "string \<Rightarrow> RiskLevel option" where
  "risk_parse s =
     (if s = ''low'' then Some Risk_Low
      else if s = ''medium'' then Some Risk_Medium
      else if s = ''high'' then Some Risk_High
      else if s = ''critical'' then Some Risk_Critical
      else None)"

datatype PlannedTaskState =
  Pt_Pending | Pt_Materialized | Pt_Running | Pt_Completed | Pt_Failed | Pt_Cancelled | Pt_Superseded

definition planned_is_terminal :: "PlannedTaskState \<Rightarrow> bool" where
  "planned_is_terminal s \<longleftrightarrow> s \<in> {Pt_Completed, Pt_Failed, Pt_Cancelled, Pt_Superseded}"

definition planned_is_active :: "PlannedTaskState \<Rightarrow> bool" where
  "planned_is_active s \<longleftrightarrow> s \<in> {Pt_Materialized, Pt_Running}"

primrec planned_as_str :: "PlannedTaskState \<Rightarrow> string" where
  "planned_as_str Pt_Pending = ''pending''"
| "planned_as_str Pt_Materialized = ''materialized''"
| "planned_as_str Pt_Running = ''running''"
| "planned_as_str Pt_Completed = ''completed''"
| "planned_as_str Pt_Failed = ''failed''"
| "planned_as_str Pt_Cancelled = ''cancelled''"
| "planned_as_str Pt_Superseded = ''superseded''"

text \<open>The \<open>Debug\<close> text of a list of strings, from the one of a string.\<close>

definition debug_list :: "(string \<Rightarrow> string) \<Rightarrow> string list \<Rightarrow> string" where
  "debug_list debug_str xs = ''['' @ join_with '', '' (map debug_str xs) @ '']''"

definition compute_task_fingerprint ::
  "(string \<Rightarrow> string) \<Rightarrow> (string \<Rightarrow> string) \<Rightarrow> int \<Rightarrow> string \<Rightarrow> string list \<Rightarrow> string list \<Rightarrow> string \<Rightarrow> string \<Rightarrow>
   string list \<Rightarrow> string" where
  "compute_task_fingerprint sha256_hex debug_str goal_revision normalized_objective acceptance_criteria
     dependency_refs repository_id target_ref expected_evidence =
     sha256_hex (join_with ''|'' [show_int goal_revision, trim (to_lowercase normalized_objective),
       to_lowercase (join_with '','' acceptance_criteria), debug_list debug_str dependency_refs, repository_id,
       target_ref, debug_str (to_lowercase (join_with '','' expected_evidence))])"

record ProposedMilestone =
  pm_client_ref :: string
  pm_title :: string
  pm_objective :: string
  pm_success_criteria_refs :: "string list"
  pm_dependencies :: "string list"
  pm_priority :: int

record ProposedTask =
  pt_client_ref :: string
  pt_milestone_ref :: string
  pt_title :: string
  pt_objective :: string
  pt_acceptance_criteria :: "string list"
  pt_dependencies :: "string list"
  pt_expected_evidence :: "string list"
  pt_expected_resource_scope :: "string list"
  pt_risk_level :: string
  pt_requires_approval :: bool

record ProposedRisk =
  pk_description :: string
  pk_severity :: string
  pk_mitigation :: string

record PlanProposal =
  pl_schema_version :: string
  pl_goal_summary :: string
  pl_assumptions :: "string list"
  pl_milestones :: "ProposedMilestone list"
  pl_tasks :: "ProposedTask list"
  pl_risks :: "ProposedRisk list"
  pl_completion_strategy :: string


section \<open>Validation of a proposal\<close>

record ValidationResult =
  vr_valid :: bool
  vr_errors :: "string list"
  vr_warnings :: "string list"
  vr_proposal_digest :: string

definition validation_new :: ValidationResult where
  "validation_new = \<lparr>vr_valid = True, vr_errors = [], vr_warnings = [], vr_proposal_digest = ''''\<rparr>"

definition add_error :: "string \<Rightarrow> ValidationResult \<Rightarrow> ValidationResult" where
  "add_error e r = r\<lparr>vr_valid := False, vr_errors := vr_errors r @ [e]\<rparr>"

definition add_warning :: "string \<Rightarrow> ValidationResult \<Rightarrow> ValidationResult" where
  "add_warning w r = r\<lparr>vr_warnings := vr_warnings r @ [w]\<rparr>"

text \<open>A loop that reports an error for each element with a property.\<close>

definition errors_for :: "('a \<Rightarrow> bool) \<Rightarrow> ('a \<Rightarrow> string) \<Rightarrow> 'a list \<Rightarrow> ValidationResult \<Rightarrow> ValidationResult" where
  "errors_for bad msg xs r = fold (\<lambda>x r. if bad x then add_error (msg x) r else r) xs r"

text \<open>Insertion into a hash set, with an error for each element that is there already.\<close>

fun insert_refs :: "string \<Rightarrow> string list \<Rightarrow> string list \<Rightarrow> ValidationResult \<Rightarrow> string list \<times> ValidationResult" where
  "insert_refs what refs [] r = (refs, r)"
| "insert_refs what refs (c # cs) r =
     (if c \<in> set refs then insert_refs what refs cs (add_error (''duplicate '' @ what @ '' client_ref: '' @ c) r)
      else insert_refs what (refs @ [c]) cs r)"

definition insert_dep :: "string \<times> string list \<Rightarrow> dep_map \<Rightarrow> dep_map" where
  "insert_dep kv m = filter (\<lambda>e. fst e \<noteq> fst kv) m @ [kv]"

definition check_cycles :: "dep_map \<Rightarrow> ValidationResult \<Rightarrow> ValidationResult" where
  "check_cycles deps r =
     (if vr_valid r then
        (case validate_dag_no_cycles deps of Inl cycles \<Rightarrow> fold add_error cycles r | Inr _ \<Rightarrow> r)
      else r)"

definition proposal_digest_input :: "PlanProposal \<Rightarrow> string" where
  "proposal_digest_input p = pl_schema_version p @ pl_goal_summary p @
     concat (map (\<lambda>m. pm_client_ref m @ pm_title m @ pm_objective m) (pl_milestones p)) @
     concat (map (\<lambda>t. pt_client_ref t @ pt_milestone_ref t @ pt_title t @ pt_objective t @
       concat (pt_acceptance_criteria t) @ concat (pt_dependencies t)) (pl_tasks p))"

definition compute_proposal_digest :: "(string \<Rightarrow> string) \<Rightarrow> PlanProposal \<Rightarrow> string" where
  "compute_proposal_digest sha256_hex p = sha256_hex (proposal_digest_input p)"

text \<open>Steps 2 to 6: references and dependencies.\<close>

definition validate_references :: "PlanProposal \<Rightarrow> ValidationResult \<Rightarrow> ValidationResult" where
  "validate_references p r0 =
     (let (milestone_refs, r2) = insert_refs ''milestone'' [] (map pm_client_ref (pl_milestones p)) r0;
          (task_refs, r3) = insert_refs ''task'' [] (map pt_client_ref (pl_tasks p)) r2;
          r4 = errors_for (\<lambda>t. pt_milestone_ref t \<notin> set milestone_refs)
            (\<lambda>t. ''task '' @ pt_client_ref t @ '' references unknown milestone: '' @ pt_milestone_ref t) (pl_tasks p) r3;
          task_deps = fold insert_dep (map (\<lambda>t. (pt_client_ref t, pt_dependencies t)) (pl_tasks p)) [];
          r5 = errors_for (\<lambda>(t, dep). dep \<notin> set task_refs)
            (\<lambda>(t, dep). ''task '' @ pt_client_ref t @ '' depends on unknown task: '' @ dep)
            (concat (map (\<lambda>t. map (Pair t) (pt_dependencies t)) (pl_tasks p))) r4;
          r6 = check_cycles task_deps r5;
          ms_deps = fold insert_dep (map (\<lambda>m. (pm_client_ref m, pm_dependencies m)) (pl_milestones p)) [];
          r7 = errors_for (\<lambda>(m, dep). dep \<notin> set milestone_refs)
            (\<lambda>(m, dep). ''milestone '' @ pm_client_ref m @ '' depends on unknown milestone: '' @ dep)
            (concat (map (\<lambda>m. map (Pair m) (pm_dependencies m)) (pl_milestones p))) r6
      in check_cycles ms_deps r7)"

definition validate_plan_proposal ::
  "(string \<Rightarrow> string) \<Rightarrow> PlanProposal \<Rightarrow> GoalSpec \<Rightarrow> 32 word \<Rightarrow> ValidationResult" where
  "validate_plan_proposal sha256_hex p goal existing_task_count =
     (let r0 = validation_new\<lparr>vr_proposal_digest := compute_proposal_digest sha256_hex p\<rparr>;
          r1 = (if pl_schema_version p \<noteq> ''1.0''
                then add_warning (''unknown schema_version: '' @ pl_schema_version p) r0 else r0);
          r6 = validate_references p r1;
          covered_criteria = concat (map pm_success_criteria_refs (pl_milestones p));
          r7 = errors_for (\<lambda>c. sc_required c \<and> sc_criterion_id c \<notin> set covered_criteria)
            (\<lambda>c. ''required success criterion '' @ quoted (sc_criterion_id c) @ '' not covered by any milestone'')
            (gs_success_criteria goal) r6;
          r8 = errors_for (\<lambda>t. pt_acceptance_criteria t = [])
            (\<lambda>t. ''task '' @ pt_client_ref t @ '' has empty acceptance_criteria'') (pl_tasks p) r7;
          r9 = errors_for (\<lambda>t. pt_expected_evidence t = [])
            (\<lambda>t. ''task '' @ pt_client_ref t @ '' has empty expected_evidence'') (pl_tasks p) r8;
          proposed_task_count = word_of_nat (length (pl_tasks p)) :: 32 word;
          r10 = (if existing_task_count + proposed_task_count > gb_max_total_tasks (gs_budget goal)
                 then add_error (''proposed '' @ show_nat (unat proposed_task_count) @ '' tasks + existing '' @
                   show_nat (unat existing_task_count) @ '' exceeds budget max_total_tasks '' @
                   show_nat (unat (gb_max_total_tasks (gs_budget goal)))) r9
                 else r9);
          r11 = errors_for (\<lambda>t. to_lowercase (pt_risk_level t) \<notin> {''low'', ''medium'', ''high'', ''critical''})
            (\<lambda>t. ''task '' @ pt_client_ref t @ '' has invalid risk_level: '' @ pt_risk_level t) (pl_tasks p) r10;
          r12 = fold (\<lambda>(ng, t) r. if contains_str (to_lowercase (pt_objective t)) (to_lowercase ng)
              then add_warning (''task '' @ pt_client_ref t @ '' objective may conflict with non-goal: '' @ quoted ng) r
              else r) (concat (map (\<lambda>ng. map (Pair ng) (pl_tasks p)) (gs_non_goals goal))) r11
      in if gs_initial_base_head goal = ''''
         then add_warning ''goal initial_base_head is empty - plan may be based on unresolved ref'' r12 else r12)"

section \<open>The completion gate\<close>

datatype CriterionStatus = Satisfied | PartiallySatisfied | Unsatisfied | Unknown | Blocked

record CriterionCompletionStatus =
  cc_criterion_id :: string
  cc_satisfied :: bool
  cc_evidence_refs :: "string list"
  cc_missing_evidence :: "string list"

record CompletionGateResult =
  cg_can_complete :: bool
  cg_blocking_reasons :: "string list"
  cg_criteria_results :: "CriterionCompletionStatus list"
  cg_requires_human_approval :: bool

definition criterion_satisfied :: "(string \<rightharpoonup> CriterionStatus) \<Rightarrow> SuccessCriterion \<Rightarrow> bool" where
  "criterion_satisfied statuses c \<longleftrightarrow>
     (case statuses (sc_criterion_id c) of Some s \<Rightarrow> s | None \<Rightarrow> Unknown) = Satisfied"

definition criterion_result ::
  "(string \<rightharpoonup> CriterionStatus) \<Rightarrow> string list \<Rightarrow> SuccessCriterion \<Rightarrow> CriterionCompletionStatus" where
  "criterion_result statuses evidence c =
     \<lparr>cc_criterion_id = sc_criterion_id c, cc_satisfied = criterion_satisfied statuses c,
      cc_evidence_refs = filter (\<lambda>r. contains_str r (sc_criterion_id c)) evidence,
      cc_missing_evidence = (if sc_required c \<and> \<not> criterion_satisfied statuses c
        then [''evidence missing for criterion: '' @ sc_description c] else [])\<rparr>"

definition check_completion_gate ::
  "GoalSpec \<Rightarrow> (string \<rightharpoonup> CriterionStatus) \<Rightarrow> string list \<Rightarrow> nat \<Rightarrow> bool \<Rightarrow> bool \<Rightarrow> bool \<Rightarrow> bool \<Rightarrow> CompletionGateResult" where
  "check_completion_gate goal criteria_statuses all_evidence_refs pending_task_count target_head_verified
     evaluator_recommends_completion has_unresolved_critical_findings has_pending_approvals =
     (let criteria_results = map (criterion_result criteria_statuses all_evidence_refs) (gs_success_criteria goal);
          blocking =
            map (\<lambda>c. ''required criterion '' @ quoted (sc_criterion_id c) @ '' not satisfied: '' @ sc_description c)
              (filter (\<lambda>c. sc_required c \<and> \<not> criterion_satisfied criteria_statuses c) (gs_success_criteria goal)) @
            (if pending_task_count > 0
             then [show_nat pending_task_count @ '' planned tasks still pending/running/blocked''] else []) @
            (if \<not> target_head_verified then [''target ref HEAD not verified''] else []) @
            (if \<not> evaluator_recommends_completion then [''GoalEvaluator does not recommend completion''] else []) @
            (if has_unresolved_critical_findings then [''unresolved Critical/High findings exist''] else []) @
            (if has_pending_approvals then [''pending approval requests exist''] else []);
          requires_human = list_ex (\<lambda>c. requires_human_approval (sc_subjectivity c) \<and> sc_required c)
            (gs_success_criteria goal)
      in \<lparr>cg_can_complete = (blocking = [] \<and> \<not> requires_human), cg_blocking_reasons = blocking,
          cg_criteria_results = criteria_results,
          cg_requires_human_approval = (requires_human \<and> \<not> has_pending_approvals)\<rparr>)"


section \<open>What a valid plan is\<close>

lemma add_error_sel [simp]: "vr_valid (add_error e r) = False"
  by (simp add: add_error_def)

lemma add_warning_sel [simp]: "vr_valid (add_warning w r) = vr_valid r"
  by (simp add: add_warning_def)

lemma fold_add_error_valid: "vr_valid (fold add_error es r) \<longleftrightarrow> vr_valid r \<and> es = []"
  by (induction es arbitrary: r) auto

lemma errors_for_valid [simp]: "vr_valid (errors_for bad msg xs r) \<longleftrightarrow> vr_valid r \<and> (\<forall>x \<in> set xs. \<not> bad x)"
  by (induction xs arbitrary: r) (auto simp: errors_for_def)

lemma insert_refs_set [simp]: "set (fst (insert_refs what refs cs r)) = set refs \<union> set cs"
  by (induction what refs cs r rule: insert_refs.induct) auto

lemma insert_refs_valid [simp]:
  "vr_valid (snd (insert_refs what refs cs r)) \<longleftrightarrow> vr_valid r \<and> distinct cs \<and> set cs \<inter> set refs = {}"
  by (induction what refs cs r rule: insert_refs.induct) auto

lemma check_cycles_valid [simp]: "vr_valid (check_cycles deps r) \<longleftrightarrow> vr_valid r \<and> acyclic (dep_edges deps)"
proof (cases "validate_dag_no_cycles deps")
  case (Inl cycles)
  then have "\<not> acyclic (dep_edges deps)" "cycles \<noteq> []"
    using validate_dag_acyclic [of deps] by (auto simp: validate_dag_unfold Let_def split: if_splits)
  then show ?thesis by (simp add: check_cycles_def Inl fold_add_error_valid)
next
  case (Inr u)
  then show ?thesis using validate_dag_acyclic [of deps] by (simp add: check_cycles_def)
qed

lemma fold_insert_dep:
  "distinct (map fst kvs) \<Longrightarrow> fst ` set m \<inter> fst ` set kvs = {} \<Longrightarrow> fold insert_dep kvs m = m @ kvs"
proof (induction kvs arbitrary: m)
  case (Cons kv kvs)
  then have "fst kv \<notin> fst ` set m" by simp
  then have "filter (\<lambda>e. fst e \<noteq> fst kv) m = m" by (intro filter_True) (metis image_eqI)
  then show ?case using Cons.IH [of "m @ [kv]"] Cons.prems by (simp add: insert_dep_def Int_Un_distrib2)
qed simp

text \<open>The dependencies of a list of nodes, one edge from a name to each name it depends on.\<close>

definition edges_of :: "('a \<Rightarrow> string) \<Rightarrow> ('a \<Rightarrow> string list) \<Rightarrow> 'a list \<Rightarrow> (string \<times> string) set" where
  "edges_of ref deps xs = {(ref x, d) | x d. x \<in> set xs \<and> d \<in> set (deps x)}"

lemma dep_edges_of:
  assumes "distinct (map ref xs)"
  shows "dep_edges (fold insert_dep (map (\<lambda>x. (ref x, deps x)) xs) []) = edges_of ref deps xs"
proof -
  let ?kvs = "map (\<lambda>x. (ref x, deps x)) xs"
  have d: "distinct (map fst ?kvs)" using assms by (simp add: comp_def)
  have "b \<in> set (deps_of ?kvs a) \<longleftrightarrow> (\<exists>ds. (a, ds) \<in> set ?kvs \<and> b \<in> set ds)" for a b
    by (simp add: deps_of_mem map_of_eq_Some_iff [OF d])
  then have "b \<in> set (deps_of ?kvs a) \<longleftrightarrow> (\<exists>x \<in> set xs. ref x = a \<and> b \<in> set (deps x))" for a b
    by auto
  then show ?thesis using fold_insert_dep [OF d, of "[]"] by (auto simp: dep_edges_def edges_of_def)
qed


definition refs_exist :: "string list \<Rightarrow> string list \<Rightarrow> bool" where
  "refs_exist refs known \<longleftrightarrow> set refs \<subseteq> set known"

definition plan_well_formed :: "PlanProposal \<Rightarrow> bool" where
  "plan_well_formed p \<longleftrightarrow>
     (let milestone_refs = map pm_client_ref (pl_milestones p); task_refs = map pt_client_ref (pl_tasks p)
      in distinct milestone_refs \<and> distinct task_refs \<and>
         refs_exist (map pt_milestone_ref (pl_tasks p)) milestone_refs \<and>
         refs_exist (concat (map pt_dependencies (pl_tasks p))) task_refs \<and>
         refs_exist (concat (map pm_dependencies (pl_milestones p))) milestone_refs \<and>
         acyclic (edges_of pt_client_ref pt_dependencies (pl_tasks p)) \<and>
         acyclic (edges_of pm_client_ref pm_dependencies (pl_milestones p)))"

lemma validate_references_valid:
  "vr_valid (validate_references p r) \<longleftrightarrow> vr_valid r \<and> plan_well_formed p"
proof (cases "distinct (map pm_client_ref (pl_milestones p)) \<and> distinct (map pt_client_ref (pl_tasks p))")
  case True
  then show ?thesis
    using dep_edges_of [of pt_client_ref "pl_tasks p" pt_dependencies]
      dep_edges_of [of pm_client_ref "pl_milestones p" pm_dependencies]
    by (auto simp: validate_references_def plan_well_formed_def refs_exist_def Let_def split_beta)
next
  case False
  then show ?thesis by (auto simp: validate_references_def plan_well_formed_def Let_def split_beta)
qed

lemma if_report_valid:
  "vr_valid (if b then add_warning w r else r) = vr_valid r"
  "vr_valid (if b then add_error e r else r) \<longleftrightarrow> vr_valid r \<and> \<not> b"
  by simp_all

lemma fold_warnings_valid:
  "vr_valid (fold (\<lambda>(x, y) r. if P x y then add_warning (m x y) r else r) xs r) = vr_valid r"
proof (induction xs arbitrary: r)
  case (Cons p xs)
  then show ?case by (cases p) (simp del: add_warning_sel add: if_report_valid)
qed simp

text \<open>
  C32. A proposed plan is accepted exactly when its milestone and task names are unique, each task belongs to a
  milestone of the plan, all dependencies name tasks (milestones) of the plan and have no cycle, each required
  criterion of the goal is covered by a milestone, each task has acceptance criteria and expected
  evidence and a risk level that is known up to case, and the number of tasks stays within the budget, added as 32-bit
  numbers.
\<close>

theorem plan_valid_exact:
  "vr_valid (validate_plan_proposal sha p goal existing) \<longleftrightarrow>
     plan_well_formed p \<and>
     refs_exist (map sc_criterion_id (filter sc_required (gs_success_criteria goal)))
       (concat (map pm_success_criteria_refs (pl_milestones p))) \<and>
     list_all (\<lambda>t. pt_acceptance_criteria t \<noteq> [] \<and> pt_expected_evidence t \<noteq> [] \<and>
       to_lowercase (pt_risk_level t) \<in> {''low'', ''medium'', ''high'', ''critical''}) (pl_tasks p) \<and>
     existing + word_of_nat (length (pl_tasks p)) \<le> gb_max_total_tasks (gs_budget goal)"
proof -
  have new: "vr_valid (validation_new\<lparr>vr_proposal_digest := d\<rparr>)" for d by (simp add: validation_new_def)
  show ?thesis
    unfolding validate_plan_proposal_def Let_def if_report_valid fold_warnings_valid errors_for_valid
      validate_references_valid list_all_iff refs_exist_def
    using new by (simp add: not_less) blast
qed

text \<open>Below the range of 32 bits the sum is the number of tasks.\<close>

lemma task_budget_sum:
  assumes "unat existing + length (pl_tasks p) < 2 ^ 32"
  shows "existing + word_of_nat (length (pl_tasks p)) \<le> (m :: 32 word) \<longleftrightarrow>
    unat existing + length (pl_tasks p) \<le> unat m"
proof -
  have "unat (existing + word_of_nat (length (pl_tasks p))) = unat existing + length (pl_tasks p)"
    using assms by (simp add: unat_word_ariths unat_of_nat take_bit_nat_def)
  then show ?thesis by (simp add: word_le_nat_alt)
qed

text \<open>
  The validator compares risk levels without regard to case, the parser does not: a plan
  with a task of risk \<open>High\<close> passes the validation, and the level the planned task is stored with is then low.
\<close>

theorem risk_level_lost:
  "to_lowercase ''High'' \<in> {''low'', ''medium'', ''high'', ''critical''} \<and> risk_parse ''High'' = None \<and>
   (case risk_parse ''High'' of Some l \<Rightarrow> l | None \<Rightarrow> Risk_Low) = Risk_Low"
  by code_simp

section \<open>Completion\<close>

lemma completion_gate_exact:
  "cg_can_complete (check_completion_gate goal statuses evidence pending head evaluator critical approvals) \<longleftrightarrow>
     list_all (\<lambda>c. sc_required c \<longrightarrow> criterion_satisfied statuses c \<and> sc_subjectivity c \<noteq> Subjective)
       (gs_success_criteria goal) \<and>
     pending = 0 \<and> head \<and> evaluator \<and> \<not> critical \<and> \<not> approvals"
  by (auto simp: check_completion_gate_def Let_def list_all_iff list_ex_iff filter_empty_conv requires_human_approval_def)

end
