(* ===== verification/Goal_Repo.thy ===== *)
theory Goal_Repo
  imports Plan_Validation Effects
begin

text \<open>
  The tables of goals, plans, approvals and observations (migrations 028 to 030) and \<open>GoalRepo\<close> of
  \<open>harness-runtime/src/goal/repo.rs\<close>, one definition for each statement. An operation takes the database and returns
  its result with the database as the statements it ran left it: there are no transactions around
  them, so an error keeps what was written before. Unique constraints and checks are those of the schema, foreign
  keys are left out. JSON texts, digests, identifiers and the clock come from an environment.
\<close>

section \<open>Operations on the database\<close>

text \<open>JSON values of event payloads and of the actions in approval requests.\<close>

datatype goal_json =
    GNull | GStr string | GInt int | GBool bool | GArr "goal_json list" | GObj "(string \<times> goal_json) list"

record GoalEnv =
  ge_now :: int
  ge_now_sql :: string  \<comment> \<open>the clock as \<open>now_sql\<close> formats it\<close>
  ge_rfc3339 :: "string \<Rightarrow> int option"  \<comment> \<open>\<open>DateTime::parse_from_rfc3339\<close>\<close>
  ge_to_rfc3339 :: "int \<Rightarrow> string"
  ge_uuid :: "nat \<Rightarrow> string"
  ge_sha256 :: "string \<Rightarrow> string"
  ge_debug_str :: "string \<Rightarrow> string"
  ge_json :: "goal_json \<Rightarrow> string"
  ge_json_of :: "string \<Rightarrow> goal_json option"
  ge_goal_text :: "GoalSpec \<Rightarrow> string"
  ge_strings :: "string list \<Rightarrow> string"
  ge_strings_of :: "string \<Rightarrow> string list option"
  ge_budget :: "GoalBudget \<Rightarrow> string"
  ge_budget_of :: "string \<Rightarrow> GoalBudget option"
  ge_policy :: "ApprovalPolicy \<Rightarrow> string"
  ge_policy_of :: "string \<Rightarrow> ApprovalPolicy option"
  ge_creator :: "GoalCreator \<Rightarrow> string"
  ge_creator_of :: "string \<Rightarrow> GoalCreator option"
  ge_evidence :: "EvidencePolicy \<Rightarrow> string"
  ge_evidence_of :: "string \<Rightarrow> EvidencePolicy option"
  ge_verification :: "VerificationPolicy \<Rightarrow> string"
  ge_verification_of :: "string \<Rightarrow> VerificationPolicy option"
  ge_constraint :: "ConstraintType \<Rightarrow> string"
  ge_constraint_of :: "string \<Rightarrow> ConstraintType option"

definition or_default :: "'a \<Rightarrow> 'a option \<Rightarrow> 'a" where
  "or_default d x = (case x of Some v \<Rightarrow> v | None \<Rightarrow> d)"

definition parse_dt :: "GoalEnv \<Rightarrow> string \<Rightarrow> int" where
  "parse_dt env s = or_default (ge_now env) (ge_rfc3339 env s)"

section \<open>Rows\<close>

record GoalRow =
  gr_goal_id :: string
  gr_revision :: int
  gr_title :: string
  gr_objective :: string
  gr_repository_id :: string
  gr_target_ref :: string
  gr_initial_base_head :: string
  gr_state :: string
  gr_budget_json :: string
  gr_approval_policy_json :: string
  gr_created_by_json :: string
  gr_non_goals_json :: string
  gr_created_at :: string
  gr_updated_at :: string
  gr_completed_at :: "string option"

record CriterionRow =
  cr_criterion_id :: string
  cr_goal_id :: string
  cr_description :: string
  cr_evidence_policy :: string
  cr_evidence_policy_config :: string
  cr_verification_policy :: string
  cr_verification_policy_config :: string
  cr_subjectivity :: string
  cr_required :: int

record ConstraintRow =
  cn_constraint_id :: string
  cn_goal_id :: string
  cn_description :: string
  cn_constraint_type :: string
  cn_constraint_config :: string
  cn_blocking :: int

record GoalRevisionRow =
  gv_goal_revision_id :: string
  gv_goal_id :: string
  gv_revision_number :: int
  gv_spec_snapshot_json :: string
  gv_spec_digest :: string
  gv_created_by :: string
  gv_reason :: string

text \<open>A plan revision and its row differ in the type of the state and of times.\<close>

record ('s, 't) PlanRevision =
  pv_plan_revision_id :: string
  pv_goal_id :: string
  pv_goal_revision :: int
  pv_revision_number :: int
  pv_base_repository_head :: string
  pv_planner_profile_id :: string
  pv_planner_invocation_id :: string
  pv_proposal_digest :: string
  pv_validation_digest :: "string option"
  pv_state :: 's
  pv_created_at :: 't
  pv_activated_at :: "'t option"
  pv_superseded_at :: "'t option"

type_synonym plan_row = "(string, string) PlanRevision"
type_synonym plan_revision = "(PlanState, int) PlanRevision"

record Milestone =
  mi_milestone_id :: string
  mi_plan_revision_id :: string
  mi_client_ref :: string
  mi_title :: string
  mi_objective :: string
  mi_success_criteria_refs :: "string list"
  mi_dependencies :: "string list"
  mi_priority :: int
  mi_state :: MilestoneState

record MilestoneRow =
  mr_milestone_id :: string
  mr_plan_revision_id :: string
  mr_client_ref :: string
  mr_title :: string
  mr_objective :: string
  mr_success_criteria_refs_json :: string
  mr_dependencies_json :: string
  mr_priority :: int
  mr_state :: string

text \<open>Likewise a planned task (with lists, a risk level and a state) and its row (with texts).\<close>

record ('l, 'r, 'b, 's) PlannedTask =
  pd_planned_task_id :: string
  pd_plan_revision_id :: string
  pd_milestone_id :: string
  pd_client_ref :: string
  pd_title :: string
  pd_objective :: string
  pd_acceptance_criteria :: 'l
  pd_dependency_refs :: 'l
  pd_expected_evidence :: 'l
  pd_expected_resource_scope :: 'l
  pd_risk_level :: 'r
  pd_requires_approval :: 'b
  pd_task_fingerprint :: string
  pd_state :: 's
  pd_materialized_task_id :: "string option"
  pd_materialized_loop_id :: "string option"

type_synonym task_row = "(string, string, int, string) PlannedTask"
type_synonym planned_task = "(string list, RiskLevel, bool, PlannedTaskState) PlannedTask"

datatype GoalLoopRunState =
    Run_Created | Run_Planning | Run_ActivatingPlan | Run_SelectingWork | Run_DispatchingTasks
  | Run_WaitingForResults | Run_CollectingEvidence | Run_AssessingProgress | Run_Replanning
  | Run_WaitingForApproval | Run_Paused | Run_Completed | Run_Blocked | Run_Failed | Run_Cancelled

definition run_is_terminal :: "GoalLoopRunState \<Rightarrow> bool" where
  "run_is_terminal s \<longleftrightarrow> s \<in> {Run_Completed, Run_Failed, Run_Cancelled}"

definition run_is_recoverable :: "GoalLoopRunState \<Rightarrow> bool" where
  "run_is_recoverable s \<longleftrightarrow> s \<in> {Run_Planning, Run_ActivatingPlan, Run_SelectingWork, Run_DispatchingTasks,
     Run_WaitingForResults, Run_CollectingEvidence, Run_AssessingProgress, Run_Replanning, Run_WaitingForApproval}"

primrec format_state :: "GoalLoopRunState \<Rightarrow> string" where
  "format_state Run_Created = ''created''"
| "format_state Run_Planning = ''planning''"
| "format_state Run_ActivatingPlan = ''activating_plan''"
| "format_state Run_SelectingWork = ''selecting_work''"
| "format_state Run_DispatchingTasks = ''dispatching_tasks''"
| "format_state Run_WaitingForResults = ''waiting_for_results''"
| "format_state Run_CollectingEvidence = ''collecting_evidence''"
| "format_state Run_AssessingProgress = ''assessing_progress''"
| "format_state Run_Replanning = ''replanning''"
| "format_state Run_WaitingForApproval = ''waiting_for_approval''"
| "format_state Run_Paused = ''paused''"
| "format_state Run_Completed = ''completed''"
| "format_state Run_Blocked = ''blocked''"
| "format_state Run_Failed = ''failed''"
| "format_state Run_Cancelled = ''cancelled''"

record GoalLoopRunRow =
  rn_run_id :: string
  rn_goal_id :: string
  rn_plan_revision_id :: "string option"
  rn_state :: string
  rn_iteration_number :: int
  rn_created_at :: string
  rn_completed_at :: "string option"

text \<open>An observation, with its time as a number or as the row's text.\<close>

record 't GoalObservation =
  ob_observation_id :: string
  ob_goal_id :: string
  ob_plan_revision_id :: "string option"
  ob_planned_task_id :: "string option"
  ob_source_aggregate_type :: string
  ob_source_aggregate_id :: string
  ob_source_event_id :: string
  ob_source_digest :: string
  ob_repository_head :: string
  ob_claim :: string
  ob_evidence_type :: string
  ob_created_at :: 't


datatype ApprovalType =
    ApproveInitialPlan | ApproveHighRiskTask | ApproveScopeChange | ApproveBudgetIncrease
  | ProvideMissingInformation | ApproveGoalCompletion | ApproveResumeAfterNoProgress

primrec approval_type_as_str :: "ApprovalType \<Rightarrow> string" where
  "approval_type_as_str ApproveInitialPlan = ''approve_initial_plan''"
| "approval_type_as_str ApproveHighRiskTask = ''approve_high_risk_task''"
| "approval_type_as_str ApproveScopeChange = ''approve_scope_change''"
| "approval_type_as_str ApproveBudgetIncrease = ''approve_budget_increase''"
| "approval_type_as_str ProvideMissingInformation = ''provide_missing_information''"
| "approval_type_as_str ApproveGoalCompletion = ''approve_goal_completion''"
| "approval_type_as_str ApproveResumeAfterNoProgress = ''approve_resume_after_no_progress''"

definition approval_type_parse :: "string \<Rightarrow> ApprovalType option" where
  "approval_type_parse s =
     (if s = ''approve_initial_plan'' then Some ApproveInitialPlan
      else if s = ''approve_high_risk_task'' then Some ApproveHighRiskTask
      else if s = ''approve_scope_change'' then Some ApproveScopeChange
      else if s = ''approve_budget_increase'' then Some ApproveBudgetIncrease
      else if s = ''provide_missing_information'' then Some ProvideMissingInformation
      else if s = ''approve_goal_completion'' then Some ApproveGoalCompletion
      else if s = ''approve_resume_after_no_progress'' then Some ApproveResumeAfterNoProgress
      else None)"

datatype ApprovalState = Apr_Pending | Apr_Approved | Apr_Rejected | Apr_Expired | Apr_Cancelled

definition approval_is_terminal :: "ApprovalState \<Rightarrow> bool" where
  "approval_is_terminal s \<longleftrightarrow> s \<in> {Apr_Approved, Apr_Rejected, Apr_Expired, Apr_Cancelled}"

definition parse_approval_state :: "string \<Rightarrow> ApprovalState" where
  "parse_approval_state s =
     (if s = ''pending'' then Apr_Pending
      else if s = ''approved'' then Apr_Approved
      else if s = ''rejected'' then Apr_Rejected
      else if s = ''expired'' then Apr_Expired
      else if s = ''cancelled'' then Apr_Cancelled
      else Apr_Pending)"

record ('k, 'j, 's, 't) ApprovalRequest =
  ar_approval_id :: string
  ar_goal_id :: string
  ar_plan_revision_id :: "string option"
  ar_approval_type :: 'k
  ar_requested_action :: 'j
  ar_payload_digest :: string
  ar_reason :: string
  ar_state :: 's
  ar_created_at :: 't
  ar_resolved_at :: "'t option"
  ar_resolved_by :: "string option"
  ar_response :: "'j option"
  ar_request_id :: "string option"
  ar_source :: string

type_synonym approval_row = "(string, string, string, string) ApprovalRequest"
type_synonym approval = "(ApprovalType, goal_json, ApprovalState, int) ApprovalRequest"

datatype InterventionClassification =
  Informational | ConstraintAddition | PlanChangeRequired | PauseRequested | CancelRequested

primrec intervention_class_as_str :: "InterventionClassification \<Rightarrow> string" where
  "intervention_class_as_str Informational = ''informational''"
| "intervention_class_as_str ConstraintAddition = ''constraint_addition''"
| "intervention_class_as_str PlanChangeRequired = ''plan_change_required''"
| "intervention_class_as_str PauseRequested = ''pause_requested''"
| "intervention_class_as_str CancelRequested = ''cancel_requested''"

definition intervention_class_parse :: "string \<Rightarrow> InterventionClassification option" where
  "intervention_class_parse s =
     (if s = ''informational'' then Some Informational
      else if s = ''constraint_addition'' then Some ConstraintAddition
      else if s = ''plan_change_required'' then Some PlanChangeRequired
      else if s = ''pause_requested'' then Some PauseRequested
      else if s = ''cancel_requested'' then Some CancelRequested
      else None)"

datatype InterventionState = Iv_Received | Iv_Applied | Iv_Superseded

primrec intervention_as_str :: "InterventionState \<Rightarrow> string" where
  "intervention_as_str Iv_Received = ''received''"
| "intervention_as_str Iv_Applied = ''applied''"
| "intervention_as_str Iv_Superseded = ''superseded''"

definition intervention_parse :: "string \<Rightarrow> InterventionState option" where
  "intervention_parse s =
     (if s = ''received'' then Some Iv_Received
      else if s = ''applied'' then Some Iv_Applied
      else if s = ''superseded'' then Some Iv_Superseded
      else None)"

record ('c, 's, 't) UserIntervention =
  iv_intervention_id :: string
  iv_goal_id :: string
  iv_request_id :: "string option"
  iv_source :: string
  iv_message :: string
  iv_classification :: 'c
  iv_state :: 's
  iv_created_at :: 't
  iv_processed_at :: "'t option"
  iv_applied_plan_revision_id :: "string option"

type_synonym intervention_row = "(string, string, string) UserIntervention"
type_synonym intervention = "(InterventionClassification, InterventionState, int) UserIntervention"

record GoalEventRow =
  gv_event_goal_id :: string
  gv_event_type :: string
  gv_payload_json :: string
  gv_sequence_num :: int

record PlanEventRow =
  pe_plan_revision_id :: string
  pe_goal_id :: string
  pe_event_type :: string
  pe_payload_json :: string
  pe_sequence_num :: int

record InvocationRow =
  in_invocation_id :: string
  in_goal_id :: string
  in_plan_revision_id :: "string option"
  in_invocation_kind :: string
  in_profile_id :: string
  in_idempotency_key :: string
  in_input_digest :: string
  in_state :: string

record GoalDb =
  gd_goals :: "GoalRow list"
  gd_criteria :: "CriterionRow list"
  gd_constraints :: "ConstraintRow list"
  gd_revisions :: "GoalRevisionRow list"
  gd_plans :: "plan_row list"
  gd_milestones :: "MilestoneRow list"
  gd_tasks :: "task_row list"
  gd_runs :: "GoalLoopRunRow list"
  gd_observations :: "string GoalObservation list"
  gd_approvals :: "approval_row list"
  gd_interventions :: "intervention_row list"
  gd_goal_events :: "GoalEventRow list"
  gd_plan_events :: "PlanEventRow list"
  gd_invocations :: "InvocationRow list"

section \<open>Constraints\<close>

definition criteria_ok :: "CriterionRow list \<Rightarrow> bool" where
  "criteria_ok rows \<longleftrightarrow> distinct (map cr_criterion_id rows)"

definition constraints_ok :: "ConstraintRow list \<Rightarrow> bool" where
  "constraints_ok rows \<longleftrightarrow> distinct (map cn_constraint_id rows)"

definition revisions_ok :: "GoalRevisionRow list \<Rightarrow> bool" where
  "revisions_ok rows \<longleftrightarrow> distinct (map gv_goal_revision_id rows) \<and>
     distinct (map (\<lambda>r. (gv_goal_id r, gv_revision_number r)) rows)"

definition plans_ok :: "plan_row list \<Rightarrow> bool" where
  "plans_ok rows \<longleftrightarrow> distinct (map pv_plan_revision_id rows) \<and>
     distinct (map (\<lambda>r. (pv_goal_id r, pv_revision_number r)) rows) \<and>
     distinct (map pv_goal_id (filter (\<lambda>r. pv_state r = ''active'') rows))"

definition milestones_ok :: "MilestoneRow list \<Rightarrow> bool" where
  "milestones_ok rows \<longleftrightarrow> distinct (map mr_milestone_id rows) \<and>
     distinct (map (\<lambda>r. (mr_plan_revision_id r, mr_client_ref r)) rows)"

definition tasks_ok :: "task_row list \<Rightarrow> bool" where
  "tasks_ok rows \<longleftrightarrow> distinct (map pd_planned_task_id rows) \<and>
     distinct (map (\<lambda>r. (pd_plan_revision_id r, pd_client_ref r)) rows)"

definition run_open :: "GoalLoopRunRow \<Rightarrow> bool" where
  "run_open r \<longleftrightarrow> rn_state r \<notin> {''completed'', ''failed'', ''cancelled''}"

definition runs_ok :: "GoalLoopRunRow list \<Rightarrow> bool" where
  "runs_ok rows \<longleftrightarrow> distinct (map rn_run_id rows) \<and> distinct (map rn_goal_id (filter run_open rows))"

definition approvals_ok :: "approval_row list \<Rightarrow> bool" where
  "approvals_ok rows \<longleftrightarrow> distinct (map ar_approval_id rows) \<and>
     list_all (\<lambda>r. ar_state r \<in> {''pending'', ''approved'', ''rejected'', ''expired'', ''cancelled''}) rows"

definition events_ok :: "GoalEventRow list \<Rightarrow> bool" where
  "events_ok rows \<longleftrightarrow> distinct (map (\<lambda>r. (gv_event_goal_id r, gv_sequence_num r)) rows)"

definition invocations_ok :: "InvocationRow list \<Rightarrow> bool" where
  "invocations_ok rows \<longleftrightarrow> distinct (map in_invocation_id rows) \<and> distinct (map in_idempotency_key rows) \<and>
     list_all (\<lambda>r. in_invocation_kind r \<in> {''planner'', ''evaluator''}) rows"

text \<open>\<open>INSERT\<close> and \<open>UPDATE\<close> on a table with constraints.\<close>

definition insert_row :: "('r list \<Rightarrow> bool) \<Rightarrow> 'r \<Rightarrow> 'r list \<Rightarrow> (CoreError, unit) result \<times> 'r list" where
  "insert_row ok row rows =
     (if ok (rows @ [row]) then (Inr (), rows @ [row]) else (Inl (db_err ''constraint failed''), rows))"

definition update_rows ::
  "('r list \<Rightarrow> bool) \<Rightarrow> ('r \<Rightarrow> bool) \<Rightarrow> ('r \<Rightarrow> 'r) \<Rightarrow> 'r list \<Rightarrow> (CoreError, nat) result \<times> 'r list" where
  "update_rows ok P f rows =
     (let rows' = update_where P f rows
      in if ok rows' then (Inr (rows_affected P rows), rows')
         else (Inl (db_err ''constraint failed''), rows))"


type_synonym 'a gop = "(GoalDb, 'a) op"

definition on_goals where
  "on_goals f db = (let (r, rows) = f (gd_goals db) in (r, db\<lparr>gd_goals := rows\<rparr>))"

definition on_plans where
  "on_plans f db = (let (r, rows) = f (gd_plans db) in (r, db\<lparr>gd_plans := rows\<rparr>))"

definition on_tasks where
  "on_tasks f db = (let (r, rows) = f (gd_tasks db) in (r, db\<lparr>gd_tasks := rows\<rparr>))"

definition on_approvals where
  "on_approvals f db = (let (r, rows) = f (gd_approvals db) in (r, db\<lparr>gd_approvals := rows\<rparr>))"

section \<open>Goals\<close>

primrec evidence_policy_str :: "EvidencePolicy \<Rightarrow> string" where
  "evidence_policy_str TaskTerminalResult = ''task_terminal_result''"
| "evidence_policy_str (VerificationCommand _) = ''verification_command''"
| "evidence_policy_str ReviewDecisionEvidence = ''review_decision''"
| "evidence_policy_str CommitOid = ''commit_oid''"
| "evidence_policy_str IntegratedTargetHead = ''integrated_target_head''"
| "evidence_policy_str (FileDigest _ _) = ''file_digest''"
| "evidence_policy_str StructuredUserApproval = ''structured_user_approval''"
| "evidence_policy_str (ExternalEvidence _) = ''external_evidence''"

primrec verification_policy_str :: "VerificationPolicy \<Rightarrow> string" where
  "verification_policy_str ExistenceOnly = ''existence_only''"
| "verification_policy_str DigestMatch = ''digest_match''"
| "verification_policy_str (DeterministicScript _) = ''deterministic_script''"
| "verification_policy_str HumanReview = ''human_review''"

primrec constraint_type_str :: "ConstraintType \<Rightarrow> string" where
  "constraint_type_str (FileExclusion _) = ''file_exclusion''"
| "constraint_type_str (ResourceLimit _ _) = ''resource_limit''"
| "constraint_type_str (ToolExclusion _) = ''tool_exclusion''"
| "constraint_type_str (BehaviorConstraint _) = ''behavior_constraint''"
| "constraint_type_str (CustomConstraint _ _) = ''custom''"

definition criterion_row :: "GoalEnv \<Rightarrow> string \<Rightarrow> SuccessCriterion \<Rightarrow> CriterionRow" where
  "criterion_row env goal_id c =
     \<lparr>cr_criterion_id = sc_criterion_id c, cr_goal_id = goal_id, cr_description = sc_description c,
      cr_evidence_policy = evidence_policy_str (sc_evidence_policy c),
      cr_evidence_policy_config = ge_evidence env (sc_evidence_policy c),
      cr_verification_policy = verification_policy_str (sc_verification_policy c),
      cr_verification_policy_config = ge_verification env (sc_verification_policy c),
      cr_subjectivity = (if requires_human_approval (sc_subjectivity c) then ''subjective'' else ''objective''),
      cr_required = (if sc_required c then 1 else 0)\<rparr>"

definition insert_success_criterion :: "GoalEnv \<Rightarrow> string \<Rightarrow> SuccessCriterion \<Rightarrow> unit gop" where
  "insert_success_criterion env goal_id c db =
     (let (r, rows) = insert_row criteria_ok (criterion_row env goal_id c) (gd_criteria db)
      in (r, db\<lparr>gd_criteria := rows\<rparr>))"

definition constraint_row :: "GoalEnv \<Rightarrow> string \<Rightarrow> GoalConstraint \<Rightarrow> ConstraintRow" where
  "constraint_row env goal_id c =
     \<lparr>cn_constraint_id = gc_constraint_id c, cn_goal_id = goal_id, cn_description = gc_description c,
      cn_constraint_type = constraint_type_str (gc_constraint_type c),
      cn_constraint_config = ge_constraint env (gc_constraint_type c),
      cn_blocking = (if gc_blocking c then 1 else 0)\<rparr>"

definition insert_constraint :: "GoalEnv \<Rightarrow> string \<Rightarrow> GoalConstraint \<Rightarrow> unit gop" where
  "insert_constraint env goal_id c db =
     (let (r, rows) = insert_row constraints_ok (constraint_row env goal_id c) (gd_constraints db)
      in (r, db\<lparr>gd_constraints := rows\<rparr>))"

definition goal_row :: "GoalEnv \<Rightarrow> GoalSpec \<Rightarrow> GoalRow" where
  "goal_row env g =
     \<lparr>gr_goal_id = gs_goal_id g, gr_revision = gs_revision g, gr_title = gs_title g,
      gr_objective = gs_objective g, gr_repository_id = gs_repository_id g, gr_target_ref = gs_target_ref g,
      gr_initial_base_head = gs_initial_base_head g, gr_state = ''draft'',
      gr_budget_json = ge_budget env (gs_budget g), gr_approval_policy_json = ge_policy env (gs_approval_policy g),
      gr_created_by_json = ge_creator env (gs_created_by g), gr_non_goals_json = ge_strings env (gs_non_goals g),
      gr_created_at = ge_now_sql env, gr_updated_at = ge_now_sql env, gr_completed_at = None\<rparr>"

definition goals_ok :: "GoalRow list \<Rightarrow> bool" where
  "goals_ok rows \<longleftrightarrow> distinct (map gr_goal_id rows)"

definition insert_goal :: "GoalEnv \<Rightarrow> GoalSpec \<Rightarrow> unit gop" where
  "insert_goal env goal =
     then_do (on_goals (insert_row goals_ok (goal_row env goal))) (\<lambda>_.
     then_do (each (insert_success_criterion env (gs_goal_id goal)) (gs_success_criteria goal)) (\<lambda>_.
     each (insert_constraint env (gs_goal_id goal)) (gs_constraints goal)))"

definition update_goal_state :: "GoalEnv \<Rightarrow> string \<Rightarrow> GoalState \<Rightarrow> unit gop" where
  "update_goal_state env goal_id new_state =
     then_do (on_goals (update_rows goals_ok
        (\<lambda>g. gr_goal_id g = goal_id \<and> gr_state g \<notin> {''succeeded'', ''failed'', ''cancelled''})
        (\<lambda>g. g\<lparr>gr_state := goal_as_str new_state, gr_updated_at := ge_now_sql env,
          gr_completed_at := (if goal_as_str new_state \<in> {''succeeded'', ''failed'', ''cancelled''}
            then Some (ge_now_sql env) else gr_completed_at g)\<rparr>))) (\<lambda>n.
     if n = 0 then raise (harness_error InvalidState ''goal is terminal or not found'') else return ())"

definition into_criterion :: "GoalEnv \<Rightarrow> CriterionRow \<Rightarrow> SuccessCriterion" where
  "into_criterion env r =
     \<lparr>sc_criterion_id = cr_criterion_id r, sc_description = cr_description r,
      sc_evidence_policy = or_default TaskTerminalResult (ge_evidence_of env (cr_evidence_policy_config r)),
      sc_verification_policy = or_default ExistenceOnly (ge_verification_of env (cr_verification_policy_config r)),
      sc_subjectivity = (if cr_subjectivity r = ''subjective'' then Subjective else Objective),
      sc_required = (cr_required r \<noteq> 0)\<rparr>"

definition into_constraint :: "GoalEnv \<Rightarrow> ConstraintRow \<Rightarrow> GoalConstraint" where
  "into_constraint env r =
     \<lparr>gc_constraint_id = cn_constraint_id r, gc_description = cn_description r,
      gc_constraint_type = or_default (CustomConstraint ''unknown'' ''{}'') (ge_constraint_of env (cn_constraint_config r)),
      gc_blocking = (cn_blocking r \<noteq> 0)\<rparr>"

definition into_goal_spec :: "GoalEnv \<Rightarrow> GoalRow \<Rightarrow> SuccessCriterion list \<Rightarrow> GoalConstraint list \<Rightarrow> GoalSpec" where
  "into_goal_spec env r criteria constraints =
     \<lparr>gs_goal_id = gr_goal_id r, gs_revision = gr_revision r, gs_title = gr_title r,
      gs_objective = gr_objective r, gs_repository_id = gr_repository_id r, gs_target_ref = gr_target_ref r,
      gs_initial_base_head = gr_initial_base_head r, gs_success_criteria = criteria, gs_constraints = constraints,
      gs_non_goals = or_default [] (ge_strings_of env (gr_non_goals_json r)),
      gs_budget = or_default goal_budget_default (ge_budget_of env (gr_budget_json r)),
      gs_approval_policy = or_default approval_policy_default (ge_policy_of env (gr_approval_policy_json r)),
      gs_created_by = or_default (CreatedBySystem ''unknown'' ''deserialized'') (ge_creator_of env (gr_created_by_json r)),
      gs_created_at = parse_dt env (gr_created_at r)\<rparr>"

definition get_success_criteria :: "GoalEnv \<Rightarrow> string \<Rightarrow> GoalDb \<Rightarrow> SuccessCriterion list" where
  "get_success_criteria env goal_id db =
     map (into_criterion env) (filter (\<lambda>r. cr_goal_id r = goal_id) (gd_criteria db))"

definition get_constraints :: "GoalEnv \<Rightarrow> string \<Rightarrow> GoalDb \<Rightarrow> GoalConstraint list" where
  "get_constraints env goal_id db =
     map (into_constraint env) (filter (\<lambda>r. cn_goal_id r = goal_id) (gd_constraints db))"

definition get_goal :: "GoalEnv \<Rightarrow> string \<Rightarrow> GoalDb \<Rightarrow> GoalSpec option" where
  "get_goal env goal_id db =
     map_option (\<lambda>r. into_goal_spec env r (get_success_criteria env goal_id db) (get_constraints env goal_id db))
       (select_one (\<lambda>g. gr_goal_id g = goal_id) (gd_goals db))"

text \<open>\<open>ORDER BY created_at DESC\<close>.\<close>

definition list_goals_by_state :: "GoalEnv \<Rightarrow> string option \<Rightarrow> GoalDb \<Rightarrow> GoalSpec list" where
  "list_goals_by_state env state db =
     map (\<lambda>r. into_goal_spec env r (get_success_criteria env (gr_goal_id r) db) (get_constraints env (gr_goal_id r) db))
       (rev (sort_key gr_created_at (rev (filter (\<lambda>g. case state of Some s \<Rightarrow> gr_state g = s | None \<Rightarrow> True)
         (gd_goals db)))))"

definition insert_goal_revision ::
  "GoalEnv \<Rightarrow> string \<Rightarrow> int \<Rightarrow> goal_json \<Rightarrow> string \<Rightarrow> string \<Rightarrow> string \<Rightarrow> string gop" where
  "insert_goal_revision env goal_id revision_number spec_snapshot spec_digest created_by reason db =
     (let revision_id = ''gr-'' @ ge_uuid env 0;
          (r, rows) = insert_row revisions_ok
            \<lparr>gv_goal_revision_id = revision_id, gv_goal_id = goal_id, gv_revision_number = revision_number,
             gv_spec_snapshot_json = ge_json env spec_snapshot, gv_spec_digest = spec_digest,
             gv_created_by = created_by, gv_reason = reason\<rparr> (gd_revisions db)
      in (and_then r (\<lambda>_. Inr revision_id), db\<lparr>gd_revisions := rows\<rparr>))"


section \<open>Plans, milestones and planned tasks\<close>

definition parse_plan_state :: "string \<Rightarrow> PlanState" where
  "parse_plan_state s =
     (if s = ''proposed'' then Plan_Proposed
      else if s = ''validating'' then Plan_Validating
      else if s = ''validated'' then Plan_Validated
      else if s = ''active'' then Plan_Active
      else if s = ''superseded'' then Plan_Superseded
      else if s = ''completed'' then Plan_Completed
      else if s = ''rejected'' then Plan_Rejected
      else if s = ''invalid'' then Plan_Invalid
      else if s = ''cancelled'' then Plan_Cancelled
      else Plan_Proposed)"

definition into_plan_revision :: "GoalEnv \<Rightarrow> plan_row \<Rightarrow> plan_revision" where
  "into_plan_revision env r =
     \<lparr>pv_plan_revision_id = pv_plan_revision_id r, pv_goal_id = pv_goal_id r,
      pv_goal_revision = pv_goal_revision r, pv_revision_number = pv_revision_number r,
      pv_base_repository_head = pv_base_repository_head r, pv_planner_profile_id = pv_planner_profile_id r,
      pv_planner_invocation_id = pv_planner_invocation_id r, pv_proposal_digest = pv_proposal_digest r,
      pv_validation_digest = pv_validation_digest r, pv_state = parse_plan_state (pv_state r),
      pv_created_at = parse_dt env (pv_created_at r), pv_activated_at = map_option (parse_dt env) (pv_activated_at r),
      pv_superseded_at = map_option (parse_dt env) (pv_superseded_at r)\<rparr>"

definition insert_plan_revision :: "GoalEnv \<Rightarrow> plan_revision \<Rightarrow> unit gop" where
  "insert_plan_revision env plan = on_plans (insert_row plans_ok
     \<lparr>pv_plan_revision_id = pv_plan_revision_id plan, pv_goal_id = pv_goal_id plan,
      pv_goal_revision = pv_goal_revision plan, pv_revision_number = pv_revision_number plan,
      pv_base_repository_head = pv_base_repository_head plan, pv_planner_profile_id = pv_planner_profile_id plan,
      pv_planner_invocation_id = pv_planner_invocation_id plan, pv_proposal_digest = pv_proposal_digest plan,
      pv_validation_digest = pv_validation_digest plan, pv_state = plan_as_str (pv_state plan),
      pv_created_at = ge_now_sql env, pv_activated_at = map_option (ge_to_rfc3339 env) (pv_activated_at plan),
      pv_superseded_at = map_option (ge_to_rfc3339 env) (pv_superseded_at plan)\<rparr>)"

definition plan_row_open :: "plan_row \<Rightarrow> bool" where
  "plan_row_open p \<longleftrightarrow> pv_state p \<notin> {''superseded'', ''completed'', ''rejected'', ''invalid'', ''cancelled''}"

definition update_plan_state :: "GoalEnv \<Rightarrow> string \<Rightarrow> PlanState \<Rightarrow> string option \<Rightarrow> unit gop" where
  "update_plan_state env plan_revision_id new_state validation_digest =
     then_do (on_plans (update_rows plans_ok
        (\<lambda>p. pv_plan_revision_id p = plan_revision_id \<and> plan_row_open p)
        (\<lambda>p. p\<lparr>pv_state := plan_as_str new_state,
          pv_validation_digest := (case validation_digest of Some d \<Rightarrow> Some d | None \<Rightarrow> pv_validation_digest p),
          pv_activated_at := (if plan_as_str new_state = ''active'' then Some (ge_now_sql env) else pv_activated_at p),
          pv_superseded_at := (if plan_as_str new_state = ''superseded'' then Some (ge_now_sql env)
            else pv_superseded_at p)\<rparr>))) (\<lambda>n.
     if n = 0 then raise (harness_error InvalidState ''plan revision is terminal or not found'') else return ())"

definition supersede_active_plans :: "GoalEnv \<Rightarrow> string \<Rightarrow> string \<Rightarrow> unit gop" where
  "supersede_active_plans env goal_id except_plan_id =
     then_do (on_plans (update_rows plans_ok
        (\<lambda>p. pv_goal_id p = goal_id \<and> pv_state p = ''active'' \<and> pv_plan_revision_id p \<noteq> except_plan_id)
        (\<lambda>p. p\<lparr>pv_state := ''superseded'', pv_superseded_at := Some (ge_now_sql env)\<rparr>))) (\<lambda>_. return ())"

definition get_active_plan :: "GoalEnv \<Rightarrow> string \<Rightarrow> GoalDb \<Rightarrow> plan_revision option" where
  "get_active_plan env goal_id db = map_option (into_plan_revision env)
     (select_one (\<lambda>p. pv_goal_id p = goal_id \<and> pv_state p = ''active'') (gd_plans db))"

definition get_plan_revision :: "GoalEnv \<Rightarrow> string \<Rightarrow> GoalDb \<Rightarrow> plan_revision option" where
  "get_plan_revision env plan_revision_id db = map_option (into_plan_revision env)
     (select_one (\<lambda>p. pv_plan_revision_id p = plan_revision_id) (gd_plans db))"

text \<open>\<open>ORDER BY revision_number DESC LIMIT 1\<close>.\<close>

definition get_latest_plan_revision_id :: "string \<Rightarrow> GoalDb \<Rightarrow> string option" where
  "get_latest_plan_revision_id goal_id db =
     (let ps = filter (\<lambda>p. pv_goal_id p = goal_id) (gd_plans db)
      in if ps = [] then None else Some (pv_plan_revision_id (last (sort_key pv_revision_number ps))))"

definition insert_milestone :: "GoalEnv \<Rightarrow> Milestone \<Rightarrow> unit gop" where
  "insert_milestone env m db =
     (let (r, rows) = insert_row milestones_ok
            \<lparr>mr_milestone_id = mi_milestone_id m, mr_plan_revision_id = mi_plan_revision_id m,
             mr_client_ref = mi_client_ref m, mr_title = mi_title m, mr_objective = mi_objective m,
             mr_success_criteria_refs_json = ge_strings env (mi_success_criteria_refs m),
             mr_dependencies_json = ge_strings env (mi_dependencies m), mr_priority = mi_priority m,
             mr_state = milestone_as_str (mi_state m)\<rparr> (gd_milestones db)
      in (r, db\<lparr>gd_milestones := rows\<rparr>))"

definition update_milestone_state :: "string \<Rightarrow> MilestoneState \<Rightarrow> unit gop" where
  "update_milestone_state milestone_id new_state db =
     (Inr (), db\<lparr>gd_milestones := update_where (\<lambda>m. mr_milestone_id m = milestone_id)
        (\<lambda>m. m\<lparr>mr_state := milestone_as_str new_state\<rparr>) (gd_milestones db)\<rparr>)"

definition task_row_of :: "GoalEnv \<Rightarrow> planned_task \<Rightarrow> task_row" where
  "task_row_of env t =
     \<lparr>pd_planned_task_id = pd_planned_task_id t, pd_plan_revision_id = pd_plan_revision_id t,
      pd_milestone_id = pd_milestone_id t, pd_client_ref = pd_client_ref t, pd_title = pd_title t,
      pd_objective = pd_objective t, pd_acceptance_criteria = ge_strings env (pd_acceptance_criteria t),
      pd_dependency_refs = ge_strings env (pd_dependency_refs t),
      pd_expected_evidence = ge_strings env (pd_expected_evidence t),
      pd_expected_resource_scope = ge_strings env (pd_expected_resource_scope t),
      pd_risk_level = risk_as_str (pd_risk_level t), pd_requires_approval = (if pd_requires_approval t then 1 else 0),
      pd_task_fingerprint = pd_task_fingerprint t, pd_state = planned_as_str (pd_state t),
      pd_materialized_task_id = pd_materialized_task_id t, pd_materialized_loop_id = pd_materialized_loop_id t\<rparr>"

definition insert_planned_task :: "GoalEnv \<Rightarrow> planned_task \<Rightarrow> unit gop" where
  "insert_planned_task env t = on_tasks (insert_row tasks_ok (task_row_of env t))"

definition update_planned_task_state :: "string \<Rightarrow> PlannedTaskState \<Rightarrow> string option \<Rightarrow> unit gop" where
  "update_planned_task_state planned_task_id new_state materialized_task_id =
     then_do (on_tasks (update_rows tasks_ok (\<lambda>t. pd_planned_task_id t = planned_task_id)
        (\<lambda>t. t\<lparr>pd_state := planned_as_str new_state, pd_materialized_task_id :=
          (case materialized_task_id of Some m \<Rightarrow> Some m | None \<Rightarrow> pd_materialized_task_id t)\<rparr>))) (\<lambda>_. return ())"

definition update_planned_task_materialization :: "string \<Rightarrow> string option \<Rightarrow> string option \<Rightarrow> unit gop" where
  "update_planned_task_materialization planned_task_id task_id loop_id =
     then_do (on_tasks (update_rows tasks_ok (\<lambda>t. pd_planned_task_id t = planned_task_id)
        (\<lambda>t. t\<lparr>pd_materialized_task_id := task_id, pd_materialized_loop_id := loop_id\<rparr>))) (\<lambda>_. return ())"

text \<open>The join of tasks with the revisions of a goal; \<open>LIMIT 1\<close> takes the task inserted first.\<close>

definition task_of_goal :: "string \<Rightarrow> GoalDb \<Rightarrow> task_row \<Rightarrow> bool" where
  "task_of_goal goal_id db t \<longleftrightarrow>
     list_ex (\<lambda>p. pv_plan_revision_id p = pd_plan_revision_id t \<and> pv_goal_id p = goal_id) (gd_plans db)"

text \<open>\<open>LIMIT 1\<close> without an order: the model takes the row inserted first, as a scan of the table does.\<close>

definition find_duplicate_fingerprint :: "string \<Rightarrow> string \<Rightarrow> GoalDb \<Rightarrow> string option" where
  "find_duplicate_fingerprint goal_id fingerprint db = map_option pd_planned_task_id
     (select_one (\<lambda>t. task_of_goal goal_id db t \<and> pd_task_fingerprint t = fingerprint \<and> pd_state t \<noteq> ''superseded'')
       (gd_tasks db))"

definition count_completed_tasks :: "string \<Rightarrow> GoalDb \<Rightarrow> nat" where
  "count_completed_tasks plan_revision_id db =
     length (filter (\<lambda>t. pd_plan_revision_id t = plan_revision_id \<and> pd_state t = ''completed'') (gd_tasks db))"

definition count_total_tasks :: "string \<Rightarrow> GoalDb \<Rightarrow> nat" where
  "count_total_tasks plan_revision_id db =
     length (filter (\<lambda>t. pd_plan_revision_id t = plan_revision_id \<and> pd_state t \<noteq> ''superseded'') (gd_tasks db))"

definition parse_planned_state :: "string \<Rightarrow> PlannedTaskState" where
  "parse_planned_state s =
     (if s = ''pending'' then Pt_Pending
      else if s = ''materialized'' then Pt_Materialized
      else if s = ''running'' then Pt_Running
      else if s = ''completed'' then Pt_Completed
      else if s = ''failed'' then Pt_Failed
      else if s = ''cancelled'' then Pt_Cancelled
      else if s = ''superseded'' then Pt_Superseded
      else Pt_Pending)"

definition into_planned_task :: "GoalEnv \<Rightarrow> task_row \<Rightarrow> planned_task" where
  "into_planned_task env t =
     \<lparr>pd_planned_task_id = pd_planned_task_id t, pd_plan_revision_id = pd_plan_revision_id t,
      pd_milestone_id = pd_milestone_id t, pd_client_ref = pd_client_ref t, pd_title = pd_title t,
      pd_objective = pd_objective t,
      pd_acceptance_criteria = or_default [] (ge_strings_of env (pd_acceptance_criteria t)),
      pd_dependency_refs = or_default [] (ge_strings_of env (pd_dependency_refs t)),
      pd_expected_evidence = or_default [] (ge_strings_of env (pd_expected_evidence t)),
      pd_expected_resource_scope = or_default [] (ge_strings_of env (pd_expected_resource_scope t)),
      pd_risk_level = or_default Risk_Low (risk_parse (pd_risk_level t)),
      pd_requires_approval = (pd_requires_approval t \<noteq> 0), pd_task_fingerprint = pd_task_fingerprint t,
      pd_state = parse_planned_state (pd_state t), pd_materialized_task_id = pd_materialized_task_id t,
      pd_materialized_loop_id = pd_materialized_loop_id t\<rparr>"

definition get_pending_tasks_ordered :: "GoalEnv \<Rightarrow> string \<Rightarrow> GoalDb \<Rightarrow> planned_task list" where
  "get_pending_tasks_ordered env plan_revision_id db = map (into_planned_task env)
     (sort_key pd_client_ref (filter (\<lambda>t. pd_plan_revision_id t = plan_revision_id \<and> pd_state t = ''pending'')
       (gd_tasks db)))"

definition get_all_planned_tasks :: "GoalEnv \<Rightarrow> string \<Rightarrow> GoalDb \<Rightarrow> planned_task list" where
  "get_all_planned_tasks env plan_revision_id db = map (into_planned_task env)
     (sort_key pd_client_ref (filter (\<lambda>t. pd_plan_revision_id t = plan_revision_id) (gd_tasks db)))"

section \<open>Runs, observations, approvals, interventions, invocations\<close>

definition create_loop_run :: "GoalEnv \<Rightarrow> string \<Rightarrow> string option \<Rightarrow> string gop" where
  "create_loop_run env goal_id plan_revision_id db =
     (case select_one (\<lambda>r. rn_goal_id r = goal_id \<and> run_open r) (gd_runs db) of
        Some existing \<Rightarrow> (Inr (rn_run_id existing), db)
      | None \<Rightarrow>
          (let run_id = ''glr-'' @ ge_uuid env 0;
               (r, rows) = insert_row runs_ok
                 \<lparr>rn_run_id = run_id, rn_goal_id = goal_id, rn_plan_revision_id = plan_revision_id,
                  rn_state = ''created'', rn_iteration_number = 0, rn_created_at = ge_now_sql env,
                  rn_completed_at = None\<rparr> (gd_runs db)
           in (and_then r (\<lambda>_. Inr run_id), db\<lparr>gd_runs := rows\<rparr>)))"

definition update_loop_run_state :: "GoalEnv \<Rightarrow> string \<Rightarrow> GoalLoopRunState \<Rightarrow> unit gop" where
  "update_loop_run_state env run_id new_state db =
     (let (r, rows) = update_rows runs_ok (\<lambda>r. rn_run_id r = run_id)
            (\<lambda>r. r\<lparr>rn_state := format_state new_state, rn_completed_at :=
              (if format_state new_state \<in> {''completed'', ''failed'', ''cancelled''} then Some (ge_now_sql env)
               else rn_completed_at r)\<rparr>) (gd_runs db)
      in (and_then r (\<lambda>_. Inr ()), db\<lparr>gd_runs := rows\<rparr>))"

definition observation_clashes :: "'t GoalObservation \<Rightarrow> 'u GoalObservation \<Rightarrow> bool" where
  "observation_clashes a b \<longleftrightarrow> ob_observation_id a = ob_observation_id b \<or>
     (ob_source_aggregate_type a = ob_source_aggregate_type b \<and> ob_source_aggregate_id a = ob_source_aggregate_id b \<and>
      ob_source_event_id a = ob_source_event_id b)"

definition observation_row :: "GoalEnv \<Rightarrow> int GoalObservation \<Rightarrow> string GoalObservation" where
  "observation_row env o' =
     \<lparr>ob_observation_id = ob_observation_id o', ob_goal_id = ob_goal_id o',
      ob_plan_revision_id = ob_plan_revision_id o', ob_planned_task_id = ob_planned_task_id o',
      ob_source_aggregate_type = ob_source_aggregate_type o', ob_source_aggregate_id = ob_source_aggregate_id o',
      ob_source_event_id = ob_source_event_id o', ob_source_digest = ob_source_digest o',
      ob_repository_head = ob_repository_head o', ob_claim = ob_claim o', ob_evidence_type = ob_evidence_type o',
      ob_created_at = ge_now_sql env\<rparr>"

definition insert_observation :: "GoalEnv \<Rightarrow> int GoalObservation \<Rightarrow> bool gop" where
  "insert_observation env obs db =
     (if list_ex (observation_clashes obs) (gd_observations db) then (Inr False, db)
      else (Inr True, db\<lparr>gd_observations := gd_observations db @ [observation_row env obs]\<rparr>))"

definition into_observation :: "GoalEnv \<Rightarrow> string GoalObservation \<Rightarrow> int GoalObservation" where
  "into_observation env o' =
     \<lparr>ob_observation_id = ob_observation_id o', ob_goal_id = ob_goal_id o',
      ob_plan_revision_id = ob_plan_revision_id o', ob_planned_task_id = ob_planned_task_id o',
      ob_source_aggregate_type = ob_source_aggregate_type o', ob_source_aggregate_id = ob_source_aggregate_id o',
      ob_source_event_id = ob_source_event_id o', ob_source_digest = ob_source_digest o',
      ob_repository_head = ob_repository_head o', ob_claim = ob_claim o', ob_evidence_type = ob_evidence_type o',
      ob_created_at = parse_dt env (ob_created_at o')\<rparr>"

definition list_goal_observations :: "GoalEnv \<Rightarrow> string \<Rightarrow> GoalDb \<Rightarrow> int GoalObservation list" where
  "list_goal_observations env goal_id db = map (into_observation env)
     (sort_key ob_created_at (filter (\<lambda>o'. ob_goal_id o' = goal_id) (gd_observations db)))"

definition create_approval :: "GoalEnv \<Rightarrow> approval \<Rightarrow> unit gop" where
  "create_approval env a = on_approvals (insert_row approvals_ok
     \<lparr>ar_approval_id = ar_approval_id a, ar_goal_id = ar_goal_id a, ar_plan_revision_id = ar_plan_revision_id a,
      ar_approval_type = approval_type_as_str (ar_approval_type a),
      ar_requested_action = ge_json env (ar_requested_action a), ar_payload_digest = ar_payload_digest a,
      ar_reason = ar_reason a, ar_state = ''pending'', ar_created_at = ge_now_sql env, ar_resolved_at = None,
      ar_resolved_by = None, ar_response = None, ar_request_id = ar_request_id a, ar_source = ar_source a\<rparr>)"

definition resolve_approval :: "GoalEnv \<Rightarrow> string \<Rightarrow> string \<Rightarrow> string \<Rightarrow> unit gop" where
  "resolve_approval env approval_id new_state resolved_by =
     then_do (on_approvals (update_rows approvals_ok (\<lambda>a. ar_approval_id a = approval_id \<and> ar_state a = ''pending'')
        (\<lambda>a. a\<lparr>ar_state := new_state, ar_resolved_at := Some (ge_now_sql env), ar_resolved_by := Some resolved_by\<rparr>)))
       (\<lambda>_. return ())"

definition resolve_approval_with_response ::
  "GoalEnv \<Rightarrow> string \<Rightarrow> string \<Rightarrow> string \<Rightarrow> string option \<Rightarrow> bool gop" where
  "resolve_approval_with_response env approval_id new_state resolved_by response_json =
     then_do (on_approvals (update_rows approvals_ok (\<lambda>a. ar_approval_id a = approval_id \<and> ar_state a = ''pending'')
        (\<lambda>a. a\<lparr>ar_state := new_state, ar_resolved_at := Some (ge_now_sql env), ar_resolved_by := Some resolved_by,
          ar_response := response_json\<rparr>))) (\<lambda>n. return (n > 0))"

definition into_approval :: "GoalEnv \<Rightarrow> approval_row \<Rightarrow> approval" where
  "into_approval env a =
     \<lparr>ar_approval_id = ar_approval_id a, ar_goal_id = ar_goal_id a, ar_plan_revision_id = ar_plan_revision_id a,
      ar_approval_type = or_default ApproveInitialPlan (approval_type_parse (ar_approval_type a)),
      ar_requested_action = or_default GNull (ge_json_of env (ar_requested_action a)),
      ar_payload_digest = ar_payload_digest a, ar_reason = ar_reason a,
      ar_state = parse_approval_state (ar_state a), ar_created_at = parse_dt env (ar_created_at a),
      ar_resolved_at = map_option (parse_dt env) (ar_resolved_at a), ar_resolved_by = ar_resolved_by a,
      ar_response = Option.bind (ar_response a) (ge_json_of env), ar_request_id = ar_request_id a,
      ar_source = ar_source a\<rparr>"

definition get_approval :: "GoalEnv \<Rightarrow> string \<Rightarrow> GoalDb \<Rightarrow> approval option" where
  "get_approval env approval_id db =
     map_option (into_approval env) (select_one (\<lambda>a. ar_approval_id a = approval_id) (gd_approvals db))"

definition list_pending_approvals :: "GoalEnv \<Rightarrow> string \<Rightarrow> GoalDb \<Rightarrow> approval list" where
  "list_pending_approvals env goal_id db = map (into_approval env)
     (sort_key ar_created_at (filter (\<lambda>a. ar_goal_id a = goal_id \<and> ar_state a = ''pending'') (gd_approvals db)))"

definition cancel_pending_approvals :: "GoalEnv \<Rightarrow> string \<Rightarrow> string \<Rightarrow> string \<Rightarrow> nat gop" where
  "cancel_pending_approvals env goal_id approval_type resolved_by = on_approvals (update_rows approvals_ok
     (\<lambda>a. ar_goal_id a = goal_id \<and> ar_approval_type a = approval_type \<and> ar_state a = ''pending'')
     (\<lambda>a. a\<lparr>ar_state := ''cancelled'', ar_resolved_at := Some (ge_now_sql env), ar_resolved_by := Some resolved_by\<rparr>))"

definition insert_intervention :: "GoalEnv \<Rightarrow> intervention \<Rightarrow> unit gop" where
  "insert_intervention env i db =
     (let (r, rows) = insert_row (\<lambda>rows. distinct (map iv_intervention_id rows))
            \<lparr>iv_intervention_id = iv_intervention_id i, iv_goal_id = iv_goal_id i, iv_request_id = iv_request_id i,
             iv_source = iv_source i, iv_message = iv_message i,
             iv_classification = intervention_class_as_str (iv_classification i),
             iv_state = intervention_as_str (iv_state i), iv_created_at = ge_now_sql env, iv_processed_at = None,
             iv_applied_plan_revision_id = None\<rparr> (gd_interventions db)
      in (r, db\<lparr>gd_interventions := rows\<rparr>))"

definition into_intervention :: "GoalEnv \<Rightarrow> intervention_row \<Rightarrow> intervention" where
  "into_intervention env i =
     \<lparr>iv_intervention_id = iv_intervention_id i, iv_goal_id = iv_goal_id i, iv_request_id = iv_request_id i,
      iv_source = iv_source i, iv_message = iv_message i,
      iv_classification = or_default ConstraintAddition (intervention_class_parse (iv_classification i)),
      iv_state = or_default Iv_Received (intervention_parse (iv_state i)),
      iv_created_at = parse_dt env (iv_created_at i), iv_processed_at = map_option (parse_dt env) (iv_processed_at i),
      iv_applied_plan_revision_id = iv_applied_plan_revision_id i\<rparr>"

definition list_interventions :: "GoalEnv \<Rightarrow> string \<Rightarrow> string option \<Rightarrow> GoalDb \<Rightarrow> intervention list" where
  "list_interventions env goal_id state db = map (into_intervention env)
     (filter (\<lambda>i. iv_goal_id i = goal_id \<and> (case state of Some s \<Rightarrow> iv_state i = s | None \<Rightarrow> True))
       (gd_interventions db))"

definition mark_interventions_applied :: "GoalEnv \<Rightarrow> string \<Rightarrow> string \<Rightarrow> nat gop" where
  "mark_interventions_applied env goal_id plan_revision_id db =
     (let P = (\<lambda>i. iv_goal_id i = goal_id \<and> iv_state i = ''received'')
      in (Inr (rows_affected P (gd_interventions db)),
          db\<lparr>gd_interventions := update_where P (\<lambda>i. i\<lparr>iv_state := ''applied'',
            iv_processed_at := Some (ge_now_sql env), iv_applied_plan_revision_id := Some plan_revision_id\<rparr>)
            (gd_interventions db)\<rparr>))"

definition insert_invocation ::
  "string \<Rightarrow> string \<Rightarrow> string option \<Rightarrow> string \<Rightarrow> string \<Rightarrow> string \<Rightarrow> string \<Rightarrow> unit gop" where
  "insert_invocation invocation_id goal_id plan_revision_id kind profile_id idempotency_key input_digest db =
     (let (r, rows) = insert_row invocations_ok
            \<lparr>in_invocation_id = invocation_id, in_goal_id = goal_id, in_plan_revision_id = plan_revision_id,
             in_invocation_kind = kind, in_profile_id = profile_id, in_idempotency_key = idempotency_key,
             in_input_digest = input_digest, in_state = ''pending''\<rparr> (gd_invocations db)
      in (r, db\<lparr>gd_invocations := rows\<rparr>))"

section \<open>Events\<close>

definition next_sequence :: "int list \<Rightarrow> int" where
  "next_sequence ns = (if ns = [] then 0 else Max (set ns)) + 1"

definition append_goal_event :: "string \<Rightarrow> string \<Rightarrow> string \<Rightarrow> unit gop" where
  "append_goal_event goal_id event_type payload_json db =
     (let seq = next_sequence (map gv_sequence_num (filter (\<lambda>e. gv_event_goal_id e = goal_id) (gd_goal_events db)));
          (r, rows) = insert_row events_ok
            \<lparr>gv_event_goal_id = goal_id, gv_event_type = event_type, gv_payload_json = payload_json,
             gv_sequence_num = seq\<rparr> (gd_goal_events db)
      in (r, db\<lparr>gd_goal_events := rows\<rparr>))"

definition append_plan_event :: "string \<Rightarrow> string \<Rightarrow> string \<Rightarrow> string \<Rightarrow> unit gop" where
  "append_plan_event plan_revision_id goal_id event_type payload_json db =
     (let seq = next_sequence (map pe_sequence_num
            (filter (\<lambda>e. pe_plan_revision_id e = plan_revision_id) (gd_plan_events db)))
      in (Inr (), db\<lparr>gd_plan_events := gd_plan_events db @
           [\<lparr>pe_plan_revision_id = plan_revision_id, pe_goal_id = goal_id, pe_event_type = event_type,
             pe_payload_json = payload_json, pe_sequence_num = seq\<rparr>]\<rparr>))"

end
