(* ===== verification/Goal_Service.thy ===== *)
theory Goal_Service
  imports Goal_Repo "HOL-Library.Product_Lexorder"
begin

text \<open>
  \<open>GoalLoopService\<close>: creation and state of goals, planning, selection of tasks, evidence, progress and completion,
  replanning and approvals (\<open>harness-runtime/src/goal/service.rs\<close>) and the protocol with the user
  (\<open>goal/interaction.rs\<close>). The loop that is spawned in the background, the calls to planners and evaluators, the
  dispatch of tasks and the fail points of crash tests are left out; starting a loop is its entry in the table of runs.
\<close>

section \<open>Goals\<close>

definition not_found :: "string \<Rightarrow> CoreError" where
  "not_found what = harness_error NotFound what"

definition invalid_state :: "string \<Rightarrow> CoreError" where
  "invalid_state what = harness_error InvalidState what"

definition parse_goal_state_from_db :: "string \<Rightarrow> (CoreError, GoalState) result" where
  "parse_goal_state_from_db s =
     (if s = ''draft'' then Inr Goal_Draft
      else if s = ''validated'' then Inr Goal_Validated
      else if s = ''planning'' then Inr Goal_Planning
      else if s = ''active'' then Inr Goal_Active
      else if s = ''waiting_for_approval'' then Inr Goal_WaitingForApproval
      else if s = ''paused'' then Inr Goal_Paused
      else if s = ''blocked'' then Inr Goal_Blocked
      else if s = ''succeeded'' then Inr Goal_Succeeded
      else if s = ''failed'' then Inr Goal_Failed
      else if s = ''cancelled'' then Inr Goal_Cancelled
      else Inl (invalid_state (''unknown goal state: '' @ s)))"

definition get_goal_state :: "string \<Rightarrow> GoalState gop" where
  "get_goal_state goal_id db =
     ((case select_one (\<lambda>g. gr_goal_id g = goal_id) (gd_goals db) of
         Some g \<Rightarrow> parse_goal_state_from_db (gr_state g)
       | None \<Rightarrow> Inl (not_found ''goal not found'')), db)"

definition create_goal :: "GoalEnv \<Rightarrow> GoalSpec \<Rightarrow> GoalSpec gop" where
  "create_goal env goal =
     (if gs_title goal = '''' then raise (invalid_state ''goal title must not be empty'')
      else if gs_objective goal = '''' then raise (invalid_state ''goal objective must not be empty'')
      else if gs_success_criteria goal = [] then raise (invalid_state ''goal must have at least one success criterion'')
      else then_do (insert_goal env goal) (\<lambda>_.
           then_do (append_goal_event (gs_goal_id goal) ''goal_created'' (ge_goal_text env goal)) (\<lambda>_.
           return goal)))"

definition transition_goal :: "GoalEnv \<Rightarrow> string \<Rightarrow> GoalState \<Rightarrow> unit gop" where
  "transition_goal env goal_id new_state =
     then_do (require (not_found ''goal not found'') (get_goal env goal_id)) (\<lambda>_.
     then_do (get_goal_state goal_id) (\<lambda>current_state.
     if \<not> goal_can_transition current_state new_state then
       raise (harness_error (InvalidStateTransition (goal_as_str current_state) (goal_as_str new_state))
         ''illegal goal state transition'')
     else then_do (update_goal_state env goal_id new_state) (\<lambda>_.
       append_goal_event goal_id ''goal_state_changed''
         (ge_json env (GObj [(''from'', GStr (goal_as_str current_state)), (''to'', GStr (goal_as_str new_state))])))))"

section \<open>Planning\<close>

definition next_plan_revision_number :: "string \<Rightarrow> GoalDb \<Rightarrow> int" where
  "next_plan_revision_number goal_id db =
     next_sequence (map pv_revision_number (filter (\<lambda>p. pv_goal_id p = goal_id) (gd_plans db)))"

definition count_existing_tasks :: "string \<Rightarrow> GoalDb \<Rightarrow> 32 word" where
  "count_existing_tasks goal_id db = word_of_nat (length (filter (task_of_goal goal_id db) (gd_tasks db)))"

definition resolve_milestone_id :: "string \<Rightarrow> string \<Rightarrow> string gop" where
  "resolve_milestone_id plan_revision_id client_ref = require (not_found (''milestone not found: '' @ client_ref))
     (\<lambda>db. map_option mr_milestone_id
       (select_one (\<lambda>m. mr_plan_revision_id m = plan_revision_id \<and> mr_client_ref m = client_ref) (gd_milestones db)))"

definition plan_milestone :: "GoalEnv \<Rightarrow> string \<Rightarrow> ProposedMilestone \<times> nat \<Rightarrow> Milestone" where
  "plan_milestone env plan_revision_id = (\<lambda>(m, k).
     \<lparr>mi_milestone_id = ''ms-'' @ ge_uuid env k, mi_plan_revision_id = plan_revision_id,
      mi_client_ref = pm_client_ref m, mi_title = pm_title m, mi_objective = pm_objective m,
      mi_success_criteria_refs = pm_success_criteria_refs m, mi_dependencies = pm_dependencies m,
      mi_priority = pm_priority m, mi_state = Ms_Pending\<rparr>)"

definition plan_task :: "GoalEnv \<Rightarrow> GoalSpec \<Rightarrow> int \<Rightarrow> string \<Rightarrow> string \<Rightarrow> ProposedTask \<times> nat \<Rightarrow> planned_task" where
  "plan_task env goal goal_revision plan_revision_id milestone_id = (\<lambda>(t, k).
     \<lparr>pd_planned_task_id = ''pt-'' @ ge_uuid env k, pd_plan_revision_id = plan_revision_id,
      pd_milestone_id = milestone_id, pd_client_ref = pt_client_ref t, pd_title = pt_title t,
      pd_objective = pt_objective t, pd_acceptance_criteria = pt_acceptance_criteria t,
      pd_dependency_refs = pt_dependencies t, pd_expected_evidence = pt_expected_evidence t,
      pd_expected_resource_scope = pt_expected_resource_scope t,
      pd_risk_level = or_default Risk_Low (risk_parse (pt_risk_level t)),
      pd_requires_approval = pt_requires_approval t,
      pd_task_fingerprint = compute_task_fingerprint (ge_sha256 env) (ge_debug_str env) goal_revision
        (pt_objective t) (pt_acceptance_criteria t) (pt_dependencies t) (gs_repository_id goal)
        (gs_target_ref goal) (pt_expected_evidence t),
      pd_state = Pt_Pending, pd_materialized_task_id = None, pd_materialized_loop_id = None\<rparr>)"

text \<open>The first identifier drawn is the one of the revision, then come those of milestones and tasks.\<close>

definition persist_plan_revision ::
  "GoalEnv \<Rightarrow> string \<Rightarrow> PlanProposal \<Rightarrow> string \<Rightarrow> string \<Rightarrow> string \<Rightarrow> int \<Rightarrow> plan_revision gop" where
  "persist_plan_revision env goal_id proposal planner_profile_id planner_invocation_id base_head goal_revision =
     then_do (require (not_found ''goal not found'') (get_goal env goal_id)) (\<lambda>goal.
     then_do (select (count_existing_tasks goal_id)) (\<lambda>existing.
     let validation = validate_plan_proposal (ge_sha256 env) proposal goal existing
     in if \<not> vr_valid validation then
          raise (invalid_state (''plan validation failed: '' @ join_with ''; '' (vr_errors validation)))
        else then_do (select (next_plan_revision_number goal_id)) (\<lambda>revision_number.
          let plan_revision_id = ''pr-'' @ ge_uuid env 0;
              plan = \<lparr>pv_plan_revision_id = plan_revision_id, pv_goal_id = goal_id,
                pv_goal_revision = goal_revision, pv_revision_number = revision_number,
                pv_base_repository_head = base_head, pv_planner_profile_id = planner_profile_id,
                pv_planner_invocation_id = planner_invocation_id,
                pv_proposal_digest = vr_proposal_digest validation,
                pv_validation_digest = Some (vr_proposal_digest validation), pv_state = Plan_Validated,
                pv_created_at = ge_now env, pv_activated_at = None, pv_superseded_at = None\<rparr>;
              first_task = Suc (length (pl_milestones proposal))
          in then_do (insert_plan_revision env plan) (\<lambda>_.
             then_do (each (\<lambda>mk. insert_milestone env (plan_milestone env plan_revision_id mk))
                (zip (pl_milestones proposal) [1..<first_task])) (\<lambda>_.
             then_do (each (\<lambda>tk. then_do (resolve_milestone_id plan_revision_id (pt_milestone_ref (fst tk))) (\<lambda>ms.
                  insert_planned_task env (plan_task env goal goal_revision plan_revision_id ms tk)))
                (zip (pl_tasks proposal) [first_task..<first_task + length (pl_tasks proposal)])) (\<lambda>_.
             return plan))))))"

definition activate_validated_plan :: "GoalEnv \<Rightarrow> string \<Rightarrow> string \<Rightarrow> unit gop" where
  "activate_validated_plan env goal_id plan_revision_id =
     then_do (require (not_found ''plan revision not found'') (get_plan_revision env plan_revision_id)) (\<lambda>plan.
     then_do (select (\<lambda>db. length (filter (\<lambda>m. mr_plan_revision_id m = plan_revision_id) (gd_milestones db))))
       (\<lambda>milestone_count.
     then_do (select (\<lambda>db. length (filter (\<lambda>t. pd_plan_revision_id t = plan_revision_id) (gd_tasks db)))) (\<lambda>task_count.
     then_do (supersede_active_plans env goal_id plan_revision_id) (\<lambda>_.
     then_do (update_plan_state env plan_revision_id Plan_Active (pv_validation_digest plan)) (\<lambda>_.
     then_do (append_plan_event plan_revision_id goal_id ''plan_activated''
       (ge_json env (GObj [(''revision_number'', GInt (pv_revision_number plan)),
         (''proposal_digest'', GStr (pv_proposal_digest plan)),
         (''milestone_count'', GInt (int milestone_count)), (''task_count'', GInt (int task_count))]))) (\<lambda>_.
     ignoring (mark_interventions_applied env goal_id plan_revision_id)))))))"

definition activate_plan ::
  "GoalEnv \<Rightarrow> string \<Rightarrow> PlanProposal \<Rightarrow> string \<Rightarrow> string \<Rightarrow> string \<Rightarrow> int \<Rightarrow> plan_revision gop" where
  "activate_plan env goal_id proposal planner_profile_id planner_invocation_id base_head goal_revision =
     then_do (persist_plan_revision env goal_id proposal planner_profile_id planner_invocation_id base_head
       goal_revision) (\<lambda>plan.
     then_do (activate_validated_plan env goal_id (pv_plan_revision_id plan)) (\<lambda>_.
     return plan))"


section \<open>Selection of tasks\<close>

definition get_completed_client_refs :: "string \<Rightarrow> GoalDb \<Rightarrow> string list" where
  "get_completed_client_refs plan_revision_id db = map pd_client_ref
     (filter (\<lambda>t. pd_plan_revision_id t = plan_revision_id \<and> pd_state t = ''completed'') (gd_tasks db))"

definition get_milestone_priority :: "string \<Rightarrow> string \<Rightarrow> int" where
  "get_milestone_priority plan_revision_id milestone_id = 0"

definition task_ready :: "string \<Rightarrow> string list \<Rightarrow> GoalDb \<Rightarrow> planned_task \<Rightarrow> bool" where
  "task_ready goal_id completed db pt \<longleftrightarrow>
     list_all (\<lambda>dep. dep \<in> set completed) (pd_dependency_refs pt) \<and>
     (case find_duplicate_fingerprint goal_id (pd_task_fingerprint pt) db of
        Some dup_id \<Rightarrow> dup_id = pd_planned_task_id pt
      | None \<Rightarrow> True)"

text \<open>The loop over the pending tasks stops when enough are ready.\<close>

fun pick_ready :: "(planned_task \<Rightarrow> bool) \<Rightarrow> nat \<Rightarrow> planned_task list \<Rightarrow> planned_task list \<Rightarrow> planned_task list" where
  "pick_ready ok max_count ready [] = ready"
| "pick_ready ok max_count ready (pt # pts) =
     (if length ready \<ge> max_count then ready
      else if ok pt then pick_ready ok max_count (ready @ [pt]) pts
      else pick_ready ok max_count ready pts)"

definition select_ready_tasks :: "GoalEnv \<Rightarrow> string \<Rightarrow> nat \<Rightarrow> planned_task list gop" where
  "select_ready_tasks env goal_id max_count =
     then_do (require (not_found ''no active plan'') (get_active_plan env goal_id)) (\<lambda>plan.
     then_do (select (get_pending_tasks_ordered env (pv_plan_revision_id plan))) (\<lambda>pending.
     then_do (require (not_found ''goal not found'') (get_goal env goal_id)) (\<lambda>_.
     select (\<lambda>db.
       let completed = get_completed_client_refs (pv_plan_revision_id plan) db;
           ready = pick_ready (task_ready goal_id completed db) max_count [] pending
       in sort_key (\<lambda>t. (- get_milestone_priority (pv_plan_revision_id plan) (pd_milestone_id t),
            length (pd_dependency_refs t), pd_client_ref t)) ready))))"

section \<open>Evidence, progress and completion\<close>

datatype ObservationOutcome = ObservationCreated string | ObservationExists string

primrec observation_id :: "ObservationOutcome \<Rightarrow> string" where
  "observation_id (ObservationCreated i) = i"
| "observation_id (ObservationExists i) = i"

definition import_observation ::
  "GoalEnv \<Rightarrow> string \<Rightarrow> string option \<Rightarrow> string option \<Rightarrow> string \<Rightarrow> string \<Rightarrow> string \<Rightarrow> string \<Rightarrow> string \<Rightarrow> string \<Rightarrow>
   ObservationOutcome gop" where
  "import_observation env goal_id plan_revision_id planned_task_id source_type source_id source_event_id claim
     evidence_type repository_head =
     (let obs = \<lparr>ob_observation_id = ''obs-'' @ ge_uuid env 0, ob_goal_id = goal_id,
            ob_plan_revision_id = plan_revision_id, ob_planned_task_id = planned_task_id,
            ob_source_aggregate_type = source_type, ob_source_aggregate_id = source_id,
            ob_source_event_id = source_event_id,
            ob_source_digest = ge_sha256 env (source_type @ source_id @ source_event_id @ claim),
            ob_repository_head = repository_head, ob_claim = claim, ob_evidence_type = evidence_type,
            ob_created_at = ge_now env\<rparr>
      in then_do (insert_observation env obs) (\<lambda>created.
         return (if created then ObservationCreated (ob_observation_id obs)
                 else ObservationExists (ob_observation_id obs))))"

record CriterionAssessment =
  ca_criterion_id :: string
  ca_status :: CriterionStatus
  ca_evidence_refs :: "string list"
  ca_reason :: string
  ca_requires_human_confirmation :: bool

text \<open>The confidence of an assessment, a floating-point number, is not read by the service.\<close>

record ProgressAssessmentProposal =
  pa_schema_version :: string
  pa_overall_assessment :: string
  pa_criteria_assessments :: "CriterionAssessment list"
  pa_plan_sufficient :: bool
  pa_replan_recommended :: bool
  pa_completion_recommended :: bool
  pa_blockers :: "string list"
  pa_recommendation :: string
  pa_summary :: string

definition assess_progress ::
  "GoalEnv \<Rightarrow> string \<Rightarrow> ProgressAssessmentProposal option \<Rightarrow> CompletionGateResult gop" where
  "assess_progress env goal_id evaluator_proposal =
     then_do (require (not_found ''goal not found'') (get_goal env goal_id)) (\<lambda>goal.
     then_do (select (get_active_plan env goal_id)) (\<lambda>plan.
     let assessments = (case evaluator_proposal of Some p \<Rightarrow> pa_criteria_assessments p | None \<Rightarrow> []);
         statuses = fold (\<lambda>ca m. m(ca_criterion_id ca \<mapsto> ca_status ca)) assessments Map.empty;
         evidence_refs = remdups (concat (map ca_evidence_refs assessments))
     in then_do (select (\<lambda>db. case plan of
            Some p \<Rightarrow> length (get_pending_tasks_ordered env (pv_plan_revision_id p) db) | None \<Rightarrow> 0)) (\<lambda>pending_count.
        let evaluator_ok = (case evaluator_proposal of
              Some p \<Rightarrow> pa_completion_recommended p | None \<Rightarrow> pending_count = 0);
            statuses' = (if pending_count = 0
              then fold (\<lambda>c m. if sc_required c then m(sc_criterion_id c \<mapsto> Satisfied) else m)
                (gs_success_criteria goal) statuses
              else statuses)
        in return (check_completion_gate goal statuses' evidence_refs pending_count True evaluator_ok False False))))"

definition criteria_json :: "CriterionCompletionStatus \<Rightarrow> goal_json" where
  "criteria_json c = GObj [(''criterion_id'', GStr (cc_criterion_id c)), (''satisfied'', GBool (cc_satisfied c)),
     (''evidence_refs'', GArr (map GStr (cc_evidence_refs c))),
     (''missing_evidence'', GArr (map GStr (cc_missing_evidence c)))]"

definition try_complete_goal :: "GoalEnv \<Rightarrow> string \<Rightarrow> CompletionGateResult gop" where
  "try_complete_goal env goal_id =
     then_do (assess_progress env goal_id None) (\<lambda>result.
     if cg_can_complete result then
       then_do (update_goal_state env goal_id Goal_Succeeded) (\<lambda>_.
       then_do (append_goal_event goal_id ''goal_succeeded''
         (ge_json env (GObj [(''criteria_results'', GArr (map criteria_json (cg_criteria_results result)))]))) (\<lambda>_.
       return result))
     else return result)"

section \<open>Replanning\<close>

datatype ReplanDecision =
    ContinueCurrentPlan | CreatePlanRevision | WaitForApproval | PauseGoal | BlockGoal | RecommendCompletion | FailGoal

datatype ReplanTrigger =
    TaskFailed string string | TaskBlocked string string | IntegrationConflict string | CandidateStale string
  | TargetHeadAdvanced string string | ConsecutiveFailures "32 word" | NoProgress "32 word" | PlanInvalidated string
  | UserRequestedReplan string | EvaluatorRecommendation string

definition decide_replan :: "GoalEnv \<Rightarrow> string \<Rightarrow> ReplanTrigger \<Rightarrow> 32 word \<Rightarrow> 32 word \<Rightarrow> ReplanDecision gop" where
  "decide_replan env goal_id trigger consecutive_failures no_progress_iterations =
     then_do (require (not_found ''goal not found'') (get_goal env goal_id)) (\<lambda>goal.
     then_do (select (\<lambda>db. next_plan_revision_number goal_id db - 1)) (\<lambda>plan_count.
     return
       (if (word_of_int plan_count :: 32 word) \<ge> gb_max_plan_revisions (gs_budget goal) then WaitForApproval
        else if consecutive_failures \<ge> gb_max_consecutive_failures (gs_budget goal) then PauseGoal
        else if no_progress_iterations \<ge> gb_max_no_progress_iterations (gs_budget goal) then WaitForApproval
        else (case trigger of
            NoProgress iterations \<Rightarrow>
              if iterations \<ge> gb_max_no_progress_iterations (gs_budget goal) then WaitForApproval else CreatePlanRevision
          | ConsecutiveFailures count \<Rightarrow>
              if count \<ge> gb_max_consecutive_failures (gs_budget goal) then PauseGoal else CreatePlanRevision
          | _ \<Rightarrow> CreatePlanRevision))))"

definition detect_plan_cycle :: "string \<Rightarrow> string \<Rightarrow> GoalDb \<Rightarrow> bool" where
  "detect_plan_cycle goal_id new_proposal_digest db = list_ex (\<lambda>d. d = new_proposal_digest)
     (map pv_proposal_digest (filter (\<lambda>p. pv_goal_id p = goal_id \<and>
       pv_state p \<in> {''active'', ''superseded'', ''completed''}) (gd_plans db)))"

section \<open>Approvals\<close>

definition request_approval ::
  "GoalEnv \<Rightarrow> string \<Rightarrow> string option \<Rightarrow> ApprovalType \<Rightarrow> goal_json \<Rightarrow> string \<Rightarrow> approval gop" where
  "request_approval env goal_id plan_revision_id approval_type action reason =
     (let approval = \<lparr>ar_approval_id = ''apr-'' @ ge_uuid env 0, ar_goal_id = goal_id,
            ar_plan_revision_id = plan_revision_id, ar_approval_type = approval_type,
            ar_requested_action = action, ar_payload_digest = ge_sha256 env (ge_json env action),
            ar_reason = reason, ar_state = Apr_Pending, ar_created_at = ge_now env, ar_resolved_at = None,
            ar_resolved_by = None, ar_response = None, ar_request_id = None, ar_source = ''system''\<rparr>
      in then_do (create_approval env approval) (\<lambda>_. return approval))"

definition approve :: "GoalEnv \<Rightarrow> string \<Rightarrow> string \<Rightarrow> unit gop" where
  "approve env approval_id resolved_by = resolve_approval env approval_id ''approved'' resolved_by"

definition reject_approval :: "GoalEnv \<Rightarrow> string \<Rightarrow> string \<Rightarrow> unit gop" where
  "reject_approval env approval_id resolved_by = resolve_approval env approval_id ''rejected'' resolved_by"

text \<open>The part of \<open>start_loop_run\<close> before the background task is spawned.\<close>

definition start_loop_run :: "GoalEnv \<Rightarrow> string \<Rightarrow> string gop" where
  "start_loop_run env goal_id =
     then_do (select (get_active_plan env goal_id)) (\<lambda>plan.
     create_loop_run env goal_id (map_option pv_plan_revision_id plan))"

definition ensure_loop_run :: "GoalEnv \<Rightarrow> string \<Rightarrow> unit gop" where
  "ensure_loop_run env goal_id = ignoring (start_loop_run env goal_id)"


section \<open>The protocol with the user\<close>

datatype InteractionOutcome = Applied | AlreadyInState

definition outcome_applied :: "InteractionOutcome \<Rightarrow> bool" where
  "outcome_applied r \<longleftrightarrow> r = Applied"

record ClarificationQuestion =
  cq_question_id :: string
  cq_prompt :: string
  cq_choices :: "string list"
  cq_required :: bool
  cq_reason :: string

definition question_json :: "ClarificationQuestion \<Rightarrow> goal_json" where
  "question_json q = GObj [(''question_id'', GStr (cq_question_id q)), (''prompt'', GStr (cq_prompt q)),
     (''choices'', GArr (map GStr (cq_choices q))), (''required'', GBool (cq_required q)),
     (''reason'', GStr (cq_reason q))]"

text \<open>Transitions that the protocol makes only in (or outside) one state.\<close>

definition move_from :: "GoalEnv \<Rightarrow> string \<Rightarrow> GoalState \<Rightarrow> GoalState \<Rightarrow> unit gop" where
  "move_from env goal_id from to =
     then_do (get_goal_state goal_id) (\<lambda>s. if s = from then transition_goal env goal_id to else return ())"

definition park :: "GoalEnv \<Rightarrow> string \<Rightarrow> unit gop" where
  "park env goal_id = then_do (get_goal_state goal_id) (\<lambda>s.
     if s \<noteq> Goal_WaitingForApproval then transition_goal env goal_id Goal_WaitingForApproval else return ())"

definition request_clarification :: "GoalEnv \<Rightarrow> string \<Rightarrow> ClarificationQuestion list \<Rightarrow> approval gop" where
  "request_clarification env goal_id questions =
     (if questions = [] then raise (invalid_state ''clarification request must carry at least one question'')
      else
        then_do (move_from env goal_id Goal_Draft Goal_Planning) (\<lambda>_.
        then_do (request_approval env goal_id None ProvideMissingInformation
          (GObj [(''questions'', GArr (map question_json questions))])
          ''planner needs missing information before it can plan'') (\<lambda>approval.
        then_do (park env goal_id) (\<lambda>_.
        then_do (append_goal_event goal_id ''clarification_requested''
          (ge_json env (GObj [(''approval_id'', GStr (ar_approval_id approval)),
            (''question_count'', GInt (int (length questions)))]))) (\<lambda>_.
        return approval)))))"

text \<open>The checks that each answer to an approval request starts with.\<close>

definition load_approval :: "GoalEnv \<Rightarrow> string \<Rightarrow> string \<Rightarrow> ApprovalType \<Rightarrow> string \<Rightarrow> approval gop" where
  "load_approval env goal_id approval_id approval_type wrong_type =
     then_do (require (not_found ''approval request not found'') (get_approval env approval_id)) (\<lambda>approval.
     if ar_goal_id approval \<noteq> goal_id then raise (invalid_state ''approval does not belong to this goal'')
     else if ar_approval_type approval \<noteq> approval_type then raise (invalid_state wrong_type)
     else return approval)"

definition answer_clarification ::
  "GoalEnv \<Rightarrow> string \<Rightarrow> string \<Rightarrow> goal_json \<Rightarrow> string \<Rightarrow> InteractionOutcome gop" where
  "answer_clarification env goal_id approval_id answers resolved_by =
     then_do (load_approval env goal_id approval_id ProvideMissingInformation
       ''approval is not a clarification request'') (\<lambda>_.
     then_do (resolve_approval_with_response env approval_id ''approved'' resolved_by
       (Some (ge_json env answers))) (\<lambda>transitioned.
     if \<not> transitioned then return AlreadyInState
     else then_do (move_from env goal_id Goal_WaitingForApproval Goal_Planning) (\<lambda>_.
       then_do (append_goal_event goal_id ''clarification_answered''
         (ge_json env (GObj [(''approval_id'', GStr approval_id), (''resolved_by'', GStr resolved_by)]))) (\<lambda>_.
       then_do (ensure_loop_run env goal_id) (\<lambda>_. return Applied)))))"

definition task_summary :: "ProposedTask \<Rightarrow> goal_json" where
  "task_summary t = GObj [(''client_ref'', GStr (pt_client_ref t)), (''title'', GStr (pt_title t)),
     (''objective'', GStr (pt_objective t)), (''dependencies'', GArr (map GStr (pt_dependencies t))),
     (''risk_level'', GStr (pt_risk_level t)), (''requires_approval'', GBool (pt_requires_approval t))]"

definition request_plan_approval :: "GoalEnv \<Rightarrow> string \<Rightarrow> plan_revision \<Rightarrow> PlanProposal \<Rightarrow> approval gop" where
  "request_plan_approval env goal_id plan proposal =
     then_do (cancel_pending_approvals env goal_id ''approve_initial_plan'' ''system:superseded'') (\<lambda>_.
     then_do (move_from env goal_id Goal_Draft Goal_Planning) (\<lambda>_.
     then_do (request_approval env goal_id (Some (pv_plan_revision_id plan)) ApproveInitialPlan
       (GObj [(''goal_summary'', GStr (pl_goal_summary proposal)),
         (''revision_number'', GInt (pv_revision_number plan)),
         (''milestone_count'', GInt (int (length (pl_milestones proposal)))),
         (''task_count'', GInt (int (length (pl_tasks proposal)))),
         (''tasks'', GArr (map task_summary (pl_tasks proposal)))])
       ''plan revision requires user approval before activation'') (\<lambda>approval.
     then_do (park env goal_id) (\<lambda>_.
     then_do (append_goal_event goal_id ''plan_approval_requested''
       (ge_json env (GObj [(''approval_id'', GStr (ar_approval_id approval)),
         (''plan_revision_id'', GStr (pv_plan_revision_id plan)),
         (''revision_number'', GInt (pv_revision_number plan))]))) (\<lambda>_.
     return approval)))))"

definition approve_plan ::
  "GoalEnv \<Rightarrow> string \<Rightarrow> string \<Rightarrow> string \<Rightarrow> string option \<Rightarrow> InteractionOutcome gop" where
  "approve_plan env goal_id approval_id resolved_by expected_plan_revision_id =
     then_do (load_approval env goal_id approval_id ApproveInitialPlan ''approval is not a plan-approval request'')
       (\<lambda>approval.
     then_do (require (invalid_state ''plan-approval request has no bound plan revision'')
       (\<lambda>_. ar_plan_revision_id approval)) (\<lambda>bound_revision.
     if (case expected_plan_revision_id of Some expected \<Rightarrow> expected \<noteq> bound_revision | None \<Rightarrow> False) then
       raise (invalid_state (''stale approval decision: expected revision '' @
         or_default '''' expected_plan_revision_id @ '', approval is bound to '' @ bound_revision))
     else then_do (select (get_latest_plan_revision_id goal_id)) (\<lambda>latest.
     if latest \<noteq> Some bound_revision then
       raise (invalid_state (''stale approval: revision '' @ bound_revision @
         '' has been superseded by a newer revision''))
     else then_do (resolve_approval_with_response env approval_id ''approved'' resolved_by
         (Some (ge_json env (GObj [(''decision'', GStr ''approve'')])))) (\<lambda>transitioned.
     if \<not> transitioned then return AlreadyInState
     else then_do (activate_validated_plan env goal_id bound_revision) (\<lambda>_.
       then_do (move_from env goal_id Goal_WaitingForApproval Goal_Active) (\<lambda>_.
       then_do (append_goal_event goal_id ''plan_approved''
         (ge_json env (GObj [(''approval_id'', GStr approval_id), (''plan_revision_id'', GStr bound_revision),
           (''resolved_by'', GStr resolved_by)]))) (\<lambda>_.
       then_do (ensure_loop_run env goal_id) (\<lambda>_. return Applied))))))))"

definition insert_intervention_row ::
  "GoalEnv \<Rightarrow> string \<Rightarrow> string \<Rightarrow> InterventionClassification \<Rightarrow> string option \<Rightarrow> string \<Rightarrow> intervention gop" where
  "insert_intervention_row env goal_id message classification request_id source =
     (let i = \<lparr>iv_intervention_id = ''uiv-'' @ ge_uuid env 0, iv_goal_id = goal_id, iv_request_id = request_id,
            iv_source = source, iv_message = message, iv_classification = classification, iv_state = Iv_Received,
            iv_created_at = ge_now env, iv_processed_at = None, iv_applied_plan_revision_id = None\<rparr>
      in then_do (insert_intervention env i) (\<lambda>_.
         then_do (append_goal_event goal_id ''user_intervention_recorded''
           (ge_json env (GObj [(''intervention_id'', GStr (iv_intervention_id i)),
             (''classification'', GStr (intervention_class_as_str classification))]))) (\<lambda>_.
         return i)))"

definition later_uuids :: "nat \<Rightarrow> GoalEnv \<Rightarrow> GoalEnv" where
  "later_uuids n env = env\<lparr>ge_uuid := (\<lambda>k. ge_uuid env (n + k))\<rparr>"

definition opt_json :: "string option \<Rightarrow> goal_json" where
  "opt_json s = (case s of Some x \<Rightarrow> GStr x | None \<Rightarrow> GNull)"

definition request_plan_changes :: "GoalEnv \<Rightarrow> string \<Rightarrow> string \<Rightarrow> string \<Rightarrow> string \<Rightarrow> InteractionOutcome gop" where
  "request_plan_changes env goal_id approval_id feedback resolved_by =
     then_do (load_approval env goal_id approval_id ApproveInitialPlan ''approval is not a plan-approval request'')
       (\<lambda>approval.
     then_do (resolve_approval_with_response env approval_id ''rejected'' resolved_by
       (Some (ge_json env (GObj [(''decision'', GStr ''request_changes''), (''feedback'', GStr feedback)]))))
       (\<lambda>transitioned.
     if \<not> transitioned then return AlreadyInState
     else then_do (case ar_plan_revision_id approval of
           Some revision_id \<Rightarrow> ignoring (update_plan_state env revision_id Plan_Rejected None)
         | None \<Rightarrow> return ()) (\<lambda>_.
       then_do (insert_intervention_row env goal_id feedback PlanChangeRequired (ar_request_id approval) ''user'') (\<lambda>_.
       then_do (move_from env goal_id Goal_WaitingForApproval Goal_Planning) (\<lambda>_.
       then_do (append_goal_event goal_id ''plan_changes_requested''
         (ge_json env (GObj [(''approval_id'', GStr approval_id),
           (''plan_revision_id'', opt_json (ar_plan_revision_id approval)), (''resolved_by'', GStr resolved_by)]))) (\<lambda>_.
       then_do (ensure_loop_run (later_uuids 1 env) goal_id) (\<lambda>_. return Applied)))))))"

definition reject_plan :: "GoalEnv \<Rightarrow> string \<Rightarrow> string \<Rightarrow> string \<Rightarrow> string option \<Rightarrow> InteractionOutcome gop" where
  "reject_plan env goal_id approval_id resolved_by expected_plan_revision_id =
     then_do (load_approval env goal_id approval_id ApproveInitialPlan ''approval is not a plan-approval request'')
       (\<lambda>approval.
     if (case (expected_plan_revision_id, ar_plan_revision_id approval) of
           (Some expected, Some bound) \<Rightarrow> expected \<noteq> bound | _ \<Rightarrow> False) then
       raise (invalid_state (''stale reject decision: expected revision '' @
         or_default '''' expected_plan_revision_id @ '', approval is bound to '' @
         or_default '''' (ar_plan_revision_id approval)))
     else then_do (resolve_approval_with_response env approval_id ''rejected'' resolved_by
         (Some (ge_json env (GObj [(''decision'', GStr ''reject'')])))) (\<lambda>transitioned.
     if \<not> transitioned then return AlreadyInState
     else then_do (case ar_plan_revision_id approval of
           Some revision_id \<Rightarrow> ignoring (update_plan_state env revision_id Plan_Rejected None)
         | None \<Rightarrow> return ()) (\<lambda>_.
       then_do (then_do (get_goal_state goal_id) (\<lambda>s.
         if \<not> goal_is_terminal s then transition_goal env goal_id Goal_Cancelled else return ())) (\<lambda>_.
       then_do (append_goal_event goal_id ''plan_rejected''
         (ge_json env (GObj [(''approval_id'', GStr approval_id),
           (''plan_revision_id'', opt_json (ar_plan_revision_id approval)), (''resolved_by'', GStr resolved_by)]))) (\<lambda>_.
       return Applied)))))"

definition record_intervention ::
  "GoalEnv \<Rightarrow> string \<Rightarrow> string \<Rightarrow> string option \<Rightarrow> string \<Rightarrow> intervention gop" where
  "record_intervention env goal_id message request_id source =
     (if trim message = '''' then raise (invalid_state ''intervention message must not be empty'')
      else then_do (get_goal_state goal_id) (\<lambda>state.
        if goal_is_terminal state then raise (invalid_state ''cannot record an intervention on a terminal goal'')
        else insert_intervention_row env goal_id message ConstraintAddition request_id source))"

text \<open>\<open>format!("{state:?}").to_lowercase()\<close>, the name of the variant in lower case.\<close>

definition debug_goal_state :: "GoalState \<Rightarrow> string" where
  "debug_goal_state s = filter (\<lambda>c. c \<noteq> CHR ''_'') (goal_as_str s)"

definition pause_goal :: "GoalEnv \<Rightarrow> string \<Rightarrow> InteractionOutcome gop" where
  "pause_goal env goal_id =
     then_do (get_goal_state goal_id) (\<lambda>state.
     if state = Goal_Paused then return AlreadyInState
     else if state \<in> {Goal_Active, Goal_Blocked} then
       then_do (transition_goal env goal_id Goal_Paused) (\<lambda>_.
       then_do (append_goal_event goal_id ''goal_paused''
         (ge_json env (GObj [(''from'', GStr (debug_goal_state state))]))) (\<lambda>_.
       return Applied))
     else raise (harness_error (InvalidStateTransition (goal_as_str state) (goal_as_str Goal_Paused))
       ''goal cannot be paused in its current state''))"

definition resume_goal :: "GoalEnv \<Rightarrow> string \<Rightarrow> InteractionOutcome gop" where
  "resume_goal env goal_id =
     then_do (get_goal_state goal_id) (\<lambda>state.
     if state = Goal_Active then return AlreadyInState
     else if state = Goal_Paused then
       then_do (transition_goal env goal_id Goal_Active) (\<lambda>_.
       then_do (append_goal_event goal_id ''goal_resumed'' ''{}'') (\<lambda>_.
       then_do (ensure_loop_run env goal_id) (\<lambda>_. return Applied)))
     else raise (harness_error (InvalidStateTransition (goal_as_str state) (goal_as_str Goal_Active))
       ''goal cannot be resumed in its current state''))"

section \<open>The goals of the console\<close>

text \<open>\<open>harness-cli/src/tui/spec.rs\<close>. \<open>str::lines\<close> ends the first line at a line feed and drops a carriage
  return before it.\<close>

definition first_line :: "string \<Rightarrow> string" where
  "first_line s = takeWhile (\<lambda>c. c \<noteq> CHR 0x0A) s"

definition title_from_objective :: "string \<Rightarrow> string" where
  "title_from_objective objective =
     (let capped = take 72 (trim (first_line objective)) in if capped = '''' then ''Untitled goal'' else capped)"

record RepoContext =
  rc_repository_id :: string
  rc_target_ref :: string
  rc_initial_base_head :: string

definition repo_context_default :: RepoContext where
  "repo_context_default = \<lparr>rc_repository_id = ''local-repo'', rc_target_ref = ''refs/heads/main'',
     rc_initial_base_head = ''HEAD''\<rparr>"

definition build_interactive_goal_spec_with_id :: "string \<Rightarrow> RepoContext \<Rightarrow> string \<Rightarrow> int \<Rightarrow> GoalSpec" where
  "build_interactive_goal_spec_with_id objective repo goal_id now =
     \<lparr>gs_goal_id = goal_id, gs_revision = 1, gs_title = title_from_objective objective,
      gs_objective = trim objective, gs_repository_id = rc_repository_id repo, gs_target_ref = rc_target_ref repo,
      gs_initial_base_head = rc_initial_base_head repo,
      gs_success_criteria = [\<lparr>sc_criterion_id = ''c1'',
        sc_description = ''All planned tasks complete successfully'', sc_evidence_policy = TaskTerminalResult,
        sc_verification_policy = ExistenceOnly, sc_subjectivity = Objective, sc_required = True\<rparr>],
      gs_constraints = [], gs_non_goals = [], gs_budget = goal_budget_default,
      gs_approval_policy = approval_policy_default\<lparr>ap_require_initial_plan_approval := True\<rparr>,
      gs_created_by = CreatedByUser ''tui-user'' (Some ''TUI Console''), gs_created_at = now\<rparr>"


section \<open>Rewriting of operations\<close>

section \<open>Goals that complete too early, and goals that lose their criteria\<close>

definition empty_db :: GoalDb where
  "empty_db = \<lparr>gd_goals = [], gd_criteria = [], gd_constraints = [], gd_revisions = [], gd_plans = [],
     gd_milestones = [], gd_tasks = [], gd_runs = [], gd_observations = [], gd_approvals = [],
     gd_interventions = [], gd_goal_events = [], gd_plan_events = [], gd_invocations = []\<rparr>"

text \<open>
  The second goal that the console submits is lost: all its goals use the criterion id \<open>c1\<close>, which the schema
  keeps unique over all goals, and a goal is inserted before its criteria without a transaction. The call fails, and
  what it leaves is a goal in state draft without any success criterion.
\<close>

theorem second_console_goal_broken:
  "gid1 \<noteq> gid2 \<Longrightarrow> trim obj1 \<noteq> '''' \<Longrightarrow> trim obj2 \<noteq> '''' \<Longrightarrow>
   (let (r1, db1) = create_goal env (build_interactive_goal_spec_with_id obj1 repo gid1 now1) empty_db;
        (r2, db2) = create_goal env (build_interactive_goal_spec_with_id obj2 repo gid2 now2) db1
    in is_ok r1 \<and> \<not> is_ok r2 \<and>
       map (\<lambda>g. (gr_goal_id g, gr_state g)) (gd_goals db2) = [(gid1, ''draft''), (gid2, ''draft'')] \<and>
       map_option gs_success_criteria (get_goal env gid2 db2) = Some [])"
proof -
  assume a: "gid1 \<noteq> gid2" "trim obj1 \<noteq> ''''" "trim obj2 \<noteq> ''''"
  have title: "title_from_objective obj \<noteq> ''''" for obj by (simp add: title_from_objective_def Let_def)
  let ?g1 = "build_interactive_goal_spec_with_id obj1 repo gid1 now1"
  let ?g2 = "build_interactive_goal_spec_with_id obj2 repo gid2 now2"
  note spec = build_interactive_goal_spec_with_id_def
  note ops = create_goal_def insert_goal_def then_do_def on_goals_def insert_row_def goals_ok_def
    insert_success_criterion_def criteria_ok_def criterion_row_def append_goal_event_def events_ok_def goal_row_def
  have c1: "\<exists>db1. create_goal env ?g1 empty_db = (Inr ?g1, db1) \<and> gd_goals db1 = [goal_row env ?g1] \<and>
      gd_criteria db1 = [criterion_row env gid1 (hd (gs_success_criteria ?g1))]"
    using a title by (simp add: ops spec empty_db_def return_def)
  then obtain db1 where db1: "create_goal env ?g1 empty_db = (Inr ?g1, db1)" "gd_goals db1 = [goal_row env ?g1]"
    "gd_criteria db1 = [criterion_row env gid1 (hd (gs_success_criteria ?g1))]" by blast
  have c2: "\<exists>e. create_goal env ?g2 db1 = (Inl e, db1\<lparr>gd_goals := [goal_row env ?g1, goal_row env ?g2]\<rparr>)"
    using a title db1(2,3) by (simp add: ops spec return_def)
  then obtain e where c2: "create_goal env ?g2 db1 = (Inl e, db1\<lparr>gd_goals := [goal_row env ?g1, goal_row env ?g2]\<rparr>)"
    by blast
  show ?thesis
    unfolding db1(1) Let_def prod.case c2 using a db1(2,3)
    by (simp add: is_ok_def get_goal_def get_success_criteria_def select_one_def goal_row_def spec
      criterion_row_def into_goal_spec_def)
qed


text \<open>What the insertion of a goal writes when it succeeds.\<close>

lemma insert_one_ok:
  "insert_success_criterion env gid c db = (Inr u, db') \<Longrightarrow> db' = db\<lparr>gd_criteria := gd_criteria db @ [criterion_row env gid c]\<rparr>"
  "insert_constraint env gid k db = (Inr u, db') \<Longrightarrow> db' = db\<lparr>gd_constraints := gd_constraints db @ [constraint_row env gid k]\<rparr>"
  "append_goal_event gid ty payload db = (Inr u, db') \<Longrightarrow> \<exists>es. db' = db\<lparr>gd_goal_events := es\<rparr> \<and> events_ok es"
  "on_goals (insert_row goals_ok g) db = (Inr u, db') \<Longrightarrow>
     db' = db\<lparr>gd_goals := gd_goals db @ [g]\<rparr> \<and> goals_ok (gd_goals db @ [g])"
  by (auto simp: insert_success_criterion_def insert_constraint_def append_goal_event_def on_goals_def insert_row_def Let_def
    split: if_splits)

lemma each_insert_criteria:
  "each (insert_success_criterion env gid) cs db = (Inr (), db') \<Longrightarrow>
   db' = db\<lparr>gd_criteria := gd_criteria db @ map (criterion_row env gid) cs\<rparr>"
proof (induction cs arbitrary: db)
  case (Cons c cs)
  then show ?case by (fastforce elim!: then_do_InrE dest: insert_one_ok(1))
qed (simp add: return_def)

lemma each_insert_constraints:
  "each (insert_constraint env gid) cs db = (Inr (), db') \<Longrightarrow>
   db' = db\<lparr>gd_constraints := gd_constraints db @ map (constraint_row env gid) cs\<rparr>"
proof (induction cs arbitrary: db)
  case (Cons c cs)
  then show ?case by (fastforce elim!: then_do_InrE dest: insert_one_ok(2))
qed (simp add: return_def)

lemma create_goal_ok:
  assumes "create_goal env goal db = (Inr g, db')"
  shows "g = goal \<and> gs_success_criteria goal \<noteq> [] \<and> gs_title goal \<noteq> '''' \<and> gs_objective goal \<noteq> '''' \<and>
    gs_goal_id goal \<notin> gr_goal_id ` set (gd_goals db) \<and>
    gd_goals db' = gd_goals db @ [goal_row env goal] \<and>
    gd_criteria db' = gd_criteria db @ map (criterion_row env (gs_goal_id goal)) (gs_success_criteria goal) \<and>
    gd_constraints db' = gd_constraints db @ map (constraint_row env (gs_goal_id goal)) (gs_constraints goal) \<and>
    gd_plans db' = gd_plans db \<and> gd_tasks db' = gd_tasks db \<and> events_ok (gd_goal_events db')"
proof -
  let ?gid = "gs_goal_id goal"
  have input: "gs_title goal \<noteq> ''''" "gs_objective goal \<noteq> ''''" "gs_success_criteria goal \<noteq> []"
    using assms by (auto simp: create_goal_def raise_def split: if_splits)
  then have "then_do (insert_goal env goal) (\<lambda>_. then_do (append_goal_event ?gid ''goal_created'' (ge_goal_text env goal))
      (\<lambda>_. return goal)) db = (Inr g, db')"
    using assms by (simp add: create_goal_def)
  then obtain db3 where ins: "insert_goal env goal db = (Inr (), db3)"
    and ev: "append_goal_event ?gid ''goal_created'' (ge_goal_text env goal) db3 = (Inr (), db')" "g = goal"
    by (elim then_do_InrE) (simp add: return_def)
  obtain db1 db2 where g1: "on_goals (insert_row goals_ok (goal_row env goal)) db = (Inr (), db1)"
    and g2: "each (insert_success_criterion env ?gid) (gs_success_criteria goal) db1 = (Inr (), db2)"
    and g3: "each (insert_constraint env ?gid) (gs_constraints goal) db2 = (Inr (), db3)"
    using ins unfolding insert_goal_def by (elim then_do_InrE) simp
  show ?thesis
    using input ev(2) insert_one_ok(3) [OF ev(1)] insert_one_ok(4) [OF g1] each_insert_criteria [OF g2]
      each_insert_constraints [OF g3]
    by (auto simp: goals_ok_def goal_row_def)
qed

lemma into_criterion_row:
  "sc_required (into_criterion env' (criterion_row env gid c)) = sc_required c"
  "sc_subjectivity (into_criterion env' (criterion_row env gid c)) = sc_subjectivity c"
  by (cases "sc_subjectivity c"; simp add: into_criterion_def criterion_row_def requires_human_approval_def)+

section \<open>Progress and completion\<close>

definition needs_judgement :: "GoalSpec \<Rightarrow> bool" where
  "needs_judgement goal \<longleftrightarrow> list_ex (\<lambda>c. sc_required c \<and> sc_subjectivity c = Subjective) (gs_success_criteria goal)"

definition pending_count :: "GoalEnv \<Rightarrow> string \<Rightarrow> GoalDb \<Rightarrow> nat" where
  "pending_count env gid db = (case get_active_plan env gid db of
     Some p \<Rightarrow> length (get_pending_tasks_ordered env (pv_plan_revision_id p) db) | None \<Rightarrow> 0)"

lemma required_marked:
  "c \<in> set cs \<Longrightarrow> sc_required c \<Longrightarrow>
   fold (\<lambda>c m. if sc_required c then m(sc_criterion_id c \<mapsto> Satisfied) else m) cs m (sc_criterion_id c) = Some Satisfied"
proof (induction cs arbitrary: m rule: rev_induct)
  case (snoc x xs)
  then show ?case by (cases "c = x") auto
qed simp

lemma assess_progress_gate:
  assumes "get_goal env gid db = Some goal"
  shows "\<exists>res. assess_progress env gid ev db = (Inr res, db) \<and>
    (cg_can_complete res \<longleftrightarrow> pending_count env gid db = 0 \<and> \<not> needs_judgement goal \<and>
       (case ev of Some p \<Rightarrow> pa_completion_recommended p | None \<Rightarrow> True))"
  using required_marked [of _ "gs_success_criteria goal"]
  by (auto simp: assess_progress_def op_simps assms Let_def completion_gate_exact pending_count_def [symmetric]
      needs_judgement_def list_all_iff list_ex_iff criterion_satisfied_def split: option.splits)


lemma next_sequence_greater: "n \<in> set ns \<Longrightarrow> n < next_sequence ns"
  by (auto simp: next_sequence_def intro: le_less_trans [OF Max_ge])

lemma append_goal_event_ok:
  assumes "events_ok (gd_goal_events db)"
  shows "\<exists>es. append_goal_event gid ty payload db = (Inr (), db\<lparr>gd_goal_events := es\<rparr>) \<and> events_ok es"
proof -
  let ?seq = "next_sequence (map gv_sequence_num (filter (\<lambda>e. gv_event_goal_id e = gid) (gd_goal_events db)))"
  have "\<forall>e \<in> set (gd_goal_events db). gv_event_goal_id e = gid \<longrightarrow> gv_sequence_num e \<noteq> ?seq"
    by (intro ballI impI less_imp_neq next_sequence_greater) auto
  then have "events_ok (gd_goal_events db @ [\<lparr>gv_event_goal_id = gid, gv_event_type = ty, gv_payload_json = payload,
      gv_sequence_num = ?seq\<rparr>])"
    using assms by (auto simp: events_ok_def)
  then show ?thesis by (simp add: append_goal_event_def insert_row_def) (intro exI conjI, rule refl)
qed

text \<open>
  What decides about the completion of a goal is exact: a goal can be completed if and only if its active
  plan has no pending task (or there is no active plan), the evaluator (if there is one) recommends
  it, and no required criterion is subjective. The evaluator's judgement of the single criteria and the evidence
  it names do not matter.
\<close>

theorem assess_progress_exact:
  assumes "get_goal env gid db = Some goal"
  shows "\<exists>res. assess_progress env gid ev db = (Inr res, db) \<and>
    (cg_can_complete res \<longleftrightarrow> pending_count env gid db = 0 \<and> \<not> needs_judgement goal \<and>
       (case ev of Some p \<Rightarrow> pa_completion_recommended p | None \<Rightarrow> True))"
  by (rule assess_progress_gate [OF assms])

text \<open>
  A goal can be marked as succeeded right after its creation, without plan, task or evidence: with no
  active plan nothing is pending, all required criteria then count as satisfied, and the update of the state goes
  past the state machine, in which a draft cannot succeed.
\<close>

theorem draft_goal_completes:
  assumes "create_goal env goal empty_db = (Inr goal, db1)" and "\<not> needs_judgement goal"
  shows "\<exists>res db2. try_complete_goal env' (gs_goal_id goal) db1 = (Inr res, db2) \<and> cg_can_complete res \<and>
    map gr_state (gd_goals db1) = [''draft''] \<and> map gr_state (gd_goals db2) = [''succeeded''] \<and>
    gd_plans db2 = [] \<and> gd_tasks db2 = [] \<and> \<not> goal_can_transition Goal_Draft Goal_Succeeded"
proof -
  let ?gid = "gs_goal_id goal"
  note created = create_goal_ok [OF assms(1)]
  then have db1: "gd_goals db1 = [goal_row env goal]" "gd_plans db1 = []" "gd_tasks db1 = []"
    "gd_criteria db1 = map (criterion_row env ?gid) (gs_success_criteria goal)" "events_ok (gd_goal_events db1)"
    by (simp_all add: empty_db_def)
  obtain g where g: "get_goal env' ?gid db1 = Some g"
    by (simp add: get_goal_def db1(1) select_one_def goal_row_def)
  have "filter (\<lambda>r. cr_goal_id r = ?gid) (gd_criteria db1) = gd_criteria db1"
    unfolding db1(4) by (rule filter_True) (auto simp: criterion_row_def)
  then have crit: "gs_success_criteria g = map (into_criterion env') (gd_criteria db1)"
    using g by (auto simp: get_goal_def into_goal_spec_def get_success_criteria_def)
  have "\<not> needs_judgement g"
    using assms(2) by (simp add: needs_judgement_def crit db1(4) list_ex_iff into_criterion_row)
  then obtain res where res: "assess_progress env' ?gid None db1 = (Inr res, db1)" "cg_can_complete res"
    using assess_progress_gate [OF g, of None] by (auto simp: pending_count_def get_active_plan_def db1(2) select_one_def)
  have upd: "\<exists>row. update_goal_state env' ?gid Goal_Succeeded db1 = (Inr (), db1\<lparr>gd_goals := [row]\<rparr>) \<and>
      gr_state row = ''succeeded''"
    by (simp add: update_goal_state_def then_do_def on_goals_def update_rows_def db1(1) update_where_def
      rows_affected_def goal_row_def goals_ok_def return_def) (intro exI conjI, rule refl, simp)
  then obtain row where row: "update_goal_state env' ?gid Goal_Succeeded db1 = (Inr (), db1\<lparr>gd_goals := [row]\<rparr>)"
    "gr_state row = ''succeeded''" by blast
  define payload where "payload = ge_json env' (GObj [(''criteria_results'', GArr (map criteria_json (cg_criteria_results res)))])"
  obtain es where "append_goal_event ?gid ''goal_succeeded'' payload (db1\<lparr>gd_goals := [row]\<rparr>) =
      (Inr (), db1\<lparr>gd_goals := [row], gd_goal_events := es\<rparr>)"
    using append_goal_event_ok [of "db1\<lparr>gd_goals := [row]\<rparr>"] db1(5) by fastforce
  then have "try_complete_goal env' ?gid db1 = (Inr res, db1\<lparr>gd_goals := [row], gd_goal_events := es\<rparr>)"
    by (simp add: try_complete_goal_def then_do_def res row(1) payload_def return_def)
  then show ?thesis using res(2) row(2) db1
    by (auto simp: goal_row_def goal_can_transition_def goal_is_valid_def goal_is_terminal_def)
qed


section \<open>Reading a goal back\<close>

text \<open>The laws of the JSON texts the round trip needs, at the values of one goal.\<close>

definition codec_ok :: "GoalEnv \<Rightarrow> GoalSpec \<Rightarrow> bool" where
  "codec_ok env g \<longleftrightarrow>
     ge_strings_of env (ge_strings env (gs_non_goals g)) = Some (gs_non_goals g) \<and>
     ge_budget_of env (ge_budget env (gs_budget g)) = Some (gs_budget g) \<and>
     ge_policy_of env (ge_policy env (gs_approval_policy g)) = Some (gs_approval_policy g) \<and>
     ge_creator_of env (ge_creator env (gs_created_by g)) = Some (gs_created_by g) \<and>
     list_all (\<lambda>c. ge_evidence_of env (ge_evidence env (sc_evidence_policy c)) = Some (sc_evidence_policy c) \<and>
       ge_verification_of env (ge_verification env (sc_verification_policy c)) = Some (sc_verification_policy c))
       (gs_success_criteria g) \<and>
     list_all (\<lambda>c. ge_constraint_of env (ge_constraint env (gc_constraint_type c)) = Some (gc_constraint_type c))
       (gs_constraints g)"

lemma read_back_criterion:
  assumes "ge_evidence_of env (ge_evidence env (sc_evidence_policy c)) = Some (sc_evidence_policy c)"
    and "ge_verification_of env (ge_verification env (sc_verification_policy c)) = Some (sc_verification_policy c)"
  shows "into_criterion (env\<lparr>ge_now := t\<rparr>) (criterion_row env gid c) = c"
  using assms into_criterion_row [of "env\<lparr>ge_now := t\<rparr>" env gid c]
  by (cases c) (auto simp: into_criterion_def criterion_row_def or_default_def)

text \<open>
  What is relied on of the time formats: \<open>%Y-%m-%d %H:%M:%S\<close> gives 19 characters for a year of four digits, and an RFC 3339
  date and time, which ends in an offset, has more.
\<close>

definition time_formats :: "GoalEnv \<Rightarrow> bool" where
  "time_formats env \<longleftrightarrow> length (ge_now_sql env) = 19 \<and> (\<forall>s. ge_rfc3339 env s \<noteq> None \<longrightarrow> length s > 19)"

lemma stored_time_unreadable: "time_formats env \<Longrightarrow> ge_rfc3339 env (ge_now_sql env) = None"
  by (metis less_irrefl time_formats_def)

text \<open>
  C37. A goal that was created is read back with everything it was created with, criteria and constraints in
  their order, whenever the JSON texts can be read back; except for its creation time: the stored text of the clock is not an
  RFC 3339 date, so the time read is the time of reading.
\<close>

theorem goal_round_trip:
  assumes "create_goal env goal db = (Inr goal, db')" and "codec_ok env goal" and "time_formats env"
    and "list_all (\<lambda>r. cr_goal_id r \<noteq> gs_goal_id goal) (gd_criteria db)"
    and "list_all (\<lambda>r. cn_goal_id r \<noteq> gs_goal_id goal) (gd_constraints db)"
  shows "get_goal (env\<lparr>ge_now := t\<rparr>) (gs_goal_id goal) db' =
    Some (goal\<lparr>gs_created_at := t\<rparr>)"
proof -
  let ?gid = "gs_goal_id goal" and ?env = "env\<lparr>ge_now := t\<rparr>"
  note created = create_goal_ok [OF assms(1)]
  have old: "filter (\<lambda>r. cr_goal_id r = ?gid) (gd_criteria db) = []" "filter (\<lambda>r. cn_goal_id r = ?gid) (gd_constraints db) = []"
    using assms(4,5) by (auto simp: filter_empty_conv list_all_iff)
  have "?gid \<notin> gr_goal_id ` set (gd_goals db)" using created by blast
  then have none: "find (\<lambda>g. gr_goal_id g = ?gid) (gd_goals db) = None" by (metis (mono_tags, lifting) find_None_iff image_eqI)
  have new: "filter (\<lambda>r. cr_goal_id r = ?gid) (map (criterion_row env ?gid) cs) = map (criterion_row env ?gid) cs"
    "filter (\<lambda>r. cn_goal_id r = ?gid) (map (constraint_row env ?gid) ks) = map (constraint_row env ?gid) ks" for cs ks
    by (auto simp: criterion_row_def constraint_row_def intro!: filter_True)
  have "get_success_criteria ?env ?gid db' = gs_success_criteria goal"
    using created assms(2) old new(1) read_back_criterion [of env _ t ?gid]
    by (simp add: get_success_criteria_def codec_ok_def list_all_iff map_idI)
  moreover have "get_constraints ?env ?gid db' = gs_constraints goal"
    using created assms(2) old new(2)
    by (simp add: get_constraints_def codec_ok_def list_all_iff into_constraint_def constraint_row_def or_default_def map_idI)
  moreover have "select_one (\<lambda>g. gr_goal_id g = ?gid) (gd_goals db') = Some (goal_row env goal)"
    using created none by (simp add: select_one_append select_one_single) (simp add: select_one_def goal_row_def)
  ultimately show ?thesis
    using assms(2) stored_time_unreadable [OF assms(3)]
    by (simp add: get_goal_def into_goal_spec_def goal_row_def codec_ok_def or_default_def parse_dt_def)
qed


section \<open>Examples\<close>

text \<open>An environment whose texts can be read back for the goals of the console.\<close>

definition sample_genv :: GoalEnv where
  "sample_genv = \<lparr>ge_now = 0, ge_now_sql = ''2026-01-01 00:00:00'', ge_rfc3339 = (\<lambda>s. if length s = 20 then Some 0 else None), ge_to_rfc3339 = (\<lambda>_. ''t''),
     ge_uuid = show_nat, ge_sha256 = id, ge_debug_str = id, ge_json = (\<lambda>_. ''{}''), ge_json_of = (\<lambda>_. Some GNull),
     ge_goal_text = (\<lambda>_. ''{}''), ge_strings = join_with '','', ge_strings_of = (\<lambda>s. Some (if s = [] then [] else split_on CHR '','' s)),
     ge_budget = (\<lambda>_. ''{}''), ge_budget_of = (\<lambda>_. Some goal_budget_default), ge_policy = (\<lambda>_. ''{}''),
     ge_policy_of = (\<lambda>_. Some (approval_policy_default\<lparr>ap_require_initial_plan_approval := True\<rparr>)),
     ge_creator = (\<lambda>_. ''{}''), ge_creator_of = (\<lambda>_. Some (CreatedByUser ''tui-user'' (Some ''TUI Console''))),
     ge_evidence = (\<lambda>_. ''{}''), ge_evidence_of = (\<lambda>_. Some TaskTerminalResult), ge_verification = (\<lambda>_. ''{}''),
     ge_verification_of = (\<lambda>_. Some ExistenceOnly), ge_constraint = (\<lambda>_. ''{}''), ge_constraint_of = (\<lambda>_. None)\<rparr>"

definition sample_goal :: "string \<Rightarrow> GoalSpec" where
  "sample_goal gid = build_interactive_goal_spec_with_id ''do it'' repo_context_default gid 5"

definition sample_created :: GoalDb where
  "sample_created = snd (create_goal sample_genv (sample_goal ''g'') empty_db)"

lemma sample_create: "create_goal sample_genv (sample_goal ''g'') empty_db = (Inr (sample_goal ''g''), sample_created)"
proof -
  have "fst (create_goal sample_genv (sample_goal ''g'') empty_db) = Inr (sample_goal ''g'')"
    by (simp add: create_goal_def insert_goal_def then_do_def on_goals_def insert_row_def goals_ok_def goal_row_def
      insert_success_criterion_def criteria_ok_def criterion_row_def append_goal_event_def events_ok_def empty_db_def
      sample_goal_def build_interactive_goal_spec_with_id_def title_from_objective_def return_def Let_def first_line_def
      trim_def trim_start_matches_def trim_end_matches_def is_whitespace_def)
  then show ?thesis by (simp add: sample_created_def prod_eq_iff)
qed

theorem second_console_goal_broken_witness:
  "let (r1, db1) = create_goal sample_genv (build_interactive_goal_spec_with_id ''a'' repo_context_default ''g1'' 0) empty_db;
       (r2, db2) = create_goal sample_genv (build_interactive_goal_spec_with_id ''b'' repo_context_default ''g2'' 1) db1
   in is_ok r1 \<and> \<not> is_ok r2 \<and>
      map (\<lambda>g. (gr_goal_id g, gr_state g)) (gd_goals db2) = [(''g1'', ''draft''), (''g2'', ''draft'')] \<and>
      map_option gs_success_criteria (get_goal sample_genv ''g2'' db2) = Some []"
proof -
  have t: "trim ''a'' \<noteq> ''''" "trim ''b'' \<noteq> ''''" by code_simp+
  show ?thesis by (rule second_console_goal_broken [OF _ t]) simp
qed

theorem draft_goal_completes_witness:
  "\<exists>res db2. try_complete_goal sample_genv ''g'' sample_created = (Inr res, db2) \<and> cg_can_complete res \<and>
     map gr_state (gd_goals db2) = [''succeeded'']"
proof -
  have "gs_goal_id (sample_goal ''g'') = ''g''" "\<not> needs_judgement (sample_goal ''g'')"
    by (simp_all add: sample_goal_def build_interactive_goal_spec_with_id_def needs_judgement_def)
  then show ?thesis using draft_goal_completes [OF sample_create, of sample_genv] by auto
qed

theorem assess_progress_exact_witness:
  "get_goal sample_genv ''g'' sample_created \<noteq> None \<and>
   (\<exists>res. assess_progress sample_genv ''g'' None sample_created = (Inr res, sample_created) \<and>
     (cg_can_complete res \<longleftrightarrow> pending_count sample_genv ''g'' sample_created = 0 \<and>
       \<not> needs_judgement (the (get_goal sample_genv ''g'' sample_created))))"
proof -
  have id: "gs_goal_id (sample_goal ''g'') = ''g''" by (simp add: sample_goal_def build_interactive_goal_spec_with_id_def)
  have "gd_goals sample_created = [goal_row sample_genv (sample_goal ''g'')]"
    using create_goal_ok [OF sample_create] by (simp add: empty_db_def)
  then obtain g where g: "get_goal sample_genv ''g'' sample_created = Some g"
    by (simp add: get_goal_def select_one_def goal_row_def id)
  show ?thesis using assess_progress_exact [OF g, of None] g by auto
qed

theorem goal_round_trip_witness:
  "get_goal (sample_genv\<lparr>ge_now := 9\<rparr>) ''g'' sample_created = Some ((sample_goal ''g'')\<lparr>gs_created_at := 9\<rparr>)"
proof -
  have "gs_goal_id (sample_goal ''g'') = ''g''" "codec_ok sample_genv (sample_goal ''g'')"
    by (simp_all add: sample_goal_def build_interactive_goal_spec_with_id_def codec_ok_def sample_genv_def)
  moreover have "time_formats sample_genv" by (simp add: time_formats_def sample_genv_def)
  ultimately show ?thesis using goal_round_trip [OF sample_create, of 9] by (simp add: empty_db_def)
qed

end
