(* ===== verification/Goal_Plans.thy ===== *)
theory Goal_Plans
  imports Goal_Service "HOL-Library.Multiset"
begin

text \<open>
  What the goal service guarantees of plans: activation leaves one active revision, a decision of the user is
  taken once, and the tasks that are selected are ready; and when the selection of tasks gets stuck.
\<close>

section \<open>Parts of the database an operation keeps\<close>

lemma keeps_approvals [keeps_intros]:
  "keeps gd_approvals (on_goals f)" "keeps gd_approvals (on_plans g)" "keeps gd_approvals (on_tasks h)"
  "keeps gd_approvals (append_goal_event a b c)" "keeps gd_approvals (append_plan_event p a b c)"
  "keeps gd_approvals (mark_interventions_applied env a b)" "keeps gd_approvals (create_loop_run env a q)"
  "keeps gd_approvals (insert_intervention env i)" "keeps gd_approvals (get_goal_state a)"
  by (auto simp: keeps_def on_goals_def on_plans_def on_tasks_def append_goal_event_def append_plan_event_def
    mark_interventions_applied_def create_loop_run_def insert_intervention_def get_goal_state_def Let_def split_beta
    split: option.split)

lemma keeps_approvals_service:
  "keeps gd_approvals (transition_goal env gid s)" "keeps gd_approvals (move_from env gid s s')"
  "keeps gd_approvals (update_plan_state env pid st d)" "keeps gd_approvals (activate_validated_plan env gid pid)"
  "keeps gd_approvals (ensure_loop_run env gid)" "keeps gd_approvals (insert_intervention_row env gid m c q src)"
  unfolding transition_goal_def move_from_def update_plan_state_def activate_validated_plan_def ensure_loop_run_def
    start_loop_run_def insert_intervention_row_def update_goal_state_def supersede_active_plans_def Let_def
  by (intro keeps_intros)+

section \<open>A decision is taken once\<close>

text \<open>The four answers of a user to an approval request.\<close>

datatype decision = Answer goal_json | Approve "string option" | RequestChanges string | Reject "string option"

primrec decide :: "GoalEnv \<Rightarrow> string \<Rightarrow> string \<Rightarrow> string \<Rightarrow> decision \<Rightarrow> InteractionOutcome gop" where
  "decide env gid aid who (Answer answers) = answer_clarification env gid aid answers who"
| "decide env gid aid who (Approve expected) = approve_plan env gid aid who expected"
| "decide env gid aid who (RequestChanges feedback) = request_plan_changes env gid aid feedback who"
| "decide env gid aid who (Reject expected) = reject_plan env gid aid who expected"

definition settled :: "string \<Rightarrow> approval_row list \<Rightarrow> bool" where
  "settled aid rows \<longleftrightarrow> list_all (\<lambda>a. ar_approval_id a = aid \<longrightarrow> ar_state a \<noteq> ''pending'') rows"

lemma resolve_settled:
  assumes "settled aid (gd_approvals db)"
  shows "snd (resolve_approval_with_response env aid s who resp db) = db"
    "fst (resolve_approval_with_response env aid s who resp db) \<noteq> Inr True"
proof -
  let ?P = "\<lambda>a. ar_approval_id a = aid \<and> ar_state a = ''pending''"
  have "rows_affected ?P (gd_approvals db) = 0"
    using assms by (auto simp: rows_affected_def settled_def list_all_iff filter_empty_conv)
  then show "snd (resolve_approval_with_response env aid s who resp db) = db"
    "fst (resolve_approval_with_response env aid s who resp db) \<noteq> Inr True"
    by (simp_all add: resolve_approval_with_response_def then_do_def on_approvals_def update_rows_def Let_def
      update_where_none return_def)
qed

lemma resolve_settles:
  assumes "fst (resolve_approval_with_response env aid s who resp db) = Inr True" and "s \<noteq> ''pending''"
  shows "settled aid (gd_approvals (snd (resolve_approval_with_response env aid s who resp db)))"
proof -
  let ?P = "\<lambda>a. ar_approval_id a = aid \<and> ar_state a = ''pending''"
  let ?f = "\<lambda>a. a\<lparr>ar_state := s, ar_resolved_at := Some (ge_now_sql env), ar_resolved_by := Some who, ar_response := resp\<rparr>"
  have "snd (resolve_approval_with_response env aid s who resp db) = db\<lparr>gd_approvals := update_where ?P ?f (gd_approvals db)\<rparr>"
    using assms(1)
    by (simp add: resolve_approval_with_response_def then_do_def on_approvals_def update_rows_def Let_def return_def
      split: if_splits)
  moreover have "settled aid (update_where ?P ?f rows)" for rows
    using assms(2) by (induction rows) (simp_all add: settled_def update_where_def)
  ultimately show ?thesis by simp
qed


text \<open>Operations that settle a request when they are applied, and do nothing when it is settled already.\<close>

definition decides :: "string \<Rightarrow> InteractionOutcome gop \<Rightarrow> bool" where
  "decides aid m \<longleftrightarrow> (\<forall>db. (settled aid (gd_approvals db) \<longrightarrow> snd (m db) = db) \<and>
     (\<forall>db'. m db = (Inr Applied, db') \<longrightarrow> settled aid (gd_approvals db')))"

definition read_only :: "'a gop \<Rightarrow> bool" where
  "read_only m \<longleftrightarrow> (\<forall>db. snd (m db) = db)"

lemma read_only_intros:
  "read_only (require e h)" "read_only (select g)" "read_only (return x)" "read_only (raise e)"
  "read_only m \<Longrightarrow> (\<And>x. read_only (f x)) \<Longrightarrow> read_only (then_do m f)"
  "read_only n \<Longrightarrow> read_only n' \<Longrightarrow> read_only (if b then n else n')"
  by (auto simp: read_only_def require_def op_results then_do_def split: option.split sum.split prod.split)
    (metis snd_conv)+

lemma load_approval_read_only: "read_only (load_approval env gid aid ty w)"
  unfolding load_approval_def by (intro read_only_intros)

lemma decides_resolve:
  assumes "keeps gd_approvals rest" and "s \<noteq> ''pending''"
  shows "decides aid (then_do (resolve_approval_with_response env aid s who resp)
    (\<lambda>transitioned. if \<not> transitioned then return AlreadyInState else rest))" (is "decides aid ?m")
proof (unfold decides_def, intro allI conjI impI)
  fix db :: GoalDb assume "settled aid (gd_approvals db)"
  note r = resolve_settled [OF this, of env s who resp]
  obtain t db1 where "resolve_approval_with_response env aid s who resp db = (t, db1)" by fastforce
  then show "snd (?m db) = db" using r by (cases t) (auto simp: then_do_def return_def)
next
  fix db db' assume "?m db = (Inr Applied, db')"
  then obtain t db1 where r: "resolve_approval_with_response env aid s who resp db = (Inr t, db1)"
    and k: "(if \<not> t then return AlreadyInState else rest) db1 = (Inr Applied, db')"
    by (rule then_do_InrE)
  have t: "t" using k by (cases t) (simp_all add: return_def)
  then have "settled aid (gd_approvals db1)" using resolve_settles [of env aid s who resp db] r assms(2) by simp
  moreover have "gd_approvals db' = gd_approvals db1"
    using k t assms(1) unfolding keeps_def by (metis snd_conv)
  ultimately show "settled aid (gd_approvals db')" by simp
qed

lemma decides_then_do:
  assumes "read_only m" and "\<And>x. decides aid (f x)"
  shows "decides aid (then_do m f)"
proof (unfold decides_def, intro allI conjI impI)
  fix db
  obtain r where m: "m db = (r, db)" using assms(1) unfolding read_only_def by (metis prod.collapse)
  show "snd (then_do m f db) = db" if "settled aid (gd_approvals db)"
    using that assms(2) m by (cases r) (simp_all add: then_do_def decides_def)
  show "settled aid (gd_approvals db')" if "then_do m f db = (Inr Applied, db')" for db'
    using that assms(2) m by (cases r) (simp_all add: then_do_def decides_def)
qed

lemma decides_raise: "decides aid (raise e)"
  by (simp add: decides_def raise_def)

lemma decides_if: "decides aid m \<Longrightarrow> decides aid n \<Longrightarrow> decides aid (if b then m else n)"
  by simp

lemmas decides_intros = decides_resolve decides_raise decides_if decides_then_do

lemma decide_decides: "decides aid (decide env gid aid who d)"
  by (cases d; simp only: decide.simps answer_clarification_def approve_plan_def request_plan_changes_def reject_plan_def)
    (intro decides_intros load_approval_read_only read_only_intros(1-4) keeps_intros keeps_approvals_service; simp)+

text \<open>
  C34. A request for approval is decided at most once: after one of the four answers (to a question, approval,
  request for changes, rejection) was applied, no answer to the same request, by anybody and of any kind, changes
  anything in the database.
\<close>

theorem approval_decided_once:
  "decide env gid aid who d db = (Inr Applied, db') \<Longrightarrow> snd (decide env' gid' aid who' d' db') = db'"
  using decide_decides [of aid env gid who d] decide_decides [of aid env' gid' who' d'] unfolding decides_def by blast


section \<open>One active revision\<close>

lemma update_rows_ok:
  assumes "on_plans (update_rows plans_ok P f) db = (Inr n, db')"
  shows "db' = db\<lparr>gd_plans := update_where P f (gd_plans db)\<rparr> \<and> n = rows_affected P (gd_plans db) \<and>
    plans_ok (update_where P f (gd_plans db))"
  using assms by (auto simp: on_plans_def update_rows_def Let_def split: if_splits)

lemma supersede_ok:
  assumes "supersede_active_plans env gid pid db = (Inr (), db')"
  shows "db' = db\<lparr>gd_plans := update_where (\<lambda>p. pv_goal_id p = gid \<and> pv_state p = ''active'' \<and> pv_plan_revision_id p \<noteq> pid)
    (\<lambda>p. p\<lparr>pv_state := ''superseded'', pv_superseded_at := Some (ge_now_sql env)\<rparr>) (gd_plans db)\<rparr>"
  using assms unfolding supersede_active_plans_def
  by (elim then_do_InrE) (auto simp: return_def dest!: update_rows_ok)

lemma update_plan_state_ok:
  assumes "update_plan_state env pid st d db = (Inr (), db')"
  shows "\<exists>f. db' = db\<lparr>gd_plans := update_where (\<lambda>p. pv_plan_revision_id p = pid \<and> plan_row_open p) f (gd_plans db)\<rparr> \<and>
    (\<forall>p. pv_state (f p) = plan_as_str st \<and> pv_plan_revision_id (f p) = pv_plan_revision_id p \<and>
      pv_goal_id (f p) = pv_goal_id p) \<and>
    rows_affected (\<lambda>p. pv_plan_revision_id p = pid \<and> plan_row_open p) (gd_plans db) \<noteq> 0 \<and> plans_ok (gd_plans db')"
  using assms unfolding update_plan_state_def
  by (elim then_do_InrE) (force simp: return_def raise_def split: if_splits dest!: update_rows_ok)

lemma activate_steps:
  assumes "activate_validated_plan env gid pid db = (Inr u, db')"
  obtains d db1 db2 where "supersede_active_plans env gid pid db = (Inr (), db1)"
    "update_plan_state env pid Plan_Active d db1 = (Inr (), db2)"
    "gd_plans db' = gd_plans db2" "gd_tasks db' = gd_tasks db2" "gd_milestones db' = gd_milestones db2"
    "gd_goals db' = gd_goals db2"
proof -
  obtain d db1 db2 ev db3 where s: "supersede_active_plans env gid pid db = (Inr (), db1)"
    "update_plan_state env pid Plan_Active d db1 = (Inr (), db2)"
    "append_plan_event pid gid ''plan_activated'' ev db2 = (Inr (), db3)"
    "ignoring (mark_interventions_applied env gid pid) db3 = (Inr u, db')"
    using assms unfolding activate_validated_plan_def
    by (elim then_do_InrE) (auto simp: require_def select_def split: option.splits)
  then show ?thesis
    by (intro that [OF s(1,2)]) (auto simp: append_plan_event_def ignoring_def mark_interventions_applied_def Let_def)
qed

text \<open>A row before and after the activation of a revision.\<close>

definition activated :: "string \<Rightarrow> string \<Rightarrow> plan_row \<Rightarrow> plan_row \<Rightarrow> bool" where
  "activated gid pid p q \<longleftrightarrow> pv_plan_revision_id q = pv_plan_revision_id p \<and> pv_goal_id q = pv_goal_id p \<and>
     (if pv_plan_revision_id p = pid \<and> plan_row_open p then pv_state q = ''active''
      else if pv_goal_id p = gid \<and> pv_state p = ''active'' then pv_state q = ''superseded''
      else q = p)"

text \<open>
  C33. A successful activation leaves the revision it was called for as the only active one of its goal:
  the revision was still open and is active now, the revision of the same goal that was active before is superseded,
  every other revision, and every task, milestone and goal, is as before.
\<close>

theorem activation_exclusive:
  assumes "activate_validated_plan env gid pid db = (Inr u, db')"
  shows "plans_ok (gd_plans db') \<and> gd_tasks db' = gd_tasks db \<and> gd_milestones db' = gd_milestones db \<and>
    gd_goals db' = gd_goals db \<and>
    list_all2 (activated gid pid) (gd_plans db) (gd_plans db') \<and>
    list_ex (\<lambda>p. pv_plan_revision_id p = pid \<and> pv_state p = ''active'') (gd_plans db')"
proof -
  obtain d db1 db2 where s: "supersede_active_plans env gid pid db = (Inr (), db1)"
    "update_plan_state env pid Plan_Active d db1 = (Inr (), db2)"
    and keep: "gd_plans db' = gd_plans db2" "gd_tasks db' = gd_tasks db2" "gd_milestones db' = gd_milestones db2"
    "gd_goals db' = gd_goals db2"
    using activate_steps [OF assms] by blast
  note db1 = supersede_ok [OF s(1)]
  obtain f where db2: "db2 = db1\<lparr>gd_plans := update_where (\<lambda>p. pv_plan_revision_id p = pid \<and> plan_row_open p) f (gd_plans db1)\<rparr>"
    and f: "\<And>p. pv_state (f p) = ''active''" "\<And>p. pv_plan_revision_id (f p) = pv_plan_revision_id p"
      "\<And>p. pv_goal_id (f p) = pv_goal_id p"
    and hit: "rows_affected (\<lambda>p. pv_plan_revision_id p = pid \<and> plan_row_open p) (gd_plans db1) \<noteq> 0"
    and ok: "plans_ok (gd_plans db2)"
    using update_plan_state_ok [OF s(2)] by auto
  obtain x where x: "x \<in> set (gd_plans db1)" "pv_plan_revision_id x = pid" "plan_row_open x"
    using hit by (auto simp: rows_affected_def filter_empty_conv)
  then have "f x \<in> set (gd_plans db2)" by (auto simp: db2 set_update_where)
  then have "list_ex (\<lambda>p. pv_plan_revision_id p = pid \<and> pv_state p = ''active'') (gd_plans db2)"
    using x(2) f by (auto simp: list_ex_iff)
  moreover define g :: "plan_row \<Rightarrow> plan_row" where "g p = (if pv_goal_id p = gid \<and> pv_state p = ''active'' \<and> pv_plan_revision_id p \<noteq> pid
    then p\<lparr>pv_state := ''superseded'', pv_superseded_at := Some (ge_now_sql env)\<rparr> else p)" for p
  have g_row: "pv_plan_revision_id (g p) = pv_plan_revision_id p" "pv_goal_id (g p) = pv_goal_id p" for p
    by (simp_all add: g_def)
  have active_open: "pv_state p = ''active'' \<Longrightarrow> plan_row_open p" for p by (simp add: plan_row_open_def)
  have p1: "gd_plans db1 = map g (gd_plans db)"
    unfolding db1 by (simp add: update_where_def g_def [abs_def])
  have plans: "gd_plans db2 = map (\<lambda>p. if pv_plan_revision_id (g p) = pid \<and> plan_row_open (g p) then f (g p) else g p) (gd_plans db)"
    by (simp add: db2 p1 update_where_def comp_def)
  have "list_all2 (activated gid pid) (gd_plans db) (gd_plans db2)"
    unfolding plans list_all2_map2 list_all2_same
  proof (intro ballI)
    fix p :: plan_row
    show "activated gid pid p (if pv_plan_revision_id (g p) = pid \<and> plan_row_open (g p) then f (g p) else g p)"
      using active_open [of p] g_row [of p] f by (cases "pv_plan_revision_id p = pid") (simp_all add: g_def activated_def)
  qed
  moreover have "gd_tasks db2 = gd_tasks db" "gd_milestones db2 = gd_milestones db" "gd_goals db2 = gd_goals db"
    by (simp_all add: db2 db1)
  ultimately show ?thesis using keep ok by simp
qed


section \<open>Selection\<close>

lemma pick_ready_take:
  "length acc \<le> n \<Longrightarrow> pick_ready ok n acc xs = acc @ take (n - length acc) (filter ok xs)"
  by (induction ok n acc xs rule: pick_ready.induct) (auto simp: not_le take_Cons')

definition ready_in :: "GoalEnv \<Rightarrow> string \<Rightarrow> string \<Rightarrow> GoalDb \<Rightarrow> planned_task \<Rightarrow> bool" where
  "ready_in env gid pid db t \<longleftrightarrow>
     (\<exists>r \<in> set (gd_tasks db). t = into_planned_task env r \<and> pd_plan_revision_id r = pid \<and> pd_state r = ''pending'') \<and>
     set (pd_dependency_refs t) \<subseteq> set (get_completed_client_refs pid db) \<and>
     (case find_duplicate_fingerprint gid (pd_task_fingerprint t) db of Some i \<Rightarrow> i = pd_planned_task_id t | None \<Rightarrow> True)"

lemma pending_task_ready:
  "t \<in> set (get_pending_tasks_ordered env pid db) \<Longrightarrow>
   task_ready gid (get_completed_client_refs pid db) db t \<longleftrightarrow> ready_in env gid pid db t"
  by (auto simp: get_pending_tasks_ordered_def task_ready_def ready_in_def list_all_iff)

lemma select_ready_value:
  assumes "get_active_plan env gid db = Some p" and "get_goal env gid db = Some g"
  shows "\<exists>ts. select_ready_tasks env gid n db = (Inr ts, db) \<and>
    mset ts = mset (take n (filter (ready_in env gid (pv_plan_revision_id p) db)
      (get_pending_tasks_ordered env (pv_plan_revision_id p) db)))"
proof -
  let ?pid = "pv_plan_revision_id p"
  have "filter (task_ready gid (get_completed_client_refs ?pid db) db) (get_pending_tasks_ordered env ?pid db) =
      filter (ready_in env gid ?pid db) (get_pending_tasks_ordered env ?pid db)"
    by (rule filter_cong) (simp_all add: pending_task_ready)
  then show ?thesis using assms by (simp add: select_ready_tasks_def op_simps pick_ready_take Let_def)
qed

lemma select_ready_ok:
  assumes "select_ready_tasks env gid n db = (Inr ts, db')"
  shows "\<exists>p g. get_active_plan env gid db = Some p \<and> get_goal env gid db = Some g"
  using assms by (auto simp: select_ready_tasks_def op_simps split: option.splits)

text \<open>
  C35. Every task that is selected is ready: it is a pending task of the goal's active plan, all tasks it depends on
  are completed in that plan, and no other task of the goal with the same fingerprint comes before it. At most the
  requested number is selected, and the database is only read.
\<close>

theorem selected_tasks_ready:
  assumes "select_ready_tasks env gid n db = (Inr ts, db')"
  shows "db' = db \<and> length ts \<le> n \<and>
    (\<exists>p. get_active_plan env gid db = Some p \<and> list_all (ready_in env gid (pv_plan_revision_id p) db) ts)"
proof -
  obtain p g where pg: "get_active_plan env gid db = Some p" "get_goal env gid db = Some g"
    using select_ready_ok [OF assms] by blast
  let ?sel = "take n (filter (ready_in env gid (pv_plan_revision_id p) db)
    (get_pending_tasks_ordered env (pv_plan_revision_id p) db))"
  have "db' = db" and m: "mset ts = mset ?sel" using select_ready_value [OF pg, of n] assms by auto
  moreover have "length ts \<le> n" using arg_cong [OF m, of size] by simp
  moreover have "set ts = set ?sel" using m by (metis set_mset_mset)
  ultimately show ?thesis using pg(1) by (auto simp: list_all_iff dest: in_set_takeD)
qed

text \<open>The tasks of a revision, as they are read.\<close>

definition plan_tasks :: "GoalEnv \<Rightarrow> string \<Rightarrow> GoalDb \<Rightarrow> planned_task list" where
  "plan_tasks env pid db = map (into_planned_task env) (filter (\<lambda>r. pd_plan_revision_id r = pid) (gd_tasks db))"

lemma finite_edges_of [simp]: "finite (edges_of ref deps xs)"
proof -
  have "edges_of ref deps xs = (\<Union>x \<in> set xs. Pair (ref x) ` set (deps x))" by (auto simp: edges_of_def)
  then show ?thesis by simp
qed

text \<open>In a finite set of nodes an acyclic relation has a node without successor in the set.\<close>

lemma acyclic_sink:
  assumes "acyclic E" and "finite E" and "S \<noteq> {}"
  shows "\<exists>a \<in> S. \<forall>b. (a, b) \<in> E \<longrightarrow> b \<notin> S"
  using finite_acyclic_wf_converse [OF assms(2,1)] assms(3) unfolding wf_eq_minimal by (metis converse_iff all_not_in_conv)

text \<open>
  Each task of a list is the only one of the goal with its fingerprint, superseded ones apart. Which of several the query for
  duplicates returns does not matter then.
\<close>

definition fingerprints_unique :: "string \<Rightarrow> GoalDb \<Rightarrow> planned_task list \<Rightarrow> bool" where
  "fingerprints_unique gid db ts \<longleftrightarrow>
     list_all (\<lambda>t. list_all (\<lambda>r. task_of_goal gid db r \<and> pd_task_fingerprint r = pd_task_fingerprint t \<and> pd_state r \<noteq> ''superseded'' \<longrightarrow>
       pd_planned_task_id r = pd_planned_task_id t) (gd_tasks db)) ts"

lemma unique_not_duplicate:
  assumes "fingerprints_unique gid db ts" and "t \<in> set ts" and "find_duplicate_fingerprint gid (pd_task_fingerprint t) db = Some i"
  shows "i = pd_planned_task_id t"
  using assms by (auto simp: fingerprints_unique_def find_duplicate_fingerprint_def list_all_iff dest!: select_one_Some)

text \<open>
  C36. A plan in which each task is pending or completed never gets stuck as long as its dependencies are those of a valid plan
  (they name tasks of the plan and have no cycle) and no task of it shares its fingerprint with another task of the
  goal: if a task is pending, some task is selected, whatever the budget of the goal.
\<close>

theorem valid_plan_not_stuck:
  assumes "get_active_plan env gid db = Some p" and "get_goal env gid db = Some g" and "n > 0"
    and "plan_tasks env (pv_plan_revision_id p) db = ts"
    and "list_all (\<lambda>r. pd_state r \<in> {''pending'', ''completed''}) (filter (\<lambda>r. pd_plan_revision_id r = pv_plan_revision_id p) (gd_tasks db))"
    and "refs_exist (concat (map pd_dependency_refs ts)) (map pd_client_ref ts)"
    and "acyclic (edges_of pd_client_ref pd_dependency_refs ts)"
    and "fingerprints_unique gid db ts"
    and "get_pending_tasks_ordered env (pv_plan_revision_id p) db \<noteq> []"
  shows "\<exists>sel. select_ready_tasks env gid n db = (Inr sel, db) \<and> sel \<noteq> []"
proof -
  let ?pid = "pv_plan_revision_id p"
  let ?pending = "get_pending_tasks_ordered env ?pid db"
  have in_ts: "t \<in> set ts" if "t \<in> set ?pending" for t
    using that assms(4) by (auto simp: get_pending_tasks_ordered_def plan_tasks_def)
  have done_or: "pd_client_ref t \<in> set (get_completed_client_refs ?pid db) \<or> t \<in> set ?pending" if mem: "t \<in> set ts" for t
  proof -
    obtain r where r: "r \<in> set (gd_tasks db)" "pd_plan_revision_id r = ?pid" "t = into_planned_task env r"
      using mem assms(4) by (auto simp: plan_tasks_def)
    then consider "pd_state r = ''pending''" | "pd_state r = ''completed''" using assms(5) by (auto simp: list_all_iff)
    then show ?thesis
    proof cases
      case 2
      then have "pd_client_ref r \<in> set (get_completed_client_refs ?pid db)"
        using r by (auto simp: get_completed_client_refs_def)
      then show ?thesis using r(3) by (simp add: into_planned_task_def)
    qed (use r in \<open>auto simp: get_pending_tasks_ordered_def\<close>)
  qed
  obtain a where a: "a \<in> pd_client_ref ` set ?pending"
    "\<And>b. (a, b) \<in> edges_of pd_client_ref pd_dependency_refs ts \<Longrightarrow> b \<notin> pd_client_ref ` set ?pending"
    using acyclic_sink [OF assms(7) finite_edges_of, of "pd_client_ref ` set ?pending"] assms(9) by blast
  then obtain t where t: "t \<in> set ?pending" "a = pd_client_ref t" by blast
  have "d \<in> set (get_completed_client_refs ?pid db)" if d: "d \<in> set (pd_dependency_refs t)" for d
  proof -
    have "d \<notin> pd_client_ref ` set ?pending" using a(2) t in_ts d by (auto simp: edges_of_def)
    moreover obtain u where "u \<in> set ts" "d = pd_client_ref u"
      using assms(6) in_ts [OF t(1)] d by (auto simp: refs_exist_def)
    ultimately show ?thesis using done_or [of u] by blast
  qed
  then have "ready_in env gid ?pid db t"
    using t(1) unique_not_duplicate [OF assms(8) in_ts [OF t(1)]]
    by (auto simp: ready_in_def get_pending_tasks_ordered_def split: option.split)
  then have "filter (ready_in env gid ?pid db) ?pending \<noteq> []" using t(1) by (auto simp: filter_empty_conv)
  then have "mset (take n (filter (ready_in env gid ?pid db) ?pending)) \<noteq> {#}" using assms(3) by simp
  then show ?thesis using select_ready_value [OF assms(1,2), of n] by auto
qed


section \<open>A rejected plan blocks its successor\<close>

text \<open>A plan with one task, proposed twice: the user asks for changes to the first revision and approves the second.\<close>

definition sample_task :: ProposedTask where
  "sample_task = \<lparr>pt_client_ref = ''T1'', pt_milestone_ref = ''M1'', pt_title = ''t'', pt_objective = ''o'',
     pt_acceptance_criteria = [''a''], pt_dependencies = [], pt_expected_evidence = [''e''],
     pt_expected_resource_scope = [], pt_risk_level = ''low'', pt_requires_approval = False\<rparr>"

definition sample_milestone :: ProposedMilestone where
  "sample_milestone = \<lparr>pm_client_ref = ''M1'', pm_title = ''m'', pm_objective = ''o'',
     pm_success_criteria_refs = [''c1''], pm_dependencies = [], pm_priority = 1\<rparr>"

definition sample_proposal :: PlanProposal where
  "sample_proposal = \<lparr>pl_schema_version = ''1.0'', pl_goal_summary = ''s'', pl_assumptions = [],
     pl_milestones = [sample_milestone], pl_tasks = [sample_task], pl_risks = [], pl_completion_strategy = ''''\<rparr>"

definition call_env :: "string \<Rightarrow> GoalEnv" where
  "call_env k = sample_genv\<lparr>ge_uuid := (\<lambda>n. k @ show_nat n)\<rparr>"

definition propose :: "string \<Rightarrow> approval gop" where
  "propose k = then_do (persist_plan_revision (call_env k) ''g'' sample_proposal ''planner'' ''inv'' ''HEAD'' 1) (\<lambda>plan.
     request_plan_approval (call_env k) ''g'' plan sample_proposal)"

definition sample_proposed :: GoalDb where
  "sample_proposed = snd (propose ''a'' sample_created)"

definition sample_approved :: GoalDb where
  "sample_approved = snd (approve_plan (call_env ''b'') ''g'' ''apr-a0'' ''user'' None sample_proposed)"

definition sample_replanned :: GoalDb where
  "sample_replanned =
     (let db2 = snd (request_plan_changes (call_env ''b'') ''g'' ''apr-a0'' ''more tests'' ''user'' sample_proposed);
          db3 = snd (propose ''c'' db2)
      in snd (approve_plan (call_env ''d'') ''g'' ''apr-c0'' ''user'' None db3))"

text \<open>
  When the user asks for changes to the first revision of a plan and then approves a second revision with the
  same task, the goal is active and its approved task is pending, but the selection of ready tasks returns nothing: the
  task of the rejected revision is still pending and has the same fingerprint, so the new task counts as a duplicate of
  it. The same task in a first revision that is approved at once is selected.
\<close>

theorem replan_starves_tasks:
  "map gr_state (gd_goals sample_replanned) = [''active''] \<and>
   map (\<lambda>p. (pv_plan_revision_id p, pv_state p)) (gd_plans sample_replanned) = [(''pr-a0'', ''rejected''), (''pr-c0'', ''active'')] \<and>
   map (\<lambda>t. (pd_plan_revision_id t, pd_state t)) (gd_tasks sample_replanned) = [(''pr-a0'', ''pending''), (''pr-c0'', ''pending'')] \<and>
   fst (select_ready_tasks (call_env ''e'') ''g'' 4 sample_replanned) = Inr [] \<and>
   map_sum id (map pd_planned_task_id) (fst (select_ready_tasks (call_env ''e'') ''g'' 4 sample_approved)) = Inr [''pt-a2'']"
  by code_simp


section \<open>Witnesses\<close>

lemma sample_approval:
  "decide (call_env ''b'') ''g'' ''apr-a0'' ''user'' (Approve None) sample_proposed = (Inr Applied, sample_approved)"
proof -
  have "fst (approve_plan (call_env ''b'') ''g'' ''apr-a0'' ''user'' None sample_proposed) = Inr Applied" by code_simp
  then show ?thesis by (simp add: sample_approved_def prod_eq_iff)
qed

theorem approval_decided_once_witness:
  "snd (reject_plan (call_env ''x'') ''g'' ''apr-a0'' ''somebody else'' None sample_approved) = sample_approved"
  using approval_decided_once [OF sample_approval, of "call_env ''x''" "''g''" "''somebody else''" "Reject None"] by simp


theorem activation_exclusive_witness:
  "\<exists>db'. activate_validated_plan (call_env ''b'') ''g'' ''pr-a0'' sample_proposed = (Inr (), db') \<and>
     plans_ok (gd_plans db') \<and> gd_tasks db' = gd_tasks sample_proposed"
proof -
  let ?r = "activate_validated_plan (call_env ''b'') ''g'' ''pr-a0'' sample_proposed"
  have "fst ?r = Inr ()" by code_simp
  then have "?r = (Inr (), snd ?r)" by (simp add: prod_eq_iff)
  then show ?thesis using activation_exclusive by blast
qed

lemma sample_selection:
  "select_ready_tasks (call_env ''e'') ''g'' 4 sample_approved =
   (Inr (plan_tasks (call_env ''e'') ''pr-a0'' sample_approved), sample_approved)"
  by code_simp

theorem selected_tasks_ready_witness:
  "length (plan_tasks (call_env ''e'') ''pr-a0'' sample_approved) \<le> 4 \<and>
   (\<exists>p. get_active_plan (call_env ''e'') ''g'' sample_approved = Some p \<and>
     list_all (ready_in (call_env ''e'') ''g'' (pv_plan_revision_id p) sample_approved)
       (plan_tasks (call_env ''e'') ''pr-a0'' sample_approved))"
  using selected_tasks_ready [OF sample_selection] by simp

theorem valid_plan_not_stuck_witness:
  "\<exists>sel. select_ready_tasks (call_env ''e'') ''g'' 1 sample_approved = (Inr sel, sample_approved) \<and> sel \<noteq> []"
proof -
  have "map_option pv_plan_revision_id (get_active_plan (call_env ''e'') ''g'' sample_approved) = Some ''pr-a0''"
    "map_option (\<lambda>_. ()) (get_goal (call_env ''e'') ''g'' sample_approved) = Some ()"
    by code_simp+
  then obtain p g where p: "get_active_plan (call_env ''e'') ''g'' sample_approved = Some p" "pv_plan_revision_id p = ''pr-a0''"
    and g: "get_goal (call_env ''e'') ''g'' sample_approved = Some g" by auto
  let ?ts = "plan_tasks (call_env ''e'') ''pr-a0'' sample_approved"
  have no_deps: "list_all (\<lambda>t. pd_dependency_refs t = []) ?ts" by code_simp
  then have "refs_exist (concat (map pd_dependency_refs ?ts)) (map pd_client_ref ?ts)"
    "edges_of pd_client_ref pd_dependency_refs ?ts = {}"
    by (auto simp: refs_exist_def edges_of_def list_all_iff)
  moreover have "list_all (\<lambda>r. pd_state r \<in> {''pending'', ''completed''})
      (filter (\<lambda>r. pd_plan_revision_id r = ''pr-a0'') (gd_tasks sample_approved))"
    by code_simp
  moreover have "fingerprints_unique ''g'' sample_approved ?ts" by code_simp
  moreover have "get_pending_tasks_ordered (call_env ''e'') ''pr-a0'' sample_approved \<noteq> []" by code_simp
  ultimately show ?thesis by (intro valid_plan_not_stuck [OF p(1) g, of 1 ?ts]) (simp_all add: p(2) acyclic_def)
qed

end
