(* ===== verification/Task_Decision.thy ===== *)
theory Task_Decision
  imports Event_Log "HOL-Library.Word"
begin

unbundle bit_operations_syntax

text \<open>
  The pure part of the task engineering loop, \<open>harness-runtime/src/task_loop\<close>: the enumerations of
  \<open>types.rs\<close> with their stored texts, the FNV-1a fingerprints, the progress detector and the budget
  check of \<open>progress.rs\<close>, and the decision engine of \<open>decision.rs\<close> with the eligibility gate it reads
  from the database. A \<open>u32\<close> limit is a \<open>32 word\<close>, a \<open>u64\<close> limit a \<open>64 word\<close>: the latter is compared
  after \<open>as i64\<close>, which is \<^const>\<open>sint\<close>.
\<close>

section \<open>Lifecycles and classifications\<close>

datatype LoopLifecycle =
    Loop_Created | Loop_Ready | Loop_PreparingAttempt | Loop_AttemptActive | Loop_Evaluating
  | Loop_CompleteCandidate | Loop_WaitingForReconciliation | Loop_WaitingForInfrastructure | Loop_WaitingForHuman | Loop_BudgetExhausted
  | Loop_NoProgress | Loop_NonRetryable | Loop_Escalated | Loop_Cancelled | Loop_ReconciliationRequired
  | Loop_Failed

primrec loop_as_str :: "LoopLifecycle \<Rightarrow> string" where
  "loop_as_str Loop_Created = ''created''"
| "loop_as_str Loop_Ready = ''ready''"
| "loop_as_str Loop_PreparingAttempt = ''preparing_attempt''"
| "loop_as_str Loop_AttemptActive = ''attempt_active''"
| "loop_as_str Loop_Evaluating = ''evaluating''"
| "loop_as_str Loop_CompleteCandidate = ''complete_candidate''"
| "loop_as_str Loop_WaitingForReconciliation = ''waiting_for_reconciliation''"
| "loop_as_str Loop_WaitingForInfrastructure = ''waiting_for_infrastructure''"
| "loop_as_str Loop_WaitingForHuman = ''waiting_for_human''"
| "loop_as_str Loop_BudgetExhausted = ''budget_exhausted''"
| "loop_as_str Loop_NoProgress = ''no_progress''"
| "loop_as_str Loop_NonRetryable = ''non_retryable''"
| "loop_as_str Loop_Escalated = ''escalated''"
| "loop_as_str Loop_Cancelled = ''cancelled''"
| "loop_as_str Loop_ReconciliationRequired = ''reconciliation_required''"
| "loop_as_str Loop_Failed = ''failed''"

definition loop_parse :: "string \<Rightarrow> LoopLifecycle" where
  "loop_parse s =
     (if s = ''ready'' then Loop_Ready
      else if s = ''preparing_attempt'' then Loop_PreparingAttempt
      else if s = ''attempt_active'' then Loop_AttemptActive
      else if s = ''evaluating'' then Loop_Evaluating
      else if s = ''complete_candidate'' then Loop_CompleteCandidate
      else if s = ''waiting_for_reconciliation'' then Loop_WaitingForReconciliation
      else if s = ''waiting_for_infrastructure'' then Loop_WaitingForInfrastructure
      else if s = ''waiting_for_human'' then Loop_WaitingForHuman
      else if s = ''budget_exhausted'' then Loop_BudgetExhausted
      else if s = ''no_progress'' then Loop_NoProgress
      else if s = ''non_retryable'' then Loop_NonRetryable
      else if s = ''escalated'' then Loop_Escalated
      else if s = ''cancelled'' then Loop_Cancelled
      else if s = ''reconciliation_required'' then Loop_ReconciliationRequired
      else if s = ''failed'' then Loop_Failed
      else Loop_Created)"

definition loop_is_terminal :: "LoopLifecycle \<Rightarrow> bool" where
  "loop_is_terminal s = (s \<in> {Loop_CompleteCandidate, Loop_BudgetExhausted, Loop_NoProgress,
     Loop_NonRetryable, Loop_Escalated, Loop_Cancelled, Loop_Failed})"

definition requires_human :: "LoopLifecycle \<Rightarrow> bool" where
  "requires_human s = (s = Loop_WaitingForHuman)"

definition blocks_new_attempt :: "LoopLifecycle \<Rightarrow> bool" where
  "blocks_new_attempt s = (s \<notin> {Loop_Ready, Loop_PreparingAttempt, Loop_Evaluating})"

datatype AttemptLifecycle =
    Att_Created | Att_Prepared | Att_Dispatched | Att_Executing | Att_Terminal
  | Att_Cancelled | Att_Failed

primrec attempt_as_str :: "AttemptLifecycle \<Rightarrow> string" where
  "attempt_as_str Att_Created = ''created''"
| "attempt_as_str Att_Prepared = ''prepared''"
| "attempt_as_str Att_Dispatched = ''dispatched''"
| "attempt_as_str Att_Executing = ''executing''"
| "attempt_as_str Att_Terminal = ''terminal''"
| "attempt_as_str Att_Cancelled = ''cancelled''"
| "attempt_as_str Att_Failed = ''failed''"

definition attempt_parse :: "string \<Rightarrow> AttemptLifecycle" where
  "attempt_parse s =
     (if s = ''prepared'' then Att_Prepared
      else if s = ''dispatched'' then Att_Dispatched
      else if s = ''executing'' then Att_Executing
      else if s = ''terminal'' then Att_Terminal
      else if s = ''cancelled'' then Att_Cancelled
      else if s = ''failed'' then Att_Failed
      else Att_Created)"

definition attempt_is_terminal :: "AttemptLifecycle \<Rightarrow> bool" where
  "attempt_is_terminal s = (s \<in> {Att_Terminal, Att_Cancelled, Att_Failed})"

definition attempt_is_active :: "AttemptLifecycle \<Rightarrow> bool" where
  "attempt_is_active s = (s \<in> {Att_Dispatched, Att_Executing})"

datatype DecisionClassification =
    Dec_CompleteCandidate | Dec_ContinueRepair | Dec_AwaitingReconciliation | Dec_InfrastructureBlocked | Dec_AwaitingHuman
  | Dec_BudgetExhausted | Dec_NoProgress | Dec_NonRetryable | Dec_Cancelled | Dec_EscalateToProjectPlanner

primrec decision_as_str :: "DecisionClassification \<Rightarrow> string" where
  "decision_as_str Dec_CompleteCandidate = ''CompleteCandidate''"
| "decision_as_str Dec_ContinueRepair = ''ContinueRepair''"
| "decision_as_str Dec_AwaitingReconciliation = ''AwaitingReconciliation''"
| "decision_as_str Dec_InfrastructureBlocked = ''InfrastructureBlocked''"
| "decision_as_str Dec_AwaitingHuman = ''AwaitingHuman''"
| "decision_as_str Dec_BudgetExhausted = ''BudgetExhausted''"
| "decision_as_str Dec_NoProgress = ''NoProgress''"
| "decision_as_str Dec_NonRetryable = ''NonRetryable''"
| "decision_as_str Dec_Cancelled = ''Cancelled''"
| "decision_as_str Dec_EscalateToProjectPlanner = ''EscalateToProjectPlanner''"

definition decision_parse :: "string \<Rightarrow> DecisionClassification option" where
  "decision_parse s =
     (if s = ''CompleteCandidate'' then Some Dec_CompleteCandidate
      else if s = ''ContinueRepair'' then Some Dec_ContinueRepair
      else if s = ''AwaitingReconciliation'' then Some Dec_AwaitingReconciliation
      else if s = ''InfrastructureBlocked'' then Some Dec_InfrastructureBlocked
      else if s = ''AwaitingHuman'' then Some Dec_AwaitingHuman
      else if s = ''BudgetExhausted'' then Some Dec_BudgetExhausted
      else if s = ''NoProgress'' then Some Dec_NoProgress
      else if s = ''NonRetryable'' then Some Dec_NonRetryable
      else if s = ''Cancelled'' then Some Dec_Cancelled
      else if s = ''EscalateToProjectPlanner'' then Some Dec_EscalateToProjectPlanner
      else None)"

primrec decision_action :: "DecisionClassification \<Rightarrow> string" where
  "decision_action Dec_CompleteCandidate = ''none''"
| "decision_action Dec_ContinueRepair = ''create_attempt''"
| "decision_action Dec_AwaitingReconciliation = ''wait_reconciliation''"
| "decision_action Dec_InfrastructureBlocked = ''wait_infrastructure''"
| "decision_action Dec_AwaitingHuman = ''wait_human''"
| "decision_action Dec_BudgetExhausted = ''stop''"
| "decision_action Dec_NoProgress = ''stop''"
| "decision_action Dec_NonRetryable = ''stop''"
| "decision_action Dec_Cancelled = ''stop''"
| "decision_action Dec_EscalateToProjectPlanner = ''escalate''"

definition creates_attempt :: "DecisionClassification \<Rightarrow> bool" where
  "creates_attempt d = (d = Dec_ContinueRepair)"

datatype BudgetMode =
    Mode_Hard | Mode_Advisory | Mode_ObserveOnly | Mode_Unset

primrec budget_mode_as_str :: "BudgetMode \<Rightarrow> string" where
  "budget_mode_as_str Mode_Hard = ''hard''"
| "budget_mode_as_str Mode_Advisory = ''advisory''"
| "budget_mode_as_str Mode_ObserveOnly = ''observe_only''"
| "budget_mode_as_str Mode_Unset = ''unset''"

definition budget_mode_parse :: "string \<Rightarrow> BudgetMode option" where
  "budget_mode_parse s =
     (if s = ''hard'' then Some Mode_Hard
      else if s = ''advisory'' then Some Mode_Advisory
      else if s = ''observe_only'' then Some Mode_ObserveOnly
      else if s = ''unset'' then Some Mode_Unset
      else None)"

datatype UnknownUsagePolicy =
    BlockUnknown | AllowWithWarning | AwaitHuman

primrec usage_policy_as_str :: "UnknownUsagePolicy \<Rightarrow> string" where
  "usage_policy_as_str BlockUnknown = ''block_unknown''"
| "usage_policy_as_str AllowWithWarning = ''allow_with_warning''"
| "usage_policy_as_str AwaitHuman = ''await_human''"

definition usage_policy_parse :: "string \<Rightarrow> UnknownUsagePolicy option" where
  "usage_policy_parse s =
     (if s = ''block_unknown'' then Some BlockUnknown
      else if s = ''allow_with_warning'' then Some AllowWithWarning
      else if s = ''await_human'' then Some AwaitHuman
      else None)"

datatype ProgressVerdict =
    Verdict_Progress | Verdict_PartialProgress | Verdict_NoProgress | Verdict_Regression | Verdict_CycleDetected

section \<open>Fingerprints\<close>

text \<open>FNV-1a over the bytes of a string, with wrapping 64-bit multiplication, and its 16 digit
  hexadecimal text.\<close>

definition fnv1a64 :: "string \<Rightarrow> 64 word" where
  "fnv1a64 s = foldl (\<lambda>h b. (h XOR of_nat (of_char b)) * 0x00000100000001b3) 0xcbf29ce484222325 s"

definition hex_digit :: "nat \<Rightarrow> char" where
  "hex_digit d = char_of (if d < 10 then 48 + d else 87 + d)"

definition hex_digits :: "64 word \<Rightarrow> string" where
  "hex_digits w = map (\<lambda>i. hex_digit (unat w div 16 ^ i mod 16)) (rev [0..<16])"

definition fingerprint_hex :: "string \<Rightarrow> string" where
  "fingerprint_hex s = hex_digits (fnv1a64 s)"

section \<open>Progress\<close>

record AttemptProgressFingerprint =
  pf_primary_failure :: string
  pf_blocker_set :: "string list"
  pf_failed_required_steps :: "string list"
  pf_required_passed_count :: int
  pf_diff_fingerprint :: string
  pf_changed_files :: "string list"
  pf_worktree_head :: string
  pf_outcome_fingerprint :: string
  pf_evidence_fingerprint :: string
  pf_profile_id :: string
  pf_context_fingerprint :: string

definition canonical_string :: "AttemptProgressFingerprint \<Rightarrow> string" where
  "canonical_string f =
     (let blockers = remdups_adj (sort (pf_blocker_set f));
          failed = sort (pf_failed_required_steps f);
          files = sort (pf_changed_files f)
      in ''fail='' @ pf_primary_failure f @ ''|blockers=['' @ join_with '','' blockers @
         '']|failed_steps=['' @ join_with '','' failed @ '']|passed='' @
         show_int (pf_required_passed_count f) @ ''|diff='' @ pf_diff_fingerprint f @
         ''|files=['' @ join_with '','' files @ '']|wt_head='' @ pf_worktree_head f @
         ''|outcome='' @ pf_outcome_fingerprint f @ ''|evidence='' @ pf_evidence_fingerprint f @
         ''|profile='' @ pf_profile_id f @ ''|ctx='' @ pf_context_fingerprint f)"

definition progress_fingerprint :: "AttemptProgressFingerprint \<Rightarrow> string" where
  "progress_fingerprint f = fingerprint_hex (canonical_string f)"

definition classify_progress ::
  "AttemptProgressFingerprint \<Rightarrow> AttemptProgressFingerprint \<Rightarrow> ProgressVerdict" where
  "classify_progress prev current =
     (let same_failure = (pf_primary_failure prev = pf_primary_failure current);
          same_blockers = (sort (pf_blocker_set prev) = sort (pf_blocker_set current));
          no_diff_change = (pf_diff_fingerprint prev = pf_diff_fingerprint current \<or>
                            pf_diff_fingerprint current = '''');
          no_improvement = (pf_required_passed_count current \<le> pf_required_passed_count prev)
      in if same_failure \<and> same_blockers \<and> no_diff_change \<and> no_improvement then Verdict_NoProgress
         else if same_failure \<and> \<not> no_improvement then Verdict_PartialProgress
         else if pf_required_passed_count current < pf_required_passed_count prev then Verdict_Regression
         else Verdict_Progress)"

text \<open>The two loops over pairs of positions at least two apart.\<close>

definition has_cycle :: "string list \<Rightarrow> bool" where
  "has_cycle fps =
     list_ex (\<lambda>i. list_ex (\<lambda>j. fps ! i = fps ! j \<and>
         filter (\<lambda>f. f \<noteq> fps ! i) (take (j - (i + 1)) (drop (i + 1) fps)) \<noteq> [])
       [i + 2..<length fps]) [0..<length fps - 2]"

definition detect_cycle :: "AttemptProgressFingerprint list \<Rightarrow> bool" where
  "detect_cycle history =
     (if length history < 3 then False else has_cycle (map progress_fingerprint history))"

section \<open>Budgets\<close>

record BudgetPolicy =
  bp_max_attempts :: "32 word option"
  bp_max_attempts_mode :: BudgetMode
  bp_max_wall_time_ms :: "64 word option"
  bp_max_wall_time_mode :: BudgetMode
  bp_max_tool_calls :: "64 word option"
  bp_max_tool_calls_mode :: BudgetMode
  bp_max_input_tokens :: "64 word option"
  bp_max_input_tokens_mode :: BudgetMode
  bp_max_output_tokens :: "64 word option"
  bp_max_output_tokens_mode :: BudgetMode
  bp_max_total_tokens :: "64 word option"
  bp_max_total_tokens_mode :: BudgetMode
  bp_max_estimated_cost_micros :: "64 word option"
  bp_max_estimated_cost_micros_mode :: BudgetMode
  bp_max_no_progress_streak :: "32 word option"
  bp_max_no_progress_mode :: BudgetMode
  bp_max_same_failure_streak :: "32 word option"
  bp_max_same_failure_mode :: BudgetMode
  bp_max_profile_switches :: "32 word option"
  bp_max_profile_switches_mode :: BudgetMode
  bp_unknown_usage_policy :: UnknownUsagePolicy

datatype BudgetCheckResult =
    BudgetOk
  | BudgetExhausted string int int
  | BudgetUnknown string UnknownUsagePolicy

definition budget_policy_default :: BudgetPolicy where
  "budget_policy_default =
     \<lparr>bp_max_attempts = Some 10, bp_max_attempts_mode = Mode_Hard,
      bp_max_wall_time_ms = Some 3600000, bp_max_wall_time_mode = Mode_Hard,
      bp_max_tool_calls = None, bp_max_tool_calls_mode = Mode_ObserveOnly,
      bp_max_input_tokens = None, bp_max_input_tokens_mode = Mode_ObserveOnly,
      bp_max_output_tokens = None, bp_max_output_tokens_mode = Mode_ObserveOnly,
      bp_max_total_tokens = None, bp_max_total_tokens_mode = Mode_ObserveOnly,
      bp_max_estimated_cost_micros = None, bp_max_estimated_cost_micros_mode = Mode_ObserveOnly,
      bp_max_no_progress_streak = Some 3, bp_max_no_progress_mode = Mode_Hard,
      bp_max_same_failure_streak = Some 5, bp_max_same_failure_mode = Mode_Hard,
      bp_max_profile_switches = Some 2, bp_max_profile_switches_mode = Mode_Hard,
      bp_unknown_usage_policy = AllowWithWarning\<rparr>"

text \<open>The counters the check is given, in the order of its parameters.\<close>

record BudgetUsage =
  bu_attempt_count :: int
  bu_no_progress_streak :: int
  bu_same_failure_streak :: int
  bu_profile_switch_count :: int
  bu_total_input_tokens :: "int option"
  bu_total_output_tokens :: "int option"
  bu_total_tokens :: "int option"
  bu_total_tool_calls :: "int option"
  bu_total_wall_time_ms :: "int option"
  bu_total_cost_micros :: "int option"
  bu_usage_known :: bool

definition check_hard ::
  "UnknownUsagePolicy \<Rightarrow> bool \<Rightarrow> int option \<Rightarrow> 64 word option \<Rightarrow> BudgetMode \<Rightarrow> string \<Rightarrow>
   BudgetCheckResult option" where
  "check_hard policy usage_known val max_val mode name =
     (if mode \<noteq> Mode_Hard then None
      else case max_val of
        None \<Rightarrow> None
      | Some m \<Rightarrow>
        (case val of
           Some v \<Rightarrow> if v \<ge> sint m then Some (BudgetExhausted name v (sint m)) else None
         | None \<Rightarrow> if \<not> usage_known then Some (BudgetUnknown name policy) else None))"

text \<open>The four counter limits share their shape: a hard limit that is reached.\<close>

definition check_counter ::
  "int \<Rightarrow> 32 word option \<Rightarrow> BudgetMode \<Rightarrow> string \<Rightarrow> BudgetCheckResult option" where
  "check_counter count max_val mode name =
     (case max_val of
        None \<Rightarrow> None
      | Some m \<Rightarrow> if mode = Mode_Hard \<and> count \<ge> uint m then Some (BudgetExhausted name count (uint m))
                  else None)"

text \<open>The first check that reports something ends the function.\<close>

definition first_report :: "BudgetCheckResult option list \<Rightarrow> BudgetCheckResult" where
  "first_report checks = (case find (\<lambda>r. r \<noteq> None) checks of Some (Some r) \<Rightarrow> r | _ \<Rightarrow> BudgetOk)"

definition check_can_attempt :: "BudgetPolicy \<Rightarrow> BudgetUsage \<Rightarrow> BudgetCheckResult" where
  "check_can_attempt p u =
     (let hard = check_hard (bp_unknown_usage_policy p) (bu_usage_known u)
      in first_report
        [check_counter (bu_attempt_count u) (bp_max_attempts p) (bp_max_attempts_mode p) ''max_attempts'',
         check_counter (bu_no_progress_streak u) (bp_max_no_progress_streak p)
           (bp_max_no_progress_mode p) ''max_no_progress_streak'',
         check_counter (bu_same_failure_streak u) (bp_max_same_failure_streak p)
           (bp_max_same_failure_mode p) ''max_same_failure_streak'',
         check_counter (bu_profile_switch_count u) (bp_max_profile_switches p)
           (bp_max_profile_switches_mode p) ''max_profile_switches'',
         hard (bu_total_input_tokens u) (bp_max_input_tokens p) (bp_max_input_tokens_mode p)
           ''max_input_tokens'',
         hard (bu_total_output_tokens u) (bp_max_output_tokens p) (bp_max_output_tokens_mode p)
           ''max_output_tokens'',
         hard (bu_total_tokens u) (bp_max_total_tokens p) (bp_max_total_tokens_mode p)
           ''max_total_tokens'',
         hard (bu_total_tool_calls u) (bp_max_tool_calls p) (bp_max_tool_calls_mode p)
           ''max_tool_calls'',
         hard (bu_total_cost_micros u) (bp_max_estimated_cost_micros p)
           (bp_max_estimated_cost_micros_mode p) ''max_estimated_cost_micros'',
         hard (bu_total_wall_time_ms u) (bp_max_wall_time_ms p) (bp_max_wall_time_mode p)
           ''max_wall_time''])"

section \<open>Profile policy\<close>

record LoopProfilePolicy =
  pp_allowed_profile_ids :: "string list"
  pp_preferred_profile_ids :: "string list"
  pp_allow_profile_switch :: bool
  pp_max_profile_switches :: "32 word"
  pp_required_capabilities :: "string list"
  pp_forbidden_provider_changes :: bool

definition loop_profile_policy_default :: LoopProfilePolicy where
  "loop_profile_policy_default =
     \<lparr>pp_allowed_profile_ids = [], pp_preferred_profile_ids = [], pp_allow_profile_switch = False,
      pp_max_profile_switches = 1, pp_required_capabilities = [], pp_forbidden_provider_changes = True\<rparr>"

definition profile_is_allowed :: "LoopProfilePolicy \<Rightarrow> string \<Rightarrow> bool" where
  "profile_is_allowed p profile_id =
     (if pp_allowed_profile_ids p = [] then True
      else list_ex (\<lambda>i. i = profile_id) (pp_allowed_profile_ids p))"

definition can_switch :: "LoopProfilePolicy \<Rightarrow> int \<Rightarrow> string option \<Rightarrow> string option \<Rightarrow> bool" where
  "can_switch p current_switch_count from_provider to_provider =
     (if \<not> pp_allow_profile_switch p then False
      else if current_switch_count \<ge> uint (pp_max_profile_switches p) then False
      else if pp_forbidden_provider_changes p \<and>
              (case (from_provider, to_provider) of (Some f, Some t) \<Rightarrow> f \<noteq> t | _ \<Rightarrow> False) then False
      else True)"

definition select_profile :: "LoopProfilePolicy \<Rightarrow> (string \<times> string option) list \<Rightarrow> string option" where
  "select_profile p available =
     (case find (\<lambda>pref. profile_is_allowed p pref \<and> list_ex (\<lambda>a. fst a = pref) available)
             (pp_preferred_profile_ids p) of
        Some pref \<Rightarrow> Some pref
      | None \<Rightarrow> map_option fst (find (\<lambda>a. profile_is_allowed p (fst a)) available))"

section \<open>The decision engine\<close>

record CompletionEligibility =
  el_execution_terminal :: bool
  el_outcome_passed :: bool
  el_verification_terminal :: bool
  el_required_steps_complete :: bool
  el_evidence_complete :: bool
  el_dossier_fingerprint_valid :: bool
  el_process_inactive :: bool
  el_process_state_known :: bool
  el_process_termination_confirmed :: bool
  el_reconciliation_clear :: bool
  el_workspace_valid :: bool
  el_ownership_valid :: bool

definition all_passed :: "CompletionEligibility \<Rightarrow> bool" where
  "all_passed e \<longleftrightarrow>
     el_execution_terminal e \<and> el_outcome_passed e \<and> el_verification_terminal e \<and>
     el_required_steps_complete e \<and> el_evidence_complete e \<and> el_dossier_fingerprint_valid e \<and>
     el_process_inactive e \<and> el_process_state_known e \<and> el_process_termination_confirmed e \<and>
     el_reconciliation_clear e \<and> el_workspace_valid e \<and> el_ownership_valid e"

definition failed_gates :: "CompletionEligibility \<Rightarrow> string list" where
  "failed_gates e = map fst (filter (\<lambda>(_, ok). \<not> ok)
     [(''execution_terminal'', el_execution_terminal e), (''outcome_passed'', el_outcome_passed e),
      (''verification_terminal'', el_verification_terminal e),
      (''required_steps_complete'', el_required_steps_complete e),
      (''evidence_complete'', el_evidence_complete e),
      (''dossier_fingerprint_valid'', el_dossier_fingerprint_valid e),
      (''process_inactive'', el_process_inactive e), (''process_state_known'', el_process_state_known e),
      (''process_termination_confirmed'', el_process_termination_confirmed e),
      (''reconciliation_clear'', el_reconciliation_clear e), (''workspace_valid'', el_workspace_valid e),
      (''ownership_valid'', el_ownership_valid e)])"

record DecisionInput =
  di_cancellation_requested :: bool
  di_i4_reconciliation_required :: bool
  di_active_process :: bool
  di_active_scanner :: bool
  di_ownership_fencing_ok :: bool
  di_worktree_identity_ok :: bool
  di_outcome_result :: "string option"
  di_next_action :: "string option"
  di_all_required_steps_passed :: bool
  di_evidence_complete :: bool
  di_dossier_present :: bool
  di_dossier_fingerprint_matches :: bool
  di_security_blocker :: bool
  di_budget_exhausted_hard :: bool
  di_no_progress :: bool
  di_cycle_detected :: bool
  di_infrastructure_blocked :: bool
  di_repairable :: bool
  di_task_scope_insufficient :: bool
  di_primary_failure :: "string option"
  di_eligibility_token :: "CompletionEligibility option"

definition is_complete_candidate :: "DecisionInput \<Rightarrow> bool" where
  "is_complete_candidate d =
     (case di_eligibility_token d of
        None \<Rightarrow> False
      | Some token \<Rightarrow>
          if \<not> all_passed token then False
          else di_outcome_result d = Some ''passed'' \<and> di_next_action d = Some ''CompleteCandidate'' \<and>
            di_all_required_steps_passed d \<and> di_evidence_complete d \<and> di_dossier_present d \<and>
            di_dossier_fingerprint_matches d \<and> di_ownership_fencing_ok d \<and> di_worktree_identity_ok d \<and>
            \<not> di_security_blocker d \<and> \<not> di_i4_reconciliation_required d \<and>
            \<not> di_active_process d \<and> \<not> di_active_scanner d)"

definition is_non_retryable :: "DecisionInput \<Rightarrow> bool" where
  "is_non_retryable d \<longleftrightarrow>
     di_next_action d = Some ''NonRetryable'' \<or> di_next_action d = Some ''IrrecoverableAmbiguity'' \<or>
     di_outcome_result d = Some ''OutcomeConflict''"

definition classify :: "DecisionInput \<Rightarrow> DecisionClassification" where
  "classify d =
     (if di_cancellation_requested d then Dec_Cancelled
      else if di_i4_reconciliation_required d \<or> di_active_process d \<or> di_active_scanner d
        then Dec_AwaitingReconciliation
      else if \<not> di_ownership_fencing_ok d then Dec_AwaitingReconciliation
      else if di_security_blocker d then Dec_AwaitingHuman
      else if \<not> di_worktree_identity_ok d then Dec_AwaitingHuman
      else if is_complete_candidate d then Dec_CompleteCandidate
      else if is_non_retryable d then Dec_NonRetryable
      else if di_budget_exhausted_hard d then Dec_BudgetExhausted
      else if di_cycle_detected d \<or> di_no_progress d then Dec_NoProgress
      else if di_infrastructure_blocked d then Dec_InfrastructureBlocked
      else if di_repairable d then Dec_ContinueRepair
      else if di_task_scope_insufficient d then Dec_EscalateToProjectPlanner
      else Dec_EscalateToProjectPlanner)"

text \<open>The documented precedence, lower first.\<close>

definition PRECEDENCE :: "(DecisionClassification \<times> nat) list" where
  "PRECEDENCE =
     [(Dec_Cancelled, 1), (Dec_AwaitingReconciliation, 2), (Dec_InfrastructureBlocked, 3),
      (Dec_AwaitingHuman, 4), (Dec_CompleteCandidate, 5), (Dec_NonRetryable, 8), (Dec_BudgetExhausted, 9),
      (Dec_NoProgress, 10), (Dec_EscalateToProjectPlanner, 11), (Dec_ContinueRepair, 15)]"

definition is_default_repairable :: "string \<Rightarrow> bool" where
  "is_default_repairable failure_classification \<longleftrightarrow> failure_classification \<in>
     {''BuildFailure'', ''TestFailure'', ''LintFailure'', ''TypecheckFailure'', ''CommandFailure'',
      ''OutputMismatch'', ''ScopeViolation'', ''ForbiddenChange'', ''PolicyViolation'',
      ''RequiredFileMissing'', ''ArtifactMissing'', ''ArtifactCorruption''}"

definition is_always_blocking :: "string \<Rightarrow> bool" where
  "is_always_blocking failure_classification \<longleftrightarrow>
     failure_classification \<in> {''SecretExposure'', ''OwnershipLost'', ''StaleFencing'', ''WorktreeMissing''}"

definition show_bool :: "bool \<Rightarrow> string" where
  "show_bool b = (if b then ''true'' else ''false'')"

definition unwrap_or :: "'a \<Rightarrow> 'a option \<Rightarrow> 'a" where
  "unwrap_or d x = (case x of None \<Rightarrow> d | Some v \<Rightarrow> v)"

definition decision_fingerprint :: "DecisionInput \<Rightarrow> string" where
  "decision_fingerprint d = fingerprint_hex
     (''cancel='' @ show_bool (di_cancellation_requested d) @
      ''|rec='' @ show_bool (di_i4_reconciliation_required d) @
      ''|proc='' @ show_bool (di_active_process d) @ ''|scan='' @ show_bool (di_active_scanner d) @
      ''|owner='' @ show_bool (di_ownership_fencing_ok d) @
      ''|wt='' @ show_bool (di_worktree_identity_ok d) @
      ''|outcome='' @ unwrap_or ''-'' (di_outcome_result d) @
      ''|next='' @ unwrap_or ''-'' (di_next_action d) @
      ''|steps='' @ show_bool (di_all_required_steps_passed d) @
      ''|ev='' @ show_bool (di_evidence_complete d) @ ''|dos='' @ show_bool (di_dossier_present d) @
      ''|dospel='' @ show_bool (di_dossier_fingerprint_matches d) @
      ''|sec='' @ show_bool (di_security_blocker d) @
      ''|budget='' @ show_bool (di_budget_exhausted_hard d) @
      ''|noprog='' @ show_bool (di_no_progress d) @ ''|cycle='' @ show_bool (di_cycle_detected d) @
      ''|infra='' @ show_bool (di_infrastructure_blocked d) @
      ''|repair='' @ show_bool (di_repairable d) @
      ''|scope='' @ show_bool (di_task_scope_insufficient d) @
      ''|fail='' @ unwrap_or ''-'' (di_primary_failure d))"

section \<open>The eligibility gate\<close>

text \<open>The columns of the verification tables that the gate reads. \<open>from_str\<close> is
  \<open>serde_json::from_str\<close> with the members of the parsed object.\<close>

record I4Db =
  i4_executions :: "(string \<times> string) list"  \<comment> \<open>\<open>execution_attempts\<close>: id, lifecycle\<close>
  i4_runs :: "(string \<times> string \<times> string \<times> string option) list"
    \<comment> \<open>\<open>verification_runs\<close>: \<open>run_id\<close>, \<open>execution_id\<close>, lifecycle, \<open>outcome_json\<close>\<close>
  i4_finalizations :: "(string \<times> string \<times> string option) list"
    \<comment> \<open>\<open>verification_finalization_operations\<close>: \<open>verification_run_id\<close>, lifecycle, \<open>dossier_json\<close>\<close>
  i4_steps :: "(string \<times> string) list"  \<comment> \<open>\<open>verification_step_operations\<close>: \<open>execution_id\<close>, status\<close>
  i4_reconciliations :: "(string \<times> string) list"
    \<comment> \<open>\<open>verification_reconciliation_operations\<close>: \<open>verification_run_id\<close>, lifecycle\<close>
  i4_worktrees :: "(string \<times> string) list"  \<comment> \<open>\<open>worktrees\<close>: id, \<open>execution_id\<close>\<close>
  i4_handoffs :: "(string \<times> string \<times> string) list"
    \<comment> \<open>\<open>resource_handoffs\<close>: \<open>handoff_id\<close>, \<open>execution_id\<close>, status\<close>

definition eligibility_default :: CompletionEligibility where
  "eligibility_default =
     \<lparr>el_execution_terminal = False, el_outcome_passed = False, el_verification_terminal = False,
      el_required_steps_complete = False, el_evidence_complete = False,
      el_dossier_fingerprint_valid = False, el_process_inactive = False, el_process_state_known = False,
      el_process_termination_confirmed = False, el_reconciliation_clear = False,
      el_workspace_valid = False, el_ownership_valid = False\<rparr>"

definition json_is_str :: "string \<Rightarrow> (string \<times> json_value) list \<Rightarrow> string \<Rightarrow> bool" where
  "json_is_str key v s \<longleftrightarrow> map_of v key = Some (JStr s)"

definition json_is_true :: "string \<Rightarrow> (string \<times> json_value) list \<Rightarrow> bool" where
  "json_is_true key v \<longleftrightarrow> map_of v key = Some (JBool True)"

definition run_row :: "string \<Rightarrow> I4Db \<Rightarrow> (string \<times> string \<times> string \<times> string option) option" where
  "run_row execution_id db = select_one (\<lambda>(_, e, _, _). e = execution_id) (i4_runs db)"

definition validate_completion_eligibility ::
  "(string \<Rightarrow> (string \<times> json_value) list option) \<Rightarrow> I4Db \<Rightarrow> string \<Rightarrow> CompletionEligibility" where
  "validate_completion_eligibility from_str db execution_id =
     (let e1 = (case select_one (\<lambda>(i, _). i = execution_id) (i4_executions db) of
            None \<Rightarrow> eligibility_default
          | Some (_, lc) \<Rightarrow> eligibility_default
              \<lparr>el_execution_terminal := (lc = ''completed'' \<or> lc = ''failed'' \<or> lc = ''cancelled'')\<rparr>);
          e2 = (case run_row execution_id db of
            None \<Rightarrow> e1
          | Some (_, _, v_lc, outcome_json) \<Rightarrow>
              (let e = e1\<lparr>el_verification_terminal :=
                     (v_lc = ''finalized'' \<or> v_lc = ''completed'' \<or> v_lc = ''blocked'')\<rparr>
               in case outcome_json of None \<Rightarrow> e | Some oj \<Rightarrow>
                 (case from_str oj of None \<Rightarrow> e | Some v \<Rightarrow>
                    e\<lparr>el_outcome_passed := json_is_str ''result'' v ''passed'',
                      el_required_steps_complete := json_is_true ''all_required_steps_passed'' v,
                      el_evidence_complete := json_is_true ''evidence_complete'' v\<rparr>)));
          run_id = map_option fst (run_row execution_id db);
          steps = filter (\<lambda>(e, _). e = execution_id) (i4_steps db)
      in e2\<lparr>el_dossier_fingerprint_valid := list_ex (\<lambda>(r, lc, dossier). Some r = run_id \<and>
              dossier \<noteq> None \<and> lc \<in> {''completed'', ''outcome_persisted''}) (i4_finalizations db),
            el_process_inactive := (rows_affected (\<lambda>(_, s). s = ''running'') steps = 0),
            el_process_state_known := (length steps > 0),
            el_process_termination_confirmed := (rows_affected (\<lambda>(_, s). s = ''process_unknown'') steps = 0),
            el_reconciliation_clear := (rows_affected (\<lambda>(r, lc). Some r = run_id \<and>
              lc \<notin> {''completed'', ''noop''}) (i4_reconciliations db) = 0),
            el_workspace_valid := list_ex (\<lambda>(_, e). e = execution_id) (i4_worktrees db),
            el_ownership_valid := list_ex (\<lambda>(_, e, s). e = execution_id \<and>
              s \<notin> {''released'', ''failed''}) (i4_handoffs db)\<rparr>)"

section \<open>Stored texts\<close>

lemma lifecycle_texts:
  "loop_parse (loop_as_str l) = l" "attempt_parse (attempt_as_str a) = a"
  "decision_parse (decision_as_str d) = Some d" "budget_mode_parse (budget_mode_as_str m) = Some m"
  "usage_policy_parse (usage_policy_as_str u) = Some u"
proof -
  show "loop_parse (loop_as_str l) = l" by (cases l) (simp_all add: loop_parse_def)
  show "attempt_parse (attempt_as_str a) = a" by (cases a) (simp_all add: attempt_parse_def)
  show "decision_parse (decision_as_str d) = Some d" by (cases d) (simp_all add: decision_parse_def)
  show "budget_mode_parse (budget_mode_as_str m) = Some m" by (cases m) (simp_all add: budget_mode_parse_def)
  show "usage_policy_parse (usage_policy_as_str u) = Some u" by (cases u) (simp_all add: usage_policy_parse_def)
qed

lemma loop_as_str_inj [simp]: "loop_as_str a = loop_as_str b \<longleftrightarrow> a = b"
  by (metis lifecycle_texts(1))

lemma attempt_as_str_inj [simp]: "attempt_as_str a = attempt_as_str b \<longleftrightarrow> a = b"
  by (metis lifecycle_texts(2))

lemma hex_digit_inj: "a < 16 \<Longrightarrow> b < 16 \<Longrightarrow> hex_digit a = hex_digit b \<Longrightarrow> a = b"
proof -
  assume ab: "a < 16" "b < 16" and eq: "hex_digit a = hex_digit b"
  let ?v = "\<lambda>d :: nat. if d < 10 then 48 + d else 87 + d"
  have lt: "?v a < 256" "?v b < 256" using ab by auto
  have "of_char (hex_digit a) = (of_char (hex_digit b) :: nat)" using eq by simp
  then have "?v a = ?v b" using lt by (simp add: hex_digit_def of_char_of)
  then show "a = b" using ab by (auto split: if_splits)
qed

lemma base16_eq:
  fixes m n :: nat
  assumes "\<And>i. i < k \<Longrightarrow> m div 16 ^ i mod 16 = n div 16 ^ i mod 16" and "m < 16 ^ k" and "n < 16 ^ k"
  shows "m = n"
  using assms
proof (induction k arbitrary: m n)
  case (Suc k)
  have "m div 16 div 16 ^ i mod 16 = n div 16 div 16 ^ i mod 16" if "i < k" for i
    using Suc.prems(1) [of "Suc i"] that by (simp add: div_mult2_eq)
  moreover have "m div 16 < 16 ^ k" "n div 16 < 16 ^ k"
    using Suc.prems(2,3) by (simp_all add: less_mult_imp_div_less mult.commute)
  ultimately have "m div 16 = n div 16" by (rule Suc.IH)
  moreover have "m mod 16 = n mod 16" using Suc.prems(1) [of 0] by simp
  ultimately show ?case by (metis div_mult_mod_eq)
qed simp

lemma hex_digits_inj: "hex_digits v = hex_digits w \<longleftrightarrow> v = w"
proof
  assume eq: "hex_digits v = hex_digits w"
  have "unat v div 16 ^ i mod 16 = unat w div 16 ^ i mod 16" if "i < 16" for i
  proof (rule hex_digit_inj)
    have "i \<in> set (rev [0..<16])" using that by simp
    then show "hex_digit (unat v div 16 ^ i mod 16) = hex_digit (unat w div 16 ^ i mod 16)"
      using eq unfolding hex_digits_def by (meson map_eq_conv)
  qed simp_all
  moreover have "unat v < 16 ^ 16" "unat w < 16 ^ 16"
    using unsigned_less [of v, where ?'a = nat] unsigned_less [of w, where ?'a = nat] by simp_all
  ultimately show "v = w" using base16_eq [of 16 "unat v" "unat w"] by (simp add: word_unat_eq_iff)
qed simp

section \<open>Cycles\<close>

lemma pairs_apart_iff:
  "(\<exists>i < length xs. \<exists>j < length xs. i + 2 \<le> j \<and> xs ! i = xs ! j \<and> (\<exists>k. i < k \<and> k < j \<and> xs ! k \<noteq> xs ! i)) \<longleftrightarrow>
   (\<exists>us a vs b ws zs. xs = us @ a # vs @ b # ws @ a # zs \<and> b \<noteq> a)"
  (is "?L \<longleftrightarrow> ?R")
proof
  assume ?L
  then obtain i j k where ij: "j < length xs" "xs ! i = xs ! j" "i < k" "k < j" "xs ! k \<noteq> xs ! i"
    by blast
  let ?t = "drop (Suc i) xs"
  let ?t2 = "drop (Suc k) xs"
  have "xs = take i xs @ xs ! i # ?t" using ij by (intro id_take_nth_drop) simp
  moreover have "?t = take (k - Suc i) ?t @ xs ! k # ?t2"
    using ij id_take_nth_drop [of "k - Suc i" ?t] by simp
  moreover have "?t2 = take (j - Suc k) ?t2 @ xs ! i # drop (Suc j) xs"
    using ij id_take_nth_drop [of "j - Suc k" ?t2] by simp
  ultimately have "xs = take i xs @ xs ! i # take (k - Suc i) ?t @ xs ! k # take (j - Suc k) ?t2 @
      xs ! i # drop (Suc j) xs" by metis
  with ij(5) show ?R by blast
next
  assume ?R
  then obtain us a vs b ws zs where xs: "xs = us @ a # vs @ b # ws @ a # zs" and ne: "b \<noteq> a" by blast
  let ?i = "length us" and ?k = "length us + 1 + length vs" and ?j = "length us + 2 + length vs + length ws"
  have "xs ! ?i = a" "xs ! ?k = b" "xs ! ?j = a"
    unfolding xs by (simp_all add: nth_append)
  moreover have "?i < length xs" "?j < length xs" unfolding xs by simp_all
  ultimately show ?L using ne
    by (intro exI [of _ ?i] exI [of _ ?j] exI [of _ ?k] conjI) auto
qed

lemma has_cycle_iff: "has_cycle xs \<longleftrightarrow> (\<exists>us a vs b ws zs. xs = us @ a # vs @ b # ws @ a # zs \<and> b \<noteq> a)"
proof -
  have mid: "filter (\<lambda>f. f \<noteq> a) (take (j - (i + 1)) (drop (i + 1) xs)) \<noteq> [] \<longleftrightarrow>
      (\<exists>k. i < k \<and> k < j \<and> xs ! k \<noteq> a)" if "j < length xs" for a i j
  proof
    assume "filter (\<lambda>f. f \<noteq> a) (take (j - (i + 1)) (drop (i + 1) xs)) \<noteq> []"
    then obtain n where "n < j - (i + 1)" "xs ! (i + 1 + n) \<noteq> a"
      using that by (auto simp: filter_empty_conv in_set_conv_nth)
    then show "\<exists>k. i < k \<and> k < j \<and> xs ! k \<noteq> a" by (intro exI [of _ "i + 1 + n"]) auto
  next
    assume "\<exists>k. i < k \<and> k < j \<and> xs ! k \<noteq> a"
    then obtain k where k: "i < k" "k < j" "xs ! k \<noteq> a" by blast
    then have "xs ! k \<in> set (take (j - (i + 1)) (drop (i + 1) xs))"
      using that by (intro in_set_conv_nth [THEN iffD2] exI [of _ "k - (i + 1)"]) simp
    with k(3) show "filter (\<lambda>f. f \<noteq> a) (take (j - (i + 1)) (drop (i + 1) xs)) \<noteq> []"
      by (auto simp: filter_empty_conv)
  qed
  have "has_cycle xs \<longleftrightarrow> (\<exists>i < length xs. \<exists>j < length xs. i + 2 \<le> j \<and> xs ! i = xs ! j \<and>
      (\<exists>k. i < k \<and> k < j \<and> xs ! k \<noteq> xs ! i))"
    (is "_ \<longleftrightarrow> (\<exists>i < length xs. \<exists>j < length xs. ?Q i j)")
  proof
    assume "has_cycle xs"
    then obtain i j where "i < length xs - 2" "i + 2 \<le> j" "j < length xs" "xs ! i = xs ! j"
      "filter (\<lambda>f. f \<noteq> xs ! i) (take (j - (i + 1)) (drop (i + 1) xs)) \<noteq> []"
      unfolding has_cycle_def list_ex_iff by auto
    then have "?Q i j" "i < length xs" "j < length xs" using mid [of j "xs ! i" i] by auto
    then show "\<exists>i < length xs. \<exists>j < length xs. ?Q i j" by blast
  next
    assume "\<exists>i < length xs. \<exists>j < length xs. ?Q i j"
    then obtain i j where q: "j < length xs" "?Q i j" by blast
    then have "filter (\<lambda>f. f \<noteq> xs ! i) (take (j - (i + 1)) (drop (i + 1) xs)) \<noteq> []"
      using mid [of j "xs ! i" i] by blast
    with q show "has_cycle xs" unfolding has_cycle_def list_ex_iff
      by (intro bexI [of _ i] bexI [of _ j]) auto
  qed
  then show ?thesis by (simp only: pairs_apart_iff)
qed

text \<open>
  C27. The cycle detector finds exactly the histories in which some fingerprint A is followed,
  later, by a different fingerprint B and, later again, by A.
\<close>

theorem detect_cycle_exact:
  "detect_cycle history \<longleftrightarrow>
     (\<exists>us a vs b ws zs. map progress_fingerprint history = us @ a # vs @ b # ws @ a # zs \<and> b \<noteq> a)"
proof (cases "length history < 3")
  case True
  have False if "map progress_fingerprint history = us @ a # vs @ b # ws @ a # zs" for us a vs b ws zs
    using True arg_cong [OF that, of length] by simp
  with True show ?thesis by (metis detect_cycle_def)
qed (simp add: detect_cycle_def has_cycle_iff)

section \<open>Hard limits\<close>

text \<open>What a hard limit admits: a counter below its \<open>u32\<close> limit; a known total below the signed
  reading of its \<open>u64\<close> limit; an unknown total only when usage counts as known.\<close>

definition counter_within :: "int \<Rightarrow> 32 word option \<Rightarrow> BudgetMode \<Rightarrow> bool" where
  "counter_within count limit mode \<longleftrightarrow> (mode = Mode_Hard \<longrightarrow> (\<forall>m. limit = Some m \<longrightarrow> count < uint m))"

definition total_within :: "bool \<Rightarrow> int option \<Rightarrow> 64 word option \<Rightarrow> BudgetMode \<Rightarrow> bool" where
  "total_within known val limit mode \<longleftrightarrow> (mode = Mode_Hard \<longrightarrow> (\<forall>m. limit = Some m \<longrightarrow>
     (case val of None \<Rightarrow> known | Some v \<Rightarrow> v < sint m)))"

lemma check_counter_None: "check_counter c m mode n = None \<longleftrightarrow> counter_within c m mode"
  by (auto simp: check_counter_def counter_within_def split: option.split)

lemma check_hard_None: "check_hard p k v m mode n = None \<longleftrightarrow> total_within k v m mode"
  by (auto simp: check_hard_def total_within_def split: option.split)

lemma check_not_Ok: "check_counter c m mode n \<noteq> Some BudgetOk" "check_hard p k v m' mode n \<noteq> Some BudgetOk"
  by (auto simp: check_counter_def check_hard_def split: option.split)

lemma first_report_Ok:
  assumes "\<And>r. r \<in> set checks \<Longrightarrow> r \<noteq> Some BudgetOk"
  shows "first_report checks = BudgetOk \<longleftrightarrow> (\<forall>r \<in> set checks. r = None)"
  using assms by (induction checks) (auto simp: first_report_def split: option.splits)

text \<open>
  C26. The budget check admits another attempt exactly when every hard limit is met: the four
  counters are below their limits, and each total, where it is known, is below its limit read as a
  signed 64-bit number. Limits in the other modes never block.
\<close>

theorem check_can_attempt_exact:
  "check_can_attempt p u = BudgetOk \<longleftrightarrow>
     counter_within (bu_attempt_count u) (bp_max_attempts p) (bp_max_attempts_mode p) \<and>
     counter_within (bu_no_progress_streak u) (bp_max_no_progress_streak p) (bp_max_no_progress_mode p) \<and>
     counter_within (bu_same_failure_streak u) (bp_max_same_failure_streak p) (bp_max_same_failure_mode p) \<and>
     counter_within (bu_profile_switch_count u) (bp_max_profile_switches p) (bp_max_profile_switches_mode p) \<and>
     (let within = total_within (bu_usage_known u)
      in within (bu_total_input_tokens u) (bp_max_input_tokens p) (bp_max_input_tokens_mode p) \<and>
         within (bu_total_output_tokens u) (bp_max_output_tokens p) (bp_max_output_tokens_mode p) \<and>
         within (bu_total_tokens u) (bp_max_total_tokens p) (bp_max_total_tokens_mode p) \<and>
         within (bu_total_tool_calls u) (bp_max_tool_calls p) (bp_max_tool_calls_mode p) \<and>
         within (bu_total_cost_micros u) (bp_max_estimated_cost_micros p)
           (bp_max_estimated_cost_micros_mode p) \<and>
         within (bu_total_wall_time_ms u) (bp_max_wall_time_ms p) (bp_max_wall_time_mode p))"
  unfolding check_can_attempt_def Let_def
  by (subst first_report_Ok) (auto simp: check_not_Ok check_not_Ok [symmetric] check_counter_None check_hard_None)

section \<open>Completion\<close>

lemma failed_gates_Nil: "failed_gates e = [] \<longleftrightarrow> all_passed e"
  by (simp add: failed_gates_def all_passed_def)

lemma classify_CompleteCandidate:
  "classify d = Dec_CompleteCandidate \<longleftrightarrow> \<not> di_cancellation_requested d \<and> is_complete_candidate d"
  by (auto simp: classify_def is_complete_candidate_def split: option.splits if_splits)

lemma eligible_run:
  assumes "all_passed (validate_completion_eligibility from_str db eid)"
  obtains rid vlc oj v where "run_row eid db = Some (rid, eid, vlc, Some oj)"
    "vlc \<in> {''finalized'', ''completed'', ''blocked''}" "from_str oj = Some v"
    "json_is_str ''result'' v ''passed''" "json_is_true ''all_required_steps_passed'' v"
    "json_is_true ''evidence_complete'' v"
proof -
  obtain rid e vlc ojo where row: "run_row eid db = Some (rid, e, vlc, ojo)"
    using assms by (cases "run_row eid db")
      (auto simp: all_passed_def validate_completion_eligibility_def Let_def eligibility_default_def
        split: option.splits)
  then have "e = eid" by (auto simp: run_row_def dest: select_one_Some)
  obtain oj v where "ojo = Some oj" "from_str oj = Some v"
    using assms row by (cases ojo; cases "from_str (the ojo)")
      (auto simp: all_passed_def validate_completion_eligibility_def Let_def eligibility_default_def
        split: option.splits)
  with assms row \<open>e = eid\<close> show ?thesis
    by (intro that [of rid vlc oj v])
       (auto simp: all_passed_def validate_completion_eligibility_def Let_def)
qed

lemma eligible_execution:
  assumes "all_passed (validate_completion_eligibility from_str db eid)"
  shows "\<exists>lc. (eid, lc) \<in> set (i4_executions db) \<and> lc \<in> {''completed'', ''failed'', ''cancelled''}"
proof (cases "select_one (\<lambda>(i, _). i = eid) (i4_executions db)")
  case None
  then show ?thesis using assms
    by (auto simp: all_passed_def validate_completion_eligibility_def Let_def eligibility_default_def
        split: option.splits)
next
  case (Some r)
  then have "r \<in> set (i4_executions db)" "fst r = eid" by (auto dest: select_one_Some)
  then show ?thesis using assms Some
    by (intro exI [of _ "snd r"])
       (auto simp: all_passed_def validate_completion_eligibility_def Let_def split: option.splits prod.splits)
qed

text \<open>
  C25. No completion without durable evidence: when the engine classifies an execution as a
  complete candidate with the token the gate computed for it, the caller asked for no cancellation,
  the execution has ended, its verification run ended with a stored outcome that says passed with all
  required steps and complete evidence, a finalisation holds the dossier, at least one step was
  recorded and none of its processes is running or of unknown fate, nothing is left to reconcile, and
  the worktree and a live handoff exist.
\<close>

theorem completion_gated:
  assumes "classify (d\<lparr>di_eligibility_token := Some (validate_completion_eligibility from_str db eid)\<rparr>) =
      Dec_CompleteCandidate"
  shows "\<not> di_cancellation_requested d \<and> \<not> di_active_process d \<and> di_ownership_fencing_ok d \<and>
    (\<exists>lc. (eid, lc) \<in> set (i4_executions db) \<and> lc \<in> {''completed'', ''failed'', ''cancelled''}) \<and>
    (\<exists>rid vlc oj v. (rid, eid, vlc, Some oj) \<in> set (i4_runs db) \<and>
       vlc \<in> {''finalized'', ''completed'', ''blocked''} \<and> from_str oj = Some v \<and>
       json_is_str ''result'' v ''passed'' \<and> json_is_true ''all_required_steps_passed'' v \<and>
       json_is_true ''evidence_complete'' v \<and>
       (\<exists>lc dossier. (rid, lc, Some dossier) \<in> set (i4_finalizations db) \<and>
          lc \<in> {''completed'', ''outcome_persisted''}) \<and>
       (\<forall>lc. (rid, lc) \<in> set (i4_reconciliations db) \<longrightarrow> lc \<in> {''completed'', ''noop''})) \<and>
    (\<exists>s. (eid, s) \<in> set (i4_steps db)) \<and>
    (\<forall>s. (eid, s) \<in> set (i4_steps db) \<longrightarrow> s \<notin> {''running'', ''process_unknown''}) \<and>
    (\<exists>w. (w, eid) \<in> set (i4_worktrees db)) \<and>
    (\<exists>h s. (h, eid, s) \<in> set (i4_handoffs db) \<and> s \<notin> {''released'', ''failed''})"
proof -
  let ?e = "validate_completion_eligibility from_str db eid"
  from assms have pass: "all_passed ?e" and flags: "\<not> di_cancellation_requested d"
    "\<not> di_active_process d" "di_ownership_fencing_ok d"
    by (auto simp: classify_CompleteCandidate is_complete_candidate_def split: if_splits)
  obtain rid vlc oj v where run: "run_row eid db = Some (rid, eid, vlc, Some oj)"
    "vlc \<in> {''finalized'', ''completed'', ''blocked''}" "from_str oj = Some v"
    "json_is_str ''result'' v ''passed''" "json_is_true ''all_required_steps_passed'' v"
    "json_is_true ''evidence_complete'' v" using eligible_run [OF pass] by blast
  then have row: "(rid, eid, vlc, Some oj) \<in> set (i4_runs db)"
    by (auto simp: run_row_def dest: select_one_Some)
  note unfold = all_passed_def validate_completion_eligibility_def Let_def
  have "\<exists>lc dossier. (rid, lc, Some dossier) \<in> set (i4_finalizations db) \<and>
      lc \<in> {''completed'', ''outcome_persisted''}"
    using pass run(1) by (fastforce simp: unfold list_ex_iff)
  moreover have "\<forall>lc. (rid, lc) \<in> set (i4_reconciliations db) \<longrightarrow> lc \<in> {''completed'', ''noop''}"
    using pass run(1) by (fastforce simp: unfold rows_affected_0_iff)
  moreover have "\<exists>s. (eid, s) \<in> set (i4_steps db)"
    using pass by (auto simp: unfold filter_empty_conv)
  moreover have "\<forall>s. (eid, s) \<in> set (i4_steps db) \<longrightarrow> s \<notin> {''running'', ''process_unknown''}"
    using pass by (auto simp: unfold rows_affected_0_iff)
  moreover have "\<exists>w. (w, eid) \<in> set (i4_worktrees db)"
    using pass by (auto simp: unfold list_ex_iff)
  moreover have "\<exists>h s. (h, eid, s) \<in> set (i4_handoffs db) \<and> s \<notin> {''released'', ''failed''}"
    using pass by (auto simp: unfold list_ex_iff)
  ultimately show ?thesis using flags run(2-6) row eligible_execution [OF pass] by blast
qed

definition sample_i4 :: I4Db where
  "sample_i4 = \<lparr>i4_executions = [(''e'', ''completed'')], i4_runs = [(''r'', ''e'', ''finalized'', Some ''{}'')],
     i4_finalizations = [(''r'', ''completed'', Some ''{}'')], i4_steps = [(''e'', ''completed'')],
     i4_reconciliations = [(''r'', ''noop'')], i4_worktrees = [(''w'', ''e'')],
     i4_handoffs = [(''h'', ''e'', ''active'')]\<rparr>"

definition sample_from_str :: "string \<Rightarrow> (string \<times> json_value) list option" where
  "sample_from_str s = Some [(''result'', JStr ''passed''), (''all_required_steps_passed'', JBool True),
     (''evidence_complete'', JBool True)]"

definition sample_input :: DecisionInput where
  "sample_input = \<lparr>di_cancellation_requested = False, di_i4_reconciliation_required = False,
     di_active_process = False, di_active_scanner = False, di_ownership_fencing_ok = True,
     di_worktree_identity_ok = True, di_outcome_result = Some ''passed'',
     di_next_action = Some ''CompleteCandidate'', di_all_required_steps_passed = True,
     di_evidence_complete = True, di_dossier_present = True, di_dossier_fingerprint_matches = True,
     di_security_blocker = False, di_budget_exhausted_hard = False, di_no_progress = False,
     di_cycle_detected = False, di_infrastructure_blocked = False, di_repairable = False,
     di_task_scope_insufficient = False, di_primary_failure = None, di_eligibility_token = None\<rparr>"

theorem completion_gated_witness:
  "classify (sample_input\<lparr>di_eligibility_token :=
      Some (validate_completion_eligibility sample_from_str sample_i4 ''e'')\<rparr>) = Dec_CompleteCandidate \<and>
   classify sample_input \<noteq> Dec_CompleteCandidate \<and>
   (\<exists>h s. (h, ''e'', s) \<in> set (i4_handoffs sample_i4) \<and> s \<notin> {''released'', ''failed''})"
proof -
  have run: "classify (sample_input\<lparr>di_eligibility_token :=
      Some (validate_completion_eligibility sample_from_str sample_i4 ''e'')\<rparr>) = Dec_CompleteCandidate"
    by code_simp
  moreover have "classify sample_input \<noteq> Dec_CompleteCandidate" by code_simp
  ultimately show ?thesis using completion_gated [OF run] by blast
qed

text \<open>The precedence table puts an infrastructure block above a completed candidate and above every
  stop; the engine ranks it below all of them.\<close>

theorem precedence_not_followed:
  "let d = sample_input\<lparr>di_outcome_result := None, di_infrastructure_blocked := True, di_no_progress := True\<rparr>
   in classify d = Dec_NoProgress \<and>
      the (map_of PRECEDENCE Dec_InfrastructureBlocked) < the (map_of PRECEDENCE Dec_NoProgress)"
  by code_simp

end
