(* ===== verification/Versioned_Table.thy ===== *)
theory Versioned_Table
  imports Prelude
begin

text \<open>
  The contract behind optimistic concurrency control. A table has a key, and every row a version and
  a fencing token; a step may add rows and change rows, but a changed row has a greater version, and a
  token never decreases. The lemmas are what every client of such a table relies on: a version or a
  token that was passed once never comes back, whatever other writers do in between.
\<close>

definition row_succ ::
  "('r \<Rightarrow> 'k) \<Rightarrow> ('r \<Rightarrow> int) \<Rightarrow> ('r \<Rightarrow> int) \<Rightarrow> 'r \<Rightarrow> 'r \<Rightarrow> bool" where
  "row_succ key version token r r' \<longleftrightarrow>
     key r' = key r \<and> token r \<le> token r' \<and> (r' = r \<or> version r < version r')"

lemma row_succ_refl [simp]: "row_succ key version token r r"
  by (simp add: row_succ_def)

lemma row_kept: "r \<in> set rows \<Longrightarrow> \<exists>r' \<in> set rows. row_succ key version token r r'"
  by (blast intro: row_succ_refl)

lemma row_succ_trans:
  "row_succ key version token a b \<Longrightarrow> row_succ key version token b c \<Longrightarrow> row_succ key version token a c"
  by (auto simp: row_succ_def)

text \<open>An update that increments the version and keeps the key is such a step on every row.\<close>

lemma update_where_row_succ:
  assumes "\<And>r. P r \<Longrightarrow> row_succ key version token r (f r)" and "r \<in> set rows"
  shows "\<exists>r' \<in> set (update_where P f rows). row_succ key version token r r'"
proof -
  have "(if P r then f r else r) \<in> set (update_where P f rows)"
    using assms(2) by (auto simp: set_update_where)
  moreover have "row_succ key version token r (if P r then f r else r)" using assms(1) by simp
  ultimately show ?thesis by blast
qed

locale versioned_table =
  fixes step :: "'r list \<Rightarrow> 'r list \<Rightarrow> bool"
    and ok :: "'r list \<Rightarrow> bool"
    and key :: "'r \<Rightarrow> 'k"
    and version :: "'r \<Rightarrow> int"
    and token :: "'r \<Rightarrow> int"
  assumes key_unique: "ok rows \<Longrightarrow> distinct (map key rows)"
    and step_ok: "step rows rows' \<Longrightarrow> ok rows \<Longrightarrow> ok rows'"
    and step_row: "step rows rows' \<Longrightarrow> ok rows \<Longrightarrow> r \<in> set rows \<Longrightarrow>
      \<exists>r' \<in> set rows'. row_succ key version token r r'"
begin

lemma steps_ok: "step\<^sup>*\<^sup>* rows rows' \<Longrightarrow> ok rows \<Longrightarrow> ok rows'"
  by (induction rule: rtranclp_induct) (auto intro: step_ok)

lemma steps_row:
  assumes "step\<^sup>*\<^sup>* rows rows'" and "ok rows" and "r \<in> set rows"
  shows "\<exists>r' \<in> set rows'. row_succ key version token r r'"
  using assms
proof (induction rule: rtranclp_induct)
  case (step ys zs)
  then obtain r1 where r1: "r1 \<in> set ys" "row_succ key version token r r1" by blast
  have "ok ys" using step.hyps(1) step.prems(1) by (rule steps_ok)
  then obtain r2 where "r2 \<in> set zs" "row_succ key version token r1 r2"
    using step_row [OF step.hyps(2)] r1(1) by blast
  with r1(2) show ?case by (blast intro: row_succ_trans)
qed (blast intro: row_succ_refl)

text \<open>In every later state, the row with a key that was present is a successor of the row it was.\<close>

lemma later_row:
  assumes "step\<^sup>*\<^sup>* rows rows'" and "ok rows" and "r \<in> set rows" and "q \<in> set rows'" and "key q = key r"
  shows "row_succ key version token r q"
proof -
  obtain r' where r': "r' \<in> set rows'" "row_succ key version token r r'"
    using steps_row [OF assms(1-3)] by blast
  moreover have "distinct (map key rows')" using steps_ok [OF assms(1,2)] by (rule key_unique)
  ultimately have "r' = q" using assms(4,5) distinct_key_eq [of key rows' r' q] by (simp add: row_succ_def)
  with r'(2) show ?thesis by simp
qed

lemma version_never_back:
  assumes "step\<^sup>*\<^sup>* rows rows'" and "ok rows" and "r \<in> set rows" and "v < version r"
    and "q \<in> set rows'" and "key q = key r"
  shows "version q \<noteq> v"
  using later_row [OF assms(1-3,5,6)] assms(4) by (auto simp: row_succ_def)

lemma token_never_back:
  assumes "step\<^sup>*\<^sup>* rows rows'" and "ok rows" and "r \<in> set rows" and "t < token r"
    and "q \<in> set rows'" and "key q = key r"
  shows "token q \<noteq> t"
  using later_row [OF assms(1-3,5,6)] assms(4) by (auto simp: row_succ_def)

end

end
