(* ===== verification/Task_Loop_Repo.thy ===== *)
theory Task_Loop_Repo
  imports Task_Decision Idempotency Versioned_Table
begin

text \<open>
  \<open>TaskLoopRepo\<close> of \<open>harness-runtime/src/task_loop/repo.rs\<close> and the event writer of \<open>events.rs\<close>: the
  tables of the task engineering loop and one definition per statement. A statement is atomic; the
  unique constraints of the schema are written out, and an \<open>UPDATE\<close> whose result would break one is an
  error that changes nothing. A row keeps its enumerations as text (\<open>string TaskLoopRow\<close>); a loaded row
  has them parsed (\<open>LoopLifecycle TaskLoopRow\<close>). Fault injection, which only tests switch on, is not
  modelled.
\<close>

section \<open>Rows\<close>

record 'l TaskLoopRow =
  tl_loop_id :: string
  tl_project_id :: string
  tl_task_id :: string
  tl_lifecycle :: 'l
  tl_policy_json :: string
  tl_policy_fingerprint :: "string option"
  tl_idempotency_key :: string
  tl_request_hash :: string
  tl_owner_id :: "string option"
  tl_fencing_token :: int
  tl_lease_expires_at :: "int option"
  tl_active_attempt_id :: "string option"
  tl_current_attempt_ordinal :: int
  tl_attempt_count :: int
  tl_no_progress_streak :: int
  tl_same_failure_streak :: int
  tl_profile_switch_count :: int
  tl_started_at :: "int option"
  tl_updated_at :: int
  tl_terminal_at :: "int option"
  tl_last_error_classification :: "string option"
  tl_version :: int

datatype WorkspaceSourceKind = SrcKind_Initial | SrcKind_ContinueFromAttempt

primrec source_kind_as_str :: "WorkspaceSourceKind \<Rightarrow> string" where
  "source_kind_as_str SrcKind_Initial = ''initial''"
| "source_kind_as_str SrcKind_ContinueFromAttempt = ''continue_from_attempt''"

definition source_kind_parse :: "string \<Rightarrow> WorkspaceSourceKind" where
  "source_kind_parse s = (if s = ''continue_from_attempt'' then SrcKind_ContinueFromAttempt else SrcKind_Initial)"

record ('k, 'l) TaskAttemptRow =
  ta_attempt_id :: string
  ta_loop_id :: string
  ta_ordinal :: int
  ta_parent_attempt_id :: "string option"
  ta_execution_id :: "string option"
  ta_verification_run_id :: "string option"
  ta_context_pack_id :: "string option"
  ta_runtime_profile_id :: string
  ta_workspace_source_kind :: 'k
  ta_source_execution_id :: "string option"
  ta_source_worktree_id :: "string option"
  ta_source_baseline_commit :: "string option"
  ta_source_head :: "string option"
  ta_source_diff_fingerprint :: "string option"
  ta_lifecycle :: 'l
  ta_outcome_kind :: "string option"
  ta_outcome_fingerprint :: "string option"
  ta_dossier_fingerprint :: "string option"
  ta_decision_id :: "string option"
  ta_started_at :: "int option"
  ta_terminal_at :: "int option"
  ta_version :: int

record DecisionRow =
  dr_decision_id :: string
  dr_loop_id :: string
  dr_attempt_id :: string
  dr_classification :: string
  dr_action :: string
  dr_reason_codes_json :: string
  dr_observed_state_fingerprint :: "string option"
  dr_outcome_fingerprint :: "string option"
  dr_dossier_fingerprint :: "string option"
  dr_progress_fingerprint :: "string option"
  dr_budget_snapshot_fingerprint :: "string option"
  dr_selected_profile_id :: "string option"
  dr_next_context_pack_id :: "string option"
  dr_idempotency_key :: string
  dr_request_hash :: string

record ContextPackRow =
  cp_context_pack_id :: string
  cp_loop_id :: string
  cp_source_attempt_id :: "string option"
  cp_target_attempt_ordinal :: int
  cp_schema_version :: int
  cp_payload_json :: string
  cp_source_fingerprints_json :: string
  cp_context_fingerprint :: string
  cp_estimated_input_tokens :: "int option"
  cp_validation_status :: string

record UsageLedgerRow =
  ul_usage_id :: string
  ul_loop_id :: string
  ul_attempt_id :: string
  ul_execution_id :: "string option"
  ul_runtime_profile_id :: string
  ul_model_identifier :: "string option"
  ul_provider_identifier :: "string option"
  ul_input_tokens :: "int option"
  ul_output_tokens :: "int option"
  ul_cached_input_tokens :: "int option"
  ul_tool_calls :: "int option"
  ul_wall_time_ms :: "int option"
  ul_estimated_cost_micros :: "int option"
  ul_usage_source :: string
  ul_usage_known :: bool
  ul_usage_fingerprint :: "string option"
  ul_idempotency_key :: string

record LoopUsageSummary =
  us_total_input_tokens :: "int option"
  us_total_output_tokens :: "int option"
  us_total_cached_input_tokens :: "int option"
  us_total_tool_calls :: "int option"
  us_total_wall_time_ms :: "int option"
  us_total_estimated_cost_micros :: "int option"

datatype LoopOperationKind =
    Op_CreateLoop | Op_AcquireLoopOwnership | Op_PrepareAttempt | Op_CreateExecution | Op_DispatchAttempt
  | Op_ObserveAttemptOutcome | Op_RecordDecision | Op_CreateContextPack | Op_AdvanceLoop | Op_CancelLoop
  | Op_ReconcileLoop

primrec loop_op_as_str :: "LoopOperationKind \<Rightarrow> string" where
  "loop_op_as_str Op_CreateLoop = ''create_loop''"
| "loop_op_as_str Op_AcquireLoopOwnership = ''acquire_loop_ownership''"
| "loop_op_as_str Op_PrepareAttempt = ''prepare_attempt''"
| "loop_op_as_str Op_CreateExecution = ''create_execution''"
| "loop_op_as_str Op_DispatchAttempt = ''dispatch_attempt''"
| "loop_op_as_str Op_ObserveAttemptOutcome = ''observe_attempt_outcome''"
| "loop_op_as_str Op_RecordDecision = ''record_decision''"
| "loop_op_as_str Op_CreateContextPack = ''create_context_pack''"
| "loop_op_as_str Op_AdvanceLoop = ''advance_loop''"
| "loop_op_as_str Op_CancelLoop = ''cancel_loop''"
| "loop_op_as_str Op_ReconcileLoop = ''reconcile_loop''"

record LoopOperationRow =
  lo_operation_id :: string
  lo_loop_id :: string
  lo_operation_kind :: string
  lo_idempotency_key :: string
  lo_request_hash :: string
  lo_observed_state_fingerprint :: "string option"
  lo_lifecycle :: string
  lo_owner_id :: "string option"
  lo_fencing_token :: "int option"
  lo_result_fingerprint :: "string option"
  lo_terminal_at :: "int option"

type_synonym loop_table = "string TaskLoopRow list"
type_synonym attempt_table = "(string, string) TaskAttemptRow list"

record LoopDb =
  ldb_loops :: loop_table
  ldb_attempts :: attempt_table
  ldb_decisions :: "DecisionRow list"
  ldb_packs :: "ContextPackRow list"
  ldb_usage :: "UsageLedgerRow list"
  ldb_operations :: "LoopOperationRow list"
  ldb_events :: "EventLogEntry list"

definition row_to_loop :: "string TaskLoopRow \<Rightarrow> LoopLifecycle TaskLoopRow" where
  "row_to_loop r =
     \<lparr>tl_loop_id = tl_loop_id r, tl_project_id = tl_project_id r, tl_task_id = tl_task_id r,
      tl_lifecycle = loop_parse (tl_lifecycle r), tl_policy_json = tl_policy_json r,
      tl_policy_fingerprint = tl_policy_fingerprint r, tl_idempotency_key = tl_idempotency_key r,
      tl_request_hash = tl_request_hash r, tl_owner_id = tl_owner_id r,
      tl_fencing_token = tl_fencing_token r, tl_lease_expires_at = tl_lease_expires_at r,
      tl_active_attempt_id = tl_active_attempt_id r,
      tl_current_attempt_ordinal = tl_current_attempt_ordinal r, tl_attempt_count = tl_attempt_count r,
      tl_no_progress_streak = tl_no_progress_streak r, tl_same_failure_streak = tl_same_failure_streak r,
      tl_profile_switch_count = tl_profile_switch_count r, tl_started_at = tl_started_at r,
      tl_updated_at = tl_updated_at r, tl_terminal_at = tl_terminal_at r, tl_last_error_classification = tl_last_error_classification r,
      tl_version = tl_version r\<rparr>"

definition row_to_attempt ::
  "(string, string) TaskAttemptRow \<Rightarrow> (WorkspaceSourceKind, AttemptLifecycle) TaskAttemptRow" where
  "row_to_attempt r =
     \<lparr>ta_attempt_id = ta_attempt_id r, ta_loop_id = ta_loop_id r, ta_ordinal = ta_ordinal r,
      ta_parent_attempt_id = ta_parent_attempt_id r, ta_execution_id = ta_execution_id r,
      ta_verification_run_id = ta_verification_run_id r, ta_context_pack_id = ta_context_pack_id r,
      ta_runtime_profile_id = ta_runtime_profile_id r,
      ta_workspace_source_kind = source_kind_parse (ta_workspace_source_kind r),
      ta_source_execution_id = ta_source_execution_id r, ta_source_worktree_id = ta_source_worktree_id r,
      ta_source_baseline_commit = ta_source_baseline_commit r, ta_source_head = ta_source_head r,
      ta_source_diff_fingerprint = ta_source_diff_fingerprint r,
      ta_lifecycle = attempt_parse (ta_lifecycle r), ta_outcome_kind = ta_outcome_kind r,
      ta_outcome_fingerprint = ta_outcome_fingerprint r, ta_dossier_fingerprint = ta_dossier_fingerprint r,
      ta_decision_id = ta_decision_id r, ta_started_at = ta_started_at r, ta_terminal_at = ta_terminal_at r,
      ta_version = ta_version r\<rparr>"

section \<open>Constraints\<close>

definition row_open :: "string TaskLoopRow \<Rightarrow> bool" where
  "row_open r \<longleftrightarrow> tl_lifecycle r \<notin>
     {''complete_candidate'', ''budget_exhausted'', ''no_progress'', ''non_retryable'', ''escalated'',
      ''cancelled'', ''failed''}"

definition loops_ok :: "loop_table \<Rightarrow> bool" where
  "loops_ok rows \<longleftrightarrow> distinct (map tl_loop_id rows) \<and> distinct (map tl_idempotency_key rows) \<and>
     distinct (map tl_task_id (filter row_open rows))"

definition attempt_open :: "(string, string) TaskAttemptRow \<Rightarrow> bool" where
  "attempt_open r \<longleftrightarrow> ta_lifecycle r \<notin> {''terminal'', ''cancelled'', ''failed''}"

definition attempts_ok :: "attempt_table \<Rightarrow> bool" where
  "attempts_ok rows \<longleftrightarrow> distinct (map ta_attempt_id rows) \<and>
     distinct (map (\<lambda>r. (ta_loop_id r, ta_ordinal r)) rows) \<and>
     distinct (map ta_loop_id (filter attempt_open rows)) \<and>
     distinct (map ta_execution_id (filter (\<lambda>r. ta_execution_id r \<noteq> None) rows))"

text \<open>An \<open>UPDATE\<close> on a table with constraints: the number of rows it changed, or the error.\<close>

definition update_checked ::
  "('r list \<Rightarrow> bool) \<Rightarrow> string \<Rightarrow> ('r \<Rightarrow> bool) \<Rightarrow> ('r \<Rightarrow> 'r) \<Rightarrow> 'r list \<Rightarrow> (string, nat) result \<times> 'r list" where
  "update_checked ok what P f rows =
     (let rows' = update_where P f rows
      in if ok rows' then (Inr (rows_affected P rows), rows')
         else (Inl (what @ '': UNIQUE constraint failed''), rows))"

section \<open>Statements on loops\<close>

record CreateLoopRequest =
  cl_project_id :: string
  cl_task_id :: string
  cl_policy_json :: string
  cl_policy_fingerprint :: string
  cl_idempotency_key :: string
  cl_request_hash :: string
  cl_owner_id :: string
  cl_lease_secs :: nat

datatype CreateLoopOutcome =
    LoopCreated string
  | LoopDuplicate string
  | LoopIdempotencyConflict string
  | TaskAlreadyHasActiveLoop string
  | LoopInfrastructureError string

definition new_loop_row :: "string \<Rightarrow> int \<Rightarrow> CreateLoopRequest \<Rightarrow> string TaskLoopRow" where
  "new_loop_row loop_id now req =
     \<lparr>tl_loop_id = loop_id, tl_project_id = cl_project_id req, tl_task_id = cl_task_id req,
      tl_lifecycle = ''created'', tl_policy_json = cl_policy_json req,
      tl_policy_fingerprint = Some (cl_policy_fingerprint req),
      tl_idempotency_key = cl_idempotency_key req, tl_request_hash = cl_request_hash req,
      tl_owner_id = Some (cl_owner_id req), tl_fencing_token = 1,
      tl_lease_expires_at = Some (now + int (cl_lease_secs req)), tl_active_attempt_id = None,
      tl_current_attempt_ordinal = 0, tl_attempt_count = 0, tl_no_progress_streak = 0,
      tl_same_failure_streak = 0, tl_profile_switch_count = 0, tl_started_at = None,
      tl_updated_at = now, tl_terminal_at = None, tl_last_error_classification = None, tl_version = 1\<rparr>"

text \<open>\<open>INSERT .. ON CONFLICT(idempotency_key) DO NOTHING\<close>: the key is checked first, another broken
  constraint is an error.\<close>

definition insert_loop ::
  "string \<Rightarrow> int \<Rightarrow> CreateLoopRequest \<Rightarrow> loop_table \<Rightarrow> (string, bool) result \<times> loop_table" where
  "insert_loop loop_id now req rows =
     (let row = new_loop_row loop_id now req
      in if list_ex (\<lambda>r. tl_idempotency_key r = tl_idempotency_key row) rows then (Inr False, rows)
         else if \<not> loops_ok (rows @ [row]) then (Inl ''insert loop: UNIQUE constraint failed'', rows)
         else (Inr True, rows @ [row]))"

definition loop_by_key :: "string \<Rightarrow> loop_table \<Rightarrow> string TaskLoopRow option" where
  "loop_by_key key rows = select_one (\<lambda>r. tl_idempotency_key r = key) rows"

definition repo_create_loop ::
  "string \<Rightarrow> int \<Rightarrow> CreateLoopRequest \<Rightarrow> loop_table \<Rightarrow> (string, CreateLoopOutcome) result \<times> loop_table" where
  "repo_create_loop uuid now req rows =
     (case loop_by_key (cl_idempotency_key req) rows of
        Some r \<Rightarrow>
          (Inr (if tl_request_hash r = cl_request_hash req then LoopDuplicate (tl_loop_id r)
                else LoopIdempotencyConflict (tl_request_hash r)), rows)
      | None \<Rightarrow>
        (case select_one (\<lambda>r. tl_task_id r = cl_task_id req \<and> row_open r) rows of
           Some r \<Rightarrow> (Inr (TaskAlreadyHasActiveLoop (tl_loop_id r)), rows)
         | None \<Rightarrow>
           (case insert_loop (''tl-'' @ uuid) now req rows of
              (Inl e, rows') \<Rightarrow> (Inl e, rows')
            | (Inr False, rows') \<Rightarrow>
                (Inr (case loop_by_key (cl_idempotency_key req) rows' of
                        Some w \<Rightarrow> if tl_request_hash w = cl_request_hash req then LoopDuplicate (tl_loop_id w)
                                  else LoopIdempotencyConflict (tl_request_hash w)
                      | None \<Rightarrow> LoopInfrastructureError ''loop row vanished after conflict''), rows')
            | (Inr True, rows') \<Rightarrow> (Inr (LoopCreated (''tl-'' @ uuid)), rows'))))"

definition load_loop :: "string \<Rightarrow> loop_table \<Rightarrow> LoopLifecycle TaskLoopRow option" where
  "load_loop loop_id rows = map_option row_to_loop (select_one (\<lambda>r. tl_loop_id r = loop_id) rows)"

definition load_active_for_task :: "string \<Rightarrow> loop_table \<Rightarrow> LoopLifecycle TaskLoopRow option" where
  "load_active_for_task task_id rows =
     map_option row_to_loop (select_one (\<lambda>r. tl_task_id r = task_id \<and> row_open r) rows)"

text \<open>The version a compare-and-swap update returns: the next one when it changed its row.\<close>

definition cas_result :: "int \<Rightarrow> (string, nat) result \<Rightarrow> (string, int option) result" where
  "cas_result expected_version r =
     and_then r (\<lambda>n. Inr (if n = 1 then Some (expected_version + 1) else None))"

definition acquire_ownership ::
  "int \<Rightarrow> string \<Rightarrow> int \<Rightarrow> int \<Rightarrow> string \<Rightarrow> nat \<Rightarrow> loop_table \<Rightarrow> (string, int option) result \<times> loop_table" where
  "acquire_ownership now loop_id expected_version expected_fencing owner_id lease_secs rows =
     (let (r, rows') = update_checked loops_ok ''acquire ownership''
            (\<lambda>l. tl_loop_id l = loop_id \<and> tl_version l = expected_version \<and> tl_owner_id l = Some owner_id \<and>
                 tl_fencing_token l = expected_fencing \<and> row_open l)
            (\<lambda>l. l\<lparr>tl_lease_expires_at := Some (now + int lease_secs), tl_updated_at := now,
                   tl_version := tl_version l + 1\<rparr>) rows
      in (cas_result expected_version r, rows'))"

definition takeover_ownership ::
  "int \<Rightarrow> string \<Rightarrow> int \<Rightarrow> string \<Rightarrow> nat \<Rightarrow> loop_table \<Rightarrow> (string, int option) result \<times> loop_table" where
  "takeover_ownership now loop_id expected_version new_owner_id lease_secs rows =
     (let (r, rows') = update_checked loops_ok ''takeover ownership''
            (\<lambda>l. tl_loop_id l = loop_id \<and> tl_version l = expected_version \<and>
                 expired_at now (tl_lease_expires_at l) \<and> row_open l)
            (\<lambda>l. l\<lparr>tl_owner_id := Some new_owner_id, tl_fencing_token := tl_fencing_token l + 1,
                   tl_lease_expires_at := Some (now + int lease_secs), tl_updated_at := now,
                   tl_version := tl_version l + 1\<rparr>) rows
      in (cas_result expected_version r, rows'))"

definition transition_loop ::
  "int \<Rightarrow> string \<Rightarrow> int \<Rightarrow> int \<Rightarrow> string \<Rightarrow> LoopLifecycle \<Rightarrow> string option \<Rightarrow> loop_table \<Rightarrow>
   (string, int option) result \<times> loop_table" where
  "transition_loop now loop_id expected_version expected_fencing owner_id new_lifecycle error_classification rows =
     (let terminal_at = (if loop_is_terminal new_lifecycle then Some now else None);
          P = (\<lambda>l. tl_loop_id l = loop_id \<and> tl_version l = expected_version \<and>
                   tl_fencing_token l = expected_fencing \<and> tl_owner_id l = Some owner_id);
          (r, rows') = update_checked loops_ok ''transition loop'' P
            (\<lambda>l. (case terminal_at of
                    Some ta \<Rightarrow> l\<lparr>tl_lifecycle := loop_as_str new_lifecycle, tl_terminal_at := Some ta,
                                 tl_last_error_classification := error_classification,
                                 tl_updated_at := now,
                   tl_version := tl_version l + 1\<rparr>
                  | None \<Rightarrow> l\<lparr>tl_lifecycle := loop_as_str new_lifecycle,
                              tl_last_error_classification := error_classification,
                              tl_updated_at := now,
                   tl_version := tl_version l + 1\<rparr>)) rows
      in (cas_result expected_version r, rows'))"

definition update_loop_counters ::
  "int \<Rightarrow> string \<Rightarrow> int \<Rightarrow> string \<Rightarrow> int \<Rightarrow> int \<Rightarrow> int \<Rightarrow> int \<Rightarrow> loop_table \<Rightarrow> (string, bool) result \<times> loop_table" where
  "update_loop_counters now loop_id expected_version active_attempt_id attempt_count no_progress_streak
     same_failure_streak current_attempt_ordinal rows =
     (let (r, rows') = update_checked loops_ok ''update counters''
            (\<lambda>l. tl_loop_id l = loop_id \<and> tl_version l = expected_version)
            (\<lambda>l. l\<lparr>tl_active_attempt_id := Some active_attempt_id, tl_attempt_count := attempt_count,
                   tl_no_progress_streak := no_progress_streak,
                   tl_same_failure_streak := same_failure_streak,
                   tl_current_attempt_ordinal := current_attempt_ordinal,
                   tl_updated_at := now,
                   tl_version := tl_version l + 1\<rparr>) rows
      in (and_then r (\<lambda>n. Inr (n = 1)), rows'))"

section \<open>Statements on attempts\<close>

text \<open>The arguments of \<open>insert_attempt\<close>.\<close>

record NewAttempt =
  na_attempt_id :: string
  na_loop_id :: string
  na_ordinal :: int
  na_parent_attempt_id :: "string option"
  na_context_pack_id :: "string option"
  na_runtime_profile_id :: string
  na_workspace_source_kind :: WorkspaceSourceKind
  na_source_execution_id :: "string option"
  na_source_worktree_id :: "string option"
  na_source_baseline_commit :: "string option"
  na_source_head :: "string option"
  na_source_diff_fingerprint :: "string option"

definition new_attempt_row :: "NewAttempt \<Rightarrow> (string, string) TaskAttemptRow" where
  "new_attempt_row a =
     \<lparr>ta_attempt_id = na_attempt_id a, ta_loop_id = na_loop_id a, ta_ordinal = na_ordinal a,
      ta_parent_attempt_id = na_parent_attempt_id a, ta_execution_id = None,
      ta_verification_run_id = None, ta_context_pack_id = na_context_pack_id a,
      ta_runtime_profile_id = na_runtime_profile_id a,
      ta_workspace_source_kind = source_kind_as_str (na_workspace_source_kind a),
      ta_source_execution_id = na_source_execution_id a, ta_source_worktree_id = na_source_worktree_id a,
      ta_source_baseline_commit = na_source_baseline_commit a, ta_source_head = na_source_head a,
      ta_source_diff_fingerprint = na_source_diff_fingerprint a, ta_lifecycle = ''created'',
      ta_outcome_kind = None, ta_outcome_fingerprint = None, ta_dossier_fingerprint = None,
      ta_decision_id = None, ta_started_at = None, ta_terminal_at = None, ta_version = 1\<rparr>"

definition insert_attempt :: "NewAttempt \<Rightarrow> attempt_table \<Rightarrow> (string, bool) result \<times> attempt_table" where
  "insert_attempt a rows =
     (let row = new_attempt_row a
      in if list_ex (\<lambda>r. ta_loop_id r = ta_loop_id row \<and> ta_ordinal r = ta_ordinal row) rows
           then (Inr False, rows)
         else if \<not> attempts_ok (rows @ [row]) then (Inl ''insert attempt: UNIQUE constraint failed'', rows)
         else (Inr True, rows @ [row]))"

type_synonym loaded_attempt = "(WorkspaceSourceKind, AttemptLifecycle) TaskAttemptRow"

definition load_attempt :: "string \<Rightarrow> attempt_table \<Rightarrow> loaded_attempt option" where
  "load_attempt attempt_id rows = map_option row_to_attempt (select_one (\<lambda>r. ta_attempt_id r = attempt_id) rows)"

definition load_active_attempt :: "string \<Rightarrow> attempt_table \<Rightarrow> loaded_attempt option" where
  "load_active_attempt loop_id rows =
     map_option row_to_attempt (select_one (\<lambda>r. ta_loop_id r = loop_id \<and> attempt_open r) rows)"

definition repo_bind_execution ::
  "int \<Rightarrow> string \<Rightarrow> int \<Rightarrow> string \<Rightarrow> AttemptLifecycle \<Rightarrow> attempt_table \<Rightarrow>
   (string, bool) result \<times> attempt_table" where
  "repo_bind_execution now attempt_id expected_version execution_id new_lifecycle rows =
     (let (r, rows') = update_checked attempts_ok ''bind execution''
            (\<lambda>a. ta_attempt_id a = attempt_id \<and> ta_version a = expected_version)
            (\<lambda>a. a\<lparr>ta_execution_id := Some execution_id, ta_lifecycle := attempt_as_str new_lifecycle,
                   ta_started_at := Some now, ta_version := ta_version a + 1\<rparr>) rows
      in (and_then r (\<lambda>n. Inr (n = 1)), rows'))"

definition terminal_attempt ::
  "int \<Rightarrow> string \<Rightarrow> int \<Rightarrow> string \<Rightarrow> string \<Rightarrow> string \<Rightarrow> string \<Rightarrow> string \<Rightarrow> attempt_table \<Rightarrow>
   (string, bool) result \<times> attempt_table" where
  "terminal_attempt now attempt_id expected_version verification_run_id outcome_kind outcome_fingerprint
     dossier_fingerprint decision_id rows =
     (let (r, rows') = update_checked attempts_ok ''terminal attempt''
            (\<lambda>a. ta_attempt_id a = attempt_id \<and> ta_version a = expected_version)
            (\<lambda>a. a\<lparr>ta_lifecycle := ''terminal'', ta_verification_run_id := Some verification_run_id,
                   ta_outcome_kind := Some outcome_kind, ta_outcome_fingerprint := Some outcome_fingerprint,
                   ta_dossier_fingerprint := Some dossier_fingerprint, ta_decision_id := Some decision_id,
                   ta_terminal_at := Some now, ta_version := ta_version a + 1\<rparr>) rows
      in (and_then r (\<lambda>n. Inr (n = 1)), rows'))"

definition cancel_attempt ::
  "int \<Rightarrow> string \<Rightarrow> int \<Rightarrow> attempt_table \<Rightarrow> (string, bool) result \<times> attempt_table" where
  "cancel_attempt now attempt_id expected_version rows =
     (let (r, rows') = update_checked attempts_ok ''cancel attempt''
            (\<lambda>a. ta_attempt_id a = attempt_id \<and> ta_version a = expected_version)
            (\<lambda>a. a\<lparr>ta_lifecycle := ''cancelled'', ta_terminal_at := Some now,
                   ta_version := ta_version a + 1\<rparr>) rows
      in (and_then r (\<lambda>n. Inr (n = 1)), rows'))"

section \<open>Decisions, context packs, usage and operations\<close>

text \<open>\<open>ON CONFLICT(idempotency_key) DO NOTHING\<close> on the append-only tables: a repeated key is no
  insertion, another broken constraint an error.\<close>

definition insert_keyed ::
  "string \<Rightarrow> ('r \<Rightarrow> string) \<Rightarrow> ('r \<Rightarrow> string) \<Rightarrow> 'r \<Rightarrow> 'r list \<Rightarrow> (string, bool) result \<times> 'r list" where
  "insert_keyed what key ident row rows =
     (if list_ex (\<lambda>r. key r = key row) rows then (Inr False, rows)
      else if list_ex (\<lambda>r. ident r = ident row) rows then (Inl (what @ '': UNIQUE constraint failed''), rows)
      else (Inr True, rows @ [row]))"

definition insert_decision ::
  "string \<Rightarrow> string \<Rightarrow> string \<Rightarrow> DecisionClassification \<Rightarrow> string \<Rightarrow> string \<Rightarrow> string \<Rightarrow> string \<Rightarrow> string \<Rightarrow>
   string \<Rightarrow> string option \<Rightarrow> string option \<Rightarrow> string \<Rightarrow> string \<Rightarrow> DecisionRow list \<Rightarrow>
   (string, bool) result \<times> DecisionRow list" where
  "insert_decision decision_id loop_id attempt_id classification reason_codes_json observed_state_fingerprint
     outcome_fingerprint dossier_fingerprint progress_fp budget_snapshot_fingerprint
     selected_profile_id next_context_pack_id idempotency_key request_hash rows =
     insert_keyed ''insert decision'' dr_idempotency_key dr_decision_id
       \<lparr>dr_decision_id = decision_id, dr_loop_id = loop_id, dr_attempt_id = attempt_id,
        dr_classification = decision_as_str classification, dr_action = decision_action classification,
        dr_reason_codes_json = reason_codes_json,
        dr_observed_state_fingerprint = Some observed_state_fingerprint,
        dr_outcome_fingerprint = Some outcome_fingerprint,
        dr_dossier_fingerprint = Some dossier_fingerprint, dr_progress_fingerprint = Some progress_fp,
        dr_budget_snapshot_fingerprint = Some budget_snapshot_fingerprint,
        dr_selected_profile_id = selected_profile_id, dr_next_context_pack_id = next_context_pack_id,
        dr_idempotency_key = idempotency_key, dr_request_hash = request_hash\<rparr> rows"

definition load_decision_by_ikey :: "string \<Rightarrow> DecisionRow list \<Rightarrow> (DecisionRow \<times> DecisionClassification) option" where
  "load_decision_by_ikey idempotency_key rows =
     map_option (\<lambda>r. (r, case decision_parse (dr_classification r) of Some c \<Rightarrow> c | None \<Rightarrow> Dec_AwaitingHuman))
       (select_one (\<lambda>r. dr_idempotency_key r = idempotency_key) rows)"

definition decision_exists_for_attempt :: "string \<Rightarrow> DecisionRow list \<Rightarrow> bool" where
  "decision_exists_for_attempt attempt_id rows \<longleftrightarrow> rows_affected (\<lambda>r. dr_attempt_id r = attempt_id) rows > 0"

text \<open>\<open>ON CONFLICT DO NOTHING\<close> without a target covers the id, the pair of loop and ordinal and the
  fingerprint.\<close>

definition insert_context_pack ::
  "string \<Rightarrow> string \<Rightarrow> string option \<Rightarrow> int \<Rightarrow> string \<Rightarrow> string \<Rightarrow> string \<Rightarrow> int option \<Rightarrow> string \<Rightarrow>
   ContextPackRow list \<Rightarrow> bool \<times> ContextPackRow list" where
  "insert_context_pack context_pack_id loop_id source_attempt_id target_attempt_ordinal payload_json
     source_fingerprints_json context_fingerprint estimated_input_tokens validation_status rows =
     (if list_ex (\<lambda>r. cp_context_pack_id r = context_pack_id \<or>
           (cp_loop_id r = loop_id \<and> cp_target_attempt_ordinal r = target_attempt_ordinal) \<or>
           cp_context_fingerprint r = context_fingerprint) rows then (False, rows)
      else (True, rows @ [\<lparr>cp_context_pack_id = context_pack_id, cp_loop_id = loop_id,
        cp_source_attempt_id = source_attempt_id, cp_target_attempt_ordinal = target_attempt_ordinal,
        cp_schema_version = 1, cp_payload_json = payload_json,
        cp_source_fingerprints_json = source_fingerprints_json, cp_context_fingerprint = context_fingerprint,
        cp_estimated_input_tokens = estimated_input_tokens, cp_validation_status = validation_status\<rparr>]))"

definition load_context_pack_by_ordinal :: "string \<Rightarrow> int \<Rightarrow> ContextPackRow list \<Rightarrow> ContextPackRow option" where
  "load_context_pack_by_ordinal loop_id ordinal rows =
     select_one (\<lambda>r. cp_loop_id r = loop_id \<and> cp_target_attempt_ordinal r = ordinal) rows"

definition load_context_pack :: "string \<Rightarrow> ContextPackRow list \<Rightarrow> ContextPackRow option" where
  "load_context_pack context_pack_id rows = select_one (\<lambda>r. cp_context_pack_id r = context_pack_id) rows"

definition insert_usage :: "UsageLedgerRow \<Rightarrow> UsageLedgerRow list \<Rightarrow> (string, bool) result \<times> UsageLedgerRow list" where
  "insert_usage row rows = insert_keyed ''insert usage'' ul_idempotency_key ul_usage_id row rows"

text \<open>SQL \<open>SUM\<close>: \<open>NULL\<close>s are skipped, and the sum over none is \<open>NULL\<close>.\<close>

definition sql_sum :: "int option list \<Rightarrow> int option" where
  "sql_sum xs = (let vs = List.map_filter id xs in if vs = [] then None else Some (sum_list vs))"

definition sum_loop_usage :: "string \<Rightarrow> UsageLedgerRow list \<Rightarrow> LoopUsageSummary" where
  "sum_loop_usage loop_id rows =
     (let mine = filter (\<lambda>r. ul_loop_id r = loop_id) rows
      in \<lparr>us_total_input_tokens = sql_sum (map ul_input_tokens mine),
          us_total_output_tokens = sql_sum (map ul_output_tokens mine),
          us_total_cached_input_tokens = sql_sum (map ul_cached_input_tokens mine),
          us_total_tool_calls = sql_sum (map ul_tool_calls mine),
          us_total_wall_time_ms = sql_sum (map ul_wall_time_ms mine),
          us_total_estimated_cost_micros = sql_sum (map ul_estimated_cost_micros mine)\<rparr>)"

definition insert_loop_operation ::
  "string \<Rightarrow> string \<Rightarrow> LoopOperationKind \<Rightarrow> string \<Rightarrow> string \<Rightarrow> string option \<Rightarrow> string option \<Rightarrow> int option \<Rightarrow>
   LoopOperationRow list \<Rightarrow> (string, bool) result \<times> LoopOperationRow list" where
  "insert_loop_operation operation_id loop_id operation_kind idempotency_key request_hash
     observed_state_fingerprint owner_id fencing_token rows =
     insert_keyed ''insert loop op'' lo_idempotency_key lo_operation_id
       \<lparr>lo_operation_id = operation_id, lo_loop_id = loop_id, lo_operation_kind = loop_op_as_str operation_kind,
        lo_idempotency_key = idempotency_key, lo_request_hash = request_hash,
        lo_observed_state_fingerprint = observed_state_fingerprint, lo_lifecycle = ''running'',
        lo_owner_id = owner_id, lo_fencing_token = fencing_token, lo_result_fingerprint = None,
        lo_terminal_at = None\<rparr> rows"

definition complete_loop_operation ::
  "int \<Rightarrow> string \<Rightarrow> string \<Rightarrow> LoopOperationRow list \<Rightarrow> bool \<times> LoopOperationRow list" where
  "complete_loop_operation now operation_id result_fingerprint rows =
     (let P = (\<lambda>o'. lo_operation_id o' = operation_id \<and> lo_lifecycle o' = ''running'')
      in (rows_affected P rows = 1, update_where P (\<lambda>o'. o'\<lparr>lo_lifecycle := ''completed'',
            lo_terminal_at := Some now, lo_result_fingerprint := Some result_fingerprint\<rparr>) rows))"

section \<open>Events\<close>

definition loop_event :: "string \<Rightarrow> string \<Rightarrow> string \<Rightarrow> (string \<times> json_value) list \<Rightarrow> EventLogEntry" where
  "loop_event uuid loop_id event_type payload =
     \<lparr>ev_id = ''tl-'' @ uuid @ ''-'' @ event_type, ev_stream_id = loop_id, ev_stream_version = 0,
      ev_event_type = event_type, ev_payload = payload, ev_schema_version = 1,
      ev_correlation_id = loop_id, ev_causation_id = None,
      ev_idempotency_key = ''tl-ev-'' @ loop_id @ ''-'' @ event_type, ev_source = ''harness-i4-5''\<rparr>"

definition write_one ::
  "string \<Rightarrow> string \<Rightarrow> string \<Rightarrow> (string \<times> json_value) list \<Rightarrow> EventLogEntry list \<Rightarrow> bool \<times> EventLogEntry list" where
  "write_one uuid loop_id event_type payload log =
     (let e = loop_event uuid loop_id event_type payload
      in (\<not> list_ex (event_clashes e) log, insert_event_or_ignore e log))"

section \<open>Concurrent statements\<close>

text \<open>The statements that change the loop table, and what a statement expects of the row it updates.\<close>

datatype loop_stmt =
    StInsert string int CreateLoopRequest
  | StAcquire int string int int string nat
  | StTakeover int string int string nat
  | StTransition int string int int string LoopLifecycle "string option"
  | StCounters int string int string int int int int

fun exec_stmt :: "loop_stmt \<Rightarrow> loop_table \<Rightarrow> loop_table" where
  "exec_stmt (StInsert i now req) rows = snd (insert_loop i now req rows)"
| "exec_stmt (StAcquire now i v f owner secs) rows = snd (acquire_ownership now i v f owner secs rows)"
| "exec_stmt (StTakeover now i v owner secs) rows = snd (takeover_ownership now i v owner secs rows)"
| "exec_stmt (StTransition now i v f owner lc e) rows = snd (transition_loop now i v f owner lc e rows)"
| "exec_stmt (StCounters now i v a n p s c) rows = snd (update_loop_counters now i v a n p s c rows)"

text \<open>A statement wins when the code reports the row as updated.\<close>

fun stmt_wins :: "loop_stmt \<Rightarrow> loop_table \<Rightarrow> bool" where
  "stmt_wins (StInsert i now req) rows = (fst (insert_loop i now req rows) = Inr True)"
| "stmt_wins (StAcquire now i v f owner secs) rows =
     (fst (acquire_ownership now i v f owner secs rows) = Inr (Some (v + 1)))"
| "stmt_wins (StTakeover now i v owner secs) rows =
     (fst (takeover_ownership now i v owner secs rows) = Inr (Some (v + 1)))"
| "stmt_wins (StTransition now i v f owner lc e) rows =
     (fst (transition_loop now i v f owner lc e rows) = Inr (Some (v + 1)))"
| "stmt_wins (StCounters now i v a n p s c) rows =
     (fst (update_loop_counters now i v a n p s c rows) = Inr True)"

fun stmt_loop :: "loop_stmt \<Rightarrow> string" where
  "stmt_loop (StInsert i now req) = i"
| "stmt_loop (StAcquire now i v f owner secs) = i"
| "stmt_loop (StTakeover now i v owner secs) = i"
| "stmt_loop (StTransition now i v f owner lc e) = i"
| "stmt_loop (StCounters now i v a n p s c) = i"

fun stmt_version :: "loop_stmt \<Rightarrow> int option" where
  "stmt_version (StInsert i now req) = None"
| "stmt_version (StAcquire now i v f owner secs) = Some v"
| "stmt_version (StTakeover now i v owner secs) = Some v"
| "stmt_version (StTransition now i v f owner lc e) = Some v"
| "stmt_version (StCounters now i v a n p s c) = Some v"

fun stmt_fencing :: "loop_stmt \<Rightarrow> int option" where
  "stmt_fencing (StAcquire now i v f owner secs) = Some f"
| "stmt_fencing (StTransition now i v f owner lc e) = Some f"
| "stmt_fencing _ = None"

definition loop_step :: "loop_table \<Rightarrow> loop_table \<Rightarrow> bool" where
  "loop_step rows rows' \<longleftrightarrow> (\<exists>s. rows' = exec_stmt s rows)"

abbreviation loop_succ :: "string TaskLoopRow \<Rightarrow> string TaskLoopRow \<Rightarrow> bool" where
  "loop_succ \<equiv> row_succ tl_loop_id tl_version tl_fencing_token"

lemmas stmt_defs = acquire_ownership_def takeover_ownership_def transition_loop_def update_loop_counters_def

lemma update_checked_ok: "ok rows \<Longrightarrow> ok (snd (update_checked ok what P f rows))"
  by (simp add: update_checked_def Let_def)

lemma snd_case_pair: "snd (case x of (r, rows) \<Rightarrow> (g r, rows)) = snd x"
  by (simp add: split_beta)

lemma exec_stmt_ok: "loops_ok rows \<Longrightarrow> loops_ok (exec_stmt s rows)"
  by (cases s) (simp_all add: stmt_defs Let_def snd_case_pair update_checked_ok insert_loop_def)

lemma update_checked_row:
  assumes "\<And>r. P r \<Longrightarrow> row_succ key version token r (f r)" and "r \<in> set rows"
  shows "\<exists>r' \<in> set (snd (update_checked ok what P f rows)). row_succ key version token r r'"
proof (cases "ok (update_where P f rows)")
  case True
  then show ?thesis using update_where_row_succ [of P key version token f, OF assms]
    by (simp add: update_checked_def Let_def)
next
  case False
  then show ?thesis using row_kept [OF assms(2)] by (simp add: update_checked_def Let_def)
qed

lemma exec_stmt_row: "r \<in> set rows \<Longrightarrow> \<exists>r' \<in> set (exec_stmt s rows). loop_succ r r'"
proof (cases s)
  case (StInsert i now req)
  assume "r \<in> set rows"
  then have "\<exists>r' \<in> set rows. loop_succ r r'" by (rule row_kept)
  then show ?thesis using StInsert by (auto simp: insert_loop_def Let_def)
qed (simp_all add: stmt_defs Let_def snd_case_pair, ((intro conjI impI)?; rule update_checked_row;
    simp add: row_succ_def split: option.split)+)

interpretation loops: versioned_table loop_step loops_ok tl_loop_id tl_version tl_fencing_token
  by unfold_locales (auto simp: loops_ok_def loop_step_def exec_stmt_ok [unfolded loops_ok_def]
      dest: exec_stmt_row)

text \<open>A winning compare-and-swap found its row with the expected version and fencing token, and left
  it with the next version.\<close>

lemma update_checked_won:
  assumes "fst (update_checked ok what P f rows) = Inr n" and "0 < n"
  shows "\<exists>r \<in> set rows. P r \<and> f r \<in> set (snd (update_checked ok what P f rows))"
proof -
  have ok: "ok (update_where P f rows)" and n: "rows_affected P rows = n"
    using assms(1) by (auto simp: update_checked_def Let_def split: if_splits)
  from n assms(2) obtain r where r: "r \<in> set rows" "P r" using rows_affected_pos_iff by metis
  then have "f r \<in> set (update_where P f rows)" by (auto simp: set_update_where)
  with r ok show ?thesis by (auto simp: update_checked_def Let_def)
qed

lemma cas_result_won: "cas_result v r = Inr (Some w) \<longleftrightarrow> r = Inr 1 \<and> w = v + 1"
  by (auto simp: cas_result_def and_then_Inr_iff split: if_splits)

lemma stmt_wins_update:
  assumes "stmt_wins s rows" and "stmt_version s = Some v"
  shows "\<exists>what P f. exec_stmt s rows = snd (update_checked loops_ok what P f rows) \<and>
    fst (update_checked loops_ok what P f rows) = Inr 1 \<and>
    (\<forall>r. P r \<longrightarrow> tl_loop_id r = stmt_loop s \<and> tl_version r = v \<and>
       (\<forall>t. stmt_fencing s = Some t \<longrightarrow> tl_fencing_token r = t)) \<and>
    (\<forall>r. tl_loop_id (f r) = tl_loop_id r \<and> tl_version (f r) = tl_version r + 1)"
proof (cases s)
  case (StTransition now i w f owner lc e)
  with assms show ?thesis
    by (cases "loop_is_terminal lc")
       (simp_all add: transition_loop_def Let_def split_beta cas_result_won del: One_nat_def,
        (intro exI conjI, rule refl, simp, simp, simp)+)
qed (use assms in \<open>simp_all add: stmt_defs Let_def split_beta cas_result_won and_then_Inr_iff
       del: One_nat_def\<close>, (intro exI conjI, rule refl, simp, simp, simp)+)

lemma stmt_wins_row:
  assumes "stmt_wins s rows" and "stmt_version s = Some v"
  shows "\<exists>r \<in> set rows. tl_loop_id r = stmt_loop s \<and> tl_version r = v \<and>
    (\<forall>f. stmt_fencing s = Some f \<longrightarrow> tl_fencing_token r = f) \<and>
    (\<exists>r' \<in> set (exec_stmt s rows). tl_loop_id r' = stmt_loop s \<and> tl_version r' = v + 1)"
proof -
  obtain what P f where u: "exec_stmt s rows = snd (update_checked loops_ok what P f rows)"
    "fst (update_checked loops_ok what P f rows) = Inr 1"
    "\<And>r. P r \<Longrightarrow> tl_loop_id r = stmt_loop s \<and> tl_version r = v \<and>
       (\<forall>t. stmt_fencing s = Some t \<longrightarrow> tl_fencing_token r = t)"
    "\<And>r. tl_loop_id (f r) = tl_loop_id r \<and> tl_version (f r) = tl_version r + 1"
    using stmt_wins_update [OF assms] by metis
  obtain r where r: "r \<in> set rows" "P r" "f r \<in> set (exec_stmt s rows)"
    using update_checked_won [OF u(2)] u(1) by auto
  then show ?thesis using u(3) [OF r(2)] u(4) [of r] by (intro bexI [OF _ r(1)] conjI bexI [OF _ r(3)]) auto
qed

text \<open>
  Exactly one winner: when a statement of any kind wins with the version it expects of a
  loop, no other statement that expects the same version of that loop ever wins, whatever statements
  other workers run in between.
\<close>

theorem loop_cas_exclusive:
  assumes "loops_ok rows" and "stmt_wins s rows" and "loop_step\<^sup>*\<^sup>* (exec_stmt s rows) rows'"
    and "stmt_version s = Some v" and "stmt_version t = Some v" and "stmt_loop t = stmt_loop s"
  shows "\<not> stmt_wins t rows'"
proof
  assume "stmt_wins t rows'"
  then obtain q where q: "q \<in> set rows'" "tl_loop_id q = stmt_loop s" "tl_version q = v"
    using stmt_wins_row [OF _ assms(5)] assms(6) by metis
  obtain r where "r \<in> set (exec_stmt s rows)" "tl_loop_id r = stmt_loop s" "tl_version r = v + 1"
    using stmt_wins_row [OF assms(2,4)] by blast
  then show False
    using loops.version_never_back [OF assms(3) exec_stmt_ok [OF assms(1)], of r v q] q by auto
qed

text \<open>
  C28. A superseded owner is locked out: once a takeover of a loop has won, every ownership
  renewal and every transition that presents the fencing token the previous owner had fails for ever.
\<close>

theorem superseded_owner_refused:
  assumes "loops_ok rows" and "r \<in> set rows" and "tl_loop_id r = lid"
    and "takeover_ownership now lid v owner secs rows = (Inr (Some w), rows1)"
    and "loop_step\<^sup>*\<^sup>* rows1 rows2"
  shows "fst (transition_loop now2 lid v2 (tl_fencing_token r) owner2 lc e rows2) \<noteq> Inr (Some w2) \<and>
    fst (acquire_ownership now2 lid v2 (tl_fencing_token r) owner2 secs2 rows2) \<noteq> Inr (Some w2)"
proof -
  let ?s = "StTakeover now lid v owner secs"
  have rows1: "rows1 = exec_stmt ?s rows" using assms(4) by simp
  then have ok1: "loops_ok rows1" using exec_stmt_ok [OF assms(1)] by metis
  let ?P = "\<lambda>l. tl_loop_id l = lid \<and> tl_version l = v \<and> expired_at now (tl_lease_expires_at l) \<and> row_open l"
  let ?f = "\<lambda>l. l\<lparr>tl_owner_id := Some owner, tl_fencing_token := tl_fencing_token l + 1,
     tl_lease_expires_at := Some (now + int secs), tl_updated_at := now, tl_version := tl_version l + 1\<rparr>"
  have "fst (update_checked loops_ok ''takeover ownership'' ?P ?f rows) = Inr 1"
    and snd: "rows1 = snd (update_checked loops_ok ''takeover ownership'' ?P ?f rows)"
    using assms(4) by (simp_all add: takeover_ownership_def cas_result_won split_beta)
  then obtain r1 where r1: "r1 \<in> set rows" "?P r1" "?f r1 \<in> set rows1"
    using update_checked_won [of loops_ok "''takeover ownership''" ?P ?f rows 1] by auto
  then have "r1 = r" using assms(1-3) distinct_key_eq [of tl_loop_id rows r1 r] by (simp add: loops_ok_def)
  with r1 have stale: "tl_fencing_token q \<noteq> tl_fencing_token r"
    if "q \<in> set rows2" "tl_loop_id q = lid" for q
    using loops.token_never_back [OF assms(5) ok1, of "?f r1" "tl_fencing_token r" q] that by simp
  have no: "\<not> stmt_wins s rows2" if "stmt_loop s = lid" "stmt_version s = Some v2"
      "stmt_fencing s = Some (tl_fencing_token r)" for s
    using stmt_wins_row [of s rows2 v2] stale that by blast
  have w2: "cas_result v2 x = Inr (Some w2) \<Longrightarrow> w2 = v2 + 1" for x by (simp add: cas_result_won)
  show ?thesis
    using no [of "StTransition now2 lid v2 (tl_fencing_token r) owner2 lc e"]
      no [of "StAcquire now2 lid v2 (tl_fencing_token r) owner2 secs2"]
    by (auto simp: transition_loop_def acquire_ownership_def Let_def split_beta dest: w2)
qed

definition sample_loop_req :: CreateLoopRequest where
  "sample_loop_req = \<lparr>cl_project_id = ''p'', cl_task_id = ''t'', cl_policy_json = ''{}'', cl_policy_fingerprint = ''f'',
     cl_idempotency_key = ''k'', cl_request_hash = ''h'', cl_owner_id = ''a'', cl_lease_secs = 60\<rparr>"

definition sample_loops :: loop_table where
  "sample_loops = [new_loop_row ''l'' 0 sample_loop_req]"

lemma sample_loops_ok: "loops_ok sample_loops"
  by (simp add: sample_loops_def loops_ok_def)

theorem loop_cas_exclusive_witness:
  "let first = StTransition 1 ''l'' 1 1 ''a'' Loop_Ready None;
       second = StTransition 1 ''l'' 1 1 ''a'' Loop_Cancelled None
   in stmt_wins first sample_loops \<and> stmt_wins second sample_loops \<and>
      \<not> stmt_wins second (exec_stmt first sample_loops)"
proof -
  let ?first = "StTransition 1 ''l'' 1 1 ''a'' Loop_Ready None"
  let ?second = "StTransition 1 ''l'' 1 1 ''a'' Loop_Cancelled None"
  have won: "stmt_wins ?first sample_loops" "stmt_wins ?second sample_loops" by code_simp+
  have "\<not> stmt_wins ?second (exec_stmt ?first sample_loops)"
    by (rule loop_cas_exclusive [OF sample_loops_ok won(1) rtranclp.rtrancl_refl]) simp_all
  with won show ?thesis unfolding Let_def by blast
qed

theorem superseded_owner_refused_witness:
  "let (res, rows1) = takeover_ownership 100 ''l'' 1 ''b'' 60 sample_loops
   in res = Inr (Some 2) \<and>
      fst (transition_loop 101 ''l'' 2 1 ''a'' Loop_CompleteCandidate None rows1) \<noteq> Inr (Some 3)"
proof -
  let ?run = "takeover_ownership 100 ''l'' 1 ''b'' 60 sample_loops"
  have ok: "fst ?run = Inr (Some 2)" by code_simp
  then have run: "?run = (Inr (Some 2), snd ?run)" by (metis prod.collapse)
  have r: "new_loop_row ''l'' 0 sample_loop_req \<in> set sample_loops"
    "tl_loop_id (new_loop_row ''l'' 0 sample_loop_req) = ''l''"
    "tl_fencing_token (new_loop_row ''l'' 0 sample_loop_req) = 1"
    by (simp_all add: sample_loops_def new_loop_row_def)
  have "fst (transition_loop 101 ''l'' 2 1 ''a'' Loop_CompleteCandidate None (snd ?run)) \<noteq> Inr (Some 3)"
    using superseded_owner_refused [OF sample_loops_ok r(1,2) run rtranclp.rtrancl_refl] r(3) by metis
  with ok show ?thesis by (simp add: split_beta)
qed

section \<open>What the event log keeps\<close>

text \<open>
  Only the first event of a loop is stored: all of them claim version 0 of the loop's
  stream, the log has one row per stream and version, and the writer ignores the conflict. Once a
  loop has an event, whatever its type, no later event of that loop reaches the log.
\<close>

theorem later_loop_events_dropped:
  assumes "e \<in> set log" and "ev_stream_id e = loop_id" and "ev_stream_version e = 0"
  shows "write_one uuid loop_id event_type payload log = (False, log)"
proof -
  have "event_clashes (loop_event uuid loop_id event_type payload) e"
    using assms(2,3) by (simp add: event_clashes_def loop_event_def)
  then have "list_ex (event_clashes (loop_event uuid loop_id event_type payload)) log"
    using assms(1) by (auto simp: list_ex_iff)
  then show ?thesis by (simp add: write_one_def Let_def insert_event_or_ignore_def)
qed

theorem later_loop_events_dropped_witness:
  "let log = snd (write_one ''u1'' ''l'' ''TaskEngineeringLoopCreated'' [] [])
   in map ev_event_type log = [''TaskEngineeringLoopCreated''] \<and>
      write_one ''u2'' ''l'' ''TaskEngineeringCancelled'' [] log = (False, log)"
proof -
  let ?e = "loop_event ''u1'' ''l'' ''TaskEngineeringLoopCreated'' []"
  have log: "snd (write_one ''u1'' ''l'' ''TaskEngineeringLoopCreated'' [] []) = [?e]"
    by (simp add: write_one_def insert_event_or_ignore_def)
  have "write_one ''u2'' ''l'' ''TaskEngineeringCancelled'' [] [?e] = (False, [?e])"
    by (rule later_loop_events_dropped [of ?e]) (simp_all add: loop_event_def)
  then show ?thesis by (simp add: log) (simp add: loop_event_def)
qed

end
