(* ===== verification/Task_Loop.thy ===== *)
theory Task_Loop
  imports Task_Loop_Repo
begin

text \<open>
  \<open>TaskEngineeringLoopService\<close> and \<open>TaskLoopReconciler\<close> of \<open>harness-runtime/src/task_loop\<close>
  (\<open>service.rs\<close>, \<open>reconciler.rs\<close>). An operation is a sequence of statements, each committed on its own:
  an error in the middle returns the database as the statements before it left it. The service's
  counters for tests are left out. The gateway to the execution pipeline, the file system a continued
  workspace is checked against, JSON serialisation and \<open>Debug\<close> texts are parameters.
\<close>

section \<open>Types\<close>

datatype AttemptWorkspaceSource =
    InitialTaskWorkspace (repository_path: string)
  | ContinueFromAttempt (source_attempt_id: string) (source_execution_id: string)
      (source_worktree_id: string) (expected_baseline_commit: string) (expected_head: string)
      (expected_diff_fingerprint: string)

record ContextPackSpec =
  cps_task_id :: string
  cps_task_goal :: string
  cps_acceptance_criteria :: string
  cps_attempt_ordinal :: int
  cps_workspace_continuation :: AttemptWorkspaceSource
  cps_previous_outcome :: "string option"
  cps_primary_failure_classification :: "string option"
  cps_all_blockers :: "string list"
  cps_failed_required_steps :: "string list"
  cps_evidence_refs :: "string list"
  cps_changed_files :: "string list"
  cps_do_not_repeat_fingerprints :: "string list"
  cps_required_next_objective :: "string option"
  cps_remaining_budget_facts :: "string option"
  cps_runtime_profile_id :: string
  cps_stop_conditions :: "string list"

datatype LoopStartOutcome =
    LoopStarted "int option"
  | LoopResumed LoopLifecycle "int option"
  | LoopAlreadyOwned LoopLifecycle
  | LoopHeldByOther string
  | LoopAlreadyTerminal LoopLifecycle

datatype PrepareAttemptOutcome =
    Prepared string int "int option"
  | AttemptAlreadyExists string
  | LoopNotReady LoopLifecycle
  | ActiveAttemptExists string
  | OwnershipLost
  | PrepareInfrastructureError string

datatype ObserveOutcome =
    Observed string int "string option" "string option" "string option" "string option" AttemptLifecycle
  | NoActiveAttempt

datatype CancelLoopOutcome = LoopCancelled | CancelAlreadyTerminal LoopLifecycle

datatype ReconcileOutcome =
    Advanced LoopLifecycle LoopLifecycle
  | NoAction string
  | ReconcileAlreadyTerminal LoopLifecycle
  | ReconcileBlocked string
  | LoopNotFound
  | ReconcileError string

text \<open>What a call takes from outside.\<close>

record LoopEnv =
  le_uuid :: "nat \<Rightarrow> string"
  le_to_json :: "ContextPackSpec \<Rightarrow> string"
  le_debug_budget :: "BudgetCheckResult \<Rightarrow> string"
  le_path_exists :: "string \<Rightarrow> bool"
  le_git_exists :: "string \<Rightarrow> string \<Rightarrow> bool"  \<comment> \<open>worktree, path below its \<open>.git\<close>\<close>
  le_git_read :: "string \<Rightarrow> string \<Rightarrow> (string, string) result"

section \<open>The service\<close>

definition write_event ::
  "string \<Rightarrow> string \<Rightarrow> string \<Rightarrow> (string \<times> json_value) list \<Rightarrow> LoopDb \<Rightarrow> LoopDb" where
  "write_event uuid loop_id event_type payload db =
     db\<lparr>ldb_events := snd (write_one uuid loop_id event_type payload (ldb_events db))\<rparr>"

definition on_loops :: "(loop_table \<Rightarrow> 'a \<times> loop_table) \<Rightarrow> LoopDb \<Rightarrow> 'a \<times> LoopDb" where
  "on_loops f db = (let (r, rows) = f (ldb_loops db) in (r, db\<lparr>ldb_loops := rows\<rparr>))"

definition on_attempts :: "(attempt_table \<Rightarrow> 'a \<times> attempt_table) \<Rightarrow> LoopDb \<Rightarrow> 'a \<times> LoopDb" where
  "on_attempts f db = (let (r, rows) = f (ldb_attempts db) in (r, db\<lparr>ldb_attempts := rows\<rparr>))"

definition create_loop ::
  "LoopEnv \<Rightarrow> int \<Rightarrow> CreateLoopRequest \<Rightarrow> LoopDb \<Rightarrow> (string, CreateLoopOutcome) result \<times> LoopDb" where
  "create_loop env now req db =
     (case on_loops (repo_create_loop (le_uuid env 0) now req) db of
        (Inl e, db1) \<Rightarrow> (Inl e, db1)
      | (Inr outcome, db1) \<Rightarrow>
          (Inr outcome,
           case outcome of
             LoopCreated loop_id \<Rightarrow> write_event (le_uuid env 1) loop_id ''TaskEngineeringLoopCreated''
               [(''loop_id'', JStr loop_id), (''project_id'', JStr (cl_project_id req)),
                (''task_id'', JStr (cl_task_id req))] db1
           | _ \<Rightarrow> db1))"

definition start_or_resume_loop ::
  "LoopEnv \<Rightarrow> int \<Rightarrow> string \<Rightarrow> string \<Rightarrow> nat \<Rightarrow> LoopDb \<Rightarrow> (string, LoopStartOutcome) result \<times> LoopDb" where
  "start_or_resume_loop env now loop_id owner_id lease_secs db =
     (case load_loop loop_id (ldb_loops db) of
        None \<Rightarrow> (Inl ''loop not found'', db)
      | Some l \<Rightarrow>
        if loop_is_terminal (tl_lifecycle l) then (Inr (LoopAlreadyTerminal (tl_lifecycle l)), db)
        else
        (case on_loops (acquire_ownership now loop_id (tl_version l) (tl_fencing_token l) owner_id lease_secs) db of
           (Inl e, db1) \<Rightarrow> (Inl e, db1)
         | (Inr None, db1) \<Rightarrow>
             (case load_loop loop_id (ldb_loops db1) of
                None \<Rightarrow> (Inl ''loop vanished'', db1)
              | Some cur \<Rightarrow>
                  if tl_owner_id cur = Some owner_id \<and> tl_fencing_token cur = tl_fencing_token l
                  then (Inr (LoopAlreadyOwned (tl_lifecycle cur)), db1)
                  else (Inr (LoopHeldByOther (unwrap_or '''' (tl_owner_id cur))), db1))
         | (Inr (Some new_version), db1) \<Rightarrow>
             (let db2 = write_event (le_uuid env 0) loop_id ''TaskEngineeringLoopOwnershipAcquired''
                    [(''owner_id'', JStr owner_id)] db1
              in if tl_lifecycle l = Loop_Created \<or> tl_lifecycle l = Loop_WaitingForInfrastructure then
                   (case on_loops (transition_loop now loop_id new_version (tl_fencing_token l) owner_id
                            Loop_Ready None) db2 of
                      (Inl e, db3) \<Rightarrow> (Inl e, db3)
                    | (Inr v, db3) \<Rightarrow>
                        (Inr (LoopStarted v),
                         write_event (le_uuid env 1) loop_id ''TaskEngineeringLoopStarted'' [] db3))
                 else (Inr (LoopResumed (tl_lifecycle l) (Some new_version)), db2))))"

definition validate_workspace_continuation :: "LoopEnv \<Rightarrow> AttemptWorkspaceSource \<Rightarrow> (string, unit) result" where
  "validate_workspace_continuation env source =
     (case source of
        InitialTaskWorkspace _ \<Rightarrow> Inr ()
      | ContinueFromAttempt attempt execution worktree baseline head diff \<Rightarrow>
          if attempt = '''' \<or> execution = '''' \<or> worktree = ''''
            then Inl ''workspace continuation: missing source identifiers''
          else if baseline = '''' \<or> head = ''''
            then Inl ''workspace continuation: missing expected commit references''
          else if diff = '''' then Inl ''workspace continuation: missing diff fingerprint''
          else if CHR ''/'' \<in> set worktree \<or> CHR 0x5C \<in> set worktree then
            if \<not> le_path_exists env worktree
              then Inl (''workspace continuation: worktree path not found: '' @ worktree)
            else if le_git_exists env worktree ''HEAD'' then
              (case le_git_read env worktree ''HEAD'' of
                 Inl e \<Rightarrow> Inl (''workspace continuation: cannot read HEAD: '' @ e)
               | Inr bytes \<Rightarrow>
                   (let head_str = trim bytes;
                        actual_head =
                          (if starts_with head_str ''ref:'' then
                             (let ref_path = unwrap_or head_str (strip_prefix_str head_str ''ref: '')
                              in if le_git_exists env worktree ref_path then
                                   trim (case le_git_read env worktree ref_path of Inl _ \<Rightarrow> '''' | Inr b \<Rightarrow> b)
                                 else head_str)
                           else head_str)
                    in if actual_head \<noteq> head \<and> actual_head \<noteq> '''' then
                         Inl (''workspace continuation: HEAD mismatch (expected '' @ head @ '', actual '' @
                              actual_head @ '')'')
                       else Inr ()))
            else Inr ()
          else Inr ())"

text \<open>The columns of the new attempt that come from its workspace source.\<close>

definition new_attempt ::
  "string \<Rightarrow> string \<Rightarrow> int \<Rightarrow> string option \<Rightarrow> string option \<Rightarrow> string \<Rightarrow> AttemptWorkspaceSource \<Rightarrow> NewAttempt" where
  "new_attempt attempt_id loop_id ordinal parent pack profile source =
     (case source of
        InitialTaskWorkspace _ \<Rightarrow>
          \<lparr>na_attempt_id = attempt_id, na_loop_id = loop_id, na_ordinal = ordinal,
           na_parent_attempt_id = parent, na_context_pack_id = pack, na_runtime_profile_id = profile,
           na_workspace_source_kind = SrcKind_Initial, na_source_execution_id = None,
           na_source_worktree_id = None, na_source_baseline_commit = None, na_source_head = None,
           na_source_diff_fingerprint = None\<rparr>
      | ContinueFromAttempt _ execution worktree baseline head diff \<Rightarrow>
          \<lparr>na_attempt_id = attempt_id, na_loop_id = loop_id, na_ordinal = ordinal,
           na_parent_attempt_id = parent, na_context_pack_id = pack, na_runtime_profile_id = profile,
           na_workspace_source_kind = SrcKind_ContinueFromAttempt, na_source_execution_id = Some execution,
           na_source_worktree_id = Some worktree, na_source_baseline_commit = Some baseline,
           na_source_head = Some head, na_source_diff_fingerprint = Some diff\<rparr>)"

text \<open>The budget check of \<open>prepare_next_attempt\<close>: the token total is passed as unknown and usage as
  known.\<close>

definition prepare_budget :: "BudgetPolicy \<Rightarrow> LoopLifecycle TaskLoopRow \<Rightarrow> LoopUsageSummary \<Rightarrow> BudgetCheckResult" where
  "prepare_budget policy l usage = check_can_attempt policy
     \<lparr>bu_attempt_count = tl_attempt_count l, bu_no_progress_streak = tl_no_progress_streak l,
      bu_same_failure_streak = tl_same_failure_streak l,
      bu_profile_switch_count = tl_profile_switch_count l,
      bu_total_input_tokens = us_total_input_tokens usage,
      bu_total_output_tokens = us_total_output_tokens usage, bu_total_tokens = None,
      bu_total_tool_calls = us_total_tool_calls usage, bu_total_wall_time_ms = us_total_wall_time_ms usage,
      bu_total_cost_micros = us_total_estimated_cost_micros usage, bu_usage_known = True\<rparr>"

text \<open>The guards before the first write: the outcome that ends the call, or the loop as loaded.\<close>

definition prepare_guards ::
  "LoopEnv \<Rightarrow> LoopProfilePolicy \<Rightarrow> BudgetPolicy \<Rightarrow> string \<Rightarrow> string \<Rightarrow> int \<Rightarrow> string \<Rightarrow> LoopDb \<Rightarrow>
   (string, PrepareAttemptOutcome + LoopLifecycle TaskLoopRow) result" where
  "prepare_guards env profile_policy budget_policy loop_id owner_id expected_fencing runtime_profile_id db =
     (case load_loop loop_id (ldb_loops db) of
        None \<Rightarrow> Inl ''loop not found''
      | Some l \<Rightarrow> Inr
         (if tl_lifecycle l \<noteq> Loop_Ready \<and> tl_lifecycle l \<noteq> Loop_Evaluating then Inl (LoopNotReady (tl_lifecycle l))
          else if tl_owner_id l \<noteq> Some owner_id \<or> tl_fencing_token l \<noteq> expected_fencing then Inl OwnershipLost
          else if \<not> profile_is_allowed profile_policy runtime_profile_id then
            Inl (PrepareInfrastructureError (''profile '' @ runtime_profile_id @ '' not in allowlist''))
          else (case prepare_budget budget_policy l (sum_loop_usage loop_id (ldb_usage db)) of
            BudgetOk \<Rightarrow>
              (case load_active_attempt loop_id (ldb_attempts db) of
                 Some active \<Rightarrow>
                   if attempt_is_active (ta_lifecycle active) then Inl (ActiveAttemptExists (ta_attempt_id active))
                   else Inr l
               | None \<Rightarrow> Inr l)
          | other \<Rightarrow> Inl (PrepareInfrastructureError (''budget check failed: '' @ le_debug_budget env other)))))"

text \<open>The context pack, when the caller gives a specification.\<close>

definition prepare_pack ::
  "LoopEnv \<Rightarrow> string \<Rightarrow> int \<Rightarrow> string option \<Rightarrow> ContextPackSpec option \<Rightarrow> LoopDb \<Rightarrow> string option \<times> LoopDb" where
  "prepare_pack env loop_id ordinal parent context_pack_spec db =
     (case context_pack_spec of
        None \<Rightarrow> (None, db)
      | Some spec \<Rightarrow>
          (let cp_id = ''cp-'' @ loop_id @ ''-'' @ show_int ordinal;
               payload_json = le_to_json env spec;
               packs = snd (insert_context_pack cp_id loop_id parent ordinal payload_json ''{}''
                 (fingerprint_hex payload_json) None ''valid'' (ldb_packs db))
           in (Some cp_id, write_event (le_uuid env 0) loop_id ''TaskEngineeringContextPackCreated''
                 [(''context_pack_id'', JStr cp_id), (''loop_id'', JStr loop_id)]
                 (db\<lparr>ldb_packs := packs\<rparr>))))"

text \<open>What follows the insertion of the attempt: counters and the loop's transition.\<close>

definition prepare_finish ::
  "LoopEnv \<Rightarrow> int \<Rightarrow> string \<Rightarrow> string \<Rightarrow> LoopLifecycle TaskLoopRow \<Rightarrow> int \<Rightarrow> string \<Rightarrow> int \<Rightarrow> LoopDb \<Rightarrow>
   (string, PrepareAttemptOutcome) result \<times> LoopDb" where
  "prepare_finish env now loop_id owner_id l v1 attempt_id ordinal db =
     (let db1 = write_event (le_uuid env 1) loop_id ''TaskEngineeringAttemptPrepared''
            [(''attempt_id'', JStr attempt_id), (''loop_id'', JStr loop_id), (''ordinal'', JInt ordinal)] db;
          db2 = snd (on_loops (update_loop_counters now loop_id v1 attempt_id (tl_attempt_count l + 1)
            (tl_no_progress_streak l) (tl_same_failure_streak l) ordinal) db1)
      in case on_loops (transition_loop now loop_id (v1 + 1) (tl_fencing_token l) owner_id
                Loop_AttemptActive None) db2 of
           (Inl e, db3) \<Rightarrow> (Inl e, db3)
         | (Inr v2, db3) \<Rightarrow>
             (Inr (Prepared attempt_id ordinal v2),
              write_event (le_uuid env 2) loop_id ''TaskEngineeringAttemptCreated''
                [(''attempt_id'', JStr attempt_id), (''execution_id'', JStr ''''), (''loop_id'', JStr loop_id)] db3))"

definition prepare_next_attempt ::
  "LoopEnv \<Rightarrow> LoopProfilePolicy \<Rightarrow> BudgetPolicy \<Rightarrow> int \<Rightarrow> string \<Rightarrow> string \<Rightarrow> int \<Rightarrow> string \<Rightarrow>
   AttemptWorkspaceSource \<Rightarrow> ContextPackSpec option \<Rightarrow> LoopDb \<Rightarrow>
   (string, PrepareAttemptOutcome) result \<times> LoopDb" where
  "prepare_next_attempt env profile_policy budget_policy now loop_id owner_id expected_fencing
     runtime_profile_id workspace_source context_pack_spec db =
     (case prepare_guards env profile_policy budget_policy loop_id owner_id expected_fencing
             runtime_profile_id db of
        Inl e \<Rightarrow> (Inl e, db)
      | Inr (Inl outcome) \<Rightarrow> (Inr outcome, db)
      | Inr (Inr l) \<Rightarrow>
        (case on_loops (transition_loop now loop_id (tl_version l) (tl_fencing_token l) owner_id
                Loop_PreparingAttempt None) db of
           (Inl e, db1) \<Rightarrow> (Inl e, db1)
         | (Inr None, db1) \<Rightarrow>
             (case load_loop loop_id (ldb_loops db1) of
                None \<Rightarrow> (Inl ''loop vanished'', db1)
              | Some cur \<Rightarrow> (Inr (LoopNotReady (tl_lifecycle cur)), db1))
         | (Inr (Some v1), db1) \<Rightarrow>
             (let ordinal = tl_current_attempt_ordinal l + 1;
                  attempt_id = ''ta-'' @ loop_id @ ''-'' @ show_int ordinal;
                  parent = tl_active_attempt_id l
              in case validate_workspace_continuation env workspace_source of
                   Inl why \<Rightarrow> (Inr (PrepareInfrastructureError why), db1)
                 | Inr _ \<Rightarrow>
                   (let (pack, db2) = prepare_pack env loop_id ordinal parent context_pack_spec db1
                    in case on_attempts (insert_attempt (new_attempt attempt_id loop_id ordinal parent pack
                               runtime_profile_id workspace_source)) db2 of
                         (Inl e, db3) \<Rightarrow> (Inl e, db3)
                       | (Inr False, db3) \<Rightarrow>
                           (Inr (AttemptAlreadyExists (case load_attempt attempt_id (ldb_attempts db3) of
                                   Some a \<Rightarrow> ta_attempt_id a | None \<Rightarrow> attempt_id)), db3)
                       | (Inr True, db3) \<Rightarrow>
                           prepare_finish env now loop_id owner_id l v1 attempt_id ordinal db3))))"

definition bind_execution ::
  "LoopEnv \<Rightarrow> int \<Rightarrow> string \<Rightarrow> string \<Rightarrow> LoopDb \<Rightarrow> (string, bool) result \<times> LoopDb" where
  "bind_execution env now attempt_id execution_id db =
     (case load_attempt attempt_id (ldb_attempts db) of
        None \<Rightarrow> (Inl ''attempt not found'', db)
      | Some a \<Rightarrow>
        (case on_attempts (repo_bind_execution now attempt_id (ta_version a) execution_id Att_Dispatched) db of
           (Inl e, db1) \<Rightarrow> (Inl e, db1)
         | (Inr ok, db1) \<Rightarrow>
             (Inr ok,
              if ok then write_event (le_uuid env 0) (ta_loop_id a) ''TaskEngineeringAttemptDispatched''
                [(''attempt_id'', JStr attempt_id), (''loop_id'', JStr (ta_loop_id a))] db1
              else db1)))"

record CreateExecutionRequest =
  cx_task_id :: string
  cx_attempt_id :: string
  cx_attempt_ordinal :: int
  cx_runtime_profile_id :: string
  cx_worktree_id :: "string option"
  cx_worktree_path :: "string option"
  cx_idempotency_key :: string
  cx_request_hash :: string
  cx_project_id :: "string option"
  cx_task_goal :: "string option"
  cx_repo_path :: "string option"
  cx_timeout_secs :: "nat option"

text \<open>Creation (or full dispatch) of an execution through the gateway, then its binding to the attempt.
  The gateway answers with the value the caller gets and the execution id in it.\<close>

definition dispatch_through ::
  "(CreateExecutionRequest \<Rightarrow> (string, 'a) result) option \<Rightarrow> ('a \<Rightarrow> string) \<Rightarrow>
   ((WorkspaceSourceKind, AttemptLifecycle) TaskAttemptRow \<Rightarrow> CreateExecutionRequest) \<Rightarrow>
   LoopEnv \<Rightarrow> int \<Rightarrow> string \<Rightarrow> LoopDb \<Rightarrow> (string, 'a) result \<times> LoopDb" where
  "dispatch_through gateway execution_of request env now attempt_id db =
     (case gateway of
        None \<Rightarrow> (Inl ''no I4 gateway configured'', db)
      | Some call \<Rightarrow>
        (case load_attempt attempt_id (ldb_attempts db) of
           None \<Rightarrow> (Inl ''attempt not found'', db)
         | Some a \<Rightarrow>
           (case call (request a) of
              Inl e \<Rightarrow> (Inl e, db)
            | Inr answer \<Rightarrow>
              (case bind_execution env now attempt_id (execution_of answer) db of
                 (Inl e, db1) \<Rightarrow> (Inl e, db1)
               | (Inr _, db1) \<Rightarrow> (Inr answer, db1)))))"

definition dispatch_attempt ::
  "(CreateExecutionRequest \<Rightarrow> (string, string) result) option \<Rightarrow> LoopEnv \<Rightarrow> int \<Rightarrow> string \<Rightarrow> string \<Rightarrow> string \<Rightarrow>
   string option \<Rightarrow> string option \<Rightarrow> string \<Rightarrow> string \<Rightarrow> LoopDb \<Rightarrow> (string, string) result \<times> LoopDb" where
  "dispatch_attempt gateway env now attempt_id task_id runtime_profile_id worktree_id worktree_path
     idempotency_key request_hash db =
     dispatch_through gateway id
       (\<lambda>a. \<lparr>cx_task_id = task_id, cx_attempt_id = attempt_id, cx_attempt_ordinal = ta_ordinal a,
             cx_runtime_profile_id = runtime_profile_id, cx_worktree_id = worktree_id,
             cx_worktree_path = worktree_path, cx_idempotency_key = idempotency_key,
             cx_request_hash = request_hash, cx_project_id = None, cx_task_goal = None,
             cx_repo_path = None, cx_timeout_secs = None\<rparr>) env now attempt_id db"

record DispatchResult =
  ds_execution_id :: string
  ds_dispatch_op_id :: "string option"
  ds_session_id :: "string option"
  ds_worktree_id :: "string option"
  ds_terminal_outcome :: "string option"

definition dispatch_attempt_full ::
  "(CreateExecutionRequest \<Rightarrow> (string, DispatchResult) result) option \<Rightarrow> LoopEnv \<Rightarrow> int \<Rightarrow> string \<Rightarrow> string \<Rightarrow>
   string \<Rightarrow> string \<Rightarrow> string option \<Rightarrow> string option \<Rightarrow> string \<Rightarrow> string \<Rightarrow> nat \<Rightarrow> string \<Rightarrow> string \<Rightarrow> LoopDb \<Rightarrow>
   (string, DispatchResult) result \<times> LoopDb" where
  "dispatch_attempt_full gateway env now attempt_id task_id project_id runtime_profile_id worktree_id
     worktree_path repo_path task_goal timeout_secs idempotency_key request_hash db =
     dispatch_through gateway ds_execution_id
       (\<lambda>a. \<lparr>cx_task_id = task_id, cx_attempt_id = attempt_id, cx_attempt_ordinal = ta_ordinal a,
             cx_runtime_profile_id = runtime_profile_id, cx_worktree_id = worktree_id,
             cx_worktree_path = worktree_path, cx_idempotency_key = idempotency_key,
             cx_request_hash = request_hash, cx_project_id = Some project_id, cx_task_goal = Some task_goal,
             cx_repo_path = Some repo_path, cx_timeout_secs = Some timeout_secs\<rparr>) env now attempt_id db"

definition execution_lifecycle :: "string \<Rightarrow> I4Db \<Rightarrow> string option" where
  "execution_lifecycle eid i4 = map_option snd (select_one (\<lambda>(i, _). i = eid) (i4_executions i4))"

definition observe_active_attempt ::
  "LoopEnv \<Rightarrow> I4Db \<Rightarrow> string \<Rightarrow> LoopDb \<Rightarrow> ObserveOutcome \<times> LoopDb" where
  "observe_active_attempt env i4 loop_id db =
     (case load_active_attempt loop_id (ldb_attempts db) of
        None \<Rightarrow> (NoActiveAttempt, db)
      | Some active \<Rightarrow>
          (let db1 = write_event (le_uuid env 0) loop_id ''TaskEngineeringAttemptObserved''
                 [(''attempt_id'', JStr (ta_attempt_id active)), (''loop_id'', JStr loop_id)] db;
               exec_lifecycle = (case ta_execution_id active of
                   None \<Rightarrow> None | Some eid \<Rightarrow> execution_lifecycle eid i4);
               outcome_json = (case ta_verification_run_id active of
                   None \<Rightarrow> None
                 | Some vrid \<Rightarrow> (case select_one (\<lambda>(r, _, _, _). r = vrid) (i4_runs i4) of
                     None \<Rightarrow> None | Some (_, _, _, oj) \<Rightarrow> oj))
           in (Observed (ta_attempt_id active) (ta_ordinal active) (ta_execution_id active) exec_lifecycle
                 (ta_verification_run_id active) outcome_json (ta_lifecycle active), db1)))"

definition cancel_loop ::
  "LoopEnv \<Rightarrow> int \<Rightarrow> string \<Rightarrow> string \<Rightarrow> int \<Rightarrow> int \<Rightarrow> LoopDb \<Rightarrow> (string, CancelLoopOutcome) result \<times> LoopDb" where
  "cancel_loop env now loop_id owner_id expected_version expected_fencing db =
     (case load_loop loop_id (ldb_loops db) of
        None \<Rightarrow> (Inl ''loop not found'', db)
      | Some l \<Rightarrow>
        if loop_is_terminal (tl_lifecycle l) then (Inr (CancelAlreadyTerminal (tl_lifecycle l)), db)
        else
        (case on_loops (transition_loop now loop_id expected_version expected_fencing owner_id
                Loop_Cancelled None) db of
           (Inl e, db1) \<Rightarrow> (Inl e, db1)
         | (Inr None, db1) \<Rightarrow> (Inl ''cancel rejected: not current owner or state changed'', db1)
         | (Inr (Some _), db1) \<Rightarrow>
             (let db2 = (case load_active_attempt loop_id (ldb_attempts db1) of
                    None \<Rightarrow> db1
                  | Some active \<Rightarrow>
                      snd (on_attempts (cancel_attempt now (ta_attempt_id active) (ta_version active)) db1))
              in (Inr LoopCancelled,
                  write_event (le_uuid env 1) loop_id ''TaskEngineeringCancelled'' []
                    (write_event (le_uuid env 0) loop_id ''TaskEngineeringCancellationRequested'' [] db2)))))"

record ActiveAttemptInfo =
  ai_attempt_id :: string
  ai_ordinal :: int
  ai_execution_id :: "string option"
  ai_lifecycle :: AttemptLifecycle
  ai_outcome_kind :: "string option"

record LoopInspection =
  li_loop :: "LoopLifecycle TaskLoopRow"
  li_active_attempt :: "ActiveAttemptInfo option"
  li_usage_summary :: LoopUsageSummary

definition inspect_loop :: "string \<Rightarrow> LoopDb \<Rightarrow> LoopInspection option" where
  "inspect_loop loop_id db =
     (case load_loop loop_id (ldb_loops db) of
        None \<Rightarrow> None
      | Some l \<Rightarrow> Some
          \<lparr>li_loop = l,
           li_active_attempt = map_option (\<lambda>a. \<lparr>ai_attempt_id = ta_attempt_id a, ai_ordinal = ta_ordinal a,
             ai_execution_id = ta_execution_id a, ai_lifecycle = ta_lifecycle a,
             ai_outcome_kind = ta_outcome_kind a\<rparr>) (load_active_attempt loop_id (ldb_attempts db)),
           li_usage_summary = sum_loop_usage loop_id (ldb_usage db)\<rparr>)"

section \<open>The reconciler\<close>

definition execution_ended :: "string \<Rightarrow> I4Db \<Rightarrow> bool" where
  "execution_ended eid i4 \<longleftrightarrow> execution_lifecycle eid i4 \<in>
     {Some ''completed'', Some ''failed'', Some ''cancelled''}"

definition transition_as_owner ::
  "int \<Rightarrow> string \<Rightarrow> LoopLifecycle TaskLoopRow \<Rightarrow> int \<Rightarrow> LoopLifecycle \<Rightarrow> LoopDb \<Rightarrow> LoopDb" where
  "transition_as_owner now loop_id l expected_version to db =
     snd (on_loops (transition_loop now loop_id expected_version (tl_fencing_token l)
       (unwrap_or '''' (tl_owner_id l)) to None) db)"

definition reconcile_resting ::
  "int \<Rightarrow> I4Db \<Rightarrow> string \<Rightarrow> LoopLifecycle TaskLoopRow \<Rightarrow> LoopDb \<Rightarrow> ReconcileOutcome \<times> LoopDb" where
  "reconcile_resting now i4 loop_id l db =
     (case load_active_attempt loop_id (ldb_attempts db) of
        Some a \<Rightarrow>
          (case ta_execution_id a of
             Some eid \<Rightarrow>
               if execution_ended eid i4 then
                 (Advanced (tl_lifecycle l) Loop_Evaluating,
                  transition_as_owner now loop_id l (tl_version l) Loop_Evaluating db)
               else (NoAction ''resting, no anomalies'', db)
           | None \<Rightarrow> (NoAction ''resting, no anomalies'', db))
      | None \<Rightarrow> (NoAction ''resting, no anomalies'', db))"

definition reconcile_preparing ::
  "int \<Rightarrow> string \<Rightarrow> LoopLifecycle TaskLoopRow \<Rightarrow> LoopDb \<Rightarrow> ReconcileOutcome \<times> LoopDb" where
  "reconcile_preparing now loop_id l db =
     (let to_ready = (Advanced Loop_PreparingAttempt Loop_Ready,
            transition_as_owner now loop_id l (tl_version l) Loop_Ready db)
      in case load_active_attempt loop_id (ldb_attempts db) of
           Some a \<Rightarrow>
             if ta_lifecycle a = Att_Created then
               (Advanced Loop_PreparingAttempt Loop_AttemptActive,
                transition_as_owner now loop_id l (tl_version l + 1) Loop_AttemptActive
                  (snd (on_loops (update_loop_counters now loop_id (tl_version l) (ta_attempt_id a)
                    (tl_attempt_count l) (tl_no_progress_streak l) (tl_same_failure_streak l)
                    (ta_ordinal a)) db)))
             else to_ready
         | None \<Rightarrow> to_ready)"

definition reconcile_attempt_active ::
  "int \<Rightarrow> I4Db \<Rightarrow> string \<Rightarrow> LoopLifecycle TaskLoopRow \<Rightarrow> LoopDb \<Rightarrow> ReconcileOutcome \<times> LoopDb" where
  "reconcile_attempt_active now i4 loop_id l db =
     (case load_active_attempt loop_id (ldb_attempts db) of
        Some a \<Rightarrow>
          (case ta_execution_id a of
             Some eid \<Rightarrow>
               if execution_ended eid i4 then
                 (Advanced Loop_AttemptActive Loop_Evaluating,
                  transition_as_owner now loop_id l (tl_version l) Loop_Evaluating db)
               else (NoAction ''execution still running'', db)
           | None \<Rightarrow> (NoAction ''no active execution'', db))
      | None \<Rightarrow> (NoAction ''no active execution'', db))"

definition reconcile_waiting_reconciliation ::
  "int \<Rightarrow> string \<Rightarrow> LoopLifecycle TaskLoopRow \<Rightarrow> LoopDb \<Rightarrow> ReconcileOutcome \<times> LoopDb" where
  "reconcile_waiting_reconciliation now loop_id l db =
     (Advanced Loop_WaitingForReconciliation Loop_Evaluating,
      transition_as_owner now loop_id l (tl_version l) Loop_Evaluating db)"

definition reconcile_one ::
  "LoopEnv \<Rightarrow> int \<Rightarrow> I4Db \<Rightarrow> string \<Rightarrow> LoopDb \<Rightarrow> ReconcileOutcome \<times> LoopDb" where
  "reconcile_one env now i4 loop_id db0 =
     (let db = write_event (le_uuid env 0) loop_id ''TaskEngineeringLoopReconciliationStarted'' [] db0
      in case load_loop loop_id (ldb_loops db) of
           None \<Rightarrow> (LoopNotFound, db)
         | Some l \<Rightarrow>
             if loop_is_terminal (tl_lifecycle l) then (ReconcileAlreadyTerminal (tl_lifecycle l), db)
             else (case tl_lifecycle l of
                 Loop_Created \<Rightarrow> (NoAction ''loop not yet started'', db)
               | Loop_Ready \<Rightarrow> reconcile_resting now i4 loop_id l db
               | Loop_PreparingAttempt \<Rightarrow> reconcile_preparing now loop_id l db
               | Loop_AttemptActive \<Rightarrow> reconcile_attempt_active now i4 loop_id l db
               | Loop_Evaluating \<Rightarrow> reconcile_resting now i4 loop_id l db
               | Loop_WaitingForReconciliation \<Rightarrow> reconcile_waiting_reconciliation now loop_id l db
               | Loop_WaitingForInfrastructure \<Rightarrow>
                   (NoAction ''infrastructure blocked - requires explicit resume'', db)
               | Loop_WaitingForHuman \<Rightarrow> (NoAction ''awaiting human decision'', db)
               | Loop_ReconciliationRequired \<Rightarrow> (ReconcileBlocked ''loop-level reconciliation required'', db)
               | other \<Rightarrow> (NoAction (''unhandled '' @ loop_as_str other), db)))"



section \<open>Single statements on a loaded loop\<close>

lemma write_event_sel [simp]:
  "ldb_loops (write_event u i t p db) = ldb_loops db" "ldb_attempts (write_event u i t p db) = ldb_attempts db"
  "ldb_decisions (write_event u i t p db) = ldb_decisions db" "ldb_packs (write_event u i t p db) = ldb_packs db"
  "ldb_usage (write_event u i t p db) = ldb_usage db"
  "ldb_operations (write_event u i t p db) = ldb_operations db"
  by (simp_all add: write_event_def)

lemma on_loops_sel [simp]:
  "fst (on_loops f db) = fst (f (ldb_loops db))" "ldb_loops (snd (on_loops f db)) = snd (f (ldb_loops db))"
  "ldb_attempts (snd (on_loops f db)) = ldb_attempts db" "ldb_usage (snd (on_loops f db)) = ldb_usage db"
  "ldb_decisions (snd (on_loops f db)) = ldb_decisions db" "ldb_packs (snd (on_loops f db)) = ldb_packs db"
  "ldb_operations (snd (on_loops f db)) = ldb_operations db"
  by (simp_all add: on_loops_def split_beta)

lemma on_attempts_sel [simp]:
  "fst (on_attempts f db) = fst (f (ldb_attempts db))"
  "ldb_attempts (snd (on_attempts f db)) = snd (f (ldb_attempts db))"
  "ldb_loops (snd (on_attempts f db)) = ldb_loops db"
  by (simp_all add: on_attempts_def split_beta)

lemma row_to_loop_sel [simp]:
  "tl_loop_id (row_to_loop r) = tl_loop_id r" "tl_lifecycle (row_to_loop r) = loop_parse (tl_lifecycle r)"
  "tl_owner_id (row_to_loop r) = tl_owner_id r" "tl_fencing_token (row_to_loop r) = tl_fencing_token r"
  "tl_version (row_to_loop r) = tl_version r" "tl_attempt_count (row_to_loop r) = tl_attempt_count r"
  "tl_current_attempt_ordinal (row_to_loop r) = tl_current_attempt_ordinal r"
  "tl_no_progress_streak (row_to_loop r) = tl_no_progress_streak r"
  "tl_same_failure_streak (row_to_loop r) = tl_same_failure_streak r"
  "tl_active_attempt_id (row_to_loop r) = tl_active_attempt_id r"
  by (simp_all add: row_to_loop_def)

lemma loop_parse_text:
  "loop_parse s = Loop_Ready \<longleftrightarrow> s = ''ready''" "loop_parse s = Loop_Evaluating \<longleftrightarrow> s = ''evaluating''"
  by (auto simp: loop_parse_def)

lemma row_open_text: "row_open r \<longleftrightarrow> \<not> loop_is_terminal (loop_parse (tl_lifecycle r))"
  by (auto simp: row_open_def loop_is_terminal_def loop_parse_def)

lemma update_where_cong:
  "(\<And>r. r \<in> set rows \<Longrightarrow> P r = Q r) \<Longrightarrow> (\<And>r. r \<in> set rows \<Longrightarrow> Q r \<Longrightarrow> f r = g r) \<Longrightarrow>
   update_where P f rows = update_where Q g rows"
  by (simp add: update_where_def)

lemma loops_ok_update:
  assumes "loops_ok rows"
    and "\<And>r. P r \<Longrightarrow> tl_loop_id (f r) = tl_loop_id r \<and> tl_idempotency_key (f r) = tl_idempotency_key r \<and>
      tl_task_id (f r) = tl_task_id r"
    and "\<And>r. r \<in> set rows \<Longrightarrow> P r \<Longrightarrow> row_open (f r) = row_open r"
  shows "loops_ok (update_where P f rows)"
proof -
  have "map tl_task_id (filter row_open (update_where P f rows)) = map tl_task_id (filter row_open rows)"
    using assms(2,3) by (induction rows) (auto simp: update_where_def)
  moreover have "map tl_loop_id (update_where P f rows) = map tl_loop_id rows"
    "map tl_idempotency_key (update_where P f rows) = map tl_idempotency_key rows"
    using assms(2) by (auto intro: map_update_where)
  ultimately show ?thesis using assms(1) by (simp add: loops_ok_def)
qed

text \<open>An update of the one row a key selects, in a table where it cannot break a constraint.\<close>

lemma loops_ok_update_key:
  assumes "loops_ok rows" and "r \<in> set rows" and "tl_loop_id r = lid"
    and "\<And>r. tl_loop_id (f r) = tl_loop_id r \<and> tl_idempotency_key (f r) = tl_idempotency_key r \<and>
      tl_task_id (f r) = tl_task_id r"
    and "row_open (f r) = row_open r"
  shows "loops_ok (update_where (\<lambda>l. tl_loop_id l = lid) f rows)"
proof (rule loops_ok_update [OF assms(1)])
  fix q assume "q \<in> set rows" and "tl_loop_id q = lid"
  then have "q = r" using assms(1-3) distinct_key_eq [of tl_loop_id rows q r] by (simp add: loops_ok_def)
  then show "row_open (f q) = row_open q" using assms(5) by simp
qed (use assms(4) in simp)

lemma update_checked_key:
  assumes "loops_ok rows" and "r \<in> set rows" and "tl_loop_id r = lid" and "Q r"
    and "\<And>r. tl_loop_id (f r) = tl_loop_id r \<and> tl_idempotency_key (f r) = tl_idempotency_key r \<and>
      tl_task_id (f r) = tl_task_id r"
    and "row_open (f r) = row_open r"
  shows "update_checked loops_ok what (\<lambda>l. tl_loop_id l = lid \<and> Q l) f rows =
    (Inr 1, update_where (\<lambda>l. tl_loop_id l = lid) f rows)"
proof -
  have d: "distinct (map tl_loop_id rows)" using assms(1) by (simp add: loops_ok_def)
  then have only: "q = r" if "q \<in> set rows" "tl_loop_id q = lid" for q
    using that assms(2,3) distinct_key_eq [of tl_loop_id rows q r] by simp
  then have eq: "update_where (\<lambda>l. tl_loop_id l = lid \<and> Q l) f rows = update_where (\<lambda>l. tl_loop_id l = lid) f rows"
    using assms(4) by (intro update_where_cong) auto
  have "loops_ok (update_where (\<lambda>l. tl_loop_id l = lid) f rows)"
    by (rule loops_ok_update_key [OF assms(1-3,5,6)])
  moreover have "rows_affected (\<lambda>l. tl_loop_id l = lid \<and> Q l) rows = 1"
    using rows_affected_key [OF d, of lid Q] select_one_key [OF d assms(2,3)] assms(4) by simp
  ultimately show ?thesis by (simp add: update_checked_def eq)
qed

definition moved :: "int \<Rightarrow> LoopLifecycle \<Rightarrow> string option \<Rightarrow> string TaskLoopRow \<Rightarrow> string TaskLoopRow" where
  "moved now lc e l = l\<lparr>tl_lifecycle := loop_as_str lc, tl_last_error_classification := e, tl_updated_at := now,
     tl_version := tl_version l + 1\<rparr>"

definition counted :: "int \<Rightarrow> string \<Rightarrow> int \<Rightarrow> int \<Rightarrow> int \<Rightarrow> int \<Rightarrow> string TaskLoopRow \<Rightarrow> string TaskLoopRow" where
  "counted now a n p s c l = l\<lparr>tl_active_attempt_id := Some a, tl_attempt_count := n,
     tl_no_progress_streak := p, tl_same_failure_streak := s, tl_current_attempt_ordinal := c,
     tl_updated_at := now, tl_version := tl_version l + 1\<rparr>"

lemma moved_open: "row_open (moved now lc e l) \<longleftrightarrow> \<not> loop_is_terminal lc"
  by (simp add: row_open_text moved_def lifecycle_texts)

lemma transition_loop_hit:
  assumes "loops_ok rows" and "r \<in> set rows" and "row_open r" and "\<not> loop_is_terminal lc"
    and "tl_loop_id r = lid" and "tl_version r = v" and "tl_fencing_token r = f" and "tl_owner_id r = Some owner"
  shows "transition_loop now lid v f owner lc e rows =
    (Inr (Some (v + 1)), update_where (\<lambda>l. tl_loop_id l = lid) (moved now lc e) rows)"
proof -
  have "update_checked loops_ok ''transition loop''
      (\<lambda>l. tl_loop_id l = lid \<and> tl_version l = v \<and> tl_fencing_token l = f \<and> tl_owner_id l = Some owner)
      (moved now lc e) rows = (Inr 1, update_where (\<lambda>l. tl_loop_id l = lid) (moved now lc e) rows)"
    by (rule update_checked_key [OF assms(1,2,5)]) (use assms in \<open>auto simp: moved_open\<close>, simp_all add: moved_def)
  moreover have "transition_loop now lid v f owner lc e rows =
      (let (r, rows') = update_checked loops_ok ''transition loop''
        (\<lambda>l. tl_loop_id l = lid \<and> tl_version l = v \<and> tl_fencing_token l = f \<and> tl_owner_id l = Some owner)
        (moved now lc e) rows in (cas_result v r, rows'))"
    using assms(4) by (simp add: transition_loop_def moved_def [abs_def] Let_def)
  ultimately show ?thesis by (simp add: cas_result_def)
qed

lemma update_loop_counters_hit:
  assumes "loops_ok rows" and "r \<in> set rows" and "tl_loop_id r = lid" and "tl_version r = v"
  shows "update_loop_counters now lid v a n p s c rows =
    (Inr True, update_where (\<lambda>l. tl_loop_id l = lid) (counted now a n p s c) rows)"
proof -
  have "update_checked loops_ok ''update counters'' (\<lambda>l. tl_loop_id l = lid \<and> tl_version l = v)
      (counted now a n p s c) rows = (Inr 1, update_where (\<lambda>l. tl_loop_id l = lid) (counted now a n p s c) rows)"
    by (rule update_checked_key [OF assms(1-3)]) (use assms(4) in \<open>simp_all add: counted_def row_open_def\<close>)
  then show ?thesis by (simp add: update_loop_counters_def counted_def [abs_def])
qed


lemma lifecycle_texts_used: "loop_as_str Loop_PreparingAttempt = ''preparing_attempt''"
  "loop_as_str Loop_AttemptActive = ''attempt_active''"
  by simp_all

lemma prepare_guards_passed:
  assumes "prepare_guards env pp bp lid owner f prof db = Inr (Inr l)"
  shows "\<exists>r. select_one (\<lambda>r. tl_loop_id r = lid) (ldb_loops db) = Some r \<and> l = row_to_loop r \<and>
    tl_lifecycle r \<in> {''ready'', ''evaluating''} \<and> tl_owner_id r = Some owner \<and> tl_fencing_token r = f \<and>
    profile_is_allowed pp prof \<and>
    prepare_budget bp l (sum_loop_usage lid (ldb_usage db)) = BudgetOk"
  using assms unfolding prepare_guards_def load_loop_def
  by (auto simp: loop_parse_text split: option.splits if_splits BudgetCheckResult.splits)

lemma prepare_guards_refusal: "prepare_guards env pp bp lid owner f prof db \<noteq> Inr (Inl (Prepared aid ord v))"
  by (auto simp: prepare_guards_def split: option.splits if_splits BudgetCheckResult.splits)

lemma insert_attempt_True:
  assumes "insert_attempt a rows = (Inr True, rows')"
  shows "rows' = rows @ [new_attempt_row a] \<and> attempts_ok rows'"
  using assms by (auto simp: insert_attempt_def Let_def split: if_splits)

lemma prepare_pack_sel [simp]:
  "ldb_loops (snd (prepare_pack env lid ord parent spec db)) = ldb_loops db"
  "ldb_attempts (snd (prepare_pack env lid ord parent spec db)) = ldb_attempts db"
  by (simp_all add: prepare_pack_def Let_def split: option.split)

lemma new_attempt_row_facts:
  "ta_attempt_id (new_attempt_row (new_attempt i l n p k prof src)) = i"
  "ta_loop_id (new_attempt_row (new_attempt i l n p k prof src)) = l"
  "ta_ordinal (new_attempt_row (new_attempt i l n p k prof src)) = n"
  "ta_lifecycle (new_attempt_row (new_attempt i l n p k prof src)) = ''created''"
  by (simp_all add: new_attempt_row_def new_attempt_def split: AttemptWorkspaceSource.split)

lemma prepare_next_attempt_prepared:
  assumes "prepare_next_attempt env pp bp now lid owner f prof src spec db = (Inr (Prepared aid ord v), db')"
  obtains l v1 rows1 db2 pack db3 where
    "prepare_guards env pp bp lid owner f prof db = Inr (Inr l)"
    "transition_loop now lid (tl_version l) (tl_fencing_token l) owner Loop_PreparingAttempt None (ldb_loops db) =
      (Inr (Some v1), rows1)"
    "ldb_loops db2 = rows1" "ldb_attempts db2 = ldb_attempts db"
    "on_attempts (insert_attempt (new_attempt aid lid ord (tl_active_attempt_id l) pack prof src)) db2 =
      (Inr True, db3)"
    "ord = tl_current_attempt_ordinal l + 1"
    "prepare_finish env now lid owner l v1 aid ord db3 = (Inr (Prepared aid ord v), db')"
proof (cases "prepare_guards env pp bp lid owner f prof db")
  case (Inr g)
  show ?thesis
  proof (cases g)
    case (Inr l)
    note g = \<open>prepare_guards _ _ _ _ _ _ _ _ = _\<close> [unfolded Inr]
    define ord' where "ord' = tl_current_attempt_ordinal l + 1"
    define aid' where "aid' = ''ta-'' @ lid @ ''-'' @ show_int ord'"
    obtain rt db1 where t: "on_loops (transition_loop now lid (tl_version l) (tl_fencing_token l) owner
      Loop_PreparingAttempt None) db = (rt, db1)" by fastforce
    with assms g obtain v1 where v1: "rt = Inr (Some v1)"
      by (auto simp: prepare_next_attempt_def split: sum.splits option.splits)
    obtain pack db2 where pk: "prepare_pack env lid ord' (tl_active_attempt_id l) spec db1 = (pack, db2)"
      by fastforce
    obtain ra db3 where a: "on_attempts (insert_attempt (new_attempt aid' lid ord' (tl_active_attempt_id l) pack
      prof src)) db2 = (ra, db3)" by fastforce
    have "ra = Inr True \<and> prepare_finish env now lid owner l v1 aid' ord' db3 = (Inr (Prepared aid ord v), db')"
      using assms g t v1 pk a
      by (auto simp: prepare_next_attempt_def ord'_def aid'_def Let_def split: sum.splits option.splits bool.splits)
    moreover from this have "aid' = aid \<and> ord' = ord"
      by (auto simp: prepare_finish_def Let_def split: sum.splits prod.splits)
    moreover have "transition_loop now lid (tl_version l) (tl_fencing_token l) owner Loop_PreparingAttempt None
        (ldb_loops db) = (Inr (Some v1), ldb_loops db1)"
      using on_loops_sel(1,2) [of "transition_loop now lid (tl_version l) (tl_fencing_token l) owner
        Loop_PreparingAttempt None" db] unfolding t v1 by (intro prod_eqI) simp_all
    moreover have "ldb_loops db2 = ldb_loops db1" "ldb_attempts db2 = ldb_attempts db"
      using prepare_pack_sel [of env lid ord' "tl_active_attempt_id l" spec db1]
        on_loops_sel(3) [of "transition_loop now lid (tl_version l) (tl_fencing_token l) owner
          Loop_PreparingAttempt None" db] unfolding t pk by simp_all
    ultimately show ?thesis
      using that [OF g] a ord'_def by blast
  qed (use assms Inr prepare_guards_refusal in \<open>auto simp: prepare_next_attempt_def\<close>)
qed (use assms in \<open>auto simp: prepare_next_attempt_def\<close>)


text \<open>The row after the two statements of \<open>prepare_finish\<close>, and after the transition before them.\<close>

lemma prepare_finish_row:
  assumes "loops_ok (ldb_loops db)" and "select_one (\<lambda>l. tl_loop_id l = lid) (ldb_loops db) = Some r" and "row_open r"
    and "tl_version r = v1" and "tl_fencing_token r = tl_fencing_token l" and "tl_owner_id r = Some owner"
  shows "fst (prepare_finish env now lid owner l v1 aid ord db) = Inr (Prepared aid ord (Some (v1 + 2)))"
    and "select_one (\<lambda>l. tl_loop_id l = lid) (ldb_loops (snd (prepare_finish env now lid owner l v1 aid ord db))) =
      Some (moved now Loop_AttemptActive None (counted now aid (tl_attempt_count l + 1) (tl_no_progress_streak l)
        (tl_same_failure_streak l) ord r))"
    and "ldb_attempts (snd (prepare_finish env now lid owner l v1 aid ord db)) = ldb_attempts db"
proof -
  let ?c = "counted now aid (tl_attempt_count l + 1) (tl_no_progress_streak l) (tl_same_failure_streak l) ord"
  let ?key = "\<lambda>l. tl_loop_id l = lid"
  define rows where "rows = update_where ?key ?c (ldb_loops db)"
  have r: "r \<in> set (ldb_loops db)" "tl_loop_id r = lid" using select_one_Some [OF assms(2)] by simp_all
  have keep: "tl_loop_id (?c q) = tl_loop_id q" "tl_loop_id (moved now Loop_AttemptActive None q) = tl_loop_id q" for q
    by (simp_all add: counted_def moved_def)
  have upd: "update_loop_counters now lid v1 aid (tl_attempt_count l + 1) (tl_no_progress_streak l)
      (tl_same_failure_streak l) ord (ldb_loops db) = (Inr True, rows)"
    unfolding rows_def by (rule update_loop_counters_hit [OF assms(1) r assms(4)])
  have ok: "loops_ok rows" unfolding rows_def
    by (rule loops_ok_update [OF assms(1)]) (simp_all add: counted_def row_open_def)
  have sel: "select_one ?key rows = Some (?c r)"
    unfolding rows_def using assms(2) r keep by (simp add: select_one_update)
  have "?c r \<in> set rows" using r by (auto simp: rows_def set_update_where)
  then have tr: "transition_loop now lid (v1 + 1) (tl_fencing_token l) owner Loop_AttemptActive None rows =
      (Inr (Some (v1 + 2)), update_where ?key (moved now Loop_AttemptActive None) rows)"
    using transition_loop_hit [OF ok, of "?c r" Loop_AttemptActive lid "v1 + 1" "tl_fencing_token l" owner now None]
      assms(3-6) r by (simp add: counted_def row_open_def loop_is_terminal_def)
  show "fst (prepare_finish env now lid owner l v1 aid ord db) = Inr (Prepared aid ord (Some (v1 + 2)))"
    and "ldb_attempts (snd (prepare_finish env now lid owner l v1 aid ord db)) = ldb_attempts db"
    and "select_one ?key (ldb_loops (snd (prepare_finish env now lid owner l v1 aid ord db))) =
      Some (moved now Loop_AttemptActive None (?c r))"
    using keep r sel
    by (simp_all add: prepare_finish_def Let_def upd tr on_loops_def select_one_update)
qed

text \<open>
  The loop has room for another attempt: its four counters are below their hard limits, and so is, where it is known, each
  total of its usage ledger. There is no total of all tokens to compare.
\<close>

definition within_budget :: "BudgetPolicy \<Rightarrow> string TaskLoopRow \<Rightarrow> LoopUsageSummary \<Rightarrow> bool" where
  "within_budget p r u \<longleftrightarrow>
     counter_within (tl_attempt_count r) (bp_max_attempts p) (bp_max_attempts_mode p) \<and>
     counter_within (tl_no_progress_streak r) (bp_max_no_progress_streak p) (bp_max_no_progress_mode p) \<and>
     counter_within (tl_same_failure_streak r) (bp_max_same_failure_streak p) (bp_max_same_failure_mode p) \<and>
     counter_within (tl_profile_switch_count r) (bp_max_profile_switches p) (bp_max_profile_switches_mode p) \<and>
     total_within True (us_total_input_tokens u) (bp_max_input_tokens p) (bp_max_input_tokens_mode p) \<and>
     total_within True (us_total_output_tokens u) (bp_max_output_tokens p) (bp_max_output_tokens_mode p) \<and>
     total_within True (us_total_tool_calls u) (bp_max_tool_calls p) (bp_max_tool_calls_mode p) \<and>
     total_within True (us_total_estimated_cost_micros u) (bp_max_estimated_cost_micros p)
       (bp_max_estimated_cost_micros_mode p) \<and>
     total_within True (us_total_wall_time_ms u) (bp_max_wall_time_ms p) (bp_max_wall_time_mode p)"

lemma prepare_budget_ok: "prepare_budget p (row_to_loop r) u = BudgetOk \<longleftrightarrow> within_budget p r u"
  unfolding prepare_budget_def check_can_attempt_def Let_def within_budget_def
  by (subst first_report_Ok)
    (auto simp: check_not_Ok check_not_Ok [symmetric] check_counter_None check_hard_None total_within_def [of True None]
      row_to_loop_def)

text \<open>The row of the loop after the transition to \<open>preparing_attempt\<close> that starts a preparation.\<close>

lemma preparing_row:
  assumes ok: "loops_ok rows" and r: "select_one (\<lambda>l. tl_loop_id l = lid) rows = Some r"
    and lc: "tl_lifecycle r \<in> {''ready'', ''evaluating''}" "tl_owner_id r = Some owner" "tl_fencing_token r = f"
    and t: "transition_loop now lid (tl_version r) f owner Loop_PreparingAttempt None rows = (Inr (Some v1), rows1)"
  defines "m \<equiv> moved now Loop_PreparingAttempt None r"
  shows "v1 = tl_version r + 1" "loops_ok rows1" "select_one (\<lambda>l. tl_loop_id l = lid) rows1 = Some m"
    "row_open m" "tl_version m = v1" "tl_fencing_token m = f" "tl_owner_id m = Some owner"
proof -
  have op: "row_open r" using lc(1) by (auto simp: row_open_def)
  have hit: "v1 = tl_version r + 1" "rows1 = update_where (\<lambda>l. tl_loop_id l = lid) (moved now Loop_PreparingAttempt None) rows"
    using t transition_loop_hit [OF ok, of r Loop_PreparingAttempt lid "tl_version r" f owner now None]
      select_one_Some [OF r] lc op by (simp_all add: loop_is_terminal_def)
  show "v1 = tl_version r + 1" by (rule hit)
  show "loops_ok rows1" unfolding hit(2)
    by (rule loops_ok_update_key [OF ok, of r])
      (use select_one_Some [OF r] op in \<open>simp_all add: moved_open loop_is_terminal_def\<close>, simp_all add: moved_def)
  show "select_one (\<lambda>l. tl_loop_id l = lid) rows1 = Some m"
    unfolding hit(2) m_def using r select_one_Some [OF r] by (simp add: select_one_update moved_def)
  show "row_open m" "tl_version m = v1" "tl_fencing_token m = f" "tl_owner_id m = Some owner"
    using lc hit(1) unfolding m_def by (simp_all add: moved_open loop_is_terminal_def) (simp_all add: moved_def)
qed

text \<open>
  C29. An attempt that was prepared, with no statement of another worker between those of the preparation, was within every
  hard limit of the budget, counters and known totals alike, and allowed by the profile policy, for the current owner of a
  ready or evaluating loop. The loop is then active with that attempt, its ordinal and the number of attempts are
  one greater, its version is three greater and is the one returned, its owner and fencing token are kept, and the attempt is the only
  new one, recorded as created, in a table that keeps its constraints.
\<close>

theorem prepare_charges_budget:
  assumes "loops_ok (ldb_loops db)"
    and "prepare_next_attempt env pp bp now lid owner f prof src spec db = (Inr (Prepared aid ord v), db')"
  shows "\<exists>r r' a.
    select_one (\<lambda>l. tl_loop_id l = lid) (ldb_loops db) = Some r \<and> tl_lifecycle r \<in> {''ready'', ''evaluating''} \<and>
    tl_owner_id r = Some owner \<and> tl_fencing_token r = f \<and> profile_is_allowed pp prof \<and>
    within_budget bp r (sum_loop_usage lid (ldb_usage db)) \<and>
    select_one (\<lambda>l. tl_loop_id l = lid) (ldb_loops db') = Some r' \<and> tl_lifecycle r' = ''attempt_active'' \<and>
    tl_attempt_count r' = tl_attempt_count r + 1 \<and> tl_active_attempt_id r' = Some aid \<and>
    ord = tl_current_attempt_ordinal r + 1 \<and> tl_current_attempt_ordinal r' = ord \<and>
    v = Some (tl_version r') \<and> tl_version r' = tl_version r + 3 \<and>
    tl_owner_id r' = Some owner \<and> tl_fencing_token r' = f \<and>
    ldb_attempts db' = ldb_attempts db @ [a] \<and> ta_attempt_id a = aid \<and> ta_loop_id a = lid \<and>
    ta_ordinal a = ord \<and> ta_lifecycle a = ''created'' \<and> attempts_ok (ldb_attempts db')"
proof -
  obtain l v1 rows1 db2 pack db3 where g: "prepare_guards env pp bp lid owner f prof db = Inr (Inr l)"
    and t: "transition_loop now lid (tl_version l) (tl_fencing_token l) owner Loop_PreparingAttempt None (ldb_loops db) =
      (Inr (Some v1), rows1)"
    and db2: "ldb_loops db2 = rows1" "ldb_attempts db2 = ldb_attempts db"
    and a: "on_attempts (insert_attempt (new_attempt aid lid ord (tl_active_attempt_id l) pack prof src)) db2 =
      (Inr True, db3)"
    and ord: "ord = tl_current_attempt_ordinal l + 1"
    and fin: "prepare_finish env now lid owner l v1 aid ord db3 = (Inr (Prepared aid ord v), db')"
    using prepare_next_attempt_prepared [OF assms(2)] by blast
  obtain r where r: "select_one (\<lambda>r. tl_loop_id r = lid) (ldb_loops db) = Some r" and l: "l = row_to_loop r"
    and lc: "tl_lifecycle r \<in> {''ready'', ''evaluating''}" "tl_owner_id r = Some owner" "tl_fencing_token r = f"
    and pr: "profile_is_allowed pp prof"
    and bud: "prepare_budget bp l (sum_loop_usage lid (ldb_usage db)) = BudgetOk"
    using prepare_guards_passed [OF g] by blast
  have t': "transition_loop now lid (tl_version r) f owner Loop_PreparingAttempt None (ldb_loops db) = (Inr (Some v1), rows1)"
    using t lc(3) by (simp add: l)
  note m = preparing_row [OF assms(1) r lc t']
  have fen: "tl_fencing_token (moved now Loop_PreparingAttempt None r) = tl_fencing_token l" using m(6) lc(3) by (simp add: l)
  have ins: "ldb_attempts db3 = ldb_attempts db @ [new_attempt_row (new_attempt aid lid ord
      (tl_active_attempt_id l) pack prof src)] \<and> attempts_ok (ldb_attempts db3)" "ldb_loops db3 = rows1"
    using a db2 insert_attempt_True [of "new_attempt aid lid ord (tl_active_attempt_id l) pack prof src"]
    by (auto simp: on_attempts_def split: prod.splits)
  note fr = prepare_finish_row [of db3, unfolded ins(2), OF m(2,3,4,5) fen m(7), of env now aid ord, unfolded fin]
  have "within_budget bp r (sum_loop_usage lid (ldb_usage db))" using bud by (simp add: l prepare_budget_ok)
  moreover have "v = Some (tl_version r + 3)" using fr(1) m(1) by simp
  moreover have "ldb_attempts db' = ldb_attempts db @ [new_attempt_row (new_attempt aid lid ord
      (tl_active_attempt_id l) pack prof src)]" "attempts_ok (ldb_attempts db')"
    using fr(3) ins(1) by auto
  moreover have "ord = tl_current_attempt_ordinal r + 1" using ord by (simp add: l)
  ultimately show ?thesis using fr(2) r lc pr
    by (intro exI [of _ r] exI conjI) (assumption | simp add: new_attempt_row_facts moved_def counted_def l)+
qed


text \<open>A loop ready for its first attempt.\<close>

definition sample_env :: LoopEnv where
  "sample_env = \<lparr>le_uuid = (\<lambda>n. ''u'' @ show_nat n), le_to_json = (\<lambda>_. ''{}''), le_debug_budget = (\<lambda>_. ''''),
     le_path_exists = (\<lambda>_. False), le_git_exists = (\<lambda>_ _. False), le_git_read = (\<lambda>_ _. Inl '''')\<rparr>"

definition sample_ready :: LoopDb where
  "sample_ready = \<lparr>ldb_loops = snd (transition_loop 1 ''l'' 1 1 ''a'' Loop_Ready None sample_loops), ldb_attempts = [],
     ldb_decisions = [], ldb_packs = [], ldb_usage = [], ldb_operations = [], ldb_events = []\<rparr>"

definition sample_prepare :: "LoopDb \<Rightarrow> (string, PrepareAttemptOutcome) result \<times> LoopDb" where
  "sample_prepare = prepare_next_attempt sample_env loop_profile_policy_default budget_policy_default 2 ''l'' ''a'' 1
     ''p'' (InitialTaskWorkspace ''/r'') None"


theorem prepare_charges_budget_witness:
  "fst (sample_prepare sample_ready) = Inr (Prepared ''ta-l-1'' 1 (Some 5)) \<and>
   (\<exists>r a. select_one (\<lambda>l. tl_loop_id l = ''l'') (ldb_loops (snd (sample_prepare sample_ready))) = Some r \<and>
      tl_attempt_count r \<ge> 1 \<and> ldb_attempts (snd (sample_prepare sample_ready)) = [a] \<and> ta_ordinal a = 1)"
proof -
  have ok: "loops_ok (ldb_loops sample_ready)" by code_simp
  have pos: "map tl_attempt_count (ldb_loops sample_ready) = [0]" by code_simp
  have fst: "fst (sample_prepare sample_ready) = Inr (Prepared ''ta-l-1'' 1 (Some 5))" by code_simp
  then have "sample_prepare sample_ready = (Inr (Prepared ''ta-l-1'' 1 (Some 5)), snd (sample_prepare sample_ready))"
    by (metis prod.collapse)
  from prepare_charges_budget [OF ok this [unfolded sample_prepare_def]] obtain r r' a where
    "select_one (\<lambda>l. tl_loop_id l = ''l'') (ldb_loops sample_ready) = Some r"
    "select_one (\<lambda>l. tl_loop_id l = ''l'') (ldb_loops (snd (sample_prepare sample_ready))) = Some r'"
    "tl_attempt_count r' = tl_attempt_count r + 1" "ta_ordinal a = 1"
    "ldb_attempts (snd (sample_prepare sample_ready)) = ldb_attempts sample_ready @ [a]"
    unfolding sample_prepare_def by blast
  moreover from this(1) pos have "tl_attempt_count r = 0"
    using select_one_Some by (fastforce simp: map_eq_Cons_conv)
  ultimately show ?thesis using fst by (simp add: sample_ready_def)
qed

section \<open>What the reconciler may change\<close>

definition reconcile_move :: "LoopLifecycle \<Rightarrow> LoopLifecycle \<Rightarrow> bool" where
  "reconcile_move a b \<longleftrightarrow> (a, b) \<in> {(Loop_Ready, Loop_Evaluating), (Loop_PreparingAttempt, Loop_AttemptActive),
     (Loop_PreparingAttempt, Loop_Ready), (Loop_AttemptActive, Loop_Evaluating),
     (Loop_WaitingForReconciliation, Loop_Evaluating)}"

text \<open>A row before and after: untouched, or the loop's own row with its lifecycle kept or moved along an
  allowed edge and everything that decides about ownership and budget kept.\<close>

definition reconciled :: "string \<Rightarrow> string TaskLoopRow \<Rightarrow> string TaskLoopRow \<Rightarrow> bool" where
  "reconciled lid r r' \<longleftrightarrow> r' = r \<or>
     (tl_loop_id r = lid \<and> tl_loop_id r' = lid \<and> tl_task_id r' = tl_task_id r \<and>
      loop_parse (tl_lifecycle r) \<in> {Loop_Ready, Loop_PreparingAttempt, Loop_AttemptActive, Loop_Evaluating,
        Loop_WaitingForReconciliation} \<and>
      (tl_lifecycle r' = tl_lifecycle r \<or>
       reconcile_move (loop_parse (tl_lifecycle r)) (loop_parse (tl_lifecycle r'))) \<and>
      tl_owner_id r' = tl_owner_id r \<and> tl_fencing_token r' = tl_fencing_token r \<and>
      tl_attempt_count r' = tl_attempt_count r \<and> tl_no_progress_streak r' = tl_no_progress_streak r \<and>
      tl_same_failure_streak r' = tl_same_failure_streak r \<and> tl_terminal_at r' = tl_terminal_at r \<and>
      tl_version r < tl_version r')"

lemma update_checked_rows:
  "snd (update_checked ok what P f rows) = rows \<or> snd (update_checked ok what P f rows) = update_where P f rows"
  by (simp add: update_checked_def Let_def)


lemma update_loop_counters_rows:
  "snd (update_loop_counters now lid v a n p s c rows) = rows \<or>
   snd (update_loop_counters now lid v a n p s c rows) =
     update_where (\<lambda>l. tl_loop_id l = lid \<and> tl_version l = v) (counted now a n p s c) rows"
  using update_checked_rows [of loops_ok "''update counters''" _ "counted now a n p s c" rows]
  by (simp add: update_loop_counters_def counted_def [abs_def] Let_def split_beta)


lemma transition_as_owner_sel [simp]:
  "ldb_attempts (transition_as_owner now lid l v lc db) = ldb_attempts db"
  "ldb_decisions (transition_as_owner now lid l v lc db) = ldb_decisions db"
  "ldb_packs (transition_as_owner now lid l v lc db) = ldb_packs db"
  "ldb_usage (transition_as_owner now lid l v lc db) = ldb_usage db"
  "ldb_operations (transition_as_owner now lid l v lc db) = ldb_operations db"
  by (simp_all add: transition_as_owner_def)


lemma reconciled_refl [simp]: "reconciled lid r r"
  by (simp add: reconciled_def)








lemma loop_statements_ok [simp]:
  "loops_ok rows \<Longrightarrow> loops_ok (snd (transition_loop now lid v f owner lc e rows))"
  "loops_ok rows \<Longrightarrow> loops_ok (snd (update_loop_counters now lid v a n p s c rows))"
  using update_checked_ok [of loops_ok]
  by (simp_all add: transition_loop_def update_loop_counters_def Let_def split_beta)

text \<open>
  When the loop is taken over before the last two statements of a preparation, the caller is still told that the attempt is
  prepared, without a version.
\<close>

lemma prepared_without_loop:
  assumes ok: "loops_ok (ldb_loops db)"
    and token: "\<And>r. r \<in> set (ldb_loops db) \<Longrightarrow> tl_loop_id r = lid \<Longrightarrow> tl_fencing_token r \<noteq> tl_fencing_token l"
  shows "fst (prepare_finish env now lid owner l v1 aid ord db) = Inr (Prepared aid ord None)"
proof -
  let ?c = "counted now aid (tl_attempt_count l + 1) (tl_no_progress_streak l) (tl_same_failure_streak l) ord"
  define rows where "rows = snd (update_loop_counters now lid v1 aid (tl_attempt_count l + 1) (tl_no_progress_streak l)
    (tl_same_failure_streak l) ord (ldb_loops db))"
  have "rows = ldb_loops db \<or> rows = update_where (\<lambda>l. tl_loop_id l = lid \<and> tl_version l = v1) ?c (ldb_loops db)"
    unfolding rows_def by (rule update_loop_counters_rows)
  then have keys: "map (\<lambda>r. (tl_loop_id r, tl_fencing_token r)) rows = map (\<lambda>r. (tl_loop_id r, tl_fencing_token r)) (ldb_loops db)"
    by (elim disjE) (simp_all add: map_update_where counted_def)
  have "\<not> (tl_loop_id r = lid \<and> tl_fencing_token r = tl_fencing_token l)" if "r \<in> set rows" for r
  proof -
    have "(tl_loop_id r, tl_fencing_token r) \<in> set (map (\<lambda>r. (tl_loop_id r, tl_fencing_token r)) rows)" using that by simp
    then obtain q where "q \<in> set (ldb_loops db)" "tl_loop_id q = tl_loop_id r" "tl_fencing_token q = tl_fencing_token r"
      unfolding keys by auto
    then show ?thesis using token by metis
  qed
  then have none: "rows_affected (\<lambda>r. tl_loop_id r = lid \<and> tl_version r = v1 + 1 \<and> tl_fencing_token r = tl_fencing_token l \<and>
      tl_owner_id r = Some owner) rows = 0"
    unfolding rows_affected_0_iff by blast
  moreover have "loops_ok rows" unfolding rows_def using ok by simp
  ultimately have "fst (transition_loop now lid (v1 + 1) (tl_fencing_token l) owner Loop_AttemptActive None rows) = Inr None"
    by (simp add: transition_loop_def update_checked_def update_where_none cas_result_def Let_def split_beta)
  then show ?thesis by (simp add: prepare_finish_def Let_def rows_def split_beta split: sum.split)
qed





text \<open>A loop whose process died between the insertion of its first attempt and the charge for it: the statements of
  \<open>prepare_next_attempt\<close> up to that point.\<close>

definition sample_crashed :: LoopDb where
  "sample_crashed = sample_ready\<lparr>
     ldb_loops := snd (transition_loop 2 ''l'' 2 1 ''a'' Loop_PreparingAttempt None (ldb_loops sample_ready)),
     ldb_attempts := snd (insert_attempt (new_attempt ''ta-l-1'' ''l'' 1 None None ''p'' (InitialTaskWorkspace ''/r'')) [])\<rparr>"

definition empty_i4 :: I4Db where
  "empty_i4 = \<lparr>i4_executions = [], i4_runs = [], i4_finalizations = [], i4_steps = [],
     i4_reconciliations = [], i4_worktrees = [], i4_handoffs = []\<rparr>"


section \<open>Gaps in the budget\<close>

text \<open>
  A limit on the total number of tokens has no effect on the preparation of attempts, in no mode and
  whatever the usage ledger holds: the service passes the total as unknown and claims that usage is known.
\<close>

theorem total_token_limit_ignored:
  "prepare_next_attempt env pp (bp\<lparr>bp_max_total_tokens := limit, bp_max_total_tokens_mode := mode\<rparr>) =
   prepare_next_attempt env pp bp"
proof -
  have no_total: "check_hard p True None m mode n = None" for p m mode n
    by (simp add: check_hard_def split: option.split)
  have "prepare_budget (bp\<lparr>bp_max_total_tokens := limit, bp_max_total_tokens_mode := mode\<rparr>) l u = prepare_budget bp l u"
    for l u
    by (simp add: prepare_budget_def check_can_attempt_def Let_def no_total [of _ limit] no_total)
  then have "prepare_budget (bp\<lparr>bp_max_total_tokens := limit, bp_max_total_tokens_mode := mode\<rparr>) = prepare_budget bp"
    by (intro ext)
  then show ?thesis unfolding prepare_next_attempt_def [abs_def] prepare_guards_def by (simp only:)
qed

text \<open>
  The attempt of a preparation that died before the loop's counters were written is adopted by the
  reconciler without being charged: in the example a loop with a hard limit of ten attempts has its first
  attempt active and an attempt count of zero.
\<close>

theorem reconciler_forgets_attempt:
  "let db' = snd (reconcile_one sample_env 3 empty_i4 ''l'' sample_crashed)
   in map (\<lambda>l. (tl_lifecycle l, tl_active_attempt_id l, tl_attempt_count l)) (ldb_loops db') =
        [(''attempt_active'', Some ''ta-l-1'', 0)] \<and>
      map (\<lambda>a. (ta_attempt_id a, ta_ordinal a)) (ldb_attempts db') = [(''ta-l-1'', 1)]"
  by code_simp

end
