(* ===== verification/Command_Handler.thy ===== *)
theory Command_Handler
  imports Ipc Supervisor Idempotency Goal_Plans Task_Loop
begin

text \<open>
  \<open>supervisor/command_handler.rs\<close>: the commands a client sends over IPC, run on the goal service, the task loop, the
  supervisor's tables and the table of operation intents, and the ledger that makes the interaction commands
  idempotent; \<open>GoalRuntimeConfig\<close> of \<open>goal/mod.rs\<close>, which a goal is checked against before it starts. Commands that
  only drive the review and integration services or project tables for display are a parameter: they do not
  write the tables modelled here.
\<close>

section \<open>State\<close>

record OperationIntent =
  oi_operation_id :: string
  oi_request_id :: string
  oi_idempotency_key :: string
  oi_operation_kind :: string
  oi_aggregate_id :: string
  oi_desired_action :: string
  oi_state :: string
  oi_owner_instance_id :: string
  oi_owner_fencing_token :: int
  oi_attempt :: int
  oi_payload_json :: string

record HandlerDb =
  hb_goals :: GoalDb
  hb_loops :: LoopDb
  hb_sup :: SupervisorDb
  hb_idem :: "IdemRow list"
  hb_intents :: "OperationIntent list"

datatype RoleIsolationPolicy = IsolatedSessions | StrictProfileDiversity

record GoalRuntimeConfig =
  grc_role_isolation_policy :: RoleIsolationPolicy
  grc_planner_profile_id :: string
  grc_evaluator_profile_id :: string
  grc_executor_profile_ids :: "string list"
  grc_reviewer_profile_ids :: "string list"

text \<open>
  What a command depends on besides the tables: the environments of the services, the handler's instance and
  fencing token, fresh identifiers, the clock in seconds, \<open>Debug\<close> texts, and the results of the commands outside the
  model.
\<close>

record CommandEnv =
  cm_goal :: GoalEnv
  cm_loop :: LoopEnv
  cm_i4 :: I4Db
  cm_runtime_config :: "GoalRuntimeConfig option"
  cm_instance_id :: "string option"
  cm_fencing_token :: int
  cm_db_ok :: bool
  cm_uuid :: "nat \<Rightarrow> string"
  cm_token :: string
  cm_now :: int
  cm_rfc3339_now :: string
  cm_code_json :: "ErrorCode \<Rightarrow> string"
  cm_code_debug :: "ErrorCode \<Rightarrow> string"
  cm_goal_spec :: "goal_json \<Rightarrow> (string, GoalSpec) result"
  cm_debug_start :: "LoopStartOutcome \<Rightarrow> string"
  cm_debug_cancel :: "CancelLoopOutcome \<Rightarrow> string"
  cm_debug_observe :: "ObserveOutcome \<Rightarrow> string"
  cm_service :: "IpcCommand \<Rightarrow> goal_json \<Rightarrow> (CoreError, goal_json) result"

type_synonym 'a hop = "(HandlerDb, 'a) op"

definition in_goals :: "'a gop \<Rightarrow> 'a hop" where
  "in_goals m db = (let (r, g) = m (hb_goals db) in (r, db\<lparr>hb_goals := g\<rparr>))"

definition in_sup :: "(SupervisorDb, 'a) op \<Rightarrow> 'a hop" where
  "in_sup m db = (let (r, s) = m (hb_sup db) in (r, db\<lparr>hb_sup := s\<rparr>))"

definition in_idem :: "(IdemRow list, 'a) op \<Rightarrow> 'a hop" where
  "in_idem m db = (let (r, rows) = m (hb_idem db) in (r, db\<lparr>hb_idem := rows\<rparr>))"

text \<open>An error of a service under the label of the command (\<open>map_err\<close>).\<close>

definition labelled :: "CommandEnv \<Rightarrow> string \<Rightarrow> 'a hop \<Rightarrow> 'a hop" where
  "labelled env label m =
     then_do (attempt m) (\<lambda>r. case r of
       Inl e \<Rightarrow> raise (harness_error Internal (label @ '': '' @ core_error_display (cm_code_json env) e))
     | Inr x \<Rightarrow> return x)"

definition in_loops :: "string \<Rightarrow> (LoopDb \<Rightarrow> (string, 'a) result \<times> LoopDb) \<Rightarrow> 'a hop" where
  "in_loops label m db =
     (let (r, l) = m (hb_loops db)
      in ((case r of Inl e \<Rightarrow> Inl (harness_error Internal (label @ '': '' @ e)) | Inr x \<Rightarrow> Inr x), db\<lparr>hb_loops := l\<rparr>))"

section \<open>Payloads\<close>

definition json_get :: "string \<Rightarrow> goal_json \<Rightarrow> goal_json option" where
  "json_get k j = (case j of GObj kvs \<Rightarrow> map_of kvs k | _ \<Rightarrow> None)"

definition field_str :: "string \<Rightarrow> goal_json \<Rightarrow> string option" where
  "field_str k j = (case json_get k j of Some (GStr s) \<Rightarrow> Some s | _ \<Rightarrow> None)"

definition field_or :: "string \<Rightarrow> string \<Rightarrow> goal_json \<Rightarrow> string" where
  "field_or d k j = or_default d (field_str k j)"

definition needs :: "bool \<Rightarrow> string \<Rightarrow> 'a hop \<Rightarrow> 'a hop" where
  "needs ok message m = (if ok then m else raise (harness_error InvalidState message))"


section \<open>Profile separation\<close>

record ProfileSeparationError =
  pse_role_a :: string
  pse_profile_a :: string
  pse_role_b :: string
  pse_profile_b :: string
  pse_goal_id :: "string option"
  pse_message :: string

definition profile_separation_display :: "ProfileSeparationError \<Rightarrow> string" where
  "profile_separation_display e =
     ''ProfileSeparationViolation: '' @ pse_profile_a e @ '' (role='' @ pse_role_a e @ '') and '' @ pse_profile_b e @
     '' (role='' @ pse_role_b e @ '') must use different profiles'' @
     (case pse_goal_id e of Some i \<Rightarrow> '' for goal '' @ i | None \<Rightarrow> '''') @ ''. '' @ pse_message e"

definition planner_evaluator_error :: "GoalRuntimeConfig \<Rightarrow> string option \<Rightarrow> string \<Rightarrow> ProfileSeparationError" where
  "planner_evaluator_error c goal_id message =
     \<lparr>pse_role_a = ''GoalPlanner'', pse_profile_a = grc_planner_profile_id c, pse_role_b = ''GoalEvaluator'',
      pse_profile_b = grc_evaluator_profile_id c, pse_goal_id = goal_id, pse_message = message\<rparr>"

definition runtime_config_validate :: "GoalRuntimeConfig \<Rightarrow> string option \<Rightarrow> (ProfileSeparationError, unit) result" where
  "runtime_config_validate c goal_id =
     (case grc_role_isolation_policy c of
        IsolatedSessions \<Rightarrow>
          (if grc_planner_profile_id c = '''' \<or> grc_evaluator_profile_id c = '''' then
             Inl (planner_evaluator_error c goal_id
               ''At least one operational RuntimeProfile is required for IsolatedSessions mode'')
           else Inr ())
      | StrictProfileDiversity \<Rightarrow>
          (if grc_planner_profile_id c = grc_evaluator_profile_id c then
             Inl (planner_evaluator_error c goal_id
               ''Planner and Evaluator must use different profiles under StrictProfileDiversity'')
           else (case find (\<lambda>rp. rp \<in> set (grc_executor_profile_ids c)) (grc_reviewer_profile_ids c) of
                   Some rp \<Rightarrow> Inl \<lparr>pse_role_a = ''TaskExecutor'', pse_profile_a = rp, pse_role_b = ''TaskReviewer'',
                     pse_profile_b = rp, pse_goal_id = goal_id,
                     pse_message = ''profile '' @ sq rp @ '' cannot be used for both Executor and Reviewer roles under '' @
                       ''StrictProfileDiversity''\<rparr>
                 | None \<Rightarrow> Inr ())))"

definition validate_profile_separation :: "CommandEnv \<Rightarrow> string \<Rightarrow> (ProfileSeparationError, unit) result" where
  "validate_profile_separation env goal_id =
     (case cm_runtime_config env of Some c \<Rightarrow> runtime_config_validate c (Some goal_id) | None \<Rightarrow> Inr ())"


section \<open>Operation intents\<close>

text \<open>The \<open>CHECK\<close> constraint of the column \<open>operation_kind\<close> (migration 027).\<close>

definition intent_kinds :: "string list" where
  "intent_kinds = [''task_start'', ''task_resume'', ''task_cancel'', ''review_create'', ''review_run'',
     ''integration_enqueue'', ''integration_run_next'', ''integration_cancel'', ''integration_recover'',
     ''supervisor_stop'', ''cancel'', ''inspect'']"

definition persistence_failure :: "string \<Rightarrow> CoreError" where
  "persistence_failure message = core_error_new PersistenceError message SrcSystem"

definition insert_intent :: "OperationIntent \<Rightarrow> unit hop" where
  "insert_intent i db =
     (if oi_operation_kind i \<notin> set intent_kinds then
        (Inl (persistence_failure ''persist operation intent: CHECK constraint failed''), db)
      else if list_ex (\<lambda>r. oi_operation_id r = oi_operation_id i) (hb_intents db) then
        (Inl (persistence_failure ''persist operation intent: UNIQUE constraint failed''), db)
      else (Inr (), db\<lparr>hb_intents := hb_intents db @ [i]\<rparr>))"

text \<open>\<open>ORDER BY created_at DESC LIMIT 1\<close>: the last row inserted under the key.\<close>

definition persist_operation_intent ::
  "CommandEnv \<Rightarrow> string \<Rightarrow> string \<Rightarrow> string \<Rightarrow> string \<Rightarrow> string \<Rightarrow> goal_json \<Rightarrow> string hop" where
  "persist_operation_intent env operation_id request_id idempotency_key command_name aggregate_id payload =
     (let payload_json = ge_json (cm_goal env) payload;
          owner_id = or_default '''' (cm_instance_id env);
          insert = then_do (insert_intent
            \<lparr>oi_operation_id = operation_id, oi_request_id = request_id, oi_idempotency_key = idempotency_key,
             oi_operation_kind = command_name, oi_aggregate_id = aggregate_id, oi_desired_action = command_name,
             oi_state = ''pending'', oi_owner_instance_id = owner_id, oi_owner_fencing_token = cm_fencing_token env,
             oi_attempt = 1, oi_payload_json = payload_json\<rparr>) (\<lambda>_. return operation_id)
      in if idempotency_key = '''' then insert
         else then_do (select (\<lambda>db. select_one
               (\<lambda>i. oi_idempotency_key i = idempotency_key \<and> oi_payload_json i = payload_json) (rev (hb_intents db))))
           (\<lambda>existing. case existing of
              Some i \<Rightarrow> return (oi_operation_id i)
            | None \<Rightarrow>
                then_do (select (\<lambda>db. list_ex
                    (\<lambda>i. oi_idempotency_key i = idempotency_key \<and> oi_payload_json i \<noteq> payload_json) (hb_intents db)))
                  (\<lambda>conflict. if conflict then
                     raise (harness_error ErrConflict
                       (''idempotency conflict: key '' @ sq idempotency_key @ '' used with different payload''))
                   else insert)))"


section \<open>Commands\<close>

definition unsupported :: "IpcCommand \<Rightarrow> goal_json" where
  "unsupported command = GObj [(''supported'', GBool False), (''command'', GStr (ipc_command_as_str command)),
     (''error'', GStr ''unsupported_command''),
     (''message'', GStr (''Command '' @ sq (ipc_command_as_str command) @ '' is not supported in this supervisor version''))]"

definition cmd_supervisor_stop :: "CommandEnv \<Rightarrow> goal_json \<Rightarrow> goal_json hop" where
  "cmd_supervisor_stop env payload =
     (let request_id = cm_uuid env 0
      in then_do (persist_operation_intent env (cm_uuid env 1) request_id (''supervisor-stop-'' @ request_id)
            ''supervisor.stop'' ''supervisor'' payload) (\<lambda>_.
         then_do (case cm_instance_id env of
              Some i \<Rightarrow> then_do (labelled env ''stop supervisor'' (in_sup (force_deactivate_lease i))) (\<lambda>_. return ())
            | None \<Rightarrow> return ()) (\<lambda>_.
         return (GObj [(''acknowledged'', GBool True),
           (''message'', GStr ''Shutdown signal sent. Supervisor will drain and stop.'')]))))"

definition cmd_health :: "CommandEnv \<Rightarrow> goal_json hop" where
  "cmd_health env = return (GObj [(''healthy'', GBool (cm_db_ok env)), (''timestamp'', GStr (cm_rfc3339_now env))])"

text \<open>\<open>ORDER BY created_at DESC LIMIT 20\<close>.\<close>

definition cmd_inspect :: "goal_json \<Rightarrow> goal_json hop" where
  "cmd_inspect payload =
     (let aggregate_type = field_or ''unknown'' ''aggregate_type'' payload;
          aggregate_id = field_or ''unknown'' ''aggregate_id'' payload
      in then_do (select (\<lambda>db. take 20 (filter (\<lambda>i. oi_aggregate_id i = aggregate_id) (rev (hb_intents db))))) (\<lambda>rows.
         return (GObj [(''aggregate_type'', GStr aggregate_type), (''aggregate_id'', GStr aggregate_id),
           (''operations'', GArr (map (\<lambda>i. GObj [(''operation_id'', GStr (oi_operation_id i)),
              (''kind'', GStr (oi_operation_kind i)), (''state'', GStr (oi_state i))]) rows)),
           (''count'', GInt (int (length rows)))])))"

definition cmd_task_start :: "CommandEnv \<Rightarrow> goal_json \<Rightarrow> goal_json hop" where
  "cmd_task_start env payload =
     (let project = field_or ''default'' ''project'' payload;
          task = field_or '''' ''task'' payload;
          owner = field_or ''ipc'' ''owner'' payload;
          policy = field_or ''{}'' ''policy'' payload
      in needs (task \<noteq> '''') ''task identifier is required''
         (then_do (persist_operation_intent env (cm_uuid env 1) (cm_uuid env 0)
              (''task-start-'' @ project @ ''-'' @ task) ''task.start'' (''task-'' @ project @ ''-'' @ task) payload) (\<lambda>_.
          then_do (in_loops ''task start'' (create_loop (cm_loop env) (cm_now env)
              \<lparr>cl_project_id = project, cl_task_id = task, cl_policy_json = policy, cl_policy_fingerprint = '''',
               cl_idempotency_key = cm_uuid env 2, cl_request_hash = '''', cl_owner_id = owner, cl_lease_secs = 300\<rparr>))
            (\<lambda>outcome.
             let started = (\<lambda>loop_id. return (GObj [(''loop_id'', GStr loop_id), (''project'', GStr project),
                   (''task'', GStr task), (''owner'', GStr owner), (''status'', GStr ''started'')]))
             in case outcome of
                  LoopCreated loop_id \<Rightarrow> started loop_id
                | LoopDuplicate loop_id \<Rightarrow> started loop_id
                | LoopIdempotencyConflict _ \<Rightarrow>
                    raise (harness_error ErrConflict ''idempotency conflict on task loop create'')
                | TaskAlreadyHasActiveLoop existing \<Rightarrow> return (GObj [(''loop_id'', GStr existing),
                    (''status'', GStr ''already_active''), (''message'', GStr ''Task already has an active loop'')])
                | LoopInfrastructureError reason \<Rightarrow>
                    raise (harness_error Internal (''infrastructure error: '' @ reason))))))"

definition loop_projection :: "bool \<Rightarrow> goal_json \<Rightarrow> goal_json hop" where
  "loop_projection with_streak payload =
     (let loop_id = field_or '''' ''loop_id'' payload
      in needs (loop_id \<noteq> '''') ''loop_id is required''
         (then_do (select (\<lambda>db. inspect_loop loop_id (hb_loops db))) (\<lambda>inspection.
          return (case inspection of
            Some info \<Rightarrow> GObj ([(''loop_id'', GStr (tl_loop_id (li_loop info))), (''task_id'', GStr (tl_task_id (li_loop info))),
                (''lifecycle'', GStr (loop_as_str (tl_lifecycle (li_loop info)))),
                (''attempt_count'', GInt (tl_attempt_count (li_loop info))),
                (''current_ordinal'', GInt (tl_current_attempt_ordinal (li_loop info)))] @
                (if with_streak then [(''no_progress_streak'', GInt (tl_no_progress_streak (li_loop info)))] else []))
          | None \<Rightarrow> GObj [(''loop_id'', GStr loop_id), (''status'', GStr ''not_found'')]))))"

definition cmd_task_status :: "goal_json \<Rightarrow> goal_json hop" where
  "cmd_task_status payload = loop_projection False payload"

definition cmd_task_inspect :: "goal_json \<Rightarrow> goal_json hop" where
  "cmd_task_inspect payload = loop_projection True payload"

definition cmd_task_resume :: "CommandEnv \<Rightarrow> goal_json \<Rightarrow> goal_json hop" where
  "cmd_task_resume env payload =
     (let loop_id = field_or '''' ''loop_id'' payload; owner = field_or ''ipc'' ''owner'' payload
      in needs (loop_id \<noteq> '''') ''loop_id is required''
         (then_do (in_loops ''task resume'' (start_or_resume_loop (cm_loop env) (cm_now env) loop_id owner 300)) (\<lambda>outcome.
          return (GObj [(''loop_id'', GStr loop_id), (''status'', GStr (cm_debug_start env outcome))]))))"

definition cmd_task_cancel :: "CommandEnv \<Rightarrow> goal_json \<Rightarrow> goal_json hop" where
  "cmd_task_cancel env payload =
     (let loop_id = field_or '''' ''loop_id'' payload; owner = field_or ''ipc'' ''owner'' payload
      in needs (loop_id \<noteq> '''') ''loop_id is required''
         (then_do (in_loops ''task cancel'' (cancel_loop (cm_loop env) (cm_now env) loop_id owner 0 0)) (\<lambda>outcome.
          return (GObj [(''loop_id'', GStr loop_id), (''status'', GStr (cm_debug_cancel env outcome))]))))"

definition cmd_task_dry_run :: "CommandEnv \<Rightarrow> goal_json \<Rightarrow> goal_json hop" where
  "cmd_task_dry_run env payload =
     (let loop_id = field_or '''' ''loop_id'' payload
      in needs (loop_id \<noteq> '''') ''loop_id is required''
         (then_do (in_loops ''task dry-run''
             (\<lambda>l. let (r, l') = observe_active_attempt (cm_loop env) (cm_i4 env) loop_id l in (Inr r, l'))) (\<lambda>outcome.
          return (GObj [(''loop_id'', GStr loop_id), (''outcome'', GStr (cm_debug_observe env outcome))]))))"

text \<open>Enqueueing and running integrations: the intent, then the integration service (a parameter).\<close>

definition cmd_integration_enqueue :: "CommandEnv \<Rightarrow> goal_json \<Rightarrow> goal_json hop" where
  "cmd_integration_enqueue env payload =
     (let candidate_id = field_or '''' ''candidate_id'' payload
      in needs (candidate_id \<noteq> '''') ''candidate_id is required''
         (then_do (persist_operation_intent env (cm_uuid env 1) (cm_uuid env 0)
              (''integration-enqueue-'' @ candidate_id) ''integration.enqueue'' candidate_id payload) (\<lambda>_.
          (\<lambda>db. (cm_service env IntegrationEnqueue payload, db)))))"

definition cmd_integration_run_next :: "CommandEnv \<Rightarrow> goal_json \<Rightarrow> goal_json hop" where
  "cmd_integration_run_next env payload =
     (let repo_id = field_or ''default'' ''repo_id'' payload;
          target_ref = field_or ''refs/heads/main'' ''target_ref'' payload
      in then_do (persist_operation_intent env (cm_uuid env 1) (cm_uuid env 0)
              (''integration-run-next-'' @ repo_id @ ''-'' @ target_ref) ''integration.run_next''
              (repo_id @ ''/'' @ target_ref) payload) (\<lambda>_.
          (\<lambda>db. (cm_service env IntegrationRunNext payload, db))))"

definition cancel_intents :: "(OperationIntent \<Rightarrow> bool) \<Rightarrow> unit hop" where
  "cancel_intents P db = (Inr (), db\<lparr>hb_intents := update_where
     (\<lambda>i. P i \<and> oi_state i \<notin> {''succeeded'', ''failed'', ''cancelled'', ''abandoned''})
     (\<lambda>i. i\<lparr>oi_state := ''cancelled''\<rparr>) (hb_intents db)\<rparr>)"

definition cmd_cancel :: "goal_json \<Rightarrow> goal_json hop" where
  "cmd_cancel payload =
     (let operation_id = field_or '''' ''operation_id'' payload; aggregate_id = field_or '''' ''aggregate_id'' payload
      in needs (\<not> (operation_id = '''' \<and> aggregate_id = ''''))
           ''operation_id or aggregate_id is required for cancellation''
         (then_do (if operation_id \<noteq> '''' then cancel_intents (\<lambda>i. oi_operation_id i = operation_id) else return ()) (\<lambda>_.
          then_do (if aggregate_id \<noteq> '''' then cancel_intents (\<lambda>i. oi_aggregate_id i = aggregate_id) else return ()) (\<lambda>_.
          return (GObj [(''cancelled'', GBool True), (''operation_id'', GStr operation_id),
            (''aggregate_id'', GStr aggregate_id)])))))"


section \<open>Goal commands\<close>

definition cmd_goal_create :: "CommandEnv \<Rightarrow> goal_json \<Rightarrow> goal_json hop" where
  "cmd_goal_create env payload =
     (let goal_value = (case json_get ''goal_spec'' payload of
            Some (GStr s) \<Rightarrow> or_default (GStr s) (ge_json_of (cm_goal env) s)
          | Some v \<Rightarrow> v
          | None \<Rightarrow> payload)
      in case cm_goal_spec env goal_value of
           Inl e \<Rightarrow> raise (harness_error SerializationError (''invalid goal spec: '' @ e))
         | Inr goal \<Rightarrow>
             then_do (labelled env ''goal create'' (in_goals (create_goal (cm_goal env) goal))) (\<lambda>g.
             return (GObj [(''goal_id'', GStr (gs_goal_id g)), (''revision'', GInt (gs_revision g)),
               (''title'', GStr (gs_title g)), (''state'', GStr ''draft''), (''status'', GStr ''created'')])))"

definition cmd_goal_start :: "CommandEnv \<Rightarrow> goal_json \<Rightarrow> goal_json hop" where
  "cmd_goal_start env payload =
     (let goal_id = field_or '''' ''goal_id'' payload
      in needs (goal_id \<noteq> '''') ''goal_id is required''
         (case validate_profile_separation env goal_id of
            Inl e \<Rightarrow> raise (harness_error ProfileSeparationViolation (profile_separation_display e))
          | Inr _ \<Rightarrow>
              then_do (labelled env ''goal start'' (in_goals (transition_goal (cm_goal env) goal_id Goal_Planning))) (\<lambda>_.
              then_do (labelled env ''goal start loop'' (in_goals (start_loop_run (cm_goal env) goal_id))) (\<lambda>run_id.
              return (GObj [(''goal_id'', GStr goal_id), (''run_id'', GStr run_id), (''status'', GStr ''started'')])))))"

definition cmd_goal_show :: "CommandEnv \<Rightarrow> goal_json \<Rightarrow> goal_json hop" where
  "cmd_goal_show env payload =
     (let goal_id = field_or '''' ''goal_id'' payload
      in needs (goal_id \<noteq> '''') ''goal_id is required''
         (then_do (select (\<lambda>db. get_goal (cm_goal env) goal_id (hb_goals db))) (\<lambda>goal.
          return (case goal of
            Some g \<Rightarrow> GObj [(''goal_id'', GStr (gs_goal_id g)), (''revision'', GInt (gs_revision g)),
              (''title'', GStr (gs_title g)), (''objective'', GStr (gs_objective g)),
              (''repository_id'', GStr (gs_repository_id g)), (''target_ref'', GStr (gs_target_ref g)),
              (''criteria_count'', GInt (int (length (gs_success_criteria g)))),
              (''constraints_count'', GInt (int (length (gs_constraints g))))]
          | None \<Rightarrow> GObj [(''goal_id'', GStr goal_id), (''status'', GStr ''not_found'')]))))"

definition cmd_goal_status :: "CommandEnv \<Rightarrow> goal_json \<Rightarrow> goal_json hop" where
  "cmd_goal_status env payload =
     (let goal_id = field_or '''' ''goal_id'' payload
      in needs (goal_id \<noteq> '''') ''goal_id is required''
         (then_do (select (\<lambda>db. get_goal (cm_goal env) goal_id (hb_goals db))) (\<lambda>goal.
          case goal of
            Some g \<Rightarrow>
              then_do (select (\<lambda>db. get_active_plan (cm_goal env) goal_id (hb_goals db))) (\<lambda>plan.
              return (GObj [(''goal_id'', GStr (gs_goal_id g)), (''revision'', GInt (gs_revision g)),
                (''title'', GStr (gs_title g)), (''has_active_plan'', GBool (plan \<noteq> None)),
                (''plan_revision'', case plan of Some p \<Rightarrow> GInt (pv_revision_number p) | None \<Rightarrow> GNull)]))
          | None \<Rightarrow> return (GObj [(''goal_id'', GStr goal_id), (''status'', GStr ''not_found'')]))))"

definition applied_json :: "InteractionOutcome \<Rightarrow> goal_json" where
  "applied_json outcome = GBool (outcome_applied outcome)"

definition cmd_goal_pause :: "CommandEnv \<Rightarrow> goal_json \<Rightarrow> goal_json hop" where
  "cmd_goal_pause env payload =
     (let goal_id = field_or '''' ''goal_id'' payload
      in needs (goal_id \<noteq> '''') ''goal_id is required''
         (then_do (in_goals (pause_goal (cm_goal env) goal_id)) (\<lambda>outcome.
          return (GObj [(''goal_id'', GStr goal_id), (''status'', GStr ''paused''), (''applied'', applied_json outcome)]))))"

definition cmd_goal_resume :: "CommandEnv \<Rightarrow> goal_json \<Rightarrow> goal_json hop" where
  "cmd_goal_resume env payload =
     (let goal_id = field_or '''' ''goal_id'' payload
      in needs (goal_id \<noteq> '''') ''goal_id is required''
         (then_do (in_goals (resume_goal (cm_goal env) goal_id)) (\<lambda>outcome.
          return (GObj [(''goal_id'', GStr goal_id), (''status'', GStr ''resumed''), (''applied'', applied_json outcome)]))))"

definition cmd_goal_cancel :: "CommandEnv \<Rightarrow> goal_json \<Rightarrow> goal_json hop" where
  "cmd_goal_cancel env payload =
     (let goal_id = field_or '''' ''goal_id'' payload;
          cancelled = (\<lambda>applied. GObj [(''goal_id'', GStr goal_id), (''status'', GStr ''cancelled''), (''applied'', GBool applied)])
      in needs (goal_id \<noteq> '''') ''goal_id is required''
         (then_do (select (\<lambda>db. map_option gr_state (select_one (\<lambda>g. gr_goal_id g = goal_id) (gd_goals (hb_goals db)))))
           (\<lambda>state.
            if state = None then raise (harness_error NotFound (''goal '' @ goal_id @ '' not found''))
            else if state = Some ''cancelled'' then return (cancelled False)
            else then_do (in_goals (transition_goal (cm_goal env) goal_id Goal_Cancelled)) (\<lambda>_.
                 return (cancelled True)))))"

definition cmd_goal_replan :: "goal_json hop" where
  "cmd_goal_replan = return (GObj [(''supported'', GBool True),
     (''message'', GStr ''goal replan uses the GoalLoopService replanning path'')])"

definition approval_state_debug :: "ApprovalState \<Rightarrow> string" where
  "approval_state_debug s =
     (case s of Apr_Pending \<Rightarrow> ''Pending'' | Apr_Approved \<Rightarrow> ''Approved'' | Apr_Rejected \<Rightarrow> ''Rejected''
      | Apr_Expired \<Rightarrow> ''Expired'' | Apr_Cancelled \<Rightarrow> ''Cancelled'')"

definition cmd_goal_approvals :: "CommandEnv \<Rightarrow> goal_json \<Rightarrow> goal_json hop" where
  "cmd_goal_approvals env payload =
     (let goal_id = field_or '''' ''goal_id'' payload
      in needs (goal_id \<noteq> '''') ''goal_id is required''
         (then_do (select (\<lambda>db. list_pending_approvals (cm_goal env) goal_id (hb_goals db))) (\<lambda>approvals.
          return (GObj [(''approvals'', GArr (map (\<lambda>a. GObj [(''approval_id'', GStr (ar_approval_id a)),
              (''type'', GStr (approval_type_as_str (ar_approval_type a))),
              (''state'', GStr (approval_state_debug (ar_state a))), (''reason'', GStr (ar_reason a))]) approvals)),
            (''count'', GInt (int (length approvals)))]))))"

definition find_approval :: "CommandEnv \<Rightarrow> string \<Rightarrow> approval hop" where
  "find_approval env approval_id = require (harness_error NotFound (''approval '' @ approval_id @ '' not found''))
     (\<lambda>db. get_approval (cm_goal env) approval_id (hb_goals db))"

definition decision_json :: "string \<Rightarrow> approval \<Rightarrow> bool \<Rightarrow> string \<Rightarrow> goal_json \<Rightarrow> goal_json" where
  "decision_json approval_id a with_plan status applied =
     GObj ([(''approval_id'', GStr approval_id), (''goal_id'', GStr (ar_goal_id a))] @
       (if with_plan then [(''plan_revision_id'', opt_json (ar_plan_revision_id a))] else []) @
       [(''status'', GStr status), (''applied'', applied)])"

definition cmd_goal_approve :: "CommandEnv \<Rightarrow> goal_json \<Rightarrow> goal_json hop" where
  "cmd_goal_approve env payload =
     (let approval_id = field_or '''' ''approval_id'' payload
      in needs (approval_id \<noteq> '''') ''approval_id is required''
         (then_do (find_approval env approval_id) (\<lambda>a.
          if ar_approval_type a = ApproveInitialPlan then
            then_do (in_goals (approve_plan (cm_goal env) (ar_goal_id a) approval_id ''ipc-user''
                (field_str ''expected_plan_revision_id'' payload))) (\<lambda>outcome.
            return (decision_json approval_id a True ''approved'' (applied_json outcome)))
          else
            then_do (in_goals (approve (cm_goal env) approval_id ''ipc-user'')) (\<lambda>_.
            return (decision_json approval_id a False ''approved'' (GBool True))))))"

definition cmd_goal_reject :: "CommandEnv \<Rightarrow> goal_json \<Rightarrow> goal_json hop" where
  "cmd_goal_reject env payload =
     (let approval_id = field_or '''' ''approval_id'' payload
      in needs (approval_id \<noteq> '''') ''approval_id is required''
         (then_do (find_approval env approval_id) (\<lambda>a.
          if ar_approval_type a = ApproveInitialPlan then
            then_do (in_goals (reject_plan (cm_goal env) (ar_goal_id a) approval_id ''ipc-user''
                (field_str ''expected_plan_revision_id'' payload))) (\<lambda>outcome.
            return (decision_json approval_id a True ''rejected'' (applied_json outcome)))
          else
            then_do (in_goals (reject_approval (cm_goal env) approval_id ''ipc-user'')) (\<lambda>_.
            return (decision_json approval_id a False ''rejected'' (GBool True))))))"

definition cmd_goal_answer :: "CommandEnv \<Rightarrow> goal_json \<Rightarrow> goal_json hop" where
  "cmd_goal_answer env payload =
     (let approval_id = field_or '''' ''approval_id'' payload
      in needs (approval_id \<noteq> '''') ''approval_id is required''
         (case json_get ''answers'' payload of
            None \<Rightarrow> raise (harness_error InvalidState ''answers is required'')
          | Some given \<Rightarrow>
              then_do (find_approval env approval_id) (\<lambda>a.
              then_do (in_goals (answer_clarification (cm_goal env) (ar_goal_id a) approval_id given ''ipc-user'')) (\<lambda>outcome.
              return (decision_json approval_id a False ''answered'' (applied_json outcome))))))"

definition cmd_goal_request_changes :: "CommandEnv \<Rightarrow> goal_json \<Rightarrow> goal_json hop" where
  "cmd_goal_request_changes env payload =
     (let approval_id = field_or '''' ''approval_id'' payload; feedback = field_or '''' ''feedback'' payload
      in needs (approval_id \<noteq> '''' \<and> feedback \<noteq> '''') ''approval_id and feedback are required''
         (then_do (find_approval env approval_id) (\<lambda>a.
          then_do (in_goals (request_plan_changes (cm_goal env) (ar_goal_id a) approval_id feedback ''ipc-user'')) (\<lambda>outcome.
          return (decision_json approval_id a True ''changes_requested'' (applied_json outcome))))))"

definition cmd_goal_intervene :: "CommandEnv \<Rightarrow> goal_json \<Rightarrow> goal_json hop" where
  "cmd_goal_intervene env payload =
     (let goal_id = field_or '''' ''goal_id'' payload; message = field_or '''' ''message'' payload
      in needs (goal_id \<noteq> '''' \<and> message \<noteq> '''') ''goal_id and message are required''
         (then_do (in_goals (record_intervention (cm_goal env) goal_id message (field_str ''request_id'' payload) ''user'')) (\<lambda>i.
          return (GObj [(''goal_id'', GStr goal_id), (''intervention_id'', GStr (iv_intervention_id i)),
            (''classification'', GStr (intervention_class_as_str (iv_classification i))),
            (''state'', GStr (intervention_as_str (iv_state i))), (''status'', GStr ''recorded'')]))))"


section \<open>Dispatch and ledger\<close>

definition handle_command :: "CommandEnv \<Rightarrow> IpcCommand \<Rightarrow> goal_json \<Rightarrow> goal_json hop" where
  "handle_command env command payload =
     (case command of
        SupervisorStop \<Rightarrow> cmd_supervisor_stop env payload
      | Health \<Rightarrow> cmd_health env
      | Inspect \<Rightarrow> cmd_inspect payload
      | TaskStart \<Rightarrow> cmd_task_start env payload
      | TaskStatus \<Rightarrow> cmd_task_status payload
      | TaskResume \<Rightarrow> cmd_task_resume env payload
      | TaskCancel \<Rightarrow> cmd_task_cancel env payload
      | TaskInspect \<Rightarrow> cmd_task_inspect payload
      | TaskDryRunDecision \<Rightarrow> cmd_task_dry_run env payload
      | IntegrationEnqueue \<Rightarrow> cmd_integration_enqueue env payload
      | IntegrationRunNext \<Rightarrow> cmd_integration_run_next env payload
      | Cancel \<Rightarrow> cmd_cancel payload
      | Subscribe \<Rightarrow> return (unsupported command)
      | Unsubscribe \<Rightarrow> return (unsupported command)
      | GoalCreate \<Rightarrow> cmd_goal_create env payload
      | GoalStart \<Rightarrow> cmd_goal_start env payload
      | GoalShow \<Rightarrow> cmd_goal_show env payload
      | GoalStatus \<Rightarrow> cmd_goal_status env payload
      | GoalPause \<Rightarrow> cmd_goal_pause env payload
      | GoalResume \<Rightarrow> cmd_goal_resume env payload
      | GoalCancel \<Rightarrow> cmd_goal_cancel env payload
      | GoalReplan \<Rightarrow> cmd_goal_replan
      | GoalApprovals \<Rightarrow> cmd_goal_approvals env payload
      | GoalApprove \<Rightarrow> cmd_goal_approve env payload
      | GoalReject \<Rightarrow> cmd_goal_reject env payload
      | GoalAnswer \<Rightarrow> cmd_goal_answer env payload
      | GoalRequestChanges \<Rightarrow> cmd_goal_request_changes env payload
      | GoalIntervene \<Rightarrow> cmd_goal_intervene env payload
      | _ \<Rightarrow> (\<lambda>db. (cm_service env command payload, db)))"

definition ledgered :: "IpcCommand \<Rightarrow> bool" where
  "ledgered c \<longleftrightarrow> c \<in> {GoalAnswer, GoalApprove, GoalRequestChanges, GoalReject, GoalIntervene, GoalPause, GoalResume,
     GoalCancel}"

definition handler_success :: "goal_json \<Rightarrow> goal_json IpcHandlerOutcome" where
  "handler_success payload = \<lparr>ho_status = Status_Success, ho_payload = payload\<rparr>"

definition handler_duplicate :: "goal_json \<Rightarrow> goal_json IpcHandlerOutcome" where
  "handler_duplicate payload = \<lparr>ho_status = Status_Duplicate, ho_payload = payload\<rparr>"

definition in_flight :: "goal_json IpcHandlerOutcome" where
  "in_flight = \<lparr>ho_status = Status_Accepted, ho_payload = GObj [(''state'', GStr ''in_flight''),
     (''message'', GStr ''a request with this idempotency key is still executing'')]\<rparr>"

text \<open>The request id threaded into interventions (\<open>entry(..).or_insert_with\<close>).\<close>

definition effective_payload :: "IpcRequestContext \<Rightarrow> IpcCommand \<Rightarrow> goal_json \<Rightarrow> goal_json" where
  "effective_payload ctx command payload =
     (case payload of
        GObj kvs \<Rightarrow> if command = GoalIntervene \<and> map_of kvs ''request_id'' = None
                    then GObj (kvs @ [(''request_id'', GStr (ctx_request_id ctx))]) else payload
      | _ \<Rightarrow> payload)"

definition request_key :: "IpcRequestContext \<Rightarrow> string" where
  "request_key ctx = ''ipc-'' @ ctx_idempotency_key ctx"

definition ipc_request_hash :: "CommandEnv \<Rightarrow> IpcCommand \<Rightarrow> goal_json \<Rightarrow> string" where
  "ipc_request_hash env command payload =
     ge_sha256 (cm_goal env) (ipc_command_as_str command @ ge_json (cm_goal env) payload)"

definition reuse_conflict :: "IpcRequestContext \<Rightarrow> CoreError" where
  "reuse_conflict ctx = harness_error ErrConflict
     (''idempotency conflict: key '' @ sq (ctx_idempotency_key ctx) @ '' reused with a different payload'')"

definition error_json :: "CommandEnv \<Rightarrow> CoreError \<Rightarrow> goal_json" where
  "error_json env e = GObj [(''code'', GStr (cm_code_debug env (ce_code e))),
     (''message'', GStr (core_error_display (cm_code_json env) e))]"

text \<open>The three answers of the claim: execute under it, replay, or fail.\<close>

definition execute_claimed ::
  "CommandEnv \<Rightarrow> IpcRequestContext \<Rightarrow> IpcCommand \<Rightarrow> goal_json \<Rightarrow> string \<Rightarrow> goal_json IpcHandlerOutcome hop" where
  "execute_claimed env ctx command payload token =
     then_do (attempt (handle_command env command (effective_payload ctx command payload))) (\<lambda>r. case r of
       Inr result \<Rightarrow>
         then_do (in_idem (complete_claim (request_key ctx) token (ge_json (cm_goal env) result))) (\<lambda>_.
         return (handler_success result))
     | Inl e \<Rightarrow>
         then_do (ignoring (in_idem (fail_claim (request_key ctx) token (ge_json (cm_goal env) (error_json env e)) False))) (\<lambda>_.
         raise e))"

definition replay :: "CommandEnv \<Rightarrow> IpcRequestContext \<Rightarrow> string \<Rightarrow> goal_json IpcHandlerOutcome hop" where
  "replay env ctx hash =
     then_do (select (\<lambda>db. map_option ir_request_hash (idem_row (request_key ctx) (hb_idem db)))) (\<lambda>stored_hash.
     if stored_hash \<noteq> None \<and> stored_hash \<noteq> Some hash then raise (reuse_conflict ctx)
     else then_do (select (\<lambda>db. get_result (request_key ctx) (hb_idem db))) (\<lambda>result.
       return (case result of
         Some stored \<Rightarrow> handler_duplicate (or_default (GStr stored) (ge_json_of (cm_goal env) stored))
       | None \<Rightarrow> in_flight)))"

definition handle_request ::
  "CommandEnv \<Rightarrow> IpcRequestContext \<Rightarrow> IpcCommand \<Rightarrow> goal_json \<Rightarrow> goal_json IpcHandlerOutcome hop" where
  "handle_request env ctx command payload =
     (if \<not> ledgered command \<or> ctx_idempotency_key ctx = '''' then
        then_do (handle_command env command payload) (\<lambda>result. return (handler_success result))
      else
        (let hash = ipc_request_hash env command payload
         in then_do (attempt (in_idem (try_claim (cm_now env) (cm_token env) (request_key ctx) hash 600))) (\<lambda>claim.
            case claim of
              Inr (Some token) \<Rightarrow> execute_claimed env ctx command payload token
            | Inr None \<Rightarrow> replay env ctx hash
            | Inl e \<Rightarrow>
                if contains_str (core_error_display (cm_code_json env) e) ''idempotency_request_mismatch''
                then raise (reuse_conflict ctx) else raise e)))"


section \<open>What commands leave alone\<close>

lemma keeps_parts [keeps_intros]:
  "keeps hb_idem (in_goals m)" "keeps hb_intents (in_goals m)"
  "keeps hb_idem (in_sup n)" "keeps hb_intents (in_sup n)"
  "keeps hb_idem (in_loops label l)" "keeps hb_intents (in_loops label l)"
  "keeps hb_intents (in_idem k)" "keeps hb_goals (in_idem k)"
  "keeps hb_idem (insert_intent i)" "keeps hb_idem (cancel_intents P)"
  by (simp_all add: keeps_def in_goals_def in_sup_def in_loops_def in_idem_def insert_intent_def cancel_intents_def split_beta)

lemma keeps_result [keeps_intros]:
  "(\<And>e. keeps part (f e)) \<Longrightarrow> (\<And>x. keeps part (g x)) \<Longrightarrow> keeps part (case r of Inl e \<Rightarrow> f e | Inr x \<Rightarrow> g x)"
  by (simp split: sum.split)

lemma keeps_constant [keeps_intros]: "keeps part (\<lambda>db. (r, db))"
  by (simp add: keeps_def)

lemma keeps_needs [keeps_intros]: "keeps part m \<Longrightarrow> keeps part (needs ok message m)"
  by (simp add: needs_def keeps_intros)

lemma keeps_labelled [keeps_intros]: "keeps part m \<Longrightarrow> keeps part (labelled env label m)"
  unfolding labelled_def by (intro keeps_intros)

lemma keeps_outcome [keeps_intros]:
  "(\<And>x. keeps part (f1 x)) \<Longrightarrow> (\<And>x. keeps part (f2 x)) \<Longrightarrow> (\<And>x. keeps part (f3 x)) \<Longrightarrow> (\<And>x. keeps part (f4 x)) \<Longrightarrow>
   (\<And>x. keeps part (f5 x)) \<Longrightarrow>
   keeps part (case out of LoopCreated x \<Rightarrow> f1 x | LoopDuplicate x \<Rightarrow> f2 x | LoopIdempotencyConflict x \<Rightarrow> f3 x
     | TaskAlreadyHasActiveLoop x \<Rightarrow> f4 x | LoopInfrastructureError x \<Rightarrow> f5 x)"
  by (simp split: CreateLoopOutcome.split)

lemma keeps_persist_intent [keeps_intros]: "keeps hb_idem (persist_operation_intent env oid rid key name agg payload)"
  unfolding persist_operation_intent_def Let_def by (intro keeps_intros)

lemmas task_commands = cmd_supervisor_stop_def cmd_health_def cmd_inspect_def cmd_task_start_def loop_projection_def
  cmd_task_status_def cmd_task_inspect_def cmd_task_resume_def cmd_task_cancel_def cmd_task_dry_run_def
  cmd_integration_enqueue_def cmd_integration_run_next_def cmd_cancel_def

lemmas goal_commands = cmd_goal_create_def cmd_goal_start_def cmd_goal_show_def cmd_goal_status_def cmd_goal_pause_def
  cmd_goal_resume_def cmd_goal_cancel_def cmd_goal_replan_def cmd_goal_approvals_def cmd_goal_approve_def
  cmd_goal_reject_def cmd_goal_answer_def cmd_goal_request_changes_def cmd_goal_intervene_def find_approval_def

lemma handle_command_keeps_ledger [keeps_intros]: "keeps hb_idem (handle_command env command payload)"
  by (cases command; simp only: handle_command_def IpcCommand.case task_commands goal_commands Let_def)
    (intro keeps_intros)+



section \<open>Operation intents are refused\<close>

lemma persist_refused:
  assumes "name \<notin> set intent_kinds" and "hb_intents db = []"
  shows "persist_operation_intent env oid rid key name agg payload db =
    (Inl (persistence_failure ''persist operation intent: CHECK constraint failed''), db)"
proof -
  have "insert_intent i db = (Inl (persistence_failure ''persist operation intent: CHECK constraint failed''), db)"
    if "oi_operation_kind i = name" for i
    using assms(1) that by (simp add: insert_intent_def)
  then show ?thesis
    using assms(2) by (simp add: persist_operation_intent_def Let_def op_simps select_one_def then_do_error)
qed

text \<open>The commands that record an intent before they act.\<close>

definition intent_command :: "IpcCommand \<Rightarrow> bool" where
  "intent_command c \<longleftrightarrow> c \<in> {SupervisorStop, TaskStart, IntegrationEnqueue, IntegrationRunNext}"

lemma intent_command_refused:
  assumes "intent_command c" and "hb_intents db = []"
  shows "\<exists>e. handle_command env c payload db = (Inl e, db)"
proof -
  have "''supervisor.stop'' \<notin> set intent_kinds" "''task.start'' \<notin> set intent_kinds"
    "''integration.enqueue'' \<notin> set intent_kinds" "''integration.run_next'' \<notin> set intent_kinds"
    by (simp_all add: intent_kinds_def)
  then show ?thesis using assms
    by (auto simp: intent_command_def handle_command_def task_commands Let_def needs_def op_simps persist_refused then_do_error)
qed

lemma handle_command_keeps_intents [keeps_intros]:
  "\<not> intent_command c \<Longrightarrow> c \<noteq> Cancel \<Longrightarrow> keeps hb_intents (handle_command env c payload)"
  by (cases c; simp add: intent_command_def; simp only: handle_command_def IpcCommand.case task_commands goal_commands Let_def)
    (intro keeps_intros)+

lemma cancel_without_intents:
  assumes "hb_intents db = []"
  shows "hb_intents (snd (cmd_cancel payload db)) = []"
proof -
  have "cancel_intents P db = (Inr (), db)" for P
    using assms by (cases db) (simp add: cancel_intents_def update_where_def)
  then show ?thesis using assms by (auto simp: cmd_cancel_def Let_def needs_def op_simps then_do_def)
qed

lemma handle_command_no_intents:
  assumes "hb_intents db = []"
  shows "hb_intents (snd (handle_command env c payload db)) = []"
proof -
  consider (refused) "intent_command c" | (cancel) "c = Cancel" | (other) "\<not> intent_command c" "c \<noteq> Cancel" by blast
  then show ?thesis
  proof cases
    case refused
    then show ?thesis using intent_command_refused [OF _ assms, of c env payload] assms by force
  next
    case cancel
    then show ?thesis using cancel_without_intents [OF assms] by (simp add: handle_command_def)
  next
    case other
    then show ?thesis using handle_command_keeps_intents [of c env payload] assms by (simp add: keeps_def)
  qed
qed



section \<open>The ledger\<close>

lemma fst_snd_in_idem [simp]:
  "fst (in_idem m db) = fst (m (hb_idem db))" "hb_idem (snd (in_idem m db)) = snd (m (hb_idem db))"
  "hb_goals (snd (in_idem m db)) = hb_goals db" "hb_intents (snd (in_idem m db)) = hb_intents db"
  by (simp_all add: in_idem_def split_beta)

lemma snd_then_return: "snd (then_do m (\<lambda>x. return (g x)) db) = snd (m db)"
  by (simp add: then_do_def return_def split_beta split: sum.split)

text \<open>A request touches the ledger only through its operations.\<close>

lemma keeps_idem: "keeps hb_idem m \<Longrightarrow> hb_idem (snd (m db)) = hb_idem db"
  by (simp add: keeps_def)

lemma execute_claimed_ledger:
  "idem_seq_step\<^sup>*\<^sup>* (hb_idem db) (hb_idem (snd (execute_claimed env ctx c payload token db)))"
proof -
  let ?m = "handle_command env c (effective_payload ctx c payload)"
  obtain r db1 where r: "?m db = (r, db1)" by fastforce
  have same: "hb_idem db1 = hb_idem db"
    using keeps_idem [OF handle_command_keeps_ledger, of env c "effective_payload ctx c payload" db] r by simp
  show ?thesis
  proof (cases r)
    case (Inl e)
    then show ?thesis using r same
      by (simp add: execute_claimed_def op_simps r_into_rtranclp idem_seq_step.fail)
  next
    case (Inr x)
    let ?res = "ge_json (cm_goal env) x"
    have "hb_idem (snd (execute_claimed env ctx c payload token db)) =
        snd (complete_claim (request_key ctx) token ?res (hb_idem db1))"
      using Inr r by (simp add: execute_claimed_def op_simps snd_then_return)
    then show ?thesis using same by (simp add: r_into_rtranclp idem_seq_step.complete)
  qed
qed

lemma replay_reads: "snd (replay env ctx hash db) = db"
  by (simp add: replay_def op_simps)

lemma handle_request_ledger:
  "idem_seq_step\<^sup>*\<^sup>* (hb_idem db) (hb_idem (snd (handle_request env ctx c payload db)))"
proof (cases "\<not> ledgered c \<or> ctx_idempotency_key ctx = ''''")
  case True
  have "keeps hb_idem (handle_request env ctx c payload)"
    unfolding handle_request_def using True by (simp, intro keeps_intros)
  then show ?thesis by (simp add: keeps_def)
next
  case False
  let ?claim = "in_idem (try_claim (cm_now env) (cm_token env) (request_key ctx) (ipc_request_hash env c payload) 600)"
  have step: "idem_seq_step (hb_idem db) (hb_idem (snd (?claim db)))" by (simp add: idem_seq_step.claim)
  have "idem_seq_step\<^sup>*\<^sup>* (hb_idem (snd (?claim db))) (hb_idem (snd (handle_request env ctx c payload db)))"
    using False execute_claimed_ledger [of "snd (?claim db)"]
    by (auto simp: handle_request_def Let_def op_simps replay_reads split: sum.split option.split)
  with step show ?thesis by (rule converse_rtranclp_into_rtranclp)
qed


text \<open>A sequence of requests, each with the environment it runs in.\<close>

type_synonym request = "CommandEnv \<times> IpcRequestContext \<times> IpcCommand \<times> goal_json"

definition serve_one :: "request \<Rightarrow> HandlerDb \<Rightarrow> HandlerDb" where
  "serve_one q db = (case q of (env, ctx, c, payload) \<Rightarrow> snd (handle_request env ctx c payload db))"

definition serve :: "request list \<Rightarrow> HandlerDb \<Rightarrow> HandlerDb" where
  "serve qs db = fold serve_one qs db"

text \<open>
  What the requests of any clients do, statement by statement and overlapping each other, as seen from one idempotency key:
  calls of the idempotency module, a claim being one step, and everything that leaves the record of the key alone. The one
  interleaving this leaves out is another statement on the record between the read and the write of a claim of this key.
\<close>

inductive key_step :: "string \<Rightarrow> HandlerDb \<Rightarrow> HandlerDb \<Rightarrow> bool" for k where
  ledger_call: "idem_seq_step (hb_idem db) rows \<Longrightarrow> key_step k db (db\<lparr>hb_idem := rows\<rparr>)"
| elsewhere: "idem_row k (hb_idem db') = idem_row k (hb_idem db) \<Longrightarrow> key_step k db db'"

text \<open>A request is a sequence of such steps.\<close>

lemma request_steps: "(key_step k)\<^sup>*\<^sup>* db (snd (handle_request env ctx c payload db))"
proof -
  have "(key_step k)\<^sup>*\<^sup>* db (db\<lparr>hb_idem := rows\<rparr>)" if "idem_seq_step\<^sup>*\<^sup>* (hb_idem db) rows" for rows
    using that
  proof (induction rule: rtranclp_induct)
    case (step rows1 rows2)
    have "key_step k (db\<lparr>hb_idem := rows1\<rparr>) (db\<lparr>hb_idem := rows1\<rparr>\<lparr>hb_idem := rows2\<rparr>)"
      by (rule ledger_call) (use step in simp)
    then show ?case using step.IH by (simp add: rtranclp.rtrancl_into_rtrancl)
  qed simp
  from this [OF handle_request_ledger [of db env ctx c payload]] show ?thesis
    by (rule rtranclp.rtrancl_into_rtrancl) (rule elsewhere, simp)
qed

lemma settled_steps:
  assumes "(key_step k)\<^sup>*\<^sup>* db db'" and "idem_row k (hb_idem db) = Some r" and "is_settled r"
  shows "idem_row k (hb_idem db') = Some r"
  using assms(1,2)
proof (induction rule: rtranclp_induct)
  case (step db1 db2)
  from step(2) show ?case
    by (cases rule: key_step.cases) (use step settled_seq_step [OF _ _ assms(3)] in auto)
qed simp

lemma try_claim_token: "fst (try_claim now t k h secs rows) = Inr (Some t') \<Longrightarrow> t' = t"
  by (auto simp: try_claim_def claim_exec_def claim_plan_def Let_def split: option.splits if_splits)

lemma complete_claim_row:
  assumes "complete_claim k t res rows = (Inr (), rows')" and "idem_row k rows = Some q" and "owned_by k t q"
  shows "idem_row k rows' = Some (q\<lparr>ir_status := ''completed'', ir_result_json := Some res,
           ir_owner_token := None, ir_lease_expires_at := None\<rparr>)"
  using assms by (auto simp: complete_claim_def idem_row_update version_safe_def split: if_splits)

lemma claimed_owned:
  assumes "keys_unique rows" and "try_claim now t k h secs rows = (Inr (Some t), rows')"
  obtains q where "idem_row k rows' = Some q" "owned_by k t q" "ir_request_hash q = h"
proof -
  have "idem_row k rows' = Some (case idem_row k rows of None \<Rightarrow> new_claim_row k h t (now + int secs)
      | Some r \<Rightarrow> claimed_row t (now + int secs) h r)"
    using claim_exec_granted(1) [OF assms(1) assms(2) [unfolded try_claim_def] try_claim_not_Finish [OF assms(2)]] by simp
  then show ?thesis
    by (rule that) (auto simp: owned_by_def new_claim_row_def claimed_row_def dest: idem_row_key split: option.split)
qed

text \<open>A ledgered request that succeeded left its result under its key.\<close>

lemma success_recorded:
  assumes uniq: "keys_unique (hb_idem db)" and led: "ledgered c" "ctx_idempotency_key ctx \<noteq> ''''"
    and run: "handle_request env ctx c payload db = (Inr out, db1)" and ok: "ho_status out = Status_Success"
  shows "\<exists>r. idem_row (request_key ctx) (hb_idem db1) = Some r \<and> ir_status r = ''completed'' \<and>
    ir_request_hash r = ipc_request_hash env c payload \<and> ir_result_json r = Some (ge_json (cm_goal env) (ho_payload out))"
proof -
  let ?k = "request_key ctx" and ?h = "ipc_request_hash env c payload"
  let ?claim = "try_claim (cm_now env) (cm_token env) ?k ?h 600"
  define dbc where "dbc = snd (in_idem ?claim db)"
  have granted: "fst (?claim (hb_idem db)) = Inr (Some (cm_token env))"
  proof -
    have "\<exists>t. fst (?claim (hb_idem db)) = Inr (Some t)"
      using run ok led by (auto simp: handle_request_def Let_def op_simps replay_def in_flight_def handler_duplicate_def
        split: sum.splits option.splits if_splits)
    then show ?thesis using try_claim_token by metis
  qed
  then have claimed: "?claim (hb_idem db) = (Inr (Some (cm_token env)), hb_idem dbc)"
    by (simp add: dbc_def prod_eq_iff)
  then have exec: "execute_claimed env ctx c payload (cm_token env) dbc = (Inr out, db1)"
    using run led granted by (simp add: handle_request_def Let_def op_simps dbc_def)
  obtain q where q: "idem_row ?k (hb_idem dbc) = Some q" "owned_by ?k (cm_token env) q" "ir_request_hash q = ?h"
    using claimed_owned [OF uniq claimed] by blast
  obtain r db2 where r: "handle_command env c (effective_payload ctx c payload) dbc = (r, db2)" by fastforce
  have same: "hb_idem db2 = hb_idem dbc"
    using keeps_idem [OF handle_command_keeps_ledger, of env c "effective_payload ctx c payload" dbc] r by simp
  obtain x where x: "r = Inr x" using exec r by (cases r) (auto simp: execute_claimed_def op_simps)
  have "then_do (in_idem (complete_claim ?k (cm_token env) (ge_json (cm_goal env) x))) (\<lambda>_. return (handler_success x)) db2 =
      (Inr out, db1)"
    using exec r x by (simp add: execute_claimed_def op_simps)
  then have "complete_claim ?k (cm_token env) (ge_json (cm_goal env) x) (hb_idem dbc) = (Inr (), hb_idem db1)"
    "out = handler_success x"
    unfolding same [symmetric] by (auto elim!: then_do_InrE simp: op_simps in_idem_def split: prod.splits)
  then show ?thesis using complete_claim_row [OF _ q(1,2)] q(3) by (simp add: handler_success_def)
qed


text \<open>
  C6. An interaction command whose request ran as a whole under an idempotency key and succeeded is not executed again: whatever
  requests of any clients do
  afterwards, statement by statement and overlapping each other, as long as every claim of the key reads and writes the record
  without another statement on it in between, a request with the key runs no command and changes nothing. It gets the
  recorded result, marked as a duplicate, when command and payload have the recorded hash, and a conflict otherwise.
\<close>

theorem ledger_executes_once:
  assumes "keys_unique (hb_idem db)" and "ledgered c" and "ctx_idempotency_key ctx \<noteq> ''''"
    and "handle_request env ctx c payload db = (Inr out, db1)" and "ho_status out = Status_Success"
    and "(key_step (request_key ctx))\<^sup>*\<^sup>* db1 db2"
    and "ledgered c'" and "ctx_idempotency_key ctx' = ctx_idempotency_key ctx"
    and "ge_json_of (cm_goal env') (ge_json (cm_goal env) (ho_payload out)) = Some (ho_payload out)"
  shows "handle_request env' ctx' c' payload' db2 =
    (if ipc_request_hash env' c' payload' = ipc_request_hash env c payload
     then Inr (handler_duplicate (ho_payload out)) else Inl (reuse_conflict ctx'), db2)"
proof -
  let ?k = "request_key ctx'" and ?h = "ipc_request_hash env' c' payload'"
  obtain r where "idem_row (request_key ctx) (hb_idem db1) = Some r" and r: "ir_status r = ''completed''"
    "ir_request_hash r = ipc_request_hash env c payload" "ir_result_json r = Some (ge_json (cm_goal env) (ho_payload out))"
    using success_recorded [OF assms(1-5)] by blast
  then have row: "idem_row ?k (hb_idem db2) = Some r"
    using settled_steps [OF assms(6)] assms(8) by (simp add: is_settled_def request_key_def)
  then have claim: "in_idem (try_claim (cm_now env') (cm_token env') ?k ?h 600) db2 = (Inr None, db2)"
    using r by (simp add: in_idem_def try_claim_def claim_plan_def claim_exec_def)
  have "get_result ?k (hb_idem db2) = Some (ge_json (cm_goal env) (ho_payload out))"
    using row r by (simp add: get_result_def)
  then have "replay env' ctx' ?h db2 = (if ?h = ipc_request_hash env c payload
      then Inr (handler_duplicate (ho_payload out)) else Inl (reuse_conflict ctx'), db2)"
    using row r(2) assms(9) by (auto simp: replay_def op_simps or_default_def)
  then show ?thesis
    using assms(3,7,8) claim by (simp add: handle_request_def Let_def op_simps)
qed

text \<open>
  While a request with a key is still executing under an unexpired claim, another one with it runs no command.
\<close>

lemma in_flight_not_executed:
  assumes "keys_unique (hb_idem db)" and "ledgered c" and "ctx_idempotency_key ctx \<noteq> ''''"
    and "idem_row (request_key ctx) (hb_idem db) = Some r" and "ir_status r = ''pending''"
    and "\<not> expired_at (cm_now env) (ir_lease_expires_at r)" and "ir_request_hash r = ipc_request_hash env c payload"
  shows "handle_request env ctx c payload db = (Inr in_flight, db)"
proof -
  let ?k = "request_key ctx"
  let ?P = "\<lambda>q. ir_key q = ?k \<and> expired_at (cm_now env) (ir_lease_expires_at q) \<and> ir_version q = ir_version r"
  have "\<not> ?P q" if "q \<in> set (hb_idem db)" for q
    using that assms(1,4,6) idem_row_key [OF assms(4)] distinct_key_eq [of ir_key "hb_idem db" q r]
      select_one_Some [OF assms(4)] by (auto simp: keys_unique_def)
  then have none: "rows_affected ?P (hb_idem db) = 0" by (simp add: rows_affected_0_iff)
  then have "try_claim (cm_now env) (cm_token env) ?k (ipc_request_hash env c payload) 600 (hb_idem db) = (Inr None, hb_idem db)"
    using assms(4,5,7) by (simp add: try_claim_def claim_plan_def claim_exec_def Let_def update_where_none)
  then show ?thesis
    using assms(2-5,7) by (simp add: handle_request_def Let_def op_simps in_idem_def replay_def get_result_def)
qed

text \<open>
  C38. The four commands that record an operation intent before they act (stopping the supervisor, starting a task,
  enqueueing and running an integration) never succeed: their operation kinds are not among those the table accepts.
  Whatever requests ran since the table was created, each fails and changes nothing, and the table stays empty.
\<close>

theorem intent_commands_always_fail:
  assumes "hb_intents db = []" and "intent_command c" and "db' = serve qs db"
  shows "hb_intents db' = [] \<and> (\<exists>e. handle_request env ctx c payload db' = (Inl e, db'))"
proof -
  have "hb_intents (snd (handle_request env ctx c payload db)) = []" if "hb_intents db = []" for env ctx c payload db
  proof -
    have exec: "hb_intents (snd (execute_claimed env ctx c payload t d)) = []" if d: "hb_intents d = []" for t d
    proof -
      obtain r d1 where r: "handle_command env c (effective_payload ctx c payload) d = (r, d1)" by fastforce
      then have "hb_intents d1 = []" using handle_command_no_intents [OF d] by (metis snd_conv)
      then show ?thesis using r by (cases r) (simp_all add: execute_claimed_def op_simps snd_then_return)
    qed
    show ?thesis
      using that handle_command_no_intents [OF that] exec
      by (auto simp: handle_request_def Let_def op_simps snd_then_return replay_reads split: sum.split option.split)
  qed
  then have "hb_intents (serve qs db) = []"
    using assms(1) by (induction qs arbitrary: db) (auto simp: serve_def serve_one_def split: prod.split)
  moreover have "\<not> ledgered c" using assms(2) by (auto simp: intent_command_def ledgered_def)
  ultimately show ?thesis
    using intent_command_refused [OF assms(2), of db' env payload] assms(3)
    by (auto simp: handle_request_def then_do_error)
qed

lemma transition_version_0:
  assumes "list_all (\<lambda>l. 1 \<le> tl_version l) rows" and "loops_ok rows"
  shows "transition_loop now loop_id 0 tok owner s why rows = (Inr None, rows)"
proof -
  let ?P = "\<lambda>l. tl_loop_id l = loop_id \<and> tl_version l = 0 \<and> tl_fencing_token l = tok \<and> tl_owner_id l = Some owner"
  have "rows_affected ?P rows = 0" using assms(1) by (auto simp: rows_affected_0_iff list_all_iff)
  then show ?thesis
    using assms(2) by (simp add: transition_loop_def update_checked_def Let_def update_where_none cas_result_def)
qed

text \<open>
  A client cannot cancel a task: the command passes version 0 and fencing token 0 to the task loop, and no loop
  has version 0. It reports success only for loops that have ended, and changes nothing.
\<close>

theorem task_cancel_never_cancels:
  assumes "list_all (\<lambda>l. 1 \<le> tl_version l) (ldb_loops (hb_loops db))" and "loops_ok (ldb_loops (hb_loops db))"
    and "handle_request env ctx TaskCancel payload db = (r, db')"
  shows "db' = db \<and> (is_ok r \<longrightarrow> (\<exists>l. load_loop (field_or '''' ''loop_id'' payload) (ldb_loops (hb_loops db)) = Some l \<and>
    loop_is_terminal (tl_lifecycle l)))"
proof -
  let ?i = "field_or '''' ''loop_id'' payload" and ?o = "field_or ''ipc'' ''owner'' payload"
  let ?cancel = "cancel_loop (cm_loop env) (cm_now env) ?i ?o 0 0"
  have cancel: "snd (?cancel (hb_loops db)) = hb_loops db"
    "is_ok (fst (?cancel (hb_loops db))) \<Longrightarrow>
     \<exists>l. load_loop ?i (ldb_loops (hb_loops db)) = Some l \<and> loop_is_terminal (tl_lifecycle l)"
    by (auto simp: cancel_loop_def on_loops_def transition_version_0 [OF assms(1,2)] split: option.splits if_splits)
  have "snd (in_loops ''task cancel'' ?cancel db) = db"
    using cancel(1) by (simp add: in_loops_def split_beta)
  moreover have "is_ok (fst (in_loops ''task cancel'' ?cancel db)) = is_ok (fst (?cancel (hb_loops db)))"
    by (simp add: in_loops_def split_beta split: sum.split)
  ultimately show ?thesis
    using assms(3) cancel(2)
    by (cases "?i = ''''"; cases "in_loops ''task cancel'' ?cancel db"; cases "fst (in_loops ''task cancel'' ?cancel db)")
      (auto simp: handle_request_def ledgered_def handle_command_def cmd_task_cancel_def Let_def needs_def op_simps then_do_def)
qed



section \<open>Examples\<close>

definition cancelled_json :: goal_json where
  "cancelled_json = GObj [(''goal_id'', GStr ''g''), (''status'', GStr ''cancelled''), (''applied'', GBool True)]"

definition sample_cmd :: "string \<Rightarrow> CommandEnv" where
  "sample_cmd token = \<lparr>cm_goal = sample_genv\<lparr>ge_json := (\<lambda>j. case j of GObj kvs \<Rightarrow> concat (map fst kvs) | _ \<Rightarrow> ''null''),
       ge_json_of := (\<lambda>s. if s = ''goal_idstatusapplied'' then Some cancelled_json else None)\<rparr>,
     cm_loop = Task_Loop.sample_env, cm_i4 = empty_i4, cm_runtime_config = None, cm_instance_id = Some ''i'', cm_fencing_token = 1, cm_db_ok = True,
     cm_uuid = show_nat, cm_token = token, cm_now = 100, cm_rfc3339_now = ''t'', cm_code_json = (\<lambda>_. ''c''),
     cm_code_debug = (\<lambda>_. ''C''), cm_goal_spec = (\<lambda>_. Inl ''no''), cm_debug_start = (\<lambda>_. ''s''), cm_debug_cancel = (\<lambda>_. ''s''),
     cm_debug_observe = (\<lambda>_. ''s''), cm_service = (\<lambda>_ _. Inr GNull)\<rparr>"

definition sample_hdb :: HandlerDb where
  "sample_hdb = \<lparr>hb_goals = sample_created, hb_loops = sample_ready, hb_sup = empty_sup_db, hb_idem = [], hb_intents = []\<rparr>"

definition sample_ctx :: "string \<Rightarrow> IpcRequestContext" where
  "sample_ctx rid = \<lparr>ctx_request_id = rid, ctx_idempotency_key = ''k'', ctx_client_pid = 7\<rparr>"

abbreviation sample_payload :: goal_json where
  "sample_payload \<equiv> GObj [(''goal_id'', GStr ''g'')]"

theorem ledger_executes_once_witness:
  "let db1 = snd (handle_request (sample_cmd ''t1'') (sample_ctx ''r1'') GoalCancel sample_payload sample_hdb);
       db2 = snd (handle_request (sample_cmd ''t2'') (sample_ctx ''r2'') TaskResume (GObj [(''loop_id'', GStr ''l'')]) db1)
   in handle_request (sample_cmd ''t3'') (sample_ctx ''r3'') GoalCancel sample_payload db2 =
        (Inr (handler_duplicate cancelled_json), db2) \<and>
      handle_request (sample_cmd ''t3'') (sample_ctx ''r3'') GoalResume sample_payload db2 =
        (Inl (reuse_conflict (sample_ctx ''r3'')), db2)"
proof -
  let ?first = "handle_request (sample_cmd ''t1'') (sample_ctx ''r1'') GoalCancel sample_payload sample_hdb"
  define db1 where "db1 = snd ?first"
  define db2 where "db2 = snd (handle_request (sample_cmd ''t2'') (sample_ctx ''r2'') TaskResume (GObj [(''loop_id'', GStr ''l'')]) db1)"
  have steps: "(key_step k)\<^sup>*\<^sup>* db1 db2" for k unfolding db2_def by (rule request_steps)
  have ok: "fst ?first = Inr (handler_success cancelled_json)" by code_simp
  then have run: "?first = (Inr (handler_success cancelled_json), db1)" by (simp add: db1_def prod_eq_iff)
  have uniq: "keys_unique (hb_idem sample_hdb)" by (simp add: sample_hdb_def keys_unique_def)
  have codec: "ge_json_of (cm_goal (sample_cmd t)) (ge_json (cm_goal (sample_cmd t')) cancelled_json) = Some cancelled_json" for t t'
    by (simp add: sample_cmd_def cancelled_json_def)
  have hash: "ipc_request_hash (sample_cmd t) c p = ipc_request_hash (sample_cmd ''t1'') c p" for t c p
    by (simp add: ipc_request_hash_def sample_cmd_def)
  have differ: "ipc_request_hash (sample_cmd ''t1'') GoalResume sample_payload \<noteq> ipc_request_hash (sample_cmd ''t1'') GoalCancel sample_payload"
    by code_simp
  have "handle_request (sample_cmd ''t3'') (sample_ctx ''r3'') c sample_payload db2 =
      (if ipc_request_hash (sample_cmd ''t3'') c sample_payload = ipc_request_hash (sample_cmd ''t1'') GoalCancel sample_payload
       then Inr (handler_duplicate cancelled_json) else Inl (reuse_conflict (sample_ctx ''r3'')), db2)"
    if "ledgered c" for c
    using ledger_executes_once [OF uniq _ _ run _ steps that, of "sample_ctx ''r3''" "sample_cmd ''t3''"] codec
    by (simp add: ledgered_def sample_ctx_def handler_success_def)
  then have "handle_request (sample_cmd ''t3'') (sample_ctx ''r3'') GoalCancel sample_payload db2 =
      (Inr (handler_duplicate cancelled_json), db2)"
    "handle_request (sample_cmd ''t3'') (sample_ctx ''r3'') GoalResume sample_payload db2 =
      (Inl (reuse_conflict (sample_ctx ''r3'')), db2)"
    using differ by (simp_all add: ledgered_def hash [of "''t3''"])
  then show ?thesis by (simp only: Let_def db1_def db2_def simp_thms)
qed

text \<open>
  A request that read the record before an overlapping one with the same key completed, and writes its claim afterwards, is granted
  the completed key and executes the command again.
\<close>

lemma overlapping_request_executes_again:
  "let ctx = sample_ctx ''r1''; h = ipc_request_hash (sample_cmd ''t1'') GoalCancel sample_payload;
       plan = claim_plan (idem_row (request_key ctx) (hb_idem sample_hdb)) h;
       (r1, db1) = handle_request (sample_cmd ''t1'') ctx GoalCancel sample_payload sample_hdb;
       (granted, rows) = claim_exec 100 ''t2'' (request_key ctx) h 700 plan (hb_idem db1);
       (r2, db2) = execute_claimed (sample_cmd ''t2'') ctx GoalCancel sample_payload ''t2'' (db1\<lparr>hb_idem := rows\<rparr>)
   in (case r1 of Inr out \<Rightarrow> ho_status out = Status_Success | Inl _ \<Rightarrow> False) \<and> granted = Inr (Some ''t2'') \<and>
      map_option ir_attempt_count (idem_row (request_key ctx) (hb_idem db2)) = Some 2"
  by code_simp

theorem intent_commands_always_fail_witness:
  "let db = serve [(sample_cmd ''t1'', sample_ctx ''r1'', GoalCancel, sample_payload)] sample_hdb
   in \<exists>e. handle_request (sample_cmd ''t2'') (sample_ctx ''r2'') TaskStart (GObj [(''task'', GStr ''t'')]) db = (Inl e, db)"
proof -
  have "hb_intents sample_hdb = []" "intent_command TaskStart" by (simp_all add: sample_hdb_def intent_command_def)
  from intent_commands_always_fail [OF this refl] show ?thesis by (simp only: Let_def)
qed

theorem task_cancel_never_cancels_witness:
  "snd (handle_request (sample_cmd ''t1'') (sample_ctx ''r1'') TaskCancel (GObj [(''loop_id'', GStr ''l''), (''owner'', GStr ''a'')])
     sample_hdb) = sample_hdb \<and>
   map (\<lambda>l. (tl_lifecycle l, tl_owner_id l)) (ldb_loops (hb_loops sample_hdb)) = [(''ready'', Some ''a'')]"
proof -
  have "list_all (\<lambda>l. 1 \<le> tl_version l) (ldb_loops (hb_loops sample_hdb))" "loops_ok (ldb_loops (hb_loops sample_hdb))"
    "map (\<lambda>l. (tl_lifecycle l, tl_owner_id l)) (ldb_loops (hb_loops sample_hdb)) = [(''ready'', Some ''a'')]"
    by code_simp+
  then show ?thesis
    using task_cancel_never_cancels [OF _ _ surjective_pairing, of sample_hdb "sample_cmd ''t1''" "sample_ctx ''r1''"
      "GObj [(''loop_id'', GStr ''l''), (''owner'', GStr ''a'')]"] by blast
qed

end
