(* ===== verification/Concurrency.thy ===== *)
theory Concurrency
  imports Effects "HOL-Library.Word"
begin

text \<open>
  Reservation of execution slots, \<open>scheduler/concurrency.rs\<close>. A reservation reads its three counts and inserts its row in one
  SQLite transaction, and a transaction that read before another one wrote cannot commit a write of its own; so \<open>reserve\<close> is one
  step. The limits are \<open>u32\<close> values compared as \<open>i64\<close>.
\<close>

record ConcurrencyConfig =
  cc_global_max :: "32 word"
  cc_per_profile_max :: "32 word"
  cc_per_repository_max :: "32 word"

definition concurrency_config_default :: ConcurrencyConfig where
  "concurrency_config_default = \<lparr>cc_global_max = 10, cc_per_profile_max = 3, cc_per_repository_max = 5\<rparr>"

datatype ReservationResult =
    Reserved string "string option" "string option"
  | GlobalLimitReached
  | ProfileLimitReached string
  | RepositoryLimitReached string

record ReservationRow =
  rv_id :: string
  rv_task_id :: string
  rv_profile_id :: "string option"
  rv_repository_id :: "string option"
  rv_status :: string
  rv_expires_at :: int
  rv_released_at :: "int option"

definition rv_active :: "ReservationRow \<Rightarrow> bool" where
  "rv_active r \<longleftrightarrow> rv_status r = ''active''"

text \<open>\<open>SELECT COUNT(*) \<dots> AND status='active'\<close>.\<close>

definition count_active :: "(ReservationRow \<Rightarrow> bool) \<Rightarrow> ReservationRow list \<Rightarrow> int" where
  "count_active P rows = int (length (filter (\<lambda>r. P r \<and> rv_active r) rows))"

text \<open>The primary key and the partial unique index on the active reservation of a task.\<close>

definition reservations_ok :: "ReservationRow list \<Rightarrow> bool" where
  "reservations_ok rows \<longleftrightarrow> distinct (map rv_id rows) \<and> distinct (map rv_task_id (filter rv_active rows))"

definition insert_reservation ::
  "string \<Rightarrow> int \<Rightarrow> string \<Rightarrow> string option \<Rightarrow> string option \<Rightarrow> (ReservationRow list, ReservationResult) op" where
  "insert_reservation uuid now task_id profile_id repository_id rows =
     (let row = \<lparr>rv_id = uuid, rv_task_id = task_id, rv_profile_id = profile_id, rv_repository_id = repository_id,
                 rv_status = ''active'', rv_expires_at = now + 15 * 60, rv_released_at = None\<rparr>
      in if reservations_ok (rows @ [row]) then (Inr (Reserved uuid profile_id repository_id), rows @ [row])
         else (Inl (core_error_new (ResourceConflict (''task:'' @ task_id))
                 (''task already has active reservation: UNIQUE constraint failed'') SrcSystem), rows))"

definition reserve ::
  "ConcurrencyConfig \<Rightarrow> string \<Rightarrow> int \<Rightarrow> string \<Rightarrow> string option \<Rightarrow> string option \<Rightarrow> (ReservationRow list, ReservationResult) op" where
  "reserve config uuid now task_id profile_id repository_id rows =
     (if count_active (\<lambda>_. True) rows \<ge> uint (cc_global_max config) then (Inr GlobalLimitReached, rows)
      else if profile_id \<noteq> None \<and>
              count_active (\<lambda>r. rv_profile_id r = profile_id) rows \<ge> uint (cc_per_profile_max config) then
        (Inr (ProfileLimitReached (the profile_id)), rows)
      else if repository_id \<noteq> None \<and>
              count_active (\<lambda>r. rv_repository_id r = repository_id) rows \<ge> uint (cc_per_repository_max config) then
        (Inr (RepositoryLimitReached (the repository_id)), rows)
      else insert_reservation uuid now task_id profile_id repository_id rows)"

definition release :: "int \<Rightarrow> string \<Rightarrow> (ReservationRow list, unit) op" where
  "release now task_id rows =
     (Inr (), update_where (\<lambda>r. rv_task_id r = task_id \<and> rv_active r)
        (\<lambda>r. r\<lparr>rv_status := ''released'', rv_released_at := Some now\<rparr>) rows)"

definition expire_stale :: "int \<Rightarrow> (ReservationRow list, nat) op" where
  "expire_stale now rows =
     (let P = (\<lambda>r. rv_active r \<and> rv_expires_at r < now)
      in (Inr (rows_affected P rows), update_where P (\<lambda>r. r\<lparr>rv_status := ''expired''\<rparr>) rows))"

definition has_active :: "string \<Rightarrow> ReservationRow list \<Rightarrow> bool" where
  "has_active task_id rows \<longleftrightarrow> count_active (\<lambda>r. rv_task_id r = task_id) rows > 0"


section \<open>Limits\<close>

text \<open>What the limits promise of a table.\<close>

definition within_limits :: "ConcurrencyConfig \<Rightarrow> ReservationRow list \<Rightarrow> bool" where
  "within_limits config rows \<longleftrightarrow> reservations_ok rows \<and>
     count_active (\<lambda>_. True) rows \<le> uint (cc_global_max config) \<and>
     (\<forall>p. count_active (\<lambda>r. rv_profile_id r = Some p) rows \<le> uint (cc_per_profile_max config)) \<and>
     (\<forall>d. count_active (\<lambda>r. rv_repository_id r = Some d) rows \<le> uint (cc_per_repository_max config)) \<and>
     (\<forall>t. count_active (\<lambda>r. rv_task_id r = t) rows \<le> 1)"

text \<open>A table in which some active reservations were closed.\<close>

lemma count_active_close:
  assumes "\<And>r. rv_active (f r) \<Longrightarrow> rv_active r" and "\<And>r. P (f r) = P r"
  shows "count_active P (map f rows) \<le> count_active P rows"
  by (induction rows) (use assms in \<open>auto simp: count_active_def\<close>)

lemma within_limits_close:
  assumes "within_limits config rows"
    and "\<And>r. rv_active (f r) \<Longrightarrow> rv_active r" and "\<And>r. rv_id (f r) = rv_id r" and "\<And>r. rv_task_id (f r) = rv_task_id r"
    and "\<And>r. rv_profile_id (f r) = rv_profile_id r" and "\<And>r. rv_repository_id (f r) = rv_repository_id r"
  shows "within_limits config (map f rows)"
proof -
  have count: "count_active P (map f rows) \<le> count_active P rows" if "\<And>r. P (f r) = P r" for P
    using count_active_close assms(2) that by blast
  have tasks: "distinct (map rv_task_id (filter rv_active (map f xs))) \<and>
      set (map rv_task_id (filter rv_active (map f xs))) \<subseteq> set (map rv_task_id (filter rv_active xs))"
    if "distinct (map rv_task_id (filter rv_active xs))" for xs
    using that by (induction xs) (use assms(2,4) in \<open>auto split: if_splits\<close>)
  have le: "count_active P (map f rows) \<le> m" if "count_active P rows \<le> m" and "\<And>r. P (f r) = P r" for P m
    using count [of P] that by simp
  have "reservations_ok (map f rows)"
    using assms(1) tasks [of rows] by (simp add: within_limits_def reservations_ok_def comp_def assms(3))
  then show ?thesis using assms(1) unfolding within_limits_def by (auto intro!: le simp: assms(4-6))
qed

lemma count_active_snoc:
  "count_active P (rows @ [r]) = count_active P rows + (if P r \<and> rv_active r then 1 else 0)"
  by (simp add: count_active_def)

lemma one_per_task: "reservations_ok rows \<Longrightarrow> count_active (\<lambda>r. rv_task_id r = t) rows \<le> 1"
proof -
  have "distinct (map rv_task_id (filter rv_active xs)) \<Longrightarrow> length (filter (\<lambda>r. rv_task_id r = t \<and> rv_active r) xs) \<le> 1" for xs
  proof (induction xs)
    case (Cons x xs)
    then show ?case by (auto simp: filter_empty_conv image_iff split: if_splits)
  qed simp
  then show "reservations_ok rows \<Longrightarrow> ?thesis" by (simp add: reservations_ok_def count_active_def)
qed

lemma reserve_within:
  assumes "within_limits config rows"
  shows "within_limits config (snd (reserve config uuid now task pid rid rows))"
proof -
  have "count_active (\<lambda>r. rv_task_id r = t) rows' \<le> 1" if "reservations_ok rows'" for t rows' using one_per_task that by blast
  then show ?thesis using assms
    by (auto simp: within_limits_def reserve_def insert_reservation_def Let_def count_active_snoc)
qed

text \<open>The operations of any number of callers, in any order.\<close>

inductive reservation_step :: "ConcurrencyConfig \<Rightarrow> ReservationRow list \<Rightarrow> ReservationRow list \<Rightarrow> bool" for config where
  "reservation_step config rows (snd (reserve config uuid now task pid rid rows))"
| "reservation_step config rows (snd (release now task rows))"
| "reservation_step config rows (snd (expire_stale now rows))"

lemma reservation_step_within:
  "reservation_step config rows rows' \<Longrightarrow> within_limits config rows \<Longrightarrow> within_limits config rows'"
proof (induction rule: reservation_step.induct)
  case (2 rows now task)
  then show ?case unfolding release_def update_where_def snd_conv
    by (rule within_limits_close) (auto simp: rv_active_def split: if_splits)
next
  case (3 rows now)
  then show ?case unfolding expire_stale_def Let_def update_where_def snd_conv
    by (rule within_limits_close) (auto simp: rv_active_def split: if_splits)
qed (rule reserve_within)

text \<open>
  C8. The limits hold at every moment: in every table that reservations, releases and expiries of any callers can produce,
  the active reservations are at most the global limit, at most the limit of a profile for each profile and of a
  repository for each repository, and at most one per task.
\<close>

theorem reservations_within_limits:
  assumes "(reservation_step config)\<^sup>*\<^sup>* [] rows"
  shows "within_limits config rows"
  using assms
proof (induction rule: rtranclp_induct)
  case base
  then show ?case by (simp add: within_limits_def reservations_ok_def count_active_def)
qed (rule reservation_step_within)

theorem reservations_within_limits_witness:
  "within_limits \<lparr>cc_global_max = 1, cc_per_profile_max = 1, cc_per_repository_max = 1\<rparr>
     (snd (reserve \<lparr>cc_global_max = 1, cc_per_profile_max = 1, cc_per_repository_max = 1\<rparr> ''r1'' 0 ''t1'' (Some ''p'') None []))"
  by (rule reservations_within_limits, rule r_into_rtranclp, rule reservation_step.intros(1))

text \<open>
  A reservation within the limits is granted to a task that has none, and then it counts.
\<close>

lemma reserve_granted:
  assumes "reservations_ok rows" and "count_active (\<lambda>_. True) rows < uint (cc_global_max config)"
    and "pid \<noteq> None \<Longrightarrow> count_active (\<lambda>r. rv_profile_id r = pid) rows < uint (cc_per_profile_max config)"
    and "rid \<noteq> None \<Longrightarrow> count_active (\<lambda>r. rv_repository_id r = rid) rows < uint (cc_per_repository_max config)"
    and "\<not> has_active task rows" and "uuid \<notin> rv_id ` set rows"
  shows "fst (reserve config uuid now task pid rid rows) = Inr (Reserved uuid pid rid)"
    and "has_active task (snd (reserve config uuid now task pid rid rows))"
proof -
  have "filter (\<lambda>r. rv_task_id r = task \<and> rv_active r) rows = []" using assms(5) by (simp add: has_active_def count_active_def)
  then have "task \<notin> rv_task_id ` set (filter rv_active rows)" by (auto simp: filter_empty_conv)
  then have ok: "reservations_ok (rows @ [\<lparr>rv_id = uuid, rv_task_id = task, rv_profile_id = pid, rv_repository_id = rid,
      rv_status = ''active'', rv_expires_at = now + 15 * 60, rv_released_at = None\<rparr>])"
    using assms(1,6) by (auto simp: reservations_ok_def rv_active_def)
  have "\<not> (pid \<noteq> None \<and> uint (cc_per_profile_max config) \<le> count_active (\<lambda>r. rv_profile_id r = pid) rows)"
    "\<not> (rid \<noteq> None \<and> uint (cc_per_repository_max config) \<le> count_active (\<lambda>r. rv_repository_id r = rid) rows)"
    using assms(3,4) by (meson not_le)+
  then have "reserve config uuid now task pid rid rows = insert_reservation uuid now task pid rid rows"
    using assms(2) unfolding reserve_def by (simp only: not_le [symmetric] if_False)
  then show "fst (reserve config uuid now task pid rid rows) = Inr (Reserved uuid pid rid)"
    "has_active task (snd (reserve config uuid now task pid rid rows))"
    using ok by (simp_all add: insert_reservation_def has_active_def count_active_snoc rv_active_def)
      (simp add: count_active_def)
qed

end
