(* ===== verification/Operation.thy ===== *)
theory Operation
  imports Effects
begin

text \<open>
  The operations table of \<open>operation.rs\<close>: sagas that reconcilers claim for a limited time; and the older repository of
  \<open>repo.rs\<close> on the same table. Every method is one statement. Times count seconds.
\<close>

record OperationRow =
  op_id :: string
  op_operation_id :: string
  op_operation_type :: string
  op_task_id :: string
  op_status :: string
  op_payload_json :: string
  op_result_json :: "string option"
  op_version :: int
  op_idempotency_key :: string
  op_started_at :: int
  op_completed_at :: "int option"
  op_claimed_by :: "string option"
  op_claim_token :: "string option"
  op_claim_expires_at :: "int option"
  op_attempt_count :: int
  op_last_error :: "string option"

type_synonym op_table = "OperationRow list"

text \<open>The statuses in which an operation can be claimed, and those of the statements that ignore claims.\<close>

definition op_open :: "OperationRow \<Rightarrow> bool" where
  "op_open r \<longleftrightarrow> op_status r \<in> {''pending'', ''running'', ''reconciliation_required''}"

definition op_unfinished :: "OperationRow \<Rightarrow> bool" where
  "op_unfinished r \<longleftrightarrow> op_status r \<in> {''pending'', ''running''}"

text \<open>\<open>INSERT INTO operations\<close>, with the defaults of the columns that are not given.\<close>

definition insert_operation :: "string \<Rightarrow> string \<Rightarrow> string \<Rightarrow> string \<Rightarrow> string \<Rightarrow> string \<Rightarrow> int \<Rightarrow> (op_table, unit) op" where
  "insert_operation i oid op_type task_id payload idempotency_key started_at rows =
     (if list_ex (\<lambda>r. op_id r = i \<or> op_operation_id r = oid \<or> op_idempotency_key r = idempotency_key) rows then
        (Inl (db_err ''UNIQUE constraint failed: operations''), rows)
      else (Inr (), rows @ [\<lparr>op_id = i, op_operation_id = oid, op_operation_type = op_type, op_task_id = task_id,
                 op_status = ''pending'', op_payload_json = payload, op_result_json = None, op_version = 1,
                 op_idempotency_key = idempotency_key, op_started_at = started_at, op_completed_at = None,
                 op_claimed_by = None, op_claim_token = None, op_claim_expires_at = None, op_attempt_count = 1,
                 op_last_error = None\<rparr>]))"

definition begin_operation :: "string \<Rightarrow> int \<Rightarrow> string \<Rightarrow> string \<Rightarrow> string \<Rightarrow> string \<Rightarrow> (op_table, string) op" where
  "begin_operation uuid now task_id op_type payload idempotency_key =
     (let oid = ''op-'' @ uuid
      in then_do (insert_operation uuid oid op_type task_id payload idempotency_key now) (\<lambda>_. return oid))"

text \<open>\<open>UPDATE operations SET \<dots> WHERE \<dots>\<close>: the number of rows changed.\<close>

definition update_op :: "(OperationRow \<Rightarrow> bool) \<Rightarrow> (OperationRow \<Rightarrow> OperationRow) \<Rightarrow> (op_table, nat) op" where
  "update_op P f rows = (Inr (rows_affected P rows), update_where P f rows)"

definition claim_free :: "int \<Rightarrow> OperationRow \<Rightarrow> bool" where
  "claim_free now r \<longleftrightarrow> op_claim_token r = None \<or> (case op_claim_expires_at r of Some e \<Rightarrow> e < now | None \<Rightarrow> False)"

definition try_claim_operation :: "string \<Rightarrow> string \<Rightarrow> int \<Rightarrow> string \<Rightarrow> nat \<Rightarrow> (op_table, string option) op" where
  "try_claim_operation token uuid now operation_id lease_secs =
     then_do (update_op (\<lambda>r. op_operation_id r = operation_id \<and> op_open r \<and> claim_free now r)
         (\<lambda>r. r\<lparr>op_claimed_by := Some (''reconciler-'' @ uuid), op_claim_token := Some token,
                op_claim_expires_at := Some (now + int lease_secs), op_attempt_count := op_attempt_count r + 1\<rparr>))
       (\<lambda>n. return (if n = 0 then None else Some token))"

definition claim_conflict :: "string \<Rightarrow> CoreError" where
  "claim_conflict detail = core_error_new PersistenceError (''operation_claim_conflict'' @ detail) SrcSystem"

text \<open>A statement that fails when it changed no row.\<close>

definition must_change :: "CoreError \<Rightarrow> (OperationRow \<Rightarrow> bool) \<Rightarrow> (OperationRow \<Rightarrow> OperationRow) \<Rightarrow> (op_table, unit) op" where
  "must_change e P f = then_do (update_op P f) (\<lambda>n. if n = 0 then raise e else return ())"

definition claimed_open :: "string \<Rightarrow> string \<Rightarrow> OperationRow \<Rightarrow> bool" where
  "claimed_open operation_id token r \<longleftrightarrow>
     op_operation_id r = operation_id \<and> op_claim_token r = Some token \<and> op_open r"

definition renew_operation_claim :: "int \<Rightarrow> string \<Rightarrow> string \<Rightarrow> nat \<Rightarrow> (op_table, unit) op" where
  "renew_operation_claim now operation_id token lease_secs =
     must_change (claim_conflict '''') (claimed_open operation_id token)
       (\<lambda>r. r\<lparr>op_claim_expires_at := Some (now + int lease_secs)\<rparr>)"

definition release_operation_claim :: "string \<Rightarrow> string \<Rightarrow> (op_table, unit) op" where
  "release_operation_claim operation_id token =
     then_do (update_op (\<lambda>r. op_operation_id r = operation_id \<and> op_claim_token r = Some token)
         (\<lambda>r. r\<lparr>op_claim_token := None, op_claim_expires_at := None\<rparr>))
       (\<lambda>_. return ())"

definition complete_claimed_operation :: "int \<Rightarrow> string \<Rightarrow> string \<Rightarrow> string \<Rightarrow> (op_table, unit) op" where
  "complete_claimed_operation now operation_id token result =
     must_change (claim_conflict '': token mismatch or already terminal'') (claimed_open operation_id token)
       (\<lambda>r. r\<lparr>op_status := ''completed'', op_result_json := Some result, op_claim_token := None,
              op_claim_expires_at := None, op_completed_at := Some now\<rparr>)"

definition fail_claimed_operation :: "int \<Rightarrow> string \<Rightarrow> string \<Rightarrow> string \<Rightarrow> (op_table, unit) op" where
  "fail_claimed_operation now operation_id token reason =
     must_change (claim_conflict '''') (claimed_open operation_id token)
       (\<lambda>r. r\<lparr>op_status := ''failed'', op_result_json := Some reason, op_claim_token := None,
              op_claim_expires_at := None, op_last_error := Some reason, op_completed_at := Some now\<rparr>)"

definition op_mark_reconciliation_required :: "string \<Rightarrow> (op_table, unit) op" where
  "op_mark_reconciliation_required operation_id =
     then_do (update_op (\<lambda>r. op_operation_id r = operation_id \<and> op_unfinished r)
         (\<lambda>r. r\<lparr>op_status := ''reconciliation_required''\<rparr>))
       (\<lambda>_. return ())"

definition complete_operation :: "int \<Rightarrow> string \<Rightarrow> string \<Rightarrow> (op_table, unit) op" where
  "complete_operation now operation_id result =
     must_change (core_error_new PersistenceError ''operation not found or already terminal'' SrcSystem)
       (\<lambda>r. op_operation_id r = operation_id \<and> op_unfinished r)
       (\<lambda>r. r\<lparr>op_status := ''completed'', op_result_json := Some result, op_completed_at := Some now\<rparr>)"

definition fail_operation :: "int \<Rightarrow> string \<Rightarrow> string \<Rightarrow> (op_table, unit) op" where
  "fail_operation now operation_id reason =
     then_do (update_op (\<lambda>r. op_operation_id r = operation_id \<and> op_unfinished r)
         (\<lambda>r. r\<lparr>op_status := ''failed'', op_result_json := Some reason, op_last_error := Some reason,
                op_completed_at := Some now\<rparr>))
       (\<lambda>_. return ())"

record OperationRecord =
  or_id :: string
  or_operation_id :: string
  or_operation_type :: string
  or_task_id :: string
  or_status :: string
  or_payload_json :: string
  or_result_json :: "string option"
  or_version :: int
  or_idempotency_key :: string
  or_started_at :: int
  or_completed_at :: "int option"

definition operation_record :: "OperationRow \<Rightarrow> OperationRecord" where
  "operation_record r = \<lparr>or_id = op_id r, or_operation_id = op_operation_id r, or_operation_type = op_operation_type r,
     or_task_id = op_task_id r, or_status = op_status r, or_payload_json = op_payload_json r,
     or_result_json = op_result_json r, or_version = 1, or_idempotency_key = op_idempotency_key r,
     or_started_at = op_started_at r, or_completed_at = op_completed_at r\<rparr>"

text \<open>The repository of \<open>repo.rs\<close>: its statements compare a version, which the records it reads always give as 1.\<close>

definition create_pending_operation :: "int \<Rightarrow> OperationRecord \<Rightarrow> (op_table, unit) op" where
  "create_pending_operation now rec = insert_operation (or_id rec) (or_operation_id rec) (or_operation_type rec) (or_task_id rec)
     (or_payload_json rec) (or_idempotency_key rec) now"

definition at_version :: "string \<Rightarrow> int \<Rightarrow> OperationRow \<Rightarrow> bool" where
  "at_version operation_id version r \<longleftrightarrow> op_operation_id r = operation_id \<and> op_unfinished r \<and> op_version r = version"

definition complete_at_version :: "int \<Rightarrow> string \<Rightarrow> string \<Rightarrow> int \<Rightarrow> (op_table, unit) op" where
  "complete_at_version now operation_id result version =
     must_change (core_error_new PersistenceError ''operation not found or already completed'' SrcSystem)
       (at_version operation_id version)
       (\<lambda>r. r\<lparr>op_status := ''completed'', op_result_json := Some result, op_version := op_version r + 1,
              op_completed_at := Some now\<rparr>)"

definition fail_at_version :: "int \<Rightarrow> string \<Rightarrow> string \<Rightarrow> int \<Rightarrow> (op_table, unit) op" where
  "fail_at_version now operation_id reason version =
     then_do (update_op (at_version operation_id version)
         (\<lambda>r. r\<lparr>op_status := ''failed'', op_result_json := Some reason, op_version := op_version r + 1,
                op_completed_at := Some now\<rparr>))
       (\<lambda>_. return ())"

definition find_unfinished :: "int \<Rightarrow> nat \<Rightarrow> op_table \<Rightarrow> OperationRecord list" where
  "find_unfinished now older_than_secs rows =
     map operation_record (filter (\<lambda>r. op_unfinished r \<and> op_started_at r < now - int older_than_secs) rows)"

definition get_by_operation_id :: "string \<Rightarrow> op_table \<Rightarrow> OperationRecord option" where
  "get_by_operation_id oid rows = map_option operation_record (select_one (\<lambda>r. op_operation_id r = oid) rows)"

definition find_stale :: "int \<Rightarrow> nat \<Rightarrow> op_table \<Rightarrow> OperationRecord list" where
  "find_stale now older_than_secs rows =
     map operation_record (filter (\<lambda>r. op_open r \<and> op_started_at r < now - int older_than_secs) rows)"


section \<open>One row under the statements\<close>

text \<open>
  The calls of both modules.
\<close>

datatype op_call =
    Begin string int string string string string
  | TryClaim string string int string nat
  | Renew int string string nat
  | Release string string
  | CompleteClaimed int string string string
  | FailClaimed int string string string
  | MarkReconciliation string
  | Complete int string string
  | Fail int string string
  | CreatePending int OperationRecord
  | CompleteAt int string string int
  | FailAt int string string int

primrec op_exec :: "op_call \<Rightarrow> op_table \<Rightarrow> op_table" where
  "op_exec (Begin u n t ty p k) rows = snd (begin_operation u n t ty p k rows)"
| "op_exec (TryClaim tok u n i l) rows = snd (try_claim_operation tok u n i l rows)"
| "op_exec (Renew n i tok l) rows = snd (renew_operation_claim n i tok l rows)"
| "op_exec (Release i tok) rows = snd (release_operation_claim i tok rows)"
| "op_exec (CompleteClaimed n i tok res) rows = snd (complete_claimed_operation n i tok res rows)"
| "op_exec (FailClaimed n i tok why) rows = snd (fail_claimed_operation n i tok why rows)"
| "op_exec (MarkReconciliation i) rows = snd (op_mark_reconciliation_required i rows)"
| "op_exec (Complete n i res) rows = snd (complete_operation n i res rows)"
| "op_exec (Fail n i why) rows = snd (fail_operation n i why rows)"
| "op_exec (CreatePending n rec) rows = snd (create_pending_operation n rec rows)"
| "op_exec (CompleteAt n i res v) rows = snd (complete_at_version n i res v rows)"
| "op_exec (FailAt n i why v) rows = snd (fail_at_version n i why v rows)"

definition the_op :: "string \<Rightarrow> op_table \<Rightarrow> OperationRow option" where
  "the_op i rows = select_one (\<lambda>r. op_operation_id r = i) rows"

lemma snd_update_op [simp]: "snd (update_op P f rows) = update_where P f rows"
  by (simp add: update_op_def)

lemma snd_then_update [simp]:
  "snd (then_do (update_op P f) (\<lambda>n. return (g n)) rows) = update_where P f rows"
  "snd (must_change e P f rows) = update_where P f rows"
  by (simp_all add: update_op_def then_do_def return_def raise_def must_change_def)

lemma the_op_update:
  assumes "\<And>r. op_operation_id (f r) = op_operation_id r"
  shows "the_op i (update_where P f rows) = map_option (\<lambda>r. if P r then f r else r) (the_op i rows)"
  by (simp add: the_op_def select_one_update assms)

lemma the_op_insert:
  "the_op i rows = Some r \<Longrightarrow> the_op i (snd (insert_operation j oid ty t p k n rows)) = Some r"
  by (auto simp: insert_operation_def the_op_def select_one_append)

lemma snd_begin_operation [simp]:
  "snd (begin_operation u n t ty p k rows) = snd (insert_operation u (''op-'' @ u) ty t p k n rows)"
  by (simp add: begin_operation_def then_do_def return_def Let_def split: prod.split sum.split)

lemmas op_calls = try_claim_operation_def renew_operation_claim_def release_operation_claim_def
  complete_claimed_operation_def fail_claimed_operation_def op_mark_reconciliation_required_def complete_operation_def
  fail_operation_def complete_at_version_def fail_at_version_def create_pending_operation_def

text \<open>What a call leaves of a row: it is settled for good, and a claim is lost only as the guards allow.\<close>

lemma op_exec_row:
  assumes "the_op i rows = Some r"
  obtains r' where "the_op i (op_exec call rows) = Some r'"
    "\<not> op_open r \<Longrightarrow> op_status r' = op_status r \<and> op_result_json r' = op_result_json r \<and>
       op_completed_at r' = op_completed_at r \<and> \<not> op_open r'"
  using assms
  by (cases call)
    (auto simp: op_calls the_op_update the_op_insert op_open_def op_unfinished_def claimed_open_def at_version_def)

lemma the_op_id: "the_op i rows = Some r \<Longrightarrow> op_operation_id r = i"
  unfolding the_op_def by (drule select_one_Some) simp

lemma op_ids_update:
  assumes "\<And>r. op_operation_id (f r) = op_operation_id r"
  shows "map op_operation_id (update_where P f rows) = map op_operation_id rows"
  by (rule map_update_where) (simp add: assms)

lemma op_exec_ids:
  assumes "distinct (map op_operation_id rows)"
  shows "distinct (map op_operation_id (op_exec call rows))"
  using assms
  by (cases call) (auto simp: op_calls op_ids_update insert_operation_def list_ex_iff)

lemma the_op_mem: "the_op i rows = Some r \<Longrightarrow> r \<in> set rows"
  unfolding the_op_def by (drule select_one_Some) simp

lemma op_fold_ids: "distinct (map op_operation_id rows) \<Longrightarrow> distinct (map op_operation_id (fold op_exec calls rows))"
  by (induction calls arbitrary: rows) (auto simp: op_exec_ids)

lemma the_op_unique:
  "distinct (map op_operation_id rows) \<Longrightarrow> the_op i rows = Some r \<Longrightarrow> x \<in> set rows \<Longrightarrow> op_operation_id x = i \<Longrightarrow> x = r"
  using distinct_key_eq [of op_operation_id rows x r] the_op_id [of i rows r] the_op_mem [of i rows r] by simp


section \<open>Properties\<close>

text \<open>
  An operation that was completed or failed stays so: no sequence of calls changes its status, its result or its
  time of completion, and it is never reported as stale.
\<close>

theorem operation_settled_final:
  assumes "the_op i rows = Some r" and "\<not> op_open r" and "distinct (map op_operation_id rows)"
  shows "map_option (\<lambda>r'. (op_status r', op_result_json r', op_completed_at r')) (the_op i (fold op_exec calls rows)) =
      Some (op_status r, op_result_json r, op_completed_at r) \<and>
    i \<notin> set (map or_operation_id (find_stale now secs (fold op_exec calls rows)))"
proof -
  have "\<exists>r'. the_op i (fold op_exec calls rows) = Some r' \<and> op_status r' = op_status r \<and>
      op_result_json r' = op_result_json r \<and> op_completed_at r' = op_completed_at r \<and> \<not> op_open r'"
    using assms(1,2)
  proof (induction calls arbitrary: rows r)
    case (Cons call calls)
    obtain r1 where "the_op i (op_exec call rows) = Some r1" "op_status r1 = op_status r"
      "op_result_json r1 = op_result_json r" "op_completed_at r1 = op_completed_at r" "\<not> op_open r1"
      using op_exec_row [OF Cons.prems(1)] Cons.prems(2) by metis
    then show ?case using Cons.IH [of "op_exec call rows" r1] by auto
  qed simp
  then obtain r' where r': "the_op i (fold op_exec calls rows) = Some r'" "op_status r' = op_status r"
    "op_result_json r' = op_result_json r" "op_completed_at r' = op_completed_at r" "\<not> op_open r'" by blast
  have "x = r'" if "x \<in> set (fold op_exec calls rows)" "op_operation_id x = i" for x
    using that the_op_unique [OF op_fold_ids [OF assms(3)] r'(1)] by blast
  then have "i \<notin> set (map or_operation_id (find_stale now secs (fold op_exec calls rows)))"
    using r'(5) by (auto simp: find_stale_def operation_record_def)
  then show ?thesis using r' by simp
qed

theorem operation_settled_final_witness:
  "let rows = snd (complete_operation 5 ''op-a'' ''{}'' (snd (begin_operation ''a'' 0 ''task'' ''dispatch'' ''{}'' ''k'' [])));
       calls = [TryClaim ''t'' ''u'' 9 ''op-a'' 60, Fail 10 ''op-a'' ''late'', MarkReconciliation ''op-a'', Complete 11 ''op-a'' ''{x}'']
   in map_option (\<lambda>r. (op_status r, op_completed_at r)) (the_op ''op-a'' (fold op_exec calls rows)) =
      Some (''completed'', Some 5)"
proof -
  define rows where "rows = snd (complete_operation 5 ''op-a'' ''{}''
    (snd (begin_operation ''a'' 0 ''task'' ''dispatch'' ''{}'' ''k'' [])))"
  have "map_option (\<lambda>r. (op_open r, op_status r, op_completed_at r)) (the_op ''op-a'' rows) = Some (False, ''completed'', Some 5)"
    unfolding rows_def by code_simp
  then obtain r where "the_op ''op-a'' rows = Some r" "\<not> op_open r" "op_status r = ''completed''" "op_completed_at r = Some 5"
    by auto
  moreover have "distinct (map op_operation_id rows)" unfolding rows_def by code_simp
  ultimately show ?thesis
    using operation_settled_final [of "''op-a''" rows _ "[TryClaim ''t'' ''u'' 9 ''op-a'' 60, Fail 10 ''op-a'' ''late'',
      MarkReconciliation ''op-a'', Complete 11 ''op-a'' ''{x}'']"]
    unfolding rows_def Let_def by force
qed

text \<open>
  The older \<open>complete\<close> and \<open>fail\<close> do not look at claims: they settle an operation under another caller's claim, whose own
  completion is then refused.
\<close>

lemma complete_ignores_claim:
  "let rows = snd (try_claim_operation ''t1'' ''u1'' 10 ''op-a'' 60
         (snd (begin_operation ''a'' 0 ''task'' ''dispatch'' ''{}'' ''k'' [])));
       (res, rows') = complete_operation 20 ''op-a'' ''{}'' rows
   in res = Inr () \<and> fst (complete_claimed_operation 30 ''op-a'' ''t1'' ''{}'' rows') =
        Inl (claim_conflict '': token mismatch or already terminal'')"
  by code_simp

text \<open>
  Calls that do not act for the holder of token \<open>tok\<close> on operation \<open>i\<close>: no call with that token, and claims only
  up to the expiry of the holder's.
\<close>

primrec foreign :: "int \<Rightarrow> string \<Rightarrow> string \<Rightarrow> op_call \<Rightarrow> bool" where
  "foreign e tok i (Begin u n t ty p k) = True"
| "foreign e tok i (TryClaim tok' u n i' l) = (i' = i \<longrightarrow> n \<le> e)"
| "foreign e tok i (Renew n i' tok' l) = (i' = i \<longrightarrow> tok' \<noteq> tok)"
| "foreign e tok i (Release i' tok') = (i' = i \<longrightarrow> tok' \<noteq> tok)"
| "foreign e tok i (CompleteClaimed n i' tok' res) = (i' = i \<longrightarrow> tok' \<noteq> tok)"
| "foreign e tok i (FailClaimed n i' tok' why) = (i' = i \<longrightarrow> tok' \<noteq> tok)"
| "foreign e tok i (MarkReconciliation i') = True"
| "foreign e tok i (Complete n i' res) = True"
| "foreign e tok i (Fail n i' why) = True"
| "foreign e tok i (CreatePending n rec) = True"
| "foreign e tok i (CompleteAt n i' res v) = True"
| "foreign e tok i (FailAt n i' why v) = True"

lemma foreign_keeps_claim:
  assumes "the_op i rows = Some r" and "op_claim_token r = Some tok" and "op_claim_expires_at r = Some e"
    and "foreign e tok i call"
  shows "\<exists>r'. the_op i (op_exec call rows) = Some r' \<and> op_claim_token r' = Some tok \<and> op_claim_expires_at r' = Some e"
  using assms the_op_id [OF assms(1)]
  by (cases call) (auto simp: op_calls the_op_update the_op_insert claimed_open_def claim_free_def)

text \<open>
  C12. A claim is exclusive until it expires: whatever the others call, in any order, the holder's token stays on the
  operation with its expiry, and every attempt to claim the operation up to that time is refused.
\<close>

theorem operation_claim_exclusive:
  assumes "the_op i rows = Some r" and "op_claim_token r = Some tok" and "op_claim_expires_at r = Some e"
    and "list_all (foreign e tok i) calls" and "n \<le> e" and "distinct (map op_operation_id rows)"
  shows "map_option op_claim_token (the_op i (fold op_exec calls rows)) = Some (Some tok) \<and>
    fst (try_claim_operation tok' u n i secs (fold op_exec calls rows)) = Inr None"
proof -
  have "\<exists>r'. the_op i (fold op_exec calls rows) = Some r' \<and> op_claim_token r' = Some tok \<and> op_claim_expires_at r' = Some e"
    using assms(1-4)
  proof (induction calls arbitrary: rows r)
    case (Cons call calls)
    then show ?case using foreign_keeps_claim [OF Cons.prems(1-3), of call] by auto
  qed simp
  then obtain r' where r': "the_op i (fold op_exec calls rows) = Some r'" "op_claim_token r' = Some tok"
    "op_claim_expires_at r' = Some e" by blast
  then have "x = r'" if "x \<in> set (fold op_exec calls rows)" "op_operation_id x = i" for x
    using that the_op_unique [OF op_fold_ids [OF assms(6)]] by blast
  then have "rows_affected (\<lambda>r. op_operation_id r = i \<and> op_open r \<and> claim_free n r) (fold op_exec calls rows) = 0"
    using r'(2,3) assms(5) unfolding rows_affected_0_iff by (fastforce simp: claim_free_def)
  then show ?thesis using r' by (simp add: try_claim_operation_def update_op_def then_do_def return_def)
qed

theorem operation_claim_exclusive_witness:
  "let rows = snd (try_claim_operation ''t1'' ''u1'' 10 ''op-a'' 60
         (snd (begin_operation ''a'' 0 ''task'' ''dispatch'' ''{}'' ''k'' [])));
       calls = [Renew 20 ''op-a'' ''t2'' 60, Release ''op-a'' ''t2'', CompleteClaimed 30 ''op-a'' ''t2'' ''{}'',
         TryClaim ''t2'' ''u2'' 70 ''op-a'' 60]
   in map_option op_claim_token (the_op ''op-a'' (fold op_exec calls rows)) = Some (Some ''t1'') \<and>
      fst (try_claim_operation ''t3'' ''u3'' 70 ''op-a'' 60 (fold op_exec calls rows)) = Inr None \<and>
      fst (try_claim_operation ''t3'' ''u3'' 71 ''op-a'' 60 (fold op_exec calls rows)) = Inr (Some ''t3'')"
proof -
  define rows where "rows = snd (try_claim_operation ''t1'' ''u1'' 10 ''op-a'' 60
    (snd (begin_operation ''a'' 0 ''task'' ''dispatch'' ''{}'' ''k'' [])))"
  define calls where "calls = [Renew 20 ''op-a'' ''t2'' 60, Release ''op-a'' ''t2'', CompleteClaimed 30 ''op-a'' ''t2'' ''{}'',
         TryClaim ''t2'' ''u2'' 70 ''op-a'' 60]"
  have some: "map_option (\<lambda>r. (op_claim_token r, op_claim_expires_at r)) (the_op ''op-a'' rows) = Some (Some ''t1'', Some 70)"
    unfolding rows_def by code_simp
  then obtain r where r: "the_op ''op-a'' rows = Some r" "op_claim_token r = Some ''t1''" "op_claim_expires_at r = Some 70"
    by auto
  have "list_all (foreign 70 ''t1'' ''op-a'') calls" unfolding calls_def by code_simp
  moreover have "distinct (map op_operation_id rows)" unfolding rows_def by code_simp
  ultimately have "map_option op_claim_token (the_op ''op-a'' (fold op_exec calls rows)) = Some (Some ''t1'') \<and>
      fst (try_claim_operation ''t3'' ''u3'' 70 ''op-a'' 60 (fold op_exec calls rows)) = Inr None"
    using operation_claim_exclusive [OF r, of calls 70] by simp
  moreover have "fst (try_claim_operation ''t3'' ''u3'' 71 ''op-a'' 60 (fold op_exec calls rows)) = Inr (Some ''t3'')"
    unfolding rows_def calls_def by code_simp
  ultimately show ?thesis unfolding rows_def calls_def by (simp only: Let_def simp_thms)
qed

end
