(* ===== verification/Readiness.thy ===== *)
theory Readiness
  imports Transition Plan_Graph
begin

text \<open>
  \<open>scheduler/readiness.rs\<close>: whether a task can be dispatched, read from the tables of tasks, executions and task
  dependencies. The dependency graph is collected breadth first from the tables and searched depth first for a cycle.
\<close>

section \<open>Tables and results\<close>

record ReadyDb =
  ry_tasks :: "(string \<times> string) list"  \<comment> \<open>\<open>tasks\<close>: id, lifecycle\<close>
  ry_executions :: "(string \<times> string \<times> string) list"  \<comment> \<open>\<open>execution_attempts\<close>: id, task, lifecycle\<close>
  ry_deps :: "(string \<times> string) list"  \<comment> \<open>\<open>task_dependencies\<close>: task, task it depends on\<close>

datatype BlockReason =
    DependencyIncomplete | BR_DependencyFailed | BR_DependencyMissing | BR_DependencyCycle | BR_TaskTerminal
  | BR_ActiveExecutionExists | ProfileUnavailable | ValidationRequired | ExplicitClaimRequired | ConcurrencyLimit
  | HumanApprovalRequired

datatype ReadyStatus =
    Ready_Ready
  | Ready_Blocked "string list" BlockReason
  | Ready_Terminal
  | ActiveExecutionExists string
  | NoCompatibleProfile | RequiresProfileValidation | RequiresExplicitClaim | ConcurrencyLimited
  | AwaitingHuman
  | DependencyCycle "string list"
  | DependencyMissing "string list"
  | UpstreamFailed "string list"

text \<open>\<open>serde_json::from_str(..).unwrap_or(Pending)\<close>.\<close>

definition all_task_states :: "TaskLifecycle list" where
  "all_task_states = [Task_Pending, Task_Ready, Task_Dispatched, Task_Running, Task_AwaitingInput, Task_RetryPending,
     Task_Submitted, Task_Verified, Task_Done, Task_Cancelled, Task_Superseded, Task_Failed]"

definition parse_task_lc :: "string \<Rightarrow> TaskLifecycle" where
  "parse_task_lc s = (case find (\<lambda>l. task_serde l = s) all_task_states of Some l \<Rightarrow> l | None \<Rightarrow> Task_Pending)"

lemma parse_task_lc_serde: "parse_task_lc (task_serde l) = l"
  by (cases l) (simp_all add: parse_task_lc_def all_task_states_def task_serde_def)

definition sub_deps :: "ReadyDb \<Rightarrow> string \<Rightarrow> string list" where
  "sub_deps db t = map snd (filter (\<lambda>(a, _). a = t) (ry_deps db))"


section \<open>The graph reachable from a task\<close>

text \<open>\<open>entry(..).or_default().push(..)\<close>.\<close>

fun graph_push :: "string \<Rightarrow> string \<Rightarrow> dep_map \<Rightarrow> dep_map" where
  "graph_push a b [] = [(a, [b])]"
| "graph_push a b ((k, ds) # g) = (if k = a then (k, ds @ [b]) # g else (k, ds) # graph_push a b g)"

definition push_all :: "string \<Rightarrow> string list \<Rightarrow> dep_map \<Rightarrow> dep_map" where
  "push_all a ds g = fold (graph_push a) ds g"

function collect :: "ReadyDb \<Rightarrow> string list \<Rightarrow> string set \<Rightarrow> dep_map \<Rightarrow> dep_map" where
  "collect db [] visited g = g"
| "collect db (current # queue) visited g =
     (if current \<in> visited then collect db queue visited g
      else collect db (queue @ sub_deps db current) (insert current visited) (push_all current (sub_deps db current) g))"
  by pat_completeness auto
termination collect
proof (relation "inv_image (less_than <*lex*> less_than) (\<lambda>(db, queue, visited, g).
    (card ((set queue \<union> snd ` set (ry_deps db)) - visited), length queue))")
  fix db :: ReadyDb and current :: string and queue visited and g :: dep_map
  let ?U = "set (current # queue) \<union> snd ` set (ry_deps db)"
  have fin: "finite (?U - visited)" by simp
  show "((db, queue, visited, g), (db, current # queue, visited, g)) \<in> inv_image (less_than <*lex*> less_than)
    (\<lambda>(db, queue, visited, g). (card ((set queue \<union> snd ` set (ry_deps db)) - visited), length queue))"
  proof -
    have "card ((set queue \<union> snd ` set (ry_deps db)) - visited) \<le> card (?U - visited)"
      by (rule card_mono [OF fin]) auto
    then show ?thesis by auto
  qed
  assume new: "current \<notin> visited"
  let ?V = "(set (queue @ sub_deps db current) \<union> snd ` set (ry_deps db)) - insert current visited"
  have "?V \<subseteq> (?U - visited) - {current}" by (auto simp: sub_deps_def)
  moreover have "card ((?U - visited) - {current}) < card (?U - visited)" using new by (intro card_Diff1_less [OF fin]) simp
  ultimately have "card ?V < card (?U - visited)" using card_mono [of "(?U - visited) - {current}" ?V] fin by fastforce
  then show "((db, queue @ sub_deps db current, insert current visited, push_all current (sub_deps db current) g),
      (db, current # queue, visited, g)) \<in> inv_image (less_than <*lex*> less_than)
    (\<lambda>(db, queue, visited, g). (card ((set queue \<union> snd ` set (ry_deps db)) - visited), length queue))" by simp
qed auto


section \<open>The search for a cycle\<close>

text \<open>
  The nodes still white, the path with the grey nodes; a cycle that was found, or the white nodes left. The black set
  of the code is never read.
\<close>

function (sequential) cycle_visit ::
    "dep_map \<Rightarrow> string \<Rightarrow> string list \<Rightarrow> string set \<Rightarrow> string list \<Rightarrow> string list + string list"
  and cycle_each ::
    "dep_map \<Rightarrow> string list \<Rightarrow> string list \<Rightarrow> string set \<Rightarrow> string list \<Rightarrow> string list + string list" where
  "cycle_visit g node white gray path =
     cycle_each g (deps_of g node) (removeAll node white) (insert node gray) (path @ [node])"
| "cycle_each g [] white gray path = Inr white"
| "cycle_each g (neighbor # ns) white gray path =
     (if neighbor \<in> gray then
        Inl (drop (case position (\<lambda>n. n = neighbor) path of Some i \<Rightarrow> i | None \<Rightarrow> 0) path @ [neighbor])
      else if neighbor \<in> set white then
        (case cycle_visit g neighbor white gray path of
           Inl cycle \<Rightarrow> Inl cycle
         | Inr white' \<Rightarrow> cycle_each g ns white' gray path)
      else cycle_each g ns white gray path)"
  by pat_completeness auto

lemma cycle_dom_white:
  "cycle_visit_cycle_each_dom (Inl (g, node, white, gray, path)) \<Longrightarrow> cycle_visit g node white gray path = Inr w \<Longrightarrow>
   length w \<le> length (removeAll node white) \<and> set w \<subseteq> set white - {node}"
  "cycle_visit_cycle_each_dom (Inr (g, ns, white, gray, path)) \<Longrightarrow> cycle_each g ns white gray path = Inr w \<Longrightarrow>
   length w \<le> length white \<and> set w \<subseteq> set white"
proof (induction arbitrary: w and w rule: cycle_visit_cycle_each.pinduct)
  case (1 g node white gray path)
  then show ?case by (simp add: cycle_visit.psimps)
next
  case (3 g n ns white gray path)
  show ?case
  proof (cases "n \<notin> gray \<and> n \<in> set white")
    case True
    then obtain w1 where w1: "cycle_visit g n white gray path = Inr w1" "cycle_each g ns w1 gray path = Inr w"
      using 3(1,5) by (auto simp: cycle_each.psimps split: sum.splits)
    have "length w1 \<le> length (removeAll n white) \<and> set w1 \<subseteq> set white - {n}" using 3(2) True w1(1) by blast
    moreover have "length w \<le> length w1 \<and> set w \<subseteq> set w1" using 3(3) True w1 by blast
    moreover have "length (removeAll n white) \<le> length white" by (simp add: removeAll_filter_not_eq)
    ultimately show ?thesis by (meson Diff_subset dual_order.trans)
  next
    case False
    then have "n \<notin> gray" "n \<notin> set white" using 3(1,5) by (auto simp: cycle_each.psimps)
    then show ?thesis using 3(4) 3(5) by (simp add: cycle_each.psimps(2) [OF 3(1)])
  qed
qed (simp add: cycle_each.psimps)

termination cycle_visit
proof (relation "inv_image (less_than <*lex*> less_than <*lex*> less_than) (\<lambda>call. case call of
    Inl (g, node, white, gray, path) \<Rightarrow> (length (removeAll node white), 1::nat, 0)
  | Inr (g, ns, white, gray, path) \<Rightarrow> (length white, 0, length ns))")
  fix g :: dep_map and n :: string and ns white :: "string list" and gray :: "string set" and path w :: "string list"
  show "n \<in> set white \<Longrightarrow> (Inl (g, n, white, gray, path), Inr (g, n # ns, white, gray, path)) \<in>
    inv_image (less_than <*lex*> less_than <*lex*> less_than) (\<lambda>call. case call of
      Inl (g, node, white, gray, path) \<Rightarrow> (length (removeAll node white), 1::nat, 0)
    | Inr (g, ns, white, gray, path) \<Rightarrow> (length white, 0, length ns))"
    by (simp add: length_removeAll_less)
  assume "cycle_visit_cycle_each_dom (Inl (g, n, white, gray, path))" "cycle_visit g n white gray path = Inr w" "n \<in> set white"
  then have "length w < length white" using cycle_dom_white(1) length_removeAll_less [of n white] by fastforce
  then show "(Inr (g, ns, w, gray, path), Inr (g, n # ns, white, gray, path)) \<in>
    inv_image (less_than <*lex*> less_than <*lex*> less_than) (\<lambda>call. case call of
      Inl (g, node, white, gray, path) \<Rightarrow> (length (removeAll node white), 1::nat, 0)
    | Inr (g, ns, white, gray, path) \<Rightarrow> (length white, 0, length ns))"
    by simp
qed auto


definition start_graph :: "string \<Rightarrow> string list \<Rightarrow> dep_map" where
  "start_graph start deps = push_all start deps []"

text \<open>\<open>detect_cycle\<close> of the evaluator.\<close>

definition ready_detect_cycle :: "ReadyDb \<Rightarrow> string \<Rightarrow> string list \<Rightarrow> string list option" where
  "ready_detect_cycle db start deps =
     (let graph = collect db deps {} (start_graph start deps)
      in case cycle_visit graph start (map fst graph) {} [] of Inl cycle \<Rightarrow> Some cycle | Inr _ \<Rightarrow> None)"


section \<open>Evaluation\<close>

definition lifecycle_of :: "ReadyDb \<Rightarrow> string \<Rightarrow> TaskLifecycle option" where
  "lifecycle_of db t = map_option (\<lambda>(_, lc). parse_task_lc lc) (select_one (\<lambda>(i, _). i = t) (ry_tasks db))"

definition active_execution :: "ReadyDb \<Rightarrow> string \<Rightarrow> string option" where
  "active_execution db t = map_option fst (select_one
     (\<lambda>(_, task, lc). task = t \<and> lc \<notin> {''completed'', ''failed'', ''lost'', ''cancelled''}) (ry_executions db))"

text \<open>The three lists the states of the dependencies are sorted into.\<close>

definition dep_missing :: "ReadyDb \<Rightarrow> string \<Rightarrow> bool" where
  "dep_missing db d \<longleftrightarrow> lifecycle_of db d = None"

definition dep_failed :: "ReadyDb \<Rightarrow> string \<Rightarrow> bool" where
  "dep_failed db d \<longleftrightarrow> lifecycle_of db d \<in> {Some Task_Failed, Some Task_Cancelled, Some Task_Superseded}"

definition dep_satisfied :: "ReadyDb \<Rightarrow> string \<Rightarrow> bool" where
  "dep_satisfied db d \<longleftrightarrow> lifecycle_of db d \<in> {Some Task_Done, Some Task_Verified}"

definition check_dependencies :: "ReadyDb \<Rightarrow> string list \<Rightarrow> ReadyStatus" where
  "check_dependencies db dep_ids =
     (let missing = filter (dep_missing db) dep_ids;
          failed = filter (dep_failed db) dep_ids;
          blocked_by = filter (\<lambda>d. \<not> dep_missing db d \<and> \<not> dep_failed db d \<and> \<not> dep_satisfied db d) dep_ids
      in if missing \<noteq> [] then DependencyMissing missing
         else if failed \<noteq> [] then UpstreamFailed failed
         else if blocked_by \<noteq> [] then Ready_Blocked blocked_by DependencyIncomplete
         else Ready_Ready)"

definition evaluate :: "ReadyDb \<Rightarrow> string \<Rightarrow> ReadyStatus" where
  "evaluate db task_id =
     (case lifecycle_of db task_id of
        None \<Rightarrow> Ready_Blocked [task_id] BR_DependencyMissing
      | Some lc \<Rightarrow>
          if task_is_terminal lc then Ready_Terminal
          else
            (case (if task_has_active_execution lc then active_execution db task_id else None) of
               Some exec_id \<Rightarrow> ActiveExecutionExists exec_id
             | None \<Rightarrow>
                 (let dep_ids = sub_deps db task_id
                  in if dep_ids = [] then
                       (if lc \<in> {Task_Pending, Task_Ready, Task_RetryPending} then Ready_Ready
                        else if lc = Task_AwaitingInput then AwaitingHuman
                        else Ready_Blocked [] BR_TaskTerminal)
                     else (case ready_detect_cycle db task_id dep_ids of
                             Some cycle \<Rightarrow> DependencyCycle cycle
                           | None \<Rightarrow> check_dependencies db dep_ids))))"

definition find_ready_tasks :: "ReadyDb \<Rightarrow> string list" where
  "find_ready_tasks db =
     filter (\<lambda>t. evaluate db t = Ready_Ready)
       (map fst (filter (\<lambda>(_, lc). lc \<in> {''pending'', ''ready'', ''retry_pending''}) (ry_tasks db)))"


section \<open>The collected graph\<close>








section \<open>The search is exact\<close>












section \<open>Readiness\<close>









text \<open>
  With dependencies the lifecycle is not looked at any more: a task that waits for input, or was submitted, is ready as
  soon as its dependencies are done. Without dependencies it is not.
\<close>

lemma waiting_task_ready:
  "evaluate \<lparr>ry_tasks = [(''t'', ''awaiting_input''), (''d'', ''done'')], ry_executions = [], ry_deps = [(''t'', ''d'')]\<rparr> ''t'' =
     Ready_Ready \<and>
   evaluate \<lparr>ry_tasks = [(''t'', ''awaiting_input''), (''d'', ''done'')], ry_executions = [], ry_deps = []\<rparr> ''t'' = AwaitingHuman"
  by code_simp

text \<open>A task that was dispatched and whose execution runs is ready once its dependencies are done.\<close>

lemma dispatched_execution_ignored:
  "evaluate \<lparr>ry_tasks = [(''t'', ''dispatched''), (''d'', ''done'')], ry_executions = [(''e'', ''t'', ''running'')],
     ry_deps = [(''t'', ''d'')]\<rparr> ''t'' = Ready_Ready \<and>
   lifecycle_of \<lparr>ry_tasks = [(''t'', ''dispatched'')], ry_executions = [], ry_deps = []\<rparr> ''t'' = Some Task_Dispatched"
  by code_simp

text \<open>A task is reported as part of a cycle it does not lie on, when it depends on one.\<close>

lemma upstream_cycle_reported:
  "evaluate \<lparr>ry_tasks = [(''t'', ''pending''), (''a'', ''pending''), (''b'', ''pending'')], ry_executions = [],
     ry_deps = [(''t'', ''a''), (''a'', ''b''), (''b'', ''a'')]\<rparr> ''t'' = DependencyCycle [''a'', ''b'', ''a'']"
  by code_simp

end
