(* ===== verification/Handoff.thy ===== *)
theory Handoff
  imports Effects "HOL-Library.AList"
begin

text \<open>
  The hand-off of an execution's resources from the scheduler to verification: the durable records of
  \<open>scheduler/handoff_repo.rs\<close> and the registry of running heartbeats of \<open>scheduler/heartbeat_registry.rs\<close>. Every method
  is one statement or one transaction on the table, or one critical section of the registry's locks. A hash map is an
  association list, updated by \<open>AList.update\<close> and \<open>AList.delete\<close>; stored times count seconds.
\<close>

section \<open>Durable records\<close>

datatype HandoffStatus = SchedulerOwned | VerificationOwned | HS_Released | HS_Lost | ReconciliationRequired

fun handoff_as_str :: "HandoffStatus \<Rightarrow> string" where
  "handoff_as_str SchedulerOwned = ''scheduler_owned''"
| "handoff_as_str VerificationOwned = ''verification_owned''"
| "handoff_as_str HS_Released = ''released''"
| "handoff_as_str HS_Lost = ''lost''"
| "handoff_as_str ReconciliationRequired = ''reconciliation_required''"

definition handoff_parse :: "string \<Rightarrow> HandoffStatus" where
  "handoff_parse s =
     (if s = ''verification_owned'' then VerificationOwned
      else if s = ''released'' then HS_Released
      else if s = ''lost'' then HS_Lost
      else if s = ''reconciliation_required'' then ReconciliationRequired
      else SchedulerOwned)"

fun handoff_is_terminal :: "HandoffStatus \<Rightarrow> bool" where
  "handoff_is_terminal HS_Released = True"
| "handoff_is_terminal HS_Lost = True"
| "handoff_is_terminal _ = False"

record HandoffRecord =
  hf_handoff_id :: string
  hf_project_id :: string
  hf_task_id :: string
  hf_execution_id :: string
  hf_worktree_id :: "string option"
  hf_lease_id :: "string option"
  hf_claim_group_id :: "string option"
  hf_fencing_token :: int
  hf_owner_kind :: string
  hf_owner_id :: string
  hf_status :: string
  hf_heartbeat_last_seen_at :: "int option"
  hf_detail_json :: "string option"
  hf_version :: int

type_synonym handoff_table = "HandoffRecord list"

datatype TakeoverPersistResult =
    Persist_Acquired | Persist_AlreadyOwned | Persist_Contested string | Persist_VersionConflict
  | Persist_TerminalState | Persist_NotFound

record CreateHandoffParams =
  hp_execution_id :: string
  hp_worktree_id :: "string option"
  hp_lease_id :: "string option"
  hp_claim_group_id :: "string option"
  hp_fencing_token :: int
  hp_owner_id :: string

definition handoff_error :: "string \<Rightarrow> CoreError" where
  "handoff_error message = core_error_new PersistenceError message SrcSystem"

definition handoff_get_by_execution :: "string \<Rightarrow> handoff_table \<Rightarrow> HandoffRecord option" where
  "handoff_get_by_execution execution_id rows = select_one (\<lambda>r. hf_execution_id r = execution_id) rows"

definition handoff_get_by_lease :: "string \<Rightarrow> handoff_table \<Rightarrow> HandoffRecord option" where
  "handoff_get_by_lease lease_id rows = select_one (\<lambda>r. hf_lease_id r = Some lease_id) rows"

definition handoff_get :: "string \<Rightarrow> handoff_table \<Rightarrow> HandoffRecord option" where
  "handoff_get handoff_id rows = select_one (\<lambda>r. hf_handoff_id r = handoff_id) rows"

definition handoff_row :: "string \<Rightarrow> string \<Rightarrow> string \<Rightarrow> CreateHandoffParams \<Rightarrow> HandoffRecord" where
  "handoff_row handoff_id project_id task_id params =
     \<lparr>hf_handoff_id = handoff_id, hf_project_id = project_id, hf_task_id = task_id,
      hf_execution_id = hp_execution_id params, hf_worktree_id = hp_worktree_id params,
      hf_lease_id = hp_lease_id params, hf_claim_group_id = hp_claim_group_id params,
      hf_fencing_token = hp_fencing_token params, hf_owner_kind = ''scheduler'', hf_owner_id = hp_owner_id params,
      hf_status = ''scheduler_owned'', hf_heartbeat_last_seen_at = None, hf_detail_json = None, hf_version = 1\<rparr>"

definition handoff_insert :: "HandoffRecord \<Rightarrow> (handoff_table, unit) op" where
  "handoff_insert row rows =
     (if list_ex (\<lambda>r. hf_handoff_id r = hf_handoff_id row \<or> hf_execution_id r = hf_execution_id row) rows
      then (Inl (handoff_error ''create handoff: UNIQUE constraint failed: resource_handoffs''), rows)
      else (Inr (), rows @ [row]))"

definition handoff_create ::
    "string \<Rightarrow> string \<Rightarrow> string \<Rightarrow> CreateHandoffParams \<Rightarrow> (handoff_table, HandoffRecord) op" where
  "handoff_create handoff_id project_id task_id params =
     then_do (handoff_insert (handoff_row handoff_id project_id task_id params)) (\<lambda>_.
       require (handoff_error ''handoff created but not found'') (handoff_get_by_execution (hp_execution_id params)))"

definition handoff_update :: "string \<Rightarrow> (HandoffRecord \<Rightarrow> HandoffRecord) \<Rightarrow> handoff_table \<Rightarrow> handoff_table" where
  "handoff_update execution_id f rows = update_where (\<lambda>r. hf_execution_id r = execution_id) f rows"

text \<open>
  The read and the write of a takeover are one transaction: a write based on an outdated read fails in SQLite and
  leaves the table as it was.
\<close>

definition handoff_takeover :: "string \<Rightarrow> string \<Rightarrow> int \<Rightarrow> handoff_table \<Rightarrow> TakeoverPersistResult \<times> handoff_table" where
  "handoff_takeover execution_id verification_owner_id expected_version rows =
     (case handoff_get_by_execution execution_id rows of
        None \<Rightarrow> (Persist_NotFound, rows)
      | Some r \<Rightarrow>
          let hs = handoff_parse (hf_status r) in
          if handoff_is_terminal hs then (Persist_TerminalState, rows)
          else if hs = ReconciliationRequired then (Persist_TerminalState, rows)
          else if hf_owner_kind r = ''verification'' \<and> hf_owner_id r = verification_owner_id then
            (Persist_AlreadyOwned, rows)
          else if hf_owner_kind r = ''verification'' \<and> hf_owner_id r \<noteq> verification_owner_id then
            (Persist_Contested (hf_owner_id r), rows)
          else if hf_version r \<noteq> expected_version then (Persist_VersionConflict, rows)
          else
            let hit = (\<lambda>r. hf_execution_id r = execution_id \<and> hf_version r = expected_version) in
            if rows_affected hit rows = 0 then (Persist_VersionConflict, rows)
            else (Persist_Acquired, update_where hit
                   (\<lambda>r. r\<lparr>hf_owner_kind := ''verification'', hf_owner_id := verification_owner_id,
                          hf_status := ''verification_owned'', hf_version := hf_version r + 1\<rparr>) rows))"

definition handoff_update_heartbeat :: "int \<Rightarrow> string \<Rightarrow> handoff_table \<Rightarrow> handoff_table" where
  "handoff_update_heartbeat now execution_id =
     handoff_update execution_id (\<lambda>r. r\<lparr>hf_heartbeat_last_seen_at := Some now\<rparr>)"

text \<open>\<open>release_json\<close> is the text of the JSON object of a reason and a time.\<close>

definition handoff_mark_released ::
    "(string \<Rightarrow> int \<Rightarrow> string) \<Rightarrow> int \<Rightarrow> string \<Rightarrow> string \<Rightarrow> handoff_table \<Rightarrow> handoff_table" where
  "handoff_mark_released release_json now execution_id reason =
     handoff_update execution_id (\<lambda>r. r\<lparr>hf_status := ''released'', hf_detail_json := Some (release_json reason now),
       hf_version := hf_version r + 1\<rparr>)"

definition handoff_mark_lost :: "string \<Rightarrow> handoff_table \<Rightarrow> handoff_table" where
  "handoff_mark_lost execution_id =
     handoff_update execution_id (\<lambda>r. r\<lparr>hf_status := ''lost'', hf_version := hf_version r + 1\<rparr>)"

definition handoff_mark_reconciliation_required :: "string \<Rightarrow> string \<Rightarrow> handoff_table \<Rightarrow> handoff_table" where
  "handoff_mark_reconciliation_required execution_id detail =
     handoff_update execution_id (\<lambda>r. r\<lparr>hf_status := ''reconciliation_required'', hf_detail_json := Some detail,
       hf_version := hf_version r + 1\<rparr>)"

definition handoff_list_by_status :: "string \<Rightarrow> handoff_table \<Rightarrow> HandoffRecord list" where
  "handoff_list_by_status status rows = filter (\<lambda>r. hf_status r = status) rows"

text \<open>
  The step of \<open>verification/release_steps.rs\<close> that releases a hand-off: it reads the version, and writes under it.
\<close>

definition release_handoff_cas :: "string \<Rightarrow> string \<Rightarrow> int \<Rightarrow> int \<Rightarrow> handoff_table \<Rightarrow> nat \<times> handoff_table" where
  "release_handoff_cas handoff_id owner_id fencing version rows =
     (let P = (\<lambda>r. hf_handoff_id r = handoff_id \<and> hf_status r = ''verification_owned'' \<and>
                   hf_owner_kind r = ''verification'' \<and> hf_owner_id r = owner_id \<and> hf_fencing_token r = fencing \<and>
                   hf_version r = version)
      in (rows_affected P rows, update_where P (\<lambda>r. r\<lparr>hf_status := ''released'', hf_version := hf_version r + 1\<rparr>) rows))"

definition release_handoff_step ::
    "(handoff_table \<Rightarrow> handoff_table) \<Rightarrow> string \<Rightarrow> string \<Rightarrow> int \<Rightarrow> handoff_table \<Rightarrow> (string, unit) result \<times> handoff_table" where
  "release_handoff_step gap execution_id owner_id fencing rows =
     (case handoff_get_by_execution execution_id rows of
        None \<Rightarrow> (Inl ''handoff missing'', rows)
      | Some r \<Rightarrow>
          let (n, rows') = release_handoff_cas (hf_handoff_id r) owner_id fencing (hf_version r) (gap rows)
          in (if n = 1 then Inr () else Inl (''handoff '' @ hf_handoff_id r @ '' CAS lost''), rows'))"

section \<open>The registry of heartbeats\<close>

datatype HeartbeatStatus = HB_Healthy | HB_Degraded string | HB_Stopped string | HB_Missing

datatype OwnerKind = Owner_Scheduler | Owner_Verification

fun owner_kind_as_str :: "OwnerKind \<Rightarrow> string" where
  "owner_kind_as_str Owner_Scheduler = ''scheduler''"
| "owner_kind_as_str Owner_Verification = ''verification''"

definition owner_kind_parse :: "string \<Rightarrow> OwnerKind" where
  "owner_kind_parse s = (if s = ''verification'' then Owner_Verification else Owner_Scheduler)"

text \<open>The cancellation token, which the runner of the heartbeat watches, is whether it was cancelled.\<close>

record HeartbeatEntry =
  he_execution_id :: string
  he_task_id :: string
  he_worktree_id :: string
  he_lease_id :: string
  he_claim_group_id :: "string option"
  he_fencing_token :: int
  he_owner_kind :: OwnerKind
  he_owner_id :: string
  he_status :: HeartbeatStatus
  he_last_heartbeat_at :: "int option"
  he_cancelled :: bool
  he_last_error :: "string option"

record InspectResult =
  hi_execution_id :: string
  hi_task_id :: string
  hi_worktree_id :: string
  hi_lease_id :: string
  hi_claim_group_id :: "string option"
  hi_fencing_token :: int
  hi_owner_kind :: string
  hi_owner_id :: string
  hi_status :: string
  hi_last_heartbeat_at :: "int option"
  hi_last_error :: "string option"

datatype HeartbeatRemoveOutcome = Rm_Removed | Rm_NotFound | Rm_IdentityMismatch string int

datatype HeartbeatTakeoverResult =
    Reg_Acquired | Reg_AlreadyOwned | Reg_Contested string | Reg_StaleFencing int int | Reg_Terminal string | Reg_NotFound

record HeartbeatRegistry =
  reg_entries :: "(string \<times> HeartbeatEntry) list"
  reg_lease_index :: "(string \<times> string) list"

definition reg_new :: HeartbeatRegistry where
  "reg_new = \<lparr>reg_entries = [], reg_lease_index = []\<rparr>"

definition reg_conflict :: "string \<Rightarrow> string \<Rightarrow> CoreError" where
  "reg_conflict execution_id message =
     core_error_new (ResourceConflict (''heartbeat-exec:'' @ execution_id)) message SrcSystem"

definition reg_register :: "HeartbeatEntry \<Rightarrow> (HeartbeatRegistry, unit) op" where
  "reg_register entry reg =
     (if map_of (reg_entries reg) (he_execution_id entry) \<noteq> None then
        (Inl (reg_conflict (he_execution_id entry) ''heartbeat already registered for this execution''), reg)
      else (Inr (), \<lparr>reg_entries = AList.update (he_execution_id entry) entry (reg_entries reg),
                     reg_lease_index = AList.update (he_lease_id entry) (he_execution_id entry) (reg_lease_index reg)\<rparr>))"

fun heartbeat_status_str :: "HeartbeatStatus \<Rightarrow> string" where
  "heartbeat_status_str HB_Healthy = ''healthy''"
| "heartbeat_status_str (HB_Degraded e) = ''degraded: '' @ e"
| "heartbeat_status_str (HB_Stopped r) = ''stopped: '' @ r"
| "heartbeat_status_str HB_Missing = ''missing''"

definition to_result :: "HeartbeatEntry \<Rightarrow> InspectResult" where
  "to_result e =
     \<lparr>hi_execution_id = he_execution_id e, hi_task_id = he_task_id e, hi_worktree_id = he_worktree_id e,
      hi_lease_id = he_lease_id e, hi_claim_group_id = he_claim_group_id e, hi_fencing_token = he_fencing_token e,
      hi_owner_kind = owner_kind_as_str (he_owner_kind e), hi_owner_id = he_owner_id e,
      hi_status = heartbeat_status_str (he_status e),
      hi_last_heartbeat_at = map_option (\<lambda>ms. ms div 1000) (he_last_heartbeat_at e), hi_last_error = he_last_error e\<rparr>"

definition reg_inspect :: "string \<Rightarrow> HeartbeatRegistry \<Rightarrow> InspectResult option" where
  "reg_inspect execution_id reg = map_option to_result (map_of (reg_entries reg) execution_id)"

definition reg_inspect_by_lease :: "string \<Rightarrow> HeartbeatRegistry \<Rightarrow> InspectResult option" where
  "reg_inspect_by_lease lease_id reg =
     (case map_of (reg_lease_index reg) lease_id of
        None \<Rightarrow> None
      | Some exec_id \<Rightarrow> map_option to_result (map_of (reg_entries reg) exec_id))"

definition reg_set :: "string \<Rightarrow> HeartbeatEntry \<Rightarrow> HeartbeatRegistry \<Rightarrow> HeartbeatRegistry" where
  "reg_set execution_id e reg = reg\<lparr>reg_entries := AList.update execution_id e (reg_entries reg)\<rparr>"

definition reg_takeover :: "string \<Rightarrow> string \<Rightarrow> int \<Rightarrow> HeartbeatRegistry \<Rightarrow> HeartbeatTakeoverResult \<times> HeartbeatRegistry" where
  "reg_takeover execution_id verification_owner_id expected_fencing reg =
     (case map_of (reg_entries reg) execution_id of
        None \<Rightarrow> (Reg_NotFound, reg)
      | Some entry \<Rightarrow>
          (case he_status entry of
             HB_Stopped reason \<Rightarrow> (Reg_Terminal (''stopped: '' @ reason), reg)
           | HB_Missing \<Rightarrow> (Reg_Terminal ''missing'', reg)
           | _ \<Rightarrow>
               if owner_kind_as_str (he_owner_kind entry) = ''verification'' \<and> he_owner_id entry = verification_owner_id then
                 (Reg_AlreadyOwned, reg)
               else if owner_kind_as_str (he_owner_kind entry) = ''verification'' then
                 (Reg_Contested (he_owner_id entry), reg)
               else if he_fencing_token entry \<noteq> expected_fencing then
                 (Reg_StaleFencing expected_fencing (he_fencing_token entry), reg)
               else (Reg_Acquired, reg_set execution_id
                      (entry\<lparr>he_owner_kind := Owner_Verification, he_owner_id := verification_owner_id\<rparr>) reg)))"

definition reg_cancel :: "string \<Rightarrow> string \<Rightarrow> int \<Rightarrow> (HeartbeatRegistry, unit) op" where
  "reg_cancel execution_id owner_id expected_fencing reg =
     (case map_of (reg_entries reg) execution_id of
        None \<Rightarrow> (Inl (core_error_new ConfigMissing (''heartbeat not found: '' @ execution_id) SrcSystem), reg)
      | Some entry \<Rightarrow>
          if he_owner_id entry \<noteq> owner_id then
            (Inl (reg_conflict execution_id (''cancel denied: owner mismatch (expected '' @ owner_id @ '', got '' @
                    he_owner_id entry @ '')'')), reg)
          else if he_fencing_token entry \<noteq> expected_fencing then
            (Inl (reg_conflict execution_id (''cancel denied: fencing mismatch (expected '' @ show_int expected_fencing @
                    '', actual '' @ show_int (he_fencing_token entry) @ '')'')), reg)
          else (Inr (), reg_set execution_id (entry\<lparr>he_cancelled := True\<rparr>) reg))"

definition reg_update_heartbeat_status ::
    "int \<Rightarrow> string \<Rightarrow> bool \<Rightarrow> string option \<Rightarrow> HeartbeatRegistry \<Rightarrow> HeartbeatRegistry" where
  "reg_update_heartbeat_status now execution_id success error reg =
     (case map_of (reg_entries reg) execution_id of
        None \<Rightarrow> reg
      | Some entry \<Rightarrow> reg_set execution_id
          (if success then entry\<lparr>he_last_heartbeat_at := Some now, he_status := HB_Healthy, he_last_error := None\<rparr>
           else entry\<lparr>he_last_heartbeat_at := Some now,
                      he_status := HB_Degraded (case error of None \<Rightarrow> '''' | Some e \<Rightarrow> e), he_last_error := error\<rparr>) reg)"

definition reg_mark_lost :: "string \<Rightarrow> HeartbeatRegistry \<Rightarrow> HeartbeatRegistry" where
  "reg_mark_lost execution_id reg =
     (case map_of (reg_entries reg) execution_id of
        None \<Rightarrow> reg
      | Some entry \<Rightarrow> reg_set execution_id (entry\<lparr>he_status := HB_Missing\<rparr>) reg)"

definition reg_remove :: "string \<Rightarrow> HeartbeatEntry \<Rightarrow> HeartbeatRegistry \<Rightarrow> HeartbeatRegistry" where
  "reg_remove execution_id entry reg =
     \<lparr>reg_entries = AList.delete execution_id (reg_entries reg),
      reg_lease_index = AList.delete (he_lease_id entry) (reg_lease_index reg)\<rparr>"

definition remove_after_finalization :: "string \<Rightarrow> HeartbeatRegistry \<Rightarrow> HeartbeatRegistry" where
  "remove_after_finalization execution_id reg =
     (case map_of (reg_entries reg) execution_id of
        None \<Rightarrow> reg
      | Some entry \<Rightarrow> reg_remove execution_id entry reg)"

definition remove_if_matches ::
    "string \<Rightarrow> string \<Rightarrow> int \<Rightarrow> HeartbeatRegistry \<Rightarrow> HeartbeatRemoveOutcome \<times> HeartbeatRegistry" where
  "remove_if_matches execution_id owner_id fencing_token reg =
     (case map_of (reg_entries reg) execution_id of
        None \<Rightarrow> (Rm_NotFound, reg)
      | Some entry \<Rightarrow>
          if he_owner_id entry = owner_id \<and> he_fencing_token entry = fencing_token then
            (Rm_Removed, reg_remove execution_id entry reg)
          else (Rm_IdentityMismatch (he_owner_id entry) (he_fencing_token entry), reg))"

definition reg_exists :: "string \<Rightarrow> HeartbeatRegistry \<Rightarrow> bool" where
  "reg_exists execution_id reg \<longleftrightarrow> map_of (reg_entries reg) execution_id \<noteq> None"

fun heartbeat_active :: "HeartbeatStatus \<Rightarrow> bool" where
  "heartbeat_active HB_Healthy = True"
| "heartbeat_active (HB_Degraded _) = True"
| "heartbeat_active _ = False"

definition reg_list_active :: "HeartbeatRegistry \<Rightarrow> string list" where
  "reg_list_active reg = map fst (filter (\<lambda>(_, e). heartbeat_active (he_status e)) (reg_entries reg))"

definition reg_cancel_all :: "HeartbeatRegistry \<Rightarrow> HeartbeatRegistry" where
  "reg_cancel_all reg = reg\<lparr>reg_entries := map (\<lambda>(i, e). (i, e\<lparr>he_cancelled := True\<rparr>)) (reg_entries reg)\<rparr>"

section \<open>Sequences of calls on the records\<close>

datatype HandoffCall =
    Ho_Create string string string CreateHandoffParams
  | Ho_Takeover string string int
  | Ho_Heartbeat int string
  | Ho_Released "string \<Rightarrow> int \<Rightarrow> string" int string string
  | Ho_Lost string
  | Ho_Reconcile string string
  | Ho_ReleaseCas string string int int

fun handoff_exec :: "HandoffCall \<Rightarrow> handoff_table \<Rightarrow> handoff_table" where
  "handoff_exec (Ho_Create h p t params) rows = snd (handoff_create h p t params rows)"
| "handoff_exec (Ho_Takeover e w v) rows = snd (handoff_takeover e w v rows)"
| "handoff_exec (Ho_Heartbeat now e) rows = handoff_update_heartbeat now e rows"
| "handoff_exec (Ho_Released json now e why) rows = handoff_mark_released json now e why rows"
| "handoff_exec (Ho_Lost e) rows = handoff_mark_lost e rows"
| "handoff_exec (Ho_Reconcile e detail) rows = handoff_mark_reconciliation_required e detail rows"
| "handoff_exec (Ho_ReleaseCas h w fencing v) rows = snd (release_handoff_cas h w fencing v rows)"

text \<open>The owners to whom a sequence of calls hands an execution over, in order.\<close>

fun handed_over :: "string \<Rightarrow> HandoffCall list \<Rightarrow> handoff_table \<Rightarrow> string list" where
  "handed_over e [] rows = []"
| "handed_over e (c # cs) rows =
     (case c of
        Ho_Takeover e' w v \<Rightarrow>
          if e' = e \<and> fst (handoff_takeover e' w v rows) = Persist_Acquired then [w] else []
      | _ \<Rightarrow> []) @ handed_over e cs (handoff_exec c rows)"

definition handoff_row_ok :: "HandoffRecord \<Rightarrow> bool" where
  "handoff_row_ok r \<longleftrightarrow>
     hf_status r \<in> {''scheduler_owned'', ''verification_owned'', ''released'', ''lost'', ''reconciliation_required''} \<and>
     hf_owner_kind r \<in> {''scheduler'', ''verification''} \<and>
     (hf_status r = ''verification_owned'' \<longrightarrow> hf_owner_kind r = ''verification'') \<and>
     (hf_status r = ''scheduler_owned'' \<longrightarrow> hf_owner_kind r = ''scheduler'') \<and> 1 \<le> hf_version r"

definition handoff_ok :: "handoff_table \<Rightarrow> bool" where
  "handoff_ok rows \<longleftrightarrow>
     distinct (map hf_handoff_id rows) \<and> distinct (map hf_execution_id rows) \<and> list_all handoff_row_ok rows"

lemmas handoff_marks = handoff_update_heartbeat_def handoff_mark_released_def handoff_mark_lost_def
  handoff_mark_reconciliation_required_def handoff_update_def release_handoff_cas_def Let_def

lemma handoff_parse_as_str [simp]: "handoff_parse (handoff_as_str s) = s"
  by (cases s) (simp_all add: handoff_parse_def)

lemma owner_kind_parse_as_str [simp]: "owner_kind_parse (owner_kind_as_str k) = k"
  by (cases k) (simp_all add: owner_kind_parse_def)

lemma handoff_create_cases:
  "snd (handoff_create h p t params rows) =
     (if list_ex (\<lambda>r. hf_handoff_id r = h \<or> hf_execution_id r = hp_execution_id params) rows then rows
      else rows @ [handoff_row h p t params])"
  by (simp add: handoff_create_def handoff_insert_def then_do_def require_def handoff_row_def split: option.split)

lemma handoff_takeover_cases:
  obtains "snd (handoff_takeover e w v rows) = rows" "fst (handoff_takeover e w v rows) \<noteq> Persist_Acquired"
  | r where "handoff_get_by_execution e rows = Some r" "hf_owner_kind r \<noteq> ''verification''" "hf_version r = v"
    "fst (handoff_takeover e w v rows) = Persist_Acquired"
    "snd (handoff_takeover e w v rows) = update_where (\<lambda>r. hf_execution_id r = e \<and> hf_version r = v)
       (\<lambda>r. r\<lparr>hf_owner_kind := ''verification'', hf_owner_id := w, hf_status := ''verification_owned'',
              hf_version := hf_version r + 1\<rparr>) rows"
  by (fastforce simp: handoff_takeover_def Let_def split: option.splits if_splits)

lemma handoff_ok_update:
  assumes "handoff_ok rows" and "\<And>r. P r \<Longrightarrow> hf_handoff_id (f r) = hf_handoff_id r"
    and "\<And>r. P r \<Longrightarrow> hf_execution_id (f r) = hf_execution_id r" and "\<And>r. P r \<Longrightarrow> handoff_row_ok r \<Longrightarrow> handoff_row_ok (f r)"
  shows "handoff_ok (update_where P f rows)"
  using assms by (simp add: handoff_ok_def map_update_where) (auto simp: list_all_iff set_update_where)

lemma handoff_exec_ok:
  assumes "handoff_ok rows"
  shows "handoff_ok (handoff_exec c rows)"
proof (cases c)
  case (Ho_Create h p t params)
  then show ?thesis using assms
    by (auto simp: handoff_create_cases handoff_ok_def handoff_row_def handoff_row_ok_def list_ex_iff)
next
  case (Ho_Takeover e w v)
  show ?thesis
    by (rule handoff_takeover_cases [of e w v rows])
      (auto simp: Ho_Takeover assms handoff_row_ok_def intro!: handoff_ok_update)
qed (auto simp: handoff_marks assms handoff_row_ok_def intro!: handoff_ok_update)

text \<open>
  A row of an execution stays, with its identity and fencing token, and an owner on the side of verification keeps it.
\<close>

definition handoff_succ :: "HandoffRecord \<Rightarrow> HandoffRecord \<Rightarrow> bool" where
  "handoff_succ r r' \<longleftrightarrow>
     hf_handoff_id r' = hf_handoff_id r \<and> hf_execution_id r' = hf_execution_id r \<and> hf_task_id r' = hf_task_id r \<and>
     hf_fencing_token r' = hf_fencing_token r \<and> hf_version r \<le> hf_version r' \<and>
     (hf_owner_kind r = ''verification'' \<longrightarrow> hf_owner_kind r' = ''verification'' \<and> hf_owner_id r' = hf_owner_id r)"

lemma handoff_succ_trans: "handoff_succ r r' \<Longrightarrow> handoff_succ r' r'' \<Longrightarrow> handoff_succ r r''"
  by (auto simp: handoff_succ_def)

lemma handoff_get_id: "handoff_get_by_execution e rows = Some r \<Longrightarrow> hf_execution_id r = e"
  by (auto simp: handoff_get_by_execution_def dest: select_one_Some)

lemma handoff_get_update:
  assumes "\<And>r. P r \<Longrightarrow> hf_execution_id (f r) = hf_execution_id r"
  shows "handoff_get_by_execution e (update_where P f rows) =
    map_option (\<lambda>r. if P r then f r else r) (handoff_get_by_execution e rows)"
  unfolding handoff_get_by_execution_def by (rule select_one_update) (auto simp: assms)

lemma handoff_get_exec:
  assumes "handoff_get_by_execution e rows = Some r"
  shows "\<exists>r'. handoff_get_by_execution e (handoff_exec c rows) = Some r' \<and> handoff_succ r r'"
proof (cases c)
  case (Ho_Create h p t params)
  then show ?thesis using assms
    by (auto simp: handoff_create_cases handoff_get_by_execution_def select_one_append handoff_succ_def)
next
  case (Ho_Takeover e' w v)
  show ?thesis
  proof (rule handoff_takeover_cases [of e' w v rows])
    fix q assume q: "handoff_get_by_execution e' rows = Some q" "hf_owner_kind q \<noteq> ''verification''"
      "snd (handoff_takeover e' w v rows) = update_where (\<lambda>r. hf_execution_id r = e' \<and> hf_version r = v)
       (\<lambda>r. r\<lparr>hf_owner_kind := ''verification'', hf_owner_id := w, hf_status := ''verification_owned'',
              hf_version := hf_version r + 1\<rparr>) rows"
    show ?thesis using assms q handoff_get_id [OF assms] by (cases "e' = e") (auto simp: Ho_Takeover handoff_get_update handoff_succ_def)
  qed (simp add: Ho_Takeover assms handoff_succ_def)
qed (use assms in \<open>auto simp: handoff_marks handoff_get_update handoff_succ_def\<close>)

lemma handoff_get_fold:
  assumes "handoff_get_by_execution e rows = Some r"
  shows "\<exists>r'. handoff_get_by_execution e (fold handoff_exec cs rows) = Some r' \<and> handoff_succ r r'"
  using assms
proof (induction cs arbitrary: rows r)
  case (Cons c cs)
  then show ?case by (metis handoff_get_exec handoff_succ_trans fold_simps(2))
qed (auto simp: handoff_succ_def)

lemma handed_over_verified:
  assumes "handoff_get_by_execution e rows = Some r" and "hf_owner_kind r = ''verification''"
  shows "handed_over e cs rows = []"
  using assms
proof (induction cs arbitrary: rows r)
  case (Cons c cs)
  obtain r' where "handoff_get_by_execution e (handoff_exec c rows) = Some r'" "hf_owner_kind r' = ''verification''"
    using handoff_get_exec [OF Cons.prems(1)] Cons.prems(2) by (auto simp: handoff_succ_def)
  then have "handed_over e cs (handoff_exec c rows) = []" by (rule Cons.IH)
  moreover have "fst (handoff_takeover e w v rows) \<noteq> Persist_Acquired" for w v
    using Cons.prems by (cases rule: handoff_takeover_cases [of e w v rows]) auto
  ultimately show ?case by (simp split: HandoffCall.split)
qed simp

section \<open>Properties\<close>

text \<open>
  C24. The table of hand-offs is well typed: whatever calls were made, a row's status and owner kind are texts of
  their enumerations, so that reading them back loses nothing; a row owned by the scheduler or by verification says so in
  both columns; versions count from 1; and an execution has at most one row.
\<close>

theorem handoff_well_typed:
  "handoff_ok (fold handoff_exec calls []) \<and>
   map (\<lambda>r. handoff_as_str (handoff_parse (hf_status r))) (fold handoff_exec calls []) =
     map hf_status (fold handoff_exec calls []) \<and>
   map (\<lambda>r. owner_kind_as_str (owner_kind_parse (hf_owner_kind r))) (fold handoff_exec calls []) =
     map hf_owner_kind (fold handoff_exec calls [])"
proof -
  have "handoff_ok rows \<Longrightarrow> handoff_ok (fold handoff_exec calls rows)" for rows
    by (induction calls arbitrary: rows) (simp_all add: handoff_exec_ok)
  moreover have "handoff_ok []" by (simp add: handoff_ok_def)
  ultimately have ok: "handoff_ok (fold handoff_exec calls [])" by blast
  have "handoff_as_str (handoff_parse (hf_status r)) = hf_status r \<and>
    owner_kind_as_str (owner_kind_parse (hf_owner_kind r)) = hf_owner_kind r" if "handoff_row_ok r" for r
    using that by (auto simp: handoff_row_ok_def handoff_parse_def owner_kind_parse_def)
  then show ?thesis using ok by (auto simp: handoff_ok_def list_all_iff)
qed

text \<open>
  C14. An execution is handed over at most once: of all takeovers that any verification owners attempt, with any
  versions and whatever is called in between, at most one is acquired, and its owner stays the owner for good.
\<close>

theorem handed_over_once:
  "case handed_over e calls rows of
     [] \<Rightarrow> True
   | [w] \<Rightarrow> map_option (\<lambda>r. (hf_owner_kind r, hf_owner_id r))
              (handoff_get_by_execution e (fold handoff_exec calls rows)) = Some (''verification'', w)
   | _ \<Rightarrow> False"
proof (induction calls arbitrary: rows)
  case (Cons c cs)
  show ?case
  proof (cases "\<exists>w v. c = Ho_Takeover e w v \<and> fst (handoff_takeover e w v rows) = Persist_Acquired")
    case True
    then obtain w v where c: "c = Ho_Takeover e w v" "fst (handoff_takeover e w v rows) = Persist_Acquired" by blast
    then obtain r where r: "handoff_get_by_execution e (handoff_exec c rows) = Some r"
      "hf_owner_kind r = ''verification''" "hf_owner_id r = w"
      by (cases rule: handoff_takeover_cases [of e w v rows])
        (auto simp: handoff_get_update dest: handoff_get_id)
    then obtain r' where "handoff_get_by_execution e (fold handoff_exec cs (handoff_exec c rows)) = Some r'"
      "hf_owner_kind r' = ''verification''" "hf_owner_id r' = w"
      using handoff_get_fold [OF r(1)] by (auto simp: handoff_succ_def)
    then show ?thesis using handed_over_verified [OF r(1,2)] c by simp
  next
    case False
    then have "handed_over e (c # cs) rows = handed_over e cs (handoff_exec c rows)"
      by (auto split: HandoffCall.split)
    then show ?thesis using Cons.IH [of "handoff_exec c rows"] unfolding fold_simps(2) by (simp only:)
  qed
qed simp

text \<open>
  The marks have no guard: a hand-off that was released becomes lost, or is put up for reconciliation.
\<close>

lemma released_handoff_lost:
  "handoff_get_by_execution e rows = Some r \<Longrightarrow> hf_status r = ''released'' \<Longrightarrow>
   map_option hf_status (handoff_get_by_execution e (handoff_mark_lost e rows)) = Some ''lost''"
  by (auto simp: handoff_marks handoff_get_update dest: handoff_get_id)

end
