(* ===== verification/Verification_Run.thy ===== *)
theory Verification_Run
  imports Effects "HOL-Library.Word"
begin

text \<open>
  Verification runs: the validator that keeps secrets out of stored texts (\<open>verification/content_validator.rs\<close>) and the
  table of runs (\<open>verification/run_repo.rs\<close>), in which a run is created at most once for an idempotency key. What other
  callers do between two statements of an operation is a parameter \<open>gap\<close> of it. Texts are lists of characters of one
  byte; lower-casing is that of ASCII, and the dash of two messages is written as a hyphen.
\<close>

section \<open>Content validation\<close>

definition MAX_DETAIL_BYTES :: nat where
  "MAX_DETAIL_BYTES = 256 * 1024"

definition MAX_TEXT_BYTES :: nat where
  "MAX_TEXT_BYTES = 64 * 1024"

definition contains_any :: "string \<Rightarrow> string list \<Rightarrow> bool" where
  "contains_any s ps = list_ex (contains_str s) ps"

definition contains_secret_patterns :: "string \<Rightarrow> bool" where
  "contains_secret_patterns lower =
     (if contains_any lower [''sk-'', ''sk_'', ''api_key'', ''apikey'', ''api-key''] then True
      else if contains_str lower ''bearer'' \<and> contains_str lower ''eyj'' then True
      else if contains_any lower [''access_token'', ''access-token'', ''refresh_token'', ''refresh-token''] then True
      else if contains_any lower [''\"password\"'', ''\"secret\"'', ''\"credential\"'', ''\"token\"'', ''\"key\"''] then True
      else if contains_any lower [''akia'', ''aws_access_key'', ''aws_secret''] then True
      else if contains_any lower [''ghp_'', ''gho_'', ''ghu_'', ''ghs_'', ''github_pat_''] then True
      else if contains_str lower ''-----begin'' \<and> contains_any lower [''private key'', ''rsa'', ''ec '', ''dsa''] then True
      else False)"

definition content_error :: "string \<Rightarrow> CoreError" where
  "content_error message = core_error_new ConfigInvalid message SrcSystem"

definition validate_detail_json :: "string \<Rightarrow> (CoreError, unit) result" where
  "validate_detail_json json =
     (if json = [] then Inr ()
      else if length json > MAX_DETAIL_BYTES then
        Inl (content_error (''detail_json exceeds max size: '' @ show_nat (length json) @ '' bytes (limit: '' @
          show_nat MAX_DETAIL_BYTES @ '')''))
      else if contains_str json ''lease_token'' then
        Inl (content_error ''detail_json contains 'lease_token' - rejected'')
      else if contains_secret_patterns (to_lowercase json) then
        Inl (content_error ''detail_json contains potential secret or token pattern - rejected'')
      else if contains_str json ''base64,'' \<or> contains_str json '';base64,'' then
        Inl (content_error ''detail_json contains base64-encoded data - rejected'')
      else Inr ())"

definition validate_text :: "string \<Rightarrow> (CoreError, unit) result" where
  "validate_text text =
     (if length text > MAX_TEXT_BYTES then
        Inl (content_error (''text field exceeds max size: '' @ show_nat (length text) @ '' bytes (limit: '' @
          show_nat MAX_TEXT_BYTES @ '')''))
      else if contains_secret_patterns (to_lowercase text) then
        Inl (content_error ''text field contains potential secret or token pattern - rejected'')
      else Inr ())"

definition validated :: "(CoreError, unit) result \<Rightarrow> ('s, unit) op" where
  "validated r = (case r of Inl e \<Rightarrow> raise e | Inr _ \<Rightarrow> return ())"

section \<open>Runs\<close>

datatype VerificationRunLifecycle =
    VRun_Created | VRun_Running | VRun_Completed | VRun_Failed | VRun_Cancelled | VRun_Error

fun vrun_is_terminal :: "VerificationRunLifecycle \<Rightarrow> bool" where
  "vrun_is_terminal VRun_Created = False"
| "vrun_is_terminal VRun_Running = False"
| "vrun_is_terminal _ = True"

fun vrun_is_active :: "VerificationRunLifecycle \<Rightarrow> bool" where
  "vrun_is_active VRun_Created = True"
| "vrun_is_active VRun_Running = True"
| "vrun_is_active _ = False"

datatype VerificationResult = VRes_Passed | VRes_PassedWithWarnings | VRes_Failed | VRes_Blocked | VRes_Error

fun vres_is_success :: "VerificationResult \<Rightarrow> bool" where
  "vres_is_success VRes_Passed = True"
| "vres_is_success VRes_PassedWithWarnings = True"
| "vres_is_success _ = False"

datatype FailureClassification =
    SecretExposure "32 word"
  | PolicyViolation "32 word"
  | ScopeViolation "string list"
  | AcceptanceTestFailure "string list"
  | ArtifactCorruption "string list"
  | TimeoutExpired "64 word"
  | InfrastructureError string
  | ResourceContention string

record VerificationOutcome =
  vo_result :: VerificationResult
  vo_failure_classification :: "FailureClassification option"
  vo_summary :: string
  vo_blockers :: "string list"
  vo_findings_count :: "32 word"

record VerificationRun =
  vr_run_id :: string
  vr_plan_id :: string
  vr_plan_hash :: string
  vr_plan_version :: "32 word"
  vr_execution_id :: string
  vr_task_id :: string
  vr_project_id :: string
  vr_lifecycle :: VerificationRunLifecycle
  vr_idempotency_key :: string
  vr_request_hash :: string
  vr_created_at :: int
  vr_started_at :: "int option"
  vr_completed_at :: "int option"
  vr_outcome :: "VerificationOutcome option"
  vr_version :: int

record RunRow =
  rr_run_id :: string
  rr_plan_id :: string
  rr_plan_hash :: string
  rr_plan_version :: int
  rr_execution_id :: string
  rr_task_id :: string
  rr_project_id :: string
  rr_lc :: string
  rr_idempotency_key :: string
  rr_request_hash :: string
  rr_outcome_json :: "string option"
  rr_version :: int
  rr_created_at :: int
  rr_started_at :: "int option"
  rr_completed_at :: "int option"

type_synonym run_table = "RunRow list"

datatype RunIntentOutcome =
    Run_Created string string
  | Run_Duplicate VerificationRun
  | Run_IdempotencyConflict string string string

text \<open>The JSON text of an outcome, which may fail, its inverse, and the clock.\<close>

record RunEnv =
  ve_to_json :: "VerificationOutcome \<Rightarrow> (string, string) result"
  ve_of_json :: "string \<Rightarrow> VerificationOutcome option"
  ve_now :: int

fun lifecycle_str :: "VerificationRunLifecycle \<Rightarrow> string" where
  "lifecycle_str VRun_Created = ''created''"
| "lifecycle_str VRun_Running = ''running''"
| "lifecycle_str VRun_Completed = ''completed''"
| "lifecycle_str VRun_Failed = ''failed''"
| "lifecycle_str VRun_Cancelled = ''cancelled''"
| "lifecycle_str VRun_Error = ''error''"

definition parse_lifecycle :: "string \<Rightarrow> VerificationRunLifecycle" where
  "parse_lifecycle s =
     (if s = ''running'' then VRun_Running
      else if s = ''completed'' then VRun_Completed
      else if s = ''failed'' then VRun_Failed
      else if s = ''cancelled'' then VRun_Cancelled
      else if s = ''error'' then VRun_Error
      else VRun_Created)"

definition into_run :: "RunEnv \<Rightarrow> RunRow \<Rightarrow> VerificationRun" where
  "into_run env r =
     \<lparr>vr_run_id = rr_run_id r, vr_plan_id = rr_plan_id r, vr_plan_hash = rr_plan_hash r,
      vr_plan_version = word_of_int (rr_plan_version r), vr_execution_id = rr_execution_id r, vr_task_id = rr_task_id r,
      vr_project_id = rr_project_id r, vr_lifecycle = parse_lifecycle (rr_lc r),
      vr_idempotency_key = rr_idempotency_key r, vr_request_hash = rr_request_hash r, vr_created_at = rr_created_at r,
      vr_started_at = rr_started_at r, vr_completed_at = rr_completed_at r,
      vr_outcome = Option.bind (rr_outcome_json r) (ve_of_json env), vr_version = rr_version r\<rparr>"

definition run_by_key :: "string \<Rightarrow> run_table \<Rightarrow> RunRow option" where
  "run_by_key key rows = select_one (\<lambda>r. rr_idempotency_key r = key) rows"

definition load_run_by_id :: "RunEnv \<Rightarrow> string \<Rightarrow> run_table \<Rightarrow> VerificationRun option" where
  "load_run_by_id env run_id rows = map_option (into_run env) (select_one (\<lambda>r. rr_run_id r = run_id) rows)"

text \<open>The rows of the partial unique index: at most one of them per execution.\<close>

definition row_active :: "RunRow \<Rightarrow> bool" where
  "row_active r \<longleftrightarrow> rr_lc r \<in> {''created'', ''running''}"

definition new_run_row :: "int \<Rightarrow> string option \<Rightarrow> VerificationRun \<Rightarrow> RunRow" where
  "new_run_row now outcome_json run =
     \<lparr>rr_run_id = vr_run_id run, rr_plan_id = vr_plan_id run, rr_plan_hash = vr_plan_hash run,
      rr_plan_version = uint (vr_plan_version run), rr_execution_id = vr_execution_id run, rr_task_id = vr_task_id run,
      rr_project_id = vr_project_id run, rr_lc = ''created'', rr_idempotency_key = vr_idempotency_key run,
      rr_request_hash = vr_request_hash run, rr_outcome_json = outcome_json, rr_version = 1, rr_created_at = now,
      rr_started_at = None, rr_completed_at = None\<rparr>"

text \<open>\<open>INSERT OR IGNORE\<close>: a row that violates a unique constraint is not inserted.\<close>

definition insert_run :: "RunRow \<Rightarrow> run_table \<Rightarrow> nat \<times> run_table" where
  "insert_run row rows =
     (if list_ex (\<lambda>r. rr_run_id r = rr_run_id row \<or> rr_idempotency_key r = rr_idempotency_key row \<or>
                      (row_active r \<and> row_active row \<and> rr_execution_id r = rr_execution_id row)) rows
      then (0, rows) else (1, rows @ [row]))"

definition run_error :: "string \<Rightarrow> CoreError" where
  "run_error message = core_error_new PersistenceError message SrcSystem"

definition existing_run ::
    "RunEnv \<Rightarrow> (run_table \<Rightarrow> run_table) \<Rightarrow> VerificationRun \<Rightarrow> RunRow \<Rightarrow> (run_table, RunIntentOutcome) op" where
  "existing_run env gap run existing rows =
     (if rr_request_hash existing = vr_request_hash run then
        then_do (require (run_error ''run found by ikey but not loadable'') (load_run_by_id env (rr_run_id existing)))
          (\<lambda>r. return (Run_Duplicate r)) (gap rows)
      else (Inr (Run_IdempotencyConflict (rr_run_id existing) (rr_request_hash existing) (vr_request_hash run)), rows))"

definition create_run ::
    "RunEnv \<Rightarrow> (nat \<Rightarrow> run_table \<Rightarrow> run_table) \<Rightarrow> VerificationRun \<Rightarrow> (run_table, RunIntentOutcome) op" where
  "create_run env gap run rows =
     (case run_by_key (vr_idempotency_key run) rows of
        Some existing \<Rightarrow> existing_run env (gap 0) run existing rows
      | None \<Rightarrow>
          let outcome_json = map_option (\<lambda>out. case ve_to_json env out of Inl _ \<Rightarrow> [] | Inr j \<Rightarrow> j) (vr_outcome run) in
          then_do (validated (case outcome_json of None \<Rightarrow> Inr () | Some j \<Rightarrow> validate_detail_json j)) (\<lambda>_ rows.
            let (n, rows) = insert_run (new_run_row (ve_now env) outcome_json run) rows in
            if n = 0 then
              then_do (require (run_error ''run insert ignored but no row for idempotency key (conflicting active run?)'')
                  (run_by_key (vr_idempotency_key run)))
                (existing_run env (gap 3) run) (gap 2 rows)
            else (Inr (Run_Created (vr_run_id run) (vr_idempotency_key run)), rows)) (gap 1 rows))"

text \<open>
  \<open>UPDATE verification_runs\<close>: the statement fails when a row it changes would be a second active run of its execution.
\<close>

definition update_run :: "string \<Rightarrow> (RunRow \<Rightarrow> bool) \<Rightarrow> (RunRow \<Rightarrow> RunRow) \<Rightarrow> (run_table, nat) op" where
  "update_run what P f rows =
     (let rows' = update_where P f rows in
      if distinct (map rr_execution_id (filter row_active rows')) then (Inr (rows_affected P rows), rows')
      else (Inl (run_error (what @ '': UNIQUE constraint failed: verification_runs.execution_id'')), rows))"

definition transition_run ::
    "string \<Rightarrow> VerificationRunLifecycle \<Rightarrow> VerificationRunLifecycle \<Rightarrow> int \<Rightarrow> (run_table, bool) op" where
  "transition_run run_id from to expected_version =
     then_do (update_run ''transition''
         (\<lambda>r. rr_run_id r = run_id \<and> rr_lc r = lifecycle_str from \<and> rr_version r = expected_version)
         (\<lambda>r. r\<lparr>rr_lc := lifecycle_str to, rr_version := rr_version r + 1\<rparr>))
       (\<lambda>n. return (n > 0))"

definition serialized :: "(string, string) result \<Rightarrow> ('s, string) op" where
  "serialized r = (case r of Inl e \<Rightarrow> raise (content_error (''serialize outcome: '' @ e)) | Inr json \<Rightarrow> return json)"

definition set_outcome ::
    "RunEnv \<Rightarrow> string \<Rightarrow> VerificationOutcome \<Rightarrow> VerificationRunLifecycle \<Rightarrow> (run_table, unit) op" where
  "set_outcome env run_id outcome lc =
     then_do (validated (validate_text (vo_summary outcome))) (\<lambda>_.
     then_do (each (\<lambda>blocker. validated (validate_text blocker)) (vo_blockers outcome)) (\<lambda>_.
     then_do (serialized (ve_to_json env outcome)) (\<lambda>json.
     then_do (validated (validate_detail_json json)) (\<lambda>_.
     then_do (update_run ''set outcome'' (\<lambda>r. rr_run_id r = run_id)
         (\<lambda>r. r\<lparr>rr_outcome_json := Some json, rr_lc := lifecycle_str lc, rr_completed_at := Some (ve_now env)\<rparr>))
       (\<lambda>_. return ())))))"

text \<open>The transaction in which a run is started, of \<open>verification/ownership_service.rs\<close>, changes the table by this statement.\<close>

definition start_run :: "int \<Rightarrow> string \<Rightarrow> int \<Rightarrow> run_table \<Rightarrow> nat \<times> run_table" where
  "start_run now run_id version rows =
     (let P = (\<lambda>r. rr_run_id r = run_id \<and> rr_lc r = ''created'' \<and> rr_version r = version) in
      (rows_affected P rows, update_where P
         (\<lambda>r. r\<lparr>rr_lc := ''running'', rr_started_at := Some now, rr_version := rr_version r + 1\<rparr>) rows))"

text \<open>
  The statement with which \<open>verification/finalization.rs\<close> completes a run.
\<close>

definition complete_run :: "int \<Rightarrow> string \<Rightarrow> string \<Rightarrow> run_table \<Rightarrow> nat \<times> run_table" where
  "complete_run now run_id outcome_json rows =
     (let P = (\<lambda>r. rr_run_id r = run_id \<and> rr_lc r = ''running'') in
      (rows_affected P rows, update_where P
         (\<lambda>r. r\<lparr>rr_lc := ''completed'', rr_outcome_json := Some outcome_json, rr_completed_at := Some now\<rparr>) rows))"

section \<open>Sequences of statements\<close>

datatype RunCall =
    Rn_Insert RunRow
  | Rn_Transition string VerificationRunLifecycle VerificationRunLifecycle int
  | Rn_Outcome RunEnv string VerificationOutcome VerificationRunLifecycle
  | Rn_Start int string int
  | Rn_Complete int string string

fun run_exec :: "RunCall \<Rightarrow> run_table \<Rightarrow> run_table" where
  "run_exec (Rn_Insert row) rows = snd (insert_run row rows)"
| "run_exec (Rn_Transition i from to v) rows = snd (transition_run i from to v rows)"
| "run_exec (Rn_Outcome env i out lc) rows = snd (set_outcome env i out lc rows)"
| "run_exec (Rn_Start now i v) rows = snd (start_run now i v rows)"
| "run_exec (Rn_Complete now i json) rows = snd (complete_run now i json rows)"

definition interleaves :: "(nat \<Rightarrow> run_table \<Rightarrow> run_table) \<Rightarrow> bool" where
  "interleaves gap \<longleftrightarrow> (\<forall>n rows. \<exists>calls. gap n rows = fold run_exec calls rows)"

text \<open>The constraints of the table: its primary key, the unique key and the partial unique index.\<close>

definition vruns_ok :: "run_table \<Rightarrow> bool" where
  "vruns_ok rows \<longleftrightarrow> distinct (map rr_run_id rows) \<and> distinct (map rr_idempotency_key rows) \<and>
     distinct (map rr_execution_id (filter row_active rows))"

text \<open>Every statement but the insertion changes rows and keeps what identifies them.\<close>

definition same_run :: "RunRow \<Rightarrow> RunRow \<Rightarrow> bool" where
  "same_run r r' \<longleftrightarrow> rr_run_id r' = rr_run_id r \<and> rr_idempotency_key r' = rr_idempotency_key r \<and>
     rr_request_hash r' = rr_request_hash r \<and> rr_execution_id r' = rr_execution_id r"

definition run_change :: "run_table \<Rightarrow> run_table \<Rightarrow> bool" where
  "run_change rows rows' \<longleftrightarrow> (\<exists>P f. rows' = update_where P f rows \<and> (\<forall>r. same_run r (f r)) \<and>
     (distinct (map rr_execution_id (filter row_active rows)) \<longrightarrow>
      distinct (map rr_execution_id (filter row_active rows'))))"

lemma run_change_refl [simp]: "run_change rows rows"
  unfolding run_change_def by (intro exI [of _ "\<lambda>_. False"] exI [of _ id]) (simp add: update_where_def same_run_def)

lemma update_run_change: "(\<And>r. same_run r (f r)) \<Longrightarrow> run_change rows (snd (update_run what P f rows))"
  by (cases "distinct (map rr_execution_id (filter row_active (update_where P f rows)))")
    (auto simp: update_run_def Let_def, auto simp: run_change_def)

lemma start_run_change: "run_change rows (snd (start_run now i v rows))"
proof -
  have "map rr_execution_id (filter row_active (snd (start_run now i v rows))) =
    map rr_execution_id (filter row_active rows)"
    by (induction rows) (auto simp: start_run_def Let_def update_where_def row_active_def)
  then show ?thesis unfolding run_change_def start_run_def Let_def snd_conv
    by (intro exI conjI) (auto simp: same_run_def)
qed

lemma complete_run_change: "run_change rows (snd (complete_run now i json rows))"
proof -
  have "distinct (map rr_execution_id (filter row_active rows)) \<longrightarrow>
    distinct (map rr_execution_id (filter row_active (snd (complete_run now i json rows))))"
    by (induction rows) (auto simp: complete_run_def Let_def update_where_def row_active_def)
  then show ?thesis unfolding run_change_def complete_run_def Let_def snd_conv
    by (intro exI conjI) (auto simp: same_run_def)
qed

lemma validated_keeps [keeps_intros]: "keeps part (validated v)"
  by (cases v) (simp_all add: validated_def keeps_basic)

lemma serialized_keeps [keeps_intros]: "keeps part (serialized v)"
  by (cases v) (simp_all add: serialized_def keeps_basic)

lemma each_keeps: "(\<And>x. keeps part (f x)) \<Longrightarrow> keeps part (each f xs)"
  by (induction xs) (auto intro: keeps_intros)

lemma then_change:
  assumes "keeps (\<lambda>s. s) m" and "\<And>x. run_change rows (snd (f x rows))"
  shows "run_change rows (snd (then_do m f rows))"
proof -
  obtain r where "m rows = (r, rows)" using assms(1) by (metis keeps_def prod.collapse)
  then show ?thesis using assms(2) by (cases r) (auto simp: then_do_def)
qed

lemma change_then_return: "run_change rows (snd (m rows)) \<Longrightarrow> run_change rows (snd (then_do m (\<lambda>x. return (g x)) rows))"
  by (cases "m rows"; cases "fst (m rows)") (simp_all add: then_do_def return_def)

lemma run_exec_change: "(\<exists>row. run_exec c rows = snd (insert_run row rows)) \<or> run_change rows (run_exec c rows)"
proof (cases c)
  case (Rn_Outcome env i out lc)
  have "run_change rows (snd (set_outcome env i out lc rows))" unfolding set_outcome_def
    by (auto intro!: then_change change_then_return update_run_change validated_keeps serialized_keeps each_keeps keeps_basic
      simp: same_run_def)
  then show ?thesis by (simp add: Rn_Outcome)
qed (auto simp: start_run_change complete_run_change transition_run_def same_run_def
  intro!: change_then_return update_run_change)

lemma runs_ok_exec:
  assumes "vruns_ok rows"
  shows "vruns_ok (run_exec c rows)"
proof (cases "run_change rows (run_exec c rows)")
  case True
  then obtain P f where f: "run_exec c rows = update_where P f rows" "\<And>r. same_run r (f r)"
    "distinct (map rr_execution_id (filter row_active (update_where P f rows)))"
    using assms by (auto simp: run_change_def vruns_ok_def)
  have "map rr_run_id (update_where P f rows) = map rr_run_id rows"
    "map rr_idempotency_key (update_where P f rows) = map rr_idempotency_key rows"
    using f(2) by (auto intro!: map_update_where simp: same_run_def)
  then show ?thesis using assms f by (simp add: vruns_ok_def)
next
  case False
  then obtain row where "run_exec c rows = snd (insert_run row rows)" using run_exec_change by blast
  then show ?thesis using assms by (auto simp: insert_run_def vruns_ok_def list_ex_iff)
qed

lemma run_by_key_exec:
  assumes "run_by_key k rows = Some r"
  shows "\<exists>r'. run_by_key k (run_exec c rows) = Some r' \<and> same_run r r'"
proof (cases "run_change rows (run_exec c rows)")
  case True
  then obtain P f where f: "run_exec c rows = update_where P f rows" "\<And>r. same_run r (f r)"
    by (auto simp: run_change_def)
  then show ?thesis using assms
    by (auto simp: run_by_key_def select_one_update same_run_def)
next
  case False
  then obtain row where "run_exec c rows = snd (insert_run row rows)" using run_exec_change by blast
  then show ?thesis using assms by (auto simp: insert_run_def run_by_key_def select_one_append same_run_def)
qed

lemma same_run_trans: "same_run r r' \<Longrightarrow> same_run r' r'' \<Longrightarrow> same_run r r''"
  by (simp add: same_run_def)

lemma run_fold:
  assumes "vruns_ok rows" and "run_by_key k rows = Some r"
  shows "vruns_ok (fold run_exec cs rows) \<and> (\<exists>r'. run_by_key k (fold run_exec cs rows) = Some r' \<and> same_run r r')"
  using assms
proof (induction cs arbitrary: rows r)
  case (Cons c cs)
  obtain r1 where "run_by_key k (run_exec c rows) = Some r1" "same_run r r1"
    using run_by_key_exec [OF Cons.prems(2)] by blast
  then show ?case using Cons.IH [OF runs_ok_exec [OF Cons.prems(1)]] same_run_trans by fastforce
qed (auto simp: same_run_def)

lemma load_run_of_key:
  assumes "vruns_ok rows" and "run_by_key k rows = Some r"
  shows "load_run_by_id env (rr_run_id r) rows = Some (into_run env r)"
proof -
  have "r \<in> set rows" using assms(2) by (auto simp: run_by_key_def dest: select_one_Some)
  then show ?thesis using assms(1) by (simp add: load_run_by_id_def vruns_ok_def select_one_key)
qed

lemma known_key_answered:
  assumes "vruns_ok rows" and "run_by_key (vr_idempotency_key run) rows = Some r" and "interleaves gap"
  shows "\<exists>x. create_run env gap run rows =
    (if vr_request_hash run = rr_request_hash r then (Inr (Run_Duplicate x), gap 0 rows)
     else (Inr (Run_IdempotencyConflict (rr_run_id r) (rr_request_hash r) (vr_request_hash run)), rows)) \<and>
    vr_run_id x = rr_run_id r \<and> vr_request_hash x = rr_request_hash r"
proof -
  obtain cs where cs: "gap 0 rows = fold run_exec cs rows" using assms(3) by (auto simp: interleaves_def)
  obtain r' where r': "vruns_ok (gap 0 rows)" "run_by_key (vr_idempotency_key run) (gap 0 rows) = Some r'" "same_run r r'"
    using run_fold [OF assms(1,2), of cs] cs by auto
  have "load_run_by_id env (rr_run_id r) (gap 0 rows) = Some (into_run env r')"
    using load_run_of_key [OF r'(1,2), of env] r'(3) by (simp add: same_run_def)
  then show ?thesis using assms(2) r'(3)
    by (intro exI [of _ "into_run env r'"]) (simp add: create_run_def existing_run_def op_simps into_run_def same_run_def)
qed

lemma created_run_stored:
  assumes "create_run env gap run rows = (Inr (Run_Created i k), rows1)"
  shows "\<exists>row. run_by_key (vr_idempotency_key run) rows1 = Some row \<and> rr_run_id row = vr_run_id run \<and>
    rr_request_hash row = vr_request_hash run \<and> rr_lc row = ''created'' \<and> rows1 = snd (insert_run row (gap 1 rows))"
proof -
  let ?row = "\<lambda>json. new_run_row (ve_now env) json run"
  have not_created: "existing_run env g run e t \<noteq> (Inr (Run_Created i k), t')" for g e t t'
    by (auto simp: existing_run_def op_simps split: option.split)
  then have none: "run_by_key (vr_idempotency_key run) rows = None"
    using assms by (auto simp: create_run_def split: option.splits)
  define json where "json = map_option (\<lambda>out. case ve_to_json env out of Inl _ \<Rightarrow> [] | Inr j \<Rightarrow> j) (vr_outcome run)"
  obtain n t where nt: "insert_run (?row json) (gap 1 rows) = (n, t)" by fastforce
  have "n \<noteq> 0 \<and> t = rows1"
    using assms none not_created nt
    by (auto simp: create_run_def Let_def json_def [symmetric] op_simps validated_def split: option.splits sum.splits if_splits)
  then have ins: "insert_run (?row json) (gap 1 rows) = (1, rows1)"
    using nt by (auto simp: insert_run_def split: if_splits)
  then have rows1: "rows1 = gap 1 rows @ [?row json]" "run_by_key (vr_idempotency_key run) (gap 1 rows) = None"
    by (auto simp: insert_run_def run_by_key_def select_one_None list_ex_iff new_run_row_def split: if_splits)
  then have "run_by_key (vr_idempotency_key run) rows1 = Some (?row json)"
    by (simp add: run_by_key_def select_one_append select_one_single new_run_row_def)
  then show ?thesis using ins by (intro exI [of _ "?row json"]) (simp add: new_run_row_def)
qed

section \<open>Properties\<close>

text \<open>
  C15. A run is created once for an idempotency key: when a call of \<open>create_run\<close> has created it, with any interference of
  others between its statements, then after any further statements of anybody every call with the same key is
  answered with the same run, when it carries the same request hash, and with a conflict that names it otherwise; it creates
  nothing.
\<close>

theorem run_created_once:
  assumes "vruns_ok rows" and "interleaves gap" and "create_run env gap run rows = (Inr (Run_Created i k), rows1)"
    and "interleaves gap'" and "vr_idempotency_key run' = vr_idempotency_key run" and "rows2 = fold run_exec calls rows1"
  shows "\<exists>x. create_run env' gap' run' rows2 =
    (if vr_request_hash run' = vr_request_hash run then (Inr (Run_Duplicate x), gap' 0 rows2)
     else (Inr (Run_IdempotencyConflict (vr_run_id run) (vr_request_hash run) (vr_request_hash run')), rows2)) \<and>
    vr_run_id x = vr_run_id run \<and> vr_request_hash x = vr_request_hash run"
proof -
  obtain row where row: "run_by_key (vr_idempotency_key run) rows1 = Some row" "rr_run_id row = vr_run_id run"
    "rr_request_hash row = vr_request_hash run" "rows1 = run_exec (Rn_Insert row) (gap 1 rows)"
    using created_run_stored [OF assms(3)] by auto
  obtain cs where "gap 1 rows = fold run_exec cs rows" using assms(2) by (auto simp: interleaves_def)
  moreover have "vruns_ok (fold run_exec cs rows)"
    using assms(1) by (induction cs arbitrary: rows) (simp_all add: runs_ok_exec)
  ultimately have "vruns_ok rows1" using row(4) runs_ok_exec by metis
  then obtain r where "vruns_ok rows2" "run_by_key (vr_idempotency_key run') rows2 = Some r" "same_run row r"
    using run_fold [OF _ row(1), of calls] assms(5,6) by auto
  then show ?thesis using known_key_answered [of rows2 run' r gap' env'] assms(4) row(2,3)
    by (auto simp: same_run_def)
qed

definition sample_run :: "string \<Rightarrow> string \<Rightarrow> VerificationRun" where
  "sample_run i h = \<lparr>vr_run_id = i, vr_plan_id = ''p'', vr_plan_hash = ''h'', vr_plan_version = 1, vr_execution_id = ''e'',
     vr_task_id = ''t'', vr_project_id = ''p'', vr_lifecycle = VRun_Created, vr_idempotency_key = ''k'',
     vr_request_hash = h, vr_created_at = 0, vr_started_at = None, vr_completed_at = None, vr_outcome = None, vr_version = 1\<rparr>"

definition sample_run_env :: RunEnv where
  "sample_run_env = \<lparr>ve_to_json = (\<lambda>out. Inr (concat (vo_blockers out))), ve_of_json = (\<lambda>_. None), ve_now = 0\<rparr>"

definition sample_outcome :: "string list \<Rightarrow> VerificationOutcome" where
  "sample_outcome bs = \<lparr>vo_result = VRes_Passed, vo_failure_classification = None, vo_summary = [], vo_blockers = bs,
     vo_findings_count = 0\<rparr>"

theorem run_created_once_witness:
  "let (r1, rows1) = create_run sample_run_env (\<lambda>_ rows. rows) (sample_run ''r1'' ''h'') [];
       rows2 = fold run_exec [Rn_Start 1 ''r1'' 1, Rn_Complete 2 ''r1'' ''{}''] rows1
   in r1 = Inr (Run_Created ''r1'' ''k'') \<and>
      (\<exists>x. create_run sample_run_env (\<lambda>_ rows. rows) (sample_run ''r2'' ''h'') rows2 = (Inr (Run_Duplicate x), rows2) \<and>
           vr_run_id x = ''r1'') \<and>
      fst (create_run sample_run_env (\<lambda>_ rows. rows) (sample_run ''r3'' ''g'') rows2) =
        Inr (Run_IdempotencyConflict ''r1'' ''h'' ''g'')"
proof -
  let ?no = "\<lambda>_ rows. rows :: run_table"
  define rows1 where "rows1 = snd (create_run sample_run_env ?no (sample_run ''r1'' ''h'') [])"
  define rows2 where "rows2 = fold run_exec [Rn_Start 1 ''r1'' 1, Rn_Complete 2 ''r1'' ''{}''] rows1"
  have "fst (create_run sample_run_env ?no (sample_run ''r1'' ''h'') []) = Inr (Run_Created ''r1'' ''k'')" by code_simp
  then have c: "create_run sample_run_env ?no (sample_run ''r1'' ''h'') [] = (Inr (Run_Created ''r1'' ''k''), rows1)"
    by (simp add: rows1_def prod_eq_iff)
  have no: "interleaves ?no" by (auto simp: interleaves_def intro: exI [of _ "[]"])
  have ok: "vruns_ok []" by (simp add: vruns_ok_def)
  note once = run_created_once [OF ok no c no _ rows2_def, of _ sample_run_env]
  have "\<exists>x. create_run sample_run_env ?no (sample_run ''r2'' ''h'') rows2 = (Inr (Run_Duplicate x), rows2) \<and> vr_run_id x = ''r1''"
    using once [of "sample_run ''r2'' ''h''"] by (auto simp: sample_run_def)
  moreover have "fst (create_run sample_run_env ?no (sample_run ''r3'' ''g'') rows2) =
      Inr (Run_IdempotencyConflict ''r1'' ''h'' ''g'')"
    using once [of "sample_run ''r3'' ''g''"] by (auto simp: sample_run_def)
  ultimately show ?thesis using c by (simp add: rows2_def)
qed

text \<open>
  The table does not keep terminal runs terminal: \<open>set_outcome\<close> has no guard, so that a completed run can be set running.
\<close>

lemma completed_run_reactivated:
  assumes "rr_lc r = ''completed''"
  shows "map rr_lc (snd (set_outcome sample_run_env (rr_run_id r) (sample_outcome []) VRun_Running [r])) = [''running'']"
  by (simp add: set_outcome_def sample_outcome_def sample_run_env_def validated_def serialized_def validate_text_def validate_detail_json_def
    MAX_TEXT_BYTES_def contains_secret_patterns_def contains_any_def contains_str_def to_lowercase_def op_simps
    then_do_def [of "update_run x P f" for x P f] update_run_def update_where_def)

text \<open>
  Of the text that completes a run only the summary is validated: what \<open>set_outcome\<close> refuses to store,
  \<open>complete_run\<close> stores.
\<close>

lemma completion_stores_unvalidated:
  assumes "rr_lc r = ''running''"
  shows "snd (set_outcome sample_run_env (rr_run_id r) (sample_outcome [''sk-'']) VRun_Completed [r]) = [r] \<and>
    map rr_outcome_json (snd (complete_run 2 (rr_run_id r) ''sk-'' [r])) = [Some ''sk-'']"
proof -
  have "to_lowercase ''sk-'' = ''sk-''" by code_simp
  then have "\<not> is_ok (validate_text ''sk-'')"
    by (simp add: validate_text_def contains_secret_patterns_def contains_any_def contains_str_def)
  then obtain e where "validate_text ''sk-'' = Inl e" by (cases "validate_text ''sk-''") auto
  then show ?thesis using assms
    by (auto simp: set_outcome_def sample_outcome_def validated_def op_simps complete_run_def Let_def update_where_def
      split: sum.split)
qed

end
