(* ===== verification/Ownership.thy ===== *)
theory Ownership
  imports Handoff Verification_Run
begin

text \<open>
  How verification takes over the resources of an execution: \<open>scheduler/handoff_coordinator.rs\<close>, which changes the durable
  record and the registry of heartbeats in two phases and compares them, and \<open>verification/ownership_service.rs\<close>, which
  checks the request against the tables, calls the coordinator and starts the run. These operations hold no lock between
  their reads and writes. What other callers do before the \<open>n\<close>-th access of an operation is the parameter \<open>gap n\<close>, a
  function on the state; an operation that runs alone has \<open>gap n = id\<close>.
\<close>

section \<open>The coordinator\<close>

record HandoffSystem =
  hs_handoffs :: handoff_table
  hs_registry :: HeartbeatRegistry

datatype CoordinatedTakeoverResult =
    Co_Acquired string string int
  | Co_AlreadyOwned
  | Co_Contested string
  | Co_StaleFencing int int
  | Co_Terminal string
  | Co_NotFound
  | Co_HandoffStateMismatch string string "string option" "string option" string

record CoordinatedInspectResult =
  ci_execution_id :: string
  ci_task_id :: string
  ci_worktree_id :: "string option"
  ci_lease_id :: "string option"
  ci_claim_group_id :: "string option"
  ci_fencing_token :: int
  ci_db_owner_kind :: string
  ci_db_owner_id :: string
  ci_db_status :: string
  ci_registry_owner_kind :: "string option"
  ci_registry_owner_id :: "string option"
  ci_registry_status :: "string option"
  ci_consistent :: bool

text \<open>What both layers say, from the two reads.\<close>

definition inspect_layers :: "string \<Rightarrow> HandoffRecord option \<Rightarrow> InspectResult option \<Rightarrow> CoordinatedInspectResult" where
  "inspect_layers execution_id db reg =
     \<lparr>ci_execution_id = execution_id,
      ci_task_id = (case db of Some d \<Rightarrow> hf_task_id d | None \<Rightarrow> []),
      ci_worktree_id = (case db of Some d \<Rightarrow> hf_worktree_id d | None \<Rightarrow> None),
      ci_lease_id = (case db of Some d \<Rightarrow> hf_lease_id d | None \<Rightarrow> None),
      ci_claim_group_id = (case db of Some d \<Rightarrow> hf_claim_group_id d | None \<Rightarrow> None),
      ci_fencing_token = (case db of Some d \<Rightarrow> hf_fencing_token d | None \<Rightarrow> 0),
      ci_db_owner_kind = (case db of Some d \<Rightarrow> hf_owner_kind d | None \<Rightarrow> []),
      ci_db_owner_id = (case db of Some d \<Rightarrow> hf_owner_id d | None \<Rightarrow> []),
      ci_db_status = (case db of Some d \<Rightarrow> hf_status d | None \<Rightarrow> ''missing''),
      ci_registry_owner_kind = map_option hi_owner_kind reg,
      ci_registry_owner_id = map_option hi_owner_id reg,
      ci_registry_status = map_option hi_status reg,
      ci_consistent = (case (db, reg) of
          (Some d, Some r) \<Rightarrow> hf_owner_kind d = hi_owner_kind r \<and> hf_owner_id d = hi_owner_id r \<and>
                            hf_fencing_token d = hi_fencing_token r
        | (None, None) \<Rightarrow> True
        | _ \<Rightarrow> False)\<rparr>"

definition inspect_consistent ::
    "('a HandoffSystem_scheme \<Rightarrow> 'a HandoffSystem_scheme) \<Rightarrow> string \<Rightarrow> 'a HandoffSystem_scheme \<Rightarrow>
     CoordinatedInspectResult \<times> 'a HandoffSystem_scheme" where
  "inspect_consistent gap execution_id s =
     (let s' = gap s
      in (inspect_layers execution_id (handoff_get_by_execution execution_id (hs_handoffs s))
            (reg_inspect execution_id (hs_registry s')), s'))"

text \<open>The checks before the takeover: the result with which it ends, if it does.\<close>

definition takeover_precheck :: "HandoffRecord \<Rightarrow> InspectResult option \<Rightarrow> int \<Rightarrow> CoordinatedTakeoverResult option" where
  "takeover_precheck db reg expected_fencing =
     (let mismatch = (\<lambda>r. Co_HandoffStateMismatch (hf_owner_kind db) (hf_owner_id db) (Some (hi_owner_kind r))
                           (Some (hi_owner_id r)));
          fencing = (if hf_fencing_token db \<noteq> expected_fencing
                     then Some (Co_StaleFencing expected_fencing (hf_fencing_token db)) else None)
      in case reg of
           Some r \<Rightarrow>
             if hf_owner_kind db \<noteq> hi_owner_kind r \<or> hf_owner_id db \<noteq> hi_owner_id r then
               Some (mismatch r ''pre-takeover: DB and registry owners disagree'')
             else if hf_fencing_token db \<noteq> hi_fencing_token r then
               Some (mismatch r (''pre-takeover: fencing mismatch DB='' @ show_int (hf_fencing_token db) @
                 '' registry='' @ show_int (hi_fencing_token r)))
             else fencing
         | None \<Rightarrow> fencing)"

text \<open>The derived \<open>Debug\<close> text of a result; \<open>debug_str\<close> is that of a string.\<close>

fun takeover_result_debug :: "(string \<Rightarrow> string) \<Rightarrow> HeartbeatTakeoverResult \<Rightarrow> string" where
  "takeover_result_debug debug_str Reg_Acquired = ''Acquired''"
| "takeover_result_debug debug_str Reg_AlreadyOwned = ''AlreadyOwned''"
| "takeover_result_debug debug_str (Reg_Contested w) = ''Contested { current_owner: '' @ debug_str w @ '' }''"
| "takeover_result_debug debug_str (Reg_StaleFencing e a) =
     ''StaleFencing { expected: '' @ show_int e @ '', actual: '' @ show_int a @ '' }''"
| "takeover_result_debug debug_str (Reg_Terminal t) = ''Terminal { status: '' @ debug_str t @ '' }''"
| "takeover_result_debug debug_str Reg_NotFound = ''NotFound''"

definition mark_mismatch :: "string \<Rightarrow> string \<Rightarrow> 'a HandoffSystem_scheme \<Rightarrow> 'a HandoffSystem_scheme" where
  "mark_mismatch execution_id detail s =
     s\<lparr>hs_handoffs := handoff_mark_reconciliation_required execution_id detail (hs_handoffs s)\<rparr>"

definition registry_takeover ::
    "string \<Rightarrow> string \<Rightarrow> int \<Rightarrow> 'a HandoffSystem_scheme \<Rightarrow> HeartbeatTakeoverResult \<times> 'a HandoffSystem_scheme" where
  "registry_takeover execution_id owner_id expected_fencing s =
     (let (t, reg) = reg_takeover execution_id owner_id expected_fencing (hs_registry s) in (t, s\<lparr>hs_registry := reg\<rparr>))"

text \<open>After the record was acquired: the registry phase, and the comparison of both layers.\<close>

definition takeover_confirm ::
    "(nat \<Rightarrow> 'a HandoffSystem_scheme \<Rightarrow> 'a HandoffSystem_scheme) \<Rightarrow> string \<Rightarrow> string \<Rightarrow> int \<Rightarrow>
     'a HandoffSystem_scheme \<Rightarrow> CoordinatedTakeoverResult \<times> 'a HandoffSystem_scheme" where
  "takeover_confirm gap execution_id owner_id expected_fencing s =
     (let (post, s1) = inspect_consistent (gap 4) execution_id s
      in if \<not> ci_consistent post then
           (Co_HandoffStateMismatch (ci_db_owner_kind post) (ci_db_owner_id post) (ci_registry_owner_kind post)
              (ci_registry_owner_id post) ''post-takeover: DB and registry owners disagree'',
            mark_mismatch execution_id ''post-takeover layers inconsistent'' (gap 5 s1))
         else (Co_Acquired execution_id owner_id expected_fencing, s1))"

definition takeover_registry_phase ::
    "(string \<Rightarrow> string) \<Rightarrow> (nat \<Rightarrow> 'a HandoffSystem_scheme \<Rightarrow> 'a HandoffSystem_scheme) \<Rightarrow> string \<Rightarrow> string \<Rightarrow> int \<Rightarrow>
     'a HandoffSystem_scheme \<Rightarrow> CoordinatedTakeoverResult \<times> 'a HandoffSystem_scheme" where
  "takeover_registry_phase debug_str gap execution_id owner_id expected_fencing s =
     (let (t, s1) = registry_takeover execution_id owner_id expected_fencing s
      in if t = Reg_Acquired \<or> t = Reg_AlreadyOwned then
           takeover_confirm gap execution_id owner_id expected_fencing (gap 3 s1)
         else
           let detail = ''DB CAS succeeded but registry takeover returned '' @ takeover_result_debug debug_str t
           in (Co_HandoffStateMismatch ''verification'' owner_id None None detail,
               mark_mismatch execution_id detail (gap 3 s1)))"

definition takeover_for_verification ::
    "(string \<Rightarrow> string) \<Rightarrow> (nat \<Rightarrow> 'a HandoffSystem_scheme \<Rightarrow> 'a HandoffSystem_scheme) \<Rightarrow> string \<Rightarrow> string \<Rightarrow> int \<Rightarrow>
     'a HandoffSystem_scheme \<Rightarrow> CoordinatedTakeoverResult \<times> 'a HandoffSystem_scheme" where
  "takeover_for_verification debug_str gap execution_id owner_id expected_fencing s =
     (case handoff_get_by_execution execution_id (hs_handoffs s) of
        None \<Rightarrow> (Co_NotFound, s)
      | Some db \<Rightarrow>
          let s1 = gap 0 s; reg = reg_inspect execution_id (hs_registry s1) in
          case takeover_precheck db reg expected_fencing of
            Some result \<Rightarrow> (result, s1)
          | None \<Rightarrow>
              let s2 = gap 1 s1;
                  (db_result, rows) = handoff_takeover execution_id owner_id (hf_version db) (hs_handoffs s2);
                  s3 = s2\<lparr>hs_handoffs := rows\<rparr>
              in case db_result of
                   Persist_Acquired \<Rightarrow>
                     takeover_registry_phase debug_str gap execution_id owner_id expected_fencing (gap 2 s3)
                 | Persist_AlreadyOwned \<Rightarrow>
                     if (case reg of Some r \<Rightarrow> hi_owner_kind r = ''verification'' \<and> hi_owner_id r = owner_id | None \<Rightarrow> False)
                     then (Co_AlreadyOwned, s3)
                     else (Co_AlreadyOwned, snd (registry_takeover execution_id owner_id expected_fencing (gap 2 s3)))
                 | Persist_Contested current_owner \<Rightarrow> (Co_Contested current_owner, s3)
                 | Persist_VersionConflict \<Rightarrow> (Co_StaleFencing expected_fencing (hf_fencing_token db), s3)
                 | Persist_TerminalState \<Rightarrow> (Co_Terminal (hf_status db), s3)
                 | Persist_NotFound \<Rightarrow> (Co_NotFound, s3))"

definition handoff_conflict :: "string \<Rightarrow> string \<Rightarrow> CoreError" where
  "handoff_conflict execution_id message =
     core_error_new (ResourceConflict (''handoff-exec:'' @ execution_id)) message SrcSystem"

definition cancel_after_verification ::
    "(string \<Rightarrow> int \<Rightarrow> string) \<Rightarrow> int \<Rightarrow> (nat \<Rightarrow> 'a HandoffSystem_scheme \<Rightarrow> 'a HandoffSystem_scheme) \<Rightarrow> string \<Rightarrow> string \<Rightarrow>
     int \<Rightarrow> ('a HandoffSystem_scheme, unit) op" where
  "cancel_after_verification release_json now gap execution_id owner_id expected_fencing s =
     (case handoff_get_by_execution execution_id (hs_handoffs s) of
        None \<Rightarrow> (Inl (core_error_new ConfigMissing (''handoff not found: '' @ execution_id) SrcSystem), s)
      | Some db \<Rightarrow>
          if hf_owner_kind db \<noteq> ''verification'' \<or> hf_owner_id db \<noteq> owner_id then
            (Inl (handoff_conflict execution_id (''cancel denied: DB owner mismatch (expected verification/'' @ owner_id @
               '', got '' @ hf_owner_kind db @ ''/'' @ hf_owner_id db @ '')'')), s)
          else if hf_fencing_token db \<noteq> expected_fencing then
            (Inl (handoff_conflict execution_id (''cancel denied: fencing mismatch (expected '' @ show_int expected_fencing @
               '', got '' @ show_int (hf_fencing_token db) @ '')'')), s)
          else
            let s1 = gap 0 s; (r, reg) = reg_cancel execution_id owner_id expected_fencing (hs_registry s1);
                s2 = s1\<lparr>hs_registry := reg\<rparr>
            in case r of
                 Inl e \<Rightarrow> (Inl e, s2)
               | Inr _ \<Rightarrow>
                   let s3 = gap 1 s2
                   in (Inr (), s3\<lparr>hs_handoffs := handoff_mark_released release_json now execution_id
                                  ''verification-complete'' (hs_handoffs s3)\<rparr>))"

section \<open>The ownership service\<close>

record TakeoverRequest =
  tq_verification_run_id :: string
  tq_execution_id :: string
  tq_task_id :: string
  tq_project_id :: string
  tq_plan_hash :: string
  tq_handoff_id :: string
  tq_expected_worktree_id :: string
  tq_expected_lease_id :: string
  tq_expected_claim_group_id :: "string option"
  tq_expected_fencing :: int
  tq_verification_owner_id :: string
  tq_idempotency_key :: string
  tq_request_hash :: string

datatype OwnershipTakeoverResult =
    Own_Acquired string string
  | Own_AlreadyOwned string
  | Own_Contested string
  | Own_StaleFencing int int
  | Own_HandoffStateMismatch string
  | Own_HeartbeatMissing string
  | Own_WorktreeMissing string
  | Own_WorktreePathMissing string
  | Own_LeaseInactive string
  | Own_ClaimInactive "string option"
  | Own_IdentityMismatch string
  | Own_ReconciliationRequired string string
  | Own_TerminalHandoff string
  | Own_IdempotencyConflict string string
  | Own_RunNotFound string
  | Own_RunTerminal string
  | Own_TaskNotAwaitingVerification string
  | Own_ValidationFailed string

record OwnershipEventRow =
  oe_event_id :: string
  oe_verification_run_id :: string
  oe_project_id :: string
  oe_task_id :: string
  oe_execution_id :: string
  oe_plan_hash :: string
  oe_handoff_id :: string
  oe_worktree_id :: string
  oe_lease_id :: string
  oe_claim_group_id :: "string option"
  oe_fencing_token :: int
  oe_owner_id :: string
  oe_idempotency_key :: string

text \<open>
  The tables the service reads and writes: runs and ownership events, and of worktrees and leases the columns it reads (identifier
  and path, identifier and lifecycle).
\<close>

record OwnershipState = HandoffSystem +
  os_runs :: run_table
  os_events :: "OwnershipEventRow list"
  os_worktrees :: "(string \<times> string option) list"
  os_leases :: "(string \<times> string) list"

text \<open>The clock, the file system, a fresh identifier and the \<open>Debug\<close> text of strings.\<close>

record OwnershipEnv =
  oe_now :: int
  oe_path_exists :: "string \<Rightarrow> bool"
  oe_uuid :: string
  oe_debug_str :: "string \<Rightarrow> string"

definition handoff_checks :: "TakeoverRequest \<Rightarrow> HandoffRecord \<Rightarrow> OwnershipTakeoverResult option" where
  "handoff_checks req h =
     (if hf_handoff_id h \<noteq> tq_handoff_id req \<or> hf_task_id h \<noteq> tq_task_id req \<or> hf_execution_id h \<noteq> tq_execution_id req then
        Some (Own_IdentityMismatch (''handoff identity mismatch: expected '' @ tq_handoff_id req @ ''/'' @ tq_task_id req @
          ''/'' @ tq_execution_id req))
      else if hf_status h = ''released'' \<or> hf_status h = ''lost'' then Some (Own_TerminalHandoff (hf_status h))
      else if hf_status h = ''reconciliation_required'' then
        Some (Own_ReconciliationRequired (hf_handoff_id h) (hf_status h))
      else None)"

definition or_empty :: "string option \<Rightarrow> string" where
  "or_empty v = (case v of Some x \<Rightarrow> x | None \<Rightarrow> [])"

definition worktree_checks ::
    "OwnershipEnv \<Rightarrow> (nat \<Rightarrow> OwnershipState \<Rightarrow> OwnershipState) \<Rightarrow> TakeoverRequest \<Rightarrow> HandoffRecord \<Rightarrow> OwnershipState \<Rightarrow>
     OwnershipTakeoverResult option \<times> OwnershipState" where
  "worktree_checks env gap req h s =
     (let wt = or_empty (hf_worktree_id h) in
      if wt = [] \<or> wt \<noteq> tq_expected_worktree_id req then (Some (Own_WorktreeMissing wt), s)
      else if \<not> list_ex (\<lambda>(i, _). i = wt) (os_worktrees s) then (Some (Own_WorktreeMissing wt), s)
      else let s1 = gap 11 s in
        case select_one (\<lambda>(i, _). i = wt) (os_worktrees s1) of
          Some (_, Some path) \<Rightarrow> (if \<not> oe_path_exists env path then Some (Own_WorktreePathMissing path) else None, s1)
        | _ \<Rightarrow> (None, s1))"

definition lease_checks :: "TakeoverRequest \<Rightarrow> HandoffRecord \<Rightarrow> OwnershipState \<Rightarrow> OwnershipTakeoverResult option" where
  "lease_checks req h s =
     (let l = or_empty (hf_lease_id h) in
      if l = [] \<or> l \<noteq> tq_expected_lease_id req then Some (Own_LeaseInactive l)
      else if \<not> list_ex (\<lambda>(i, lc). i = l \<and> lc = ''active'') (os_leases s) then Some (Own_LeaseInactive l)
      else if hf_fencing_token h \<noteq> tq_expected_fencing req then
        Some (Own_StaleFencing (tq_expected_fencing req) (hf_fencing_token h))
      else None)"

definition heartbeat_checks :: "TakeoverRequest \<Rightarrow> InspectResult option \<Rightarrow> OwnershipTakeoverResult option" where
  "heartbeat_checks req hb =
     (case hb of
        None \<Rightarrow> Some (Own_HeartbeatMissing (tq_execution_id req))
      | Some info \<Rightarrow>
          if \<not> contains_str (hi_status info) ''healthy'' \<and> \<not> contains_str (hi_status info) ''degraded'' then
            Some (Own_HeartbeatMissing (tq_execution_id req))
          else if hi_fencing_token info \<noteq> tq_expected_fencing req then
            Some (Own_StaleFencing (tq_expected_fencing req) (hi_fencing_token info))
          else None)"

fun takeover_ended :: "TakeoverRequest \<Rightarrow> CoordinatedTakeoverResult \<Rightarrow> OwnershipTakeoverResult option" where
  "takeover_ended req (Co_Acquired _ _ _) = None"
| "takeover_ended req Co_AlreadyOwned = Some (Own_AlreadyOwned (tq_verification_run_id req))"
| "takeover_ended req (Co_Contested w) = Some (Own_Contested w)"
| "takeover_ended req (Co_StaleFencing e a) = Some (Own_StaleFencing e a)"
| "takeover_ended req (Co_Terminal t) = Some (Own_TerminalHandoff t)"
| "takeover_ended req Co_NotFound = Some (Own_ReconciliationRequired (tq_handoff_id req) ''not_found'')"
| "takeover_ended req (Co_HandoffStateMismatch _ _ _ _ detail) = Some (Own_HandoffStateMismatch detail)"

definition ownership_event :: "OwnershipEnv \<Rightarrow> TakeoverRequest \<Rightarrow> OwnershipEventRow" where
  "ownership_event env req =
     \<lparr>oe_event_id = ''evt-own-'' @ oe_uuid env, oe_verification_run_id = tq_verification_run_id req,
      oe_project_id = tq_project_id req, oe_task_id = tq_task_id req, oe_execution_id = tq_execution_id req,
      oe_plan_hash = tq_plan_hash req, oe_handoff_id = tq_handoff_id req, oe_worktree_id = tq_expected_worktree_id req,
      oe_lease_id = tq_expected_lease_id req, oe_claim_group_id = tq_expected_claim_group_id req,
      oe_fencing_token = tq_expected_fencing req, oe_owner_id = tq_verification_owner_id req,
      oe_idempotency_key = ''own-ev-'' @ tq_verification_run_id req\<rparr>"

text \<open>\<open>INSERT OR IGNORE\<close> under the primary key and the unique key.\<close>

definition insert_ownership_event :: "OwnershipEventRow \<Rightarrow> OwnershipEventRow list \<Rightarrow> OwnershipEventRow list" where
  "insert_ownership_event e events =
     (if list_ex (\<lambda>x. oe_event_id x = oe_event_id e \<or> oe_idempotency_key x = oe_idempotency_key e) events
      then events else events @ [e])"

text \<open>The transaction that starts the run and records the event; an error rolls it back.\<close>

definition start_run_tx :: "OwnershipEnv \<Rightarrow> TakeoverRequest \<Rightarrow> int \<Rightarrow> OwnershipState \<Rightarrow> (string, unit) result \<times> OwnershipState" where
  "start_run_tx env req run_version s =
     (let (n, runs) = start_run (oe_now env) (tq_verification_run_id req) run_version (os_runs s) in
      if n \<noteq> 1 then
        (Inl (if map_option rr_lc (select_one (\<lambda>r. rr_run_id r = tq_verification_run_id req) runs) = Some ''running''
              then ''already_running'' else ''run transition: version mismatch or not created''), s)
      else (Inr (), s\<lparr>os_runs := runs, os_events := insert_ownership_event (ownership_event env req) (os_events s)\<rparr>))"

definition finish_takeover ::
    "OwnershipEnv \<Rightarrow> (nat \<Rightarrow> OwnershipState \<Rightarrow> OwnershipState) \<Rightarrow> TakeoverRequest \<Rightarrow> int \<Rightarrow> OwnershipState \<Rightarrow>
     OwnershipTakeoverResult \<times> OwnershipState" where
  "finish_takeover env gap req run_version s =
     (case start_run_tx env req run_version s of
        (Inl msg, s1) \<Rightarrow>
          (if msg = ''already_running'' then Own_AlreadyOwned (tq_verification_run_id req)
           else Own_ValidationFailed (''run+event transaction failed: '' @ msg), s1)
      | (Inr _, s1) \<Rightarrow>
          let (post, s2) = inspect_consistent (gap 16) (tq_execution_id req) (gap 15 s1)
          in (if \<not> ci_consistent post then Own_HandoffStateMismatch ''post-takeover layers inconsistent''
              else Own_Acquired (tq_verification_run_id req) (tq_execution_id req), s2))"

text \<open>The order of the checks: a check that answers ends the call.\<close>

definition unless :: "'r option \<times> 's \<Rightarrow> ('s \<Rightarrow> 'r \<times> 's) \<Rightarrow> 'r \<times> 's" where
  "unless c continue = (case c of (Some r, s) \<Rightarrow> (r, s) | (None, s) \<Rightarrow> continue s)"

definition run_checks :: "TakeoverRequest \<Rightarrow> RunRow \<Rightarrow> OwnershipTakeoverResult option" where
  "run_checks req run =
     (let run_lc = rr_lc run in
      if run_lc = ''running'' then
        Some (if rr_request_hash run = tq_request_hash req then Own_AlreadyOwned (tq_verification_run_id req)
              else Own_Contested ''another-verification-run'')
      else if vrun_is_terminal (parse_lifecycle run_lc) then Some (Own_RunTerminal run_lc)
      else if run_lc \<noteq> ''created'' then
        Some (Own_ValidationFailed (''run lifecycle is '' @ [CHR 0x27] @ run_lc @ [CHR 0x27] @ '', expected '' @
          [CHR 0x27] @ ''created'' @ [CHR 0x27]))
      else None)"

definition start_or_resume_takeover ::
    "OwnershipEnv \<Rightarrow> (nat \<Rightarrow> OwnershipState \<Rightarrow> OwnershipState) \<Rightarrow> TakeoverRequest \<Rightarrow> OwnershipState \<Rightarrow>
     OwnershipTakeoverResult \<times> OwnershipState" where
  "start_or_resume_takeover env gap req s =
     (case select_one (\<lambda>r. rr_run_id r = tq_verification_run_id req) (os_runs s) of
        None \<Rightarrow> (Own_RunNotFound (tq_verification_run_id req), s)
      | Some run \<Rightarrow>
          unless (run_checks req run, s) (\<lambda>s.
            let s1 = gap 10 s in
            case handoff_get_by_execution (tq_execution_id req) (hs_handoffs s1) of
              None \<Rightarrow> (Own_ReconciliationRequired (tq_handoff_id req) ''missing'', s1)
            | Some h \<Rightarrow>
                unless (handoff_checks req h, s1) (\<lambda>s.
                unless (worktree_checks env gap req h (gap 18 s)) (\<lambda>s.
                let s2 = gap 12 s in
                unless (lease_checks req h s2, s2) (\<lambda>s.
                let s3 = gap 13 s in
                unless (heartbeat_checks req (reg_inspect (tq_execution_id req) (hs_registry s3)), s3) (\<lambda>s.
                let (t, s4) = takeover_for_verification (oe_debug_str env) gap (tq_execution_id req)
                                (tq_verification_owner_id req) (tq_expected_fencing req) (gap 14 s)
                in unless (takeover_ended req t, s4) (\<lambda>s. finish_takeover env gap req (rr_version run) (gap 17 s))))))))"

section \<open>Takeovers among other callers\<close>

text \<open>The others change the records only by the calls of the repository; the registry may change in any way.\<close>

definition handoff_interference :: "(nat \<Rightarrow> 'a HandoffSystem_scheme \<Rightarrow> 'a HandoffSystem_scheme) \<Rightarrow> bool" where
  "handoff_interference gap \<longleftrightarrow> (\<forall>n s. \<exists>calls. hs_handoffs (gap n s) = fold handoff_exec calls (hs_handoffs s))"

definition row_succ_in :: "string \<Rightarrow> 'a HandoffSystem_scheme \<Rightarrow> 'a HandoffSystem_scheme \<Rightarrow> bool" where
  "row_succ_in e s s' \<longleftrightarrow> (\<forall>r. handoff_get_by_execution e (hs_handoffs s) = Some r \<longrightarrow>
     (\<exists>r'. handoff_get_by_execution e (hs_handoffs s') = Some r' \<and> handoff_succ r r'))"

lemma succ_in_refl: "hs_handoffs s' = hs_handoffs s \<Longrightarrow> row_succ_in e s s'"
  by (simp add: row_succ_in_def handoff_succ_def)

lemma succ_in_trans: "row_succ_in e s s' \<Longrightarrow> row_succ_in e s' s'' \<Longrightarrow> row_succ_in e s s''"
  unfolding row_succ_in_def by (meson handoff_succ_trans)

lemma succ_in_gap: "handoff_interference gap \<Longrightarrow> row_succ_in e s (gap n s)"
  unfolding row_succ_in_def handoff_interference_def by (metis handoff_get_fold)

lemma registry_takeover_sel [simp]: "hs_handoffs (snd (registry_takeover e w f s)) = hs_handoffs s"
  by (simp add: registry_takeover_def split_beta)

text \<open>
  What the first phase of an acquired takeover did: the record was the scheduler's, and is now the caller's.
\<close>

lemma takeover_first_phase:
  assumes "handoff_interference gap" and "takeover_for_verification dbg gap e w f s = (Co_Acquired e' w' f', s')"
  shows "\<exists>db r t. handoff_get_by_execution e (hs_handoffs s) = Some db \<and> hf_fencing_token db = f \<and>
    hf_owner_kind db \<noteq> ''verification'' \<and> handoff_get_by_execution e (hs_handoffs t) = Some r \<and> handoff_succ db r \<and>
    hf_owner_kind r = ''verification'' \<and> hf_owner_id r = w \<and>
    takeover_registry_phase dbg gap e w f t = (Co_Acquired e' w' f', s')"
proof -
  obtain db where db: "handoff_get_by_execution e (hs_handoffs s) = Some db"
    using assms(2) by (auto simp: takeover_for_verification_def split: option.splits)
  let ?s2 = "gap 1 (gap 0 s)"
  let ?rows = "snd (handoff_takeover e w (hf_version db) (hs_handoffs ?s2))"
  have pre: "takeover_precheck db (reg_inspect e (hs_registry (gap 0 s))) f = None"
    using assms(2) db
    by (auto simp: takeover_for_verification_def Let_def takeover_precheck_def split: option.splits if_splits)
  have res: "fst (handoff_takeover e w (hf_version db) (hs_handoffs ?s2)) = Persist_Acquired"
    and phase: "takeover_registry_phase dbg gap e w f (gap 2 (?s2\<lparr>hs_handoffs := ?rows\<rparr>)) = (Co_Acquired e' w' f', s')"
    using assms(2) db pre
    by (auto simp: takeover_for_verification_def Let_def split_beta split: TakeoverPersistResult.splits if_splits)
  obtain q where q: "handoff_get_by_execution e (hs_handoffs ?s2) = Some q" "handoff_succ db q"
    using succ_in_trans [OF succ_in_gap succ_in_gap, OF assms(1) assms(1), of e s 1 0] db by (auto simp: row_succ_in_def)
  obtain q' where q': "handoff_get_by_execution e ?rows = Some q'" "handoff_succ q q'"
    "hf_owner_kind q' = ''verification''" "hf_owner_id q' = w" "hf_owner_kind q \<noteq> ''verification''"
    using res q(1) handoff_get_id [OF q(1)]
    by (cases rule: handoff_takeover_cases [of e w "hf_version db" "hs_handoffs ?s2"])
      (auto simp: handoff_get_update handoff_succ_def)
  let ?t = "gap 2 (?s2\<lparr>hs_handoffs := ?rows\<rparr>)"
  obtain r where r: "handoff_get_by_execution e (hs_handoffs ?t) = Some r" "handoff_succ q' r"
    using succ_in_gap [OF assms(1), of e "?s2\<lparr>hs_handoffs := ?rows\<rparr>" 2] q'(1) by (auto simp: row_succ_in_def)
  have "hf_fencing_token db = f"
    using pre by (auto simp: takeover_precheck_def Let_def split: option.splits if_splits)
  moreover have "hf_owner_kind db \<noteq> ''verification''" using q(2) q'(5) by (auto simp: handoff_succ_def)
  moreover have "handoff_succ db r" using q(2) q'(2) r(2) handoff_succ_trans by blast
  ultimately show ?thesis using db r q'(3,4) phase by (auto simp: handoff_succ_def)
qed

text \<open>A confirmed takeover: both layers name the caller.\<close>

lemma takeover_second_phase:
  assumes "handoff_interference gap" and "takeover_registry_phase dbg gap e w f t = (Co_Acquired e' w' f', s')"
    and "handoff_get_by_execution e (hs_handoffs t) = Some r" and "hf_owner_kind r = ''verification''"
  shows "e' = e \<and> w' = w \<and> f' = f \<and> (\<exists>r' i. handoff_get_by_execution e (hs_handoffs s') = Some r' \<and> handoff_succ r r' \<and>
    reg_inspect e (hs_registry s') = Some i \<and> hi_owner_kind i = hf_owner_kind r \<and> hi_owner_id i = hf_owner_id r \<and>
    hi_fencing_token i = hf_fencing_token r)"
proof -
  let ?s1 = "gap 3 (snd (registry_takeover e w f t))"
  have confirm: "takeover_confirm gap e w f ?s1 = (Co_Acquired e' w' f', s')"
    using assms(2) by (auto simp: takeover_registry_phase_def Let_def split_beta split: if_splits)
  then have s': "s' = gap 4 ?s1" "e' = e" "w' = w" "f' = f"
    and consistent: "ci_consistent (inspect_layers e (handoff_get_by_execution e (hs_handoffs ?s1))
        (reg_inspect e (hs_registry s')))"
    by (auto simp: takeover_confirm_def inspect_consistent_def Let_def split: if_splits)
  have "row_succ_in e t ?s1"
    by (rule succ_in_trans [OF succ_in_refl succ_in_gap [OF assms(1)]]) simp
  then obtain r1 where r1: "handoff_get_by_execution e (hs_handoffs ?s1) = Some r1" "handoff_succ r r1"
    using assms(3) by (auto simp: row_succ_in_def)
  obtain r2 where r2: "handoff_get_by_execution e (hs_handoffs s') = Some r2" "handoff_succ r1 r2"
    using succ_in_gap [OF assms(1), of e ?s1 4] r1(1) s'(1) by (auto simp: row_succ_in_def)
  have "handoff_succ r r2" using r1(2) r2(2) handoff_succ_trans by blast
  moreover have "hf_owner_kind r1 = hf_owner_kind r" "hf_owner_id r1 = hf_owner_id r"
    "hf_fencing_token r1 = hf_fencing_token r" using r1(2) assms(4) by (auto simp: handoff_succ_def)
  ultimately show ?thesis using consistent r1(1) r2(1) s'(2-4)
    by (auto simp: inspect_layers_def split: option.splits)
qed

lemma takeover_acquired:
  assumes "handoff_interference gap" and "takeover_for_verification dbg gap e w f s = (Co_Acquired e' w' f', s')"
  shows "e' = e \<and> w' = w \<and> f' = f \<and> (\<exists>db r i. handoff_get_by_execution e (hs_handoffs s) = Some db \<and>
    hf_owner_kind db \<noteq> ''verification'' \<and> hf_fencing_token db = f \<and>
    handoff_get_by_execution e (hs_handoffs s') = Some r \<and> handoff_succ db r \<and>
    hf_owner_kind r = ''verification'' \<and> hf_owner_id r = w \<and>
    reg_inspect e (hs_registry s') = Some i \<and> hi_owner_kind i = ''verification'' \<and> hi_owner_id i = w \<and> hi_fencing_token i = f)"
proof -
  obtain db r t where r: "handoff_get_by_execution e (hs_handoffs s) = Some db" "hf_fencing_token db = f"
    "hf_owner_kind db \<noteq> ''verification''" "handoff_get_by_execution e (hs_handoffs t) = Some r" "handoff_succ db r"
    "hf_owner_kind r = ''verification''" "hf_owner_id r = w"
    "takeover_registry_phase dbg gap e w f t = (Co_Acquired e' w' f', s')"
    using takeover_first_phase [OF assms] by blast
  obtain r' i where r': "e' = e" "w' = w" "f' = f" "handoff_get_by_execution e (hs_handoffs s') = Some r'" "handoff_succ r r'"
    "reg_inspect e (hs_registry s') = Some i" "hi_owner_kind i = hf_owner_kind r" "hi_owner_id i = hf_owner_id r"
    "hi_fencing_token i = hf_fencing_token r"
    using takeover_second_phase [OF assms(1) r(8,4,6)] by blast
  then show ?thesis using r handoff_succ_trans [OF r(5) r'(5)] by (auto simp: handoff_succ_def)
qed

lemma mark_mismatch_get:
  "handoff_get_by_execution e (hs_handoffs (mark_mismatch e d s)) =
     map_option (\<lambda>r. r\<lparr>hf_status := ''reconciliation_required'', hf_detail_json := Some d, hf_version := hf_version r + 1\<rparr>)
       (handoff_get_by_execution e (hs_handoffs s))"
  by (cases "handoff_get_by_execution e (hs_handoffs s)")
    (auto simp: mark_mismatch_def handoff_marks handoff_get_update dest: handoff_get_id)

text \<open>
  No takeover is left half done: one that runs alone and is not confirmed either did not touch the records, or put the
  record up for reconciliation, where no takeover can get it.
\<close>

lemma takeover_not_half_done:
  assumes "takeover_for_verification dbg (\<lambda>_ s. s) e w f s = (result, s')" and "\<nexists>e' w' f'. result = Co_Acquired e' w' f'"
  shows "hs_handoffs s' = hs_handoffs s \<or>
    map_option hf_status (handoff_get_by_execution e (hs_handoffs s')) = Some ''reconciliation_required''"
proof (rule ccontr)
  assume neither: "\<not> ?thesis"
  let ?rows = "\<lambda>v. snd (handoff_takeover e w v (hs_handoffs s))"
  have keeps: "?rows v = hs_handoffs s" if "fst (handoff_takeover e w v (hs_handoffs s)) \<noteq> Persist_Acquired" for v
    using that by (cases rule: handoff_takeover_cases [of e w v "hs_handoffs s"]) auto
  have phase: "map_option hf_status (handoff_get_by_execution e (hs_handoffs s')) = Some ''reconciliation_required''"
    if "takeover_registry_phase dbg (\<lambda>_ s. s) e w f t = (result, s')" "handoff_get_by_execution e (hs_handoffs t) \<noteq> None" for t
    using that assms(2)
    by (auto simp: takeover_registry_phase_def takeover_confirm_def inspect_consistent_def Let_def split_beta mark_mismatch_get
      split: if_splits)
  have "takeover_registry_phase dbg (\<lambda>_ s. s) e w f (s\<lparr>hs_handoffs := ?rows v\<rparr>) \<noteq> (result, s')"
    if "handoff_get_by_execution e (hs_handoffs s) = Some db" for v db
    using phase [of "s\<lparr>hs_handoffs := ?rows v\<rparr>"] neither handoff_get_exec [OF that, of "Ho_Takeover e w v"] by auto
  then show False
    using neither assms(1) keeps
    by (auto simp: takeover_for_verification_def Let_def split_beta split: option.splits TakeoverPersistResult.splits if_splits)
qed

section \<open>Properties\<close>

lemma checks_refuse:
  "run_checks req run \<noteq> Some (Own_Acquired i e)" "handoff_checks req h \<noteq> Some (Own_Acquired i e)"
  "fst (worktree_checks env gap req h s) \<noteq> Some (Own_Acquired i e)" "lease_checks req h s \<noteq> Some (Own_Acquired i e)"
  "heartbeat_checks req hb \<noteq> Some (Own_Acquired i e)" "takeover_ended req t \<noteq> Some (Own_Acquired i e)"
  by (auto simp: run_checks_def handoff_checks_def worktree_checks_def lease_checks_def heartbeat_checks_def Let_def
    split: option.split) (cases t; simp)

lemma worktree_checks_state: "snd (worktree_checks env gap req h s) = s \<or> snd (worktree_checks env gap req h s) = gap 11 s"
  by (auto simp: worktree_checks_def Let_def split: option.split)

lemma unless_acquired:
  "c \<noteq> Some (Own_Acquired i e) \<Longrightarrow>
   unless (c, s) k = (Own_Acquired i e, s') \<longleftrightarrow> c = None \<and> k s = (Own_Acquired i e, s')"
  by (auto simp: unless_def split: option.splits)

lemma unless_worktree_acquired:
  "unless (worktree_checks env gap req h s) k = (Own_Acquired i e, s') \<longleftrightarrow>
     fst (worktree_checks env gap req h s) = None \<and> k (snd (worktree_checks env gap req h s)) = (Own_Acquired i e, s')"
  using unless_acquired [OF checks_refuse(3)] by (metis prod.collapse)

text \<open>The path of a call that acquires: all checks passed, the coordinator acquired, the run was started.\<close>

lemma acquired_path:
  assumes "start_or_resume_takeover env gap req s = (Own_Acquired i e, s')"
  shows "\<exists>run h s1 t s4. select_one (\<lambda>r. rr_run_id r = tq_verification_run_id req) (os_runs s) = Some run \<and>
    rr_lc run = ''created'' \<and>
    handoff_get_by_execution (tq_execution_id req) (hs_handoffs (gap 10 s)) = Some h \<and> handoff_checks req h = None \<and>
    (s1 = gap 18 (gap 10 s) \<or> s1 = gap 11 (gap 18 (gap 10 s))) \<and>
    takeover_for_verification (oe_debug_str env) gap (tq_execution_id req) (tq_verification_owner_id req)
      (tq_expected_fencing req) (gap 14 (gap 13 (gap 12 s1))) = (t, s4) \<and> takeover_ended req t = None \<and>
    finish_takeover env gap req (rr_version run) (gap 17 s4) = (Own_Acquired i e, s')"
proof -
  obtain run where run: "select_one (\<lambda>r. rr_run_id r = tq_verification_run_id req) (os_runs s) = Some run"
    using assms by (auto simp: start_or_resume_takeover_def split: option.splits)
  note path = assms [unfolded start_or_resume_takeover_def run option.case Let_def unless_acquired [OF checks_refuse(1)]]
  obtain h where h: "handoff_get_by_execution (tq_execution_id req) (hs_handoffs (gap 10 s)) = Some h"
    using path by (auto split: option.splits)
  let ?s1 = "snd (worktree_checks env gap req h (gap 18 (gap 10 s)))"
  have "rr_lc run = ''created''"
    using path by (auto simp: run_checks_def Let_def split: if_splits)
  moreover note path [unfolded h option.case split_beta unless_acquired [OF checks_refuse(2)] unless_worktree_acquired
    unless_acquired [OF checks_refuse(4)] unless_acquired [OF checks_refuse(5)] unless_acquired [OF checks_refuse(6)]]
  moreover have "?s1 = gap 18 (gap 10 s) \<or> ?s1 = gap 11 (gap 18 (gap 10 s))" by (rule worktree_checks_state)
  ultimately show ?thesis using run h by (metis prod.collapse)
qed

lemma unless_keeps_runs:
  "os_runs (snd c) = R \<Longrightarrow> (fst c = None \<Longrightarrow> os_runs (snd (k (snd c))) = R) \<Longrightarrow> os_runs (snd (unless c k)) = R"
  by (cases c; cases "fst c") (simp_all add: unless_def)

lemma takeover_keeps_runs:
  fixes gap :: "nat \<Rightarrow> OwnershipState \<Rightarrow> OwnershipState"
  assumes "\<And>n t. os_runs (gap n t) = os_runs t"
  shows "os_runs (snd (takeover_for_verification dbg gap e w f s)) = os_runs s"
proof -
  have reg: "os_runs (snd (registry_takeover e w f t)) = os_runs t" for t :: OwnershipState
    by (simp add: registry_takeover_def split_beta)
  have mark: "os_runs (mark_mismatch e d t) = os_runs t" for d and t :: OwnershipState
    by (simp add: mark_mismatch_def)
  have "os_runs (snd (takeover_confirm gap e w f t)) = os_runs t" for t
    by (simp add: takeover_confirm_def inspect_consistent_def Let_def mark assms)
  then have "os_runs (snd (takeover_registry_phase dbg gap e w f t)) = os_runs t" for t
    by (simp add: takeover_registry_phase_def Let_def split_beta mark reg assms)
  then show ?thesis
    by (auto simp: takeover_for_verification_def Let_def split_beta reg assms split: option.split TakeoverPersistResult.split)
qed

lemma finish_acquired:
  assumes "finish_takeover env gap req v s = (Own_Acquired i e, s')"
  shows "i = tq_verification_run_id req \<and> e = tq_execution_id req \<and>
    (\<exists>s1. start_run_tx env req v s = (Inr (), s1) \<and> s' = gap 16 (gap 15 s1) \<and>
      ci_consistent (inspect_layers e (handoff_get_by_execution e (hs_handoffs (gap 15 s1))) (reg_inspect e (hs_registry s'))))"
proof -
  obtain q s1 where q: "start_run_tx env req v s = (q, s1)" by fastforce
  then have "q = Inr ()" using assms by (cases q) (auto simp: finish_takeover_def split: if_splits)
  then show ?thesis using assms q
    by (auto simp: finish_takeover_def inspect_consistent_def Let_def split: if_splits)
qed

text \<open>After the coordinator: the caller keeps the record, the registry agrees with it, and the run is started.\<close>

lemma finish_confirms:
  assumes "handoff_interference gap" and "\<And>n t. os_runs (gap n t) = os_runs t"
    and "finish_takeover env gap req v (gap n s) = (Own_Acquired i e, s')"
    and "handoff_get_by_execution e (hs_handoffs s) = Some r" and "hf_owner_kind r = ''verification''"
  shows "os_runs s' = snd (start_run (oe_now env) i v (os_runs s)) \<and>
    (\<exists>r' info. handoff_get_by_execution e (hs_handoffs s') = Some r' \<and> handoff_succ r r' \<and>
       reg_inspect e (hs_registry s') = Some info \<and> hi_owner_kind info = hf_owner_kind r \<and>
       hi_owner_id info = hf_owner_id r \<and> hi_fencing_token info = hf_fencing_token r)"
proof -
  obtain s1 where s1: "start_run_tx env req v (gap n s) = (Inr (), s1)" "s' = gap 16 (gap 15 s1)" "i = tq_verification_run_id req"
    "ci_consistent (inspect_layers e (handoff_get_by_execution e (hs_handoffs (gap 15 s1))) (reg_inspect e (hs_registry s')))"
    using finish_acquired [OF assms(3)] by blast
  have same: "hs_handoffs s1 = hs_handoffs (gap n s)" and runs: "os_runs s1 = snd (start_run (oe_now env) i v (os_runs s))"
    using s1(1,3) by (auto simp: start_run_tx_def Let_def split_beta assms(2) split: if_splits)
  note gaps = succ_in_gap [OF assms(1)]
  have "row_succ_in e s (gap 15 s1)"
    by (rule succ_in_trans [OF gaps succ_in_trans [OF succ_in_refl gaps]]) (simp add: same)
  then obtain r1 where r1: "handoff_get_by_execution e (hs_handoffs (gap 15 s1)) = Some r1" "handoff_succ r r1"
    using assms(4) by (auto simp: row_succ_in_def)
  obtain r2 where r2: "handoff_get_by_execution e (hs_handoffs s') = Some r2" "handoff_succ r1 r2"
    using gaps [of e "gap 15 s1" 16] r1(1) s1(2) by (auto simp: row_succ_in_def)
  obtain info where "reg_inspect e (hs_registry s') = Some info" "hi_owner_kind info = hf_owner_kind r1"
    "hi_owner_id info = hf_owner_id r1" "hi_fencing_token info = hf_fencing_token r1"
    using s1(4) r1(1) by (auto simp: inspect_layers_def split: option.splits)
  then show ?thesis using r1(2) r2 handoff_succ_trans [OF r1(2) r2(2)] assms(5) by (auto simp: s1(2) assms(2) runs handoff_succ_def)
qed

text \<open>
  C13. Verification owns what it acquired: when a takeover succeeds, whatever other callers did to hand-offs and heartbeats
  between its accesses, the request named the hand-off, which was the scheduler's and carried the expected fencing token; now the
  record belongs to the caller and the registry names it with that token, and the run went from created to running.
\<close>

theorem verification_owns:
  assumes "handoff_interference gap" and "\<And>n t. os_runs (gap n t) = os_runs t"
    and "start_or_resume_takeover env gap req s = (Own_Acquired i e, s')"
  shows "i = tq_verification_run_id req \<and> e = tq_execution_id req \<and>
    (\<exists>h r info run. handoff_get_by_execution e (hs_handoffs (gap 10 s)) = Some h \<and> hf_owner_kind h \<noteq> ''verification'' \<and>
       hf_handoff_id h = tq_handoff_id req \<and> hf_task_id h = tq_task_id req \<and> hf_fencing_token h = tq_expected_fencing req \<and>
       handoff_get_by_execution e (hs_handoffs s') = Some r \<and> hf_handoff_id r = tq_handoff_id req \<and>
       hf_owner_kind r = ''verification'' \<and> hf_owner_id r = tq_verification_owner_id req \<and>
       reg_inspect e (hs_registry s') = Some info \<and> hi_owner_kind info = ''verification'' \<and>
       hi_owner_id info = tq_verification_owner_id req \<and> hi_fencing_token info = tq_expected_fencing req \<and>
       select_one (\<lambda>r. rr_run_id r = i) (os_runs s) = Some run \<and> rr_lc run = ''created'' \<and>
       select_one (\<lambda>r. rr_run_id r = i) (os_runs s') = Some (run\<lparr>rr_lc := ''running'',
         rr_started_at := Some (oe_now env), rr_version := rr_version run + 1\<rparr>))"
proof -
  obtain run h s1 t s4 where path: "select_one (\<lambda>r. rr_run_id r = tq_verification_run_id req) (os_runs s) = Some run"
    "rr_lc run = ''created''" "handoff_get_by_execution (tq_execution_id req) (hs_handoffs (gap 10 s)) = Some h"
    "handoff_checks req h = None" "s1 = gap 18 (gap 10 s) \<or> s1 = gap 11 (gap 18 (gap 10 s))"
    "takeover_for_verification (oe_debug_str env) gap (tq_execution_id req) (tq_verification_owner_id req)
      (tq_expected_fencing req) (gap 14 (gap 13 (gap 12 s1))) = (t, s4)" "takeover_ended req t = None"
    "finish_takeover env gap req (rr_version run) (gap 17 s4) = (Own_Acquired i e, s')"
    using acquired_path [OF assms(3)] by blast
  have ids: "i = tq_verification_run_id req" "e = tq_execution_id req" using finish_acquired [OF path(8)] by auto
  let ?s0 = "gap 14 (gap 13 (gap 12 s1))"
  obtain e1 w1 f1 where "t = Co_Acquired e1 w1 f1" using path(7) by (cases t) auto
  then obtain db r where co: "handoff_get_by_execution e (hs_handoffs ?s0) = Some db" "hf_owner_kind db \<noteq> ''verification''"
    "hf_fencing_token db = tq_expected_fencing req" "handoff_get_by_execution e (hs_handoffs s4) = Some r" "handoff_succ db r"
    "hf_owner_kind r = ''verification''" "hf_owner_id r = tq_verification_owner_id req"
    using takeover_acquired [OF assms(1)] path(6) ids(2) by blast
  have "row_succ_in e (gap 10 s) ?s0"
    using path(5) succ_in_trans [OF _ succ_in_gap [OF assms(1)], of e "gap 10 s"] by (auto simp: succ_in_refl)
  then have h: "handoff_succ h db" using path(3) co(1) ids(2) by (auto simp: row_succ_in_def)
  note fin = finish_confirms [OF assms(1,2) path(8) co(4,6)]
  have "os_runs s4 = os_runs s"
    using arg_cong [OF path(6), of "\<lambda>p. os_runs (snd p)"] path(5) by (auto simp: takeover_keeps_runs [OF assms(2)] assms(2))
  then have "select_one (\<lambda>r. rr_run_id r = i) (os_runs s') = Some (run\<lparr>rr_lc := ''running'',
      rr_started_at := Some (oe_now env), rr_version := rr_version run + 1\<rparr>)"
    using path(1,2) ids(1) select_one_Some [OF path(1)] fin by (simp add: start_run_def Let_def select_one_update)
  moreover have "hf_handoff_id h = tq_handoff_id req" "hf_task_id h = tq_task_id req"
    using path(4) by (auto simp: handoff_checks_def split: if_splits)
  ultimately show ?thesis
    using ids path(1-3) h co fin by (auto simp: handoff_succ_def)
qed

text \<open>
  C39. A takeover that was interrupted after the hand-off record was acquired is never resumed: once the record belongs to
  verification, no call for the execution, of its owner or of anybody else, acquires it, and no call starts a run.
\<close>

theorem takeover_not_resumed:
  assumes "handoff_interference gap" and "\<And>n t. os_runs (gap n t) = os_runs t"
    and "handoff_get_by_execution (tq_execution_id req) (hs_handoffs s) = Some r" and "hf_owner_kind r = ''verification''"
  shows "(\<nexists>i e. fst (start_or_resume_takeover env gap req s) = Own_Acquired i e) \<and>
    os_runs (snd (start_or_resume_takeover env gap req s)) = os_runs s"
proof -
  let ?e = "tq_execution_id req" and ?f = "tq_expected_fencing req"
  have step: "row_succ_in ?e s a \<Longrightarrow> row_succ_in ?e s (gap n a)" for n a
    using succ_in_trans succ_in_gap [OF assms(1)] by blast
  have never: "takeover_ended req (fst (takeover_for_verification dbg gap ?e w ?f t)) \<noteq> None" if t: "row_succ_in ?e s t" for dbg w t
  proof
    obtain q where q: "handoff_get_by_execution ?e (hs_handoffs t) = Some q" "hf_owner_kind q = ''verification''"
      using t assms(3,4) by (auto simp: row_succ_in_def handoff_succ_def)
    assume "takeover_ended req (fst (takeover_for_verification dbg gap ?e w ?f t)) = None"
    then obtain e1 w1 f1 where "fst (takeover_for_verification dbg gap ?e w ?f t) = Co_Acquired e1 w1 f1"
      by (cases "fst (takeover_for_verification dbg gap ?e w ?f t)") auto
    then show False using takeover_acquired [OF assms(1)] q by (metis option.inject prod.collapse)
  qed
  let ?w = "\<lambda>h. worktree_checks env gap req h (gap 18 (gap 10 s))"
  have w: "row_succ_in ?e s (snd (?w h))" "os_runs (snd (?w h)) = os_runs s" for h
    using worktree_checks_state [of env gap req h "gap 18 (gap 10 s)"] by (auto simp: step succ_in_refl assms(2))
  have "(\<nexists>i e. fst (start_or_resume_takeover env gap req s) = Own_Acquired i e)"
  proof
    assume "\<exists>i e. fst (start_or_resume_takeover env gap req s) = Own_Acquired i e"
    then obtain i e where "start_or_resume_takeover env gap req s = (Own_Acquired i e, snd (start_or_resume_takeover env gap req s))"
      by (metis prod.collapse)
    from acquired_path [OF this] obtain s1 where
      "s1 = gap 18 (gap 10 s) \<or> s1 = gap 11 (gap 18 (gap 10 s))"
      "takeover_ended req (fst (takeover_for_verification (oe_debug_str env) gap ?e (tq_verification_owner_id req) ?f
         (gap 14 (gap 13 (gap 12 s1))))) = None" by (metis fst_conv)
    moreover from this(1) have "row_succ_in ?e s (gap 14 (gap 13 (gap 12 s1)))" by (auto simp: step succ_in_refl)
    ultimately show False using never by blast
  qed
  moreover have "os_runs (snd (start_or_resume_takeover env gap req s)) = os_runs s"
    unfolding start_or_resume_takeover_def Let_def split_beta
    by (auto intro!: unless_keeps_runs split: option.split simp: assms(2) w takeover_keeps_runs [OF assms(2)])
      (use never in \<open>auto simp: step w\<close>)
  ultimately show ?thesis by blast
qed

section \<open>Sample requests\<close>

definition sample_entry :: HeartbeatEntry where
  "sample_entry = \<lparr>he_execution_id = ''e'', he_task_id = ''t'', he_worktree_id = ''wt'', he_lease_id = ''l'',
     he_claim_group_id = None, he_fencing_token = 5, he_owner_kind = Owner_Scheduler, he_owner_id = ''s'', he_status = HB_Healthy,
     he_last_heartbeat_at = None, he_cancelled = False, he_last_error = None\<rparr>"

definition sample_handoffs :: handoff_table where
  "sample_handoffs = snd (handoff_create ''h'' ''p'' ''t'' \<lparr>hp_execution_id = ''e'', hp_worktree_id = Some ''wt'',
     hp_lease_id = Some ''l'', hp_claim_group_id = None, hp_fencing_token = 5, hp_owner_id = ''s''\<rparr> [])"

definition sample_ownership :: "handoff_table \<Rightarrow> OwnershipState" where
  "sample_ownership rows = \<lparr>hs_handoffs = rows, hs_registry = snd (reg_register sample_entry reg_new),
     os_runs = [new_run_row 0 None (sample_run ''r'' ''q'')], os_events = [], os_worktrees = [(''wt'', Some ''d'')],
     os_leases = [(''l'', ''active'')]\<rparr>"

definition sample_request :: TakeoverRequest where
  "sample_request = \<lparr>tq_verification_run_id = ''r'', tq_execution_id = ''e'', tq_task_id = ''t'', tq_project_id = ''p'',
     tq_plan_hash = ''h'', tq_handoff_id = ''h'', tq_expected_worktree_id = ''wt'', tq_expected_lease_id = ''l'',
     tq_expected_claim_group_id = None, tq_expected_fencing = 5, tq_verification_owner_id = ''v'', tq_idempotency_key = ''k'',
     tq_request_hash = ''q''\<rparr>"

definition sample_own_env :: OwnershipEnv where
  "sample_own_env = \<lparr>oe_now = 7, oe_path_exists = (\<lambda>_. True), oe_uuid = ''u'', oe_debug_str = id\<rparr>"

abbreviation alone :: "nat \<Rightarrow> OwnershipState \<Rightarrow> OwnershipState" where
  "alone \<equiv> \<lambda>_ s. s"

lemma alone_interference: "handoff_interference alone"
  unfolding handoff_interference_def by (intro allI exI [of _ "[]"]) simp

theorem verification_owns_witness:
  "let s' = snd (start_or_resume_takeover sample_own_env alone sample_request (sample_ownership sample_handoffs))
   in \<exists>r. handoff_get_by_execution ''e'' (hs_handoffs s') = Some r \<and> hf_owner_kind r = ''verification'' \<and> hf_owner_id r = ''v'' \<and>
      map rr_lc (os_runs s') = [''running'']"
proof -
  let ?run = "start_or_resume_takeover sample_own_env alone sample_request (sample_ownership sample_handoffs)"
  have "fst ?run = Own_Acquired ''r'' ''e''" "map rr_lc (os_runs (snd ?run)) = [''running'']" by code_simp+
  moreover from this(1) have "?run = (Own_Acquired ''r'' ''e'', snd ?run)" by (simp add: prod_eq_iff)
  from verification_owns [OF alone_interference _ this]
  have "\<exists>r. handoff_get_by_execution ''e'' (hs_handoffs (snd ?run)) = Some r \<and> hf_owner_kind r = ''verification'' \<and>
      hf_owner_id r = ''v''" by (auto simp: sample_request_def)
  ultimately show ?thesis by (simp add: Let_def)
qed

text \<open>The record was acquired by an earlier call of the same owner, which did not get to start the run.\<close>

theorem takeover_not_resumed_witness:
  "let s = sample_ownership (snd (handoff_takeover ''e'' ''v'' 1 sample_handoffs));
       s' = snd (start_or_resume_takeover sample_own_env alone sample_request s)
   in map rr_lc (os_runs s') = [''created''] \<and>
      fst (start_or_resume_takeover sample_own_env alone sample_request s) \<noteq> Own_Acquired ''r'' ''e''"
proof -
  define s where "s = sample_ownership (snd (handoff_takeover ''e'' ''v'' 1 sample_handoffs))"
  have "map_option hf_owner_kind (handoff_get_by_execution (tq_execution_id sample_request) (hs_handoffs s)) =
      Some ''verification''" "map rr_lc (os_runs s) = [''created'']"
    unfolding s_def by code_simp+
  then show ?thesis
    using takeover_not_resumed [OF alone_interference, of sample_request s _ sample_own_env] by (auto simp: Let_def s_def)
qed

end
