(* ===== verification/Policy.thy ===== *)
theory Policy
  imports Core_Error "HOL-Library.Word"
begin

text \<open>
  The policies an agent's commands and writes are checked against: the small checks of \<open>harness-core/src/policies\<close>, the command
  engine of \<open>policy/command.rs\<close> and the write scope of \<open>policy/file_scope.rs\<close>. The model is that of a build in which
  \<open>cfg!(windows)\<close> is false. Paths of the file system are lists of components, and the file system is a tree of
  directories, files and symbolic links with the path resolution of POSIX. Parameters are the hash of the
  standard library and Unicode NFC.
\<close>

section \<open>Core policies\<close>

record TurnBudget =
  tb_max_turns :: "32 word"
  tb_max_time_ms :: "64 word"
  tb_max_cost_cents :: "32 word option"

definition is_exceeded :: "TurnBudget \<Rightarrow> 32 word \<Rightarrow> 64 word \<Rightarrow> 32 word \<Rightarrow> bool" where
  "is_exceeded policy turns_used time_ms cost_cents =
     (if turns_used > tb_max_turns policy then True
      else if time_ms > tb_max_time_ms policy then True
      else False)"

definition BLOCKED_PATTERNS :: "string list" where
  "BLOCKED_PATTERNS = [''rm -rf /'', ''git push --force'', ''curl | sh'', ''curl | bash'', ''wget | sh'', ''eval '', ''> /dev/sda'']"

definition DANGEROUS_PATTERNS :: "string list" where
  "DANGEROUS_PATTERNS = [''rm -rf'', ''sudo '', ''npm publish'', ''git push'', ''shutdown'', ''reboot'']"

datatype CommandClass = Class_Allowed | Class_Dangerous | Class_Blocked

definition classify_command :: "string \<Rightarrow> CommandClass" where
  "classify_command cmd =
     (let lower = to_lowercase cmd in
      if list_ex (contains_str lower) BLOCKED_PATTERNS then Class_Blocked
      else if list_ex (contains_str lower) DANGEROUS_PATTERNS then Class_Dangerous
      else Class_Allowed)"

definition normalize_path :: "string \<Rightarrow> string" where
  "normalize_path p = trim_end_matches (\<lambda>c. c = CHR ''/'') (replace_char (CHR 0x5C) (CHR ''/'') p)"

definition simple_glob_match :: "string \<Rightarrow> string \<Rightarrow> bool" where
  "simple_glob_match path glob =
     (if glob = ''**'' \<or> glob = ''**/*'' then True
      else case strip_suffix_str glob ''**'' of
        Some p \<Rightarrow> starts_with path p
      | None \<Rightarrow>
          (case strip_suffix_str glob ''*'' of
             Some p \<Rightarrow> starts_with path p
           | None \<Rightarrow> starts_with path glob \<or> path = glob))"

definition is_path_within_scope :: "string \<Rightarrow> string \<Rightarrow> string list \<Rightarrow> bool" where
  "is_path_within_scope path worktree_root allowed_globs =
     (let normalized = normalize_path path; root = normalize_path worktree_root in
      if \<not> starts_with normalized root then False
      else if contains_str normalized ''/.git/'' \<or> ends_with normalized ''/.git'' then False
      else if contains_str normalized ''/.harness/'' then False
      else
        let relative = trim_start_matches (\<lambda>c. c = CHR ''/'')
              (case strip_prefix_str normalized root of Some r \<Rightarrow> r | None \<Rightarrow> normalized)
        in if allowed_globs = [] then True else list_ex (simple_glob_match relative) allowed_globs)"

section \<open>Commands\<close>

record CommandFingerprint =
  cf_executable_hash :: string
  cf_args_hash :: string
  cf_cwd_hash :: string
  cf_env_names_hash :: string

definition composite_key :: "CommandFingerprint \<Rightarrow> string" where
  "composite_key fp = cf_executable_hash fp @ ''|'' @ cf_args_hash fp @ ''|'' @ cf_cwd_hash fp @ ''|'' @ cf_env_names_hash fp"

datatype PolicyDecision =
    Policy_Allow
  | Policy_Deny string
  | Policy_RequireApproval string CommandFingerprint

record DangerousPattern =
  dp_category :: string
  dp_executable_contains :: "string option"
  dp_arg_contains :: "string option"
  dp_deny :: bool

record CommandPolicyEngine =
  pe_allowed_build_tools :: "string list"
  pe_allowed_git_read_only :: "string list"
  pe_dangerous_patterns :: "DangerousPattern list"

text \<open>
  \<open>hash_str\<close> is the hash of the standard library, printed in hexadecimal. \<open>evaluate_command\<close> of the source always returns
  \<open>Ok\<close>; the model returns the decision itself.
\<close>

definition fingerprint :: "(string \<Rightarrow> string) \<Rightarrow> string \<Rightarrow> string list \<Rightarrow> string \<Rightarrow> string list \<Rightarrow> CommandFingerprint" where
  "fingerprint hash_str executable args cwd env_names =
     \<lparr>cf_executable_hash = hash_str executable, cf_args_hash = hash_str (join_with [CHR 0x00] args), cf_cwd_hash = hash_str cwd,
      cf_env_names_hash = hash_str (join_with [CHR 0x00] env_names)\<rparr>"

definition pattern_matches :: "string \<Rightarrow> string \<Rightarrow> DangerousPattern \<Rightarrow> bool" where
  "pattern_matches exec_lower joined_args p \<longleftrightarrow>
     (case dp_executable_contains p of Some n \<Rightarrow> contains_str exec_lower n | None \<Rightarrow> True) \<and>
     (case dp_arg_contains p of Some n \<Rightarrow> contains_str joined_args n | None \<Rightarrow> True)"

definition evaluate_command ::
    "(string \<Rightarrow> string) \<Rightarrow> CommandPolicyEngine \<Rightarrow> string \<Rightarrow> string list \<Rightarrow> string \<Rightarrow> string list \<Rightarrow> PolicyDecision" where
  "evaluate_command hash_str engine executable args cwd env_names =
     (let exec_lower = to_lowercase executable;
          joined_args = to_lowercase (join_with '' '' args);
          fp = fingerprint hash_str executable args cwd env_names
      in case find (pattern_matches exec_lower joined_args) (pe_dangerous_patterns engine) of
           Some p \<Rightarrow>
             let reason = (if dp_executable_contains p \<noteq> None then dp_category p @ '': '' @ executable
                           else dp_category p @ '': arg matched'')
             in if dp_deny p then Policy_Deny reason else Policy_RequireApproval reason fp
         | None \<Rightarrow>
             if exec_lower \<in> set (pe_allowed_build_tools engine) then Policy_Allow
             else if exec_lower = ''git'' \<and>
                     (case args of [] \<Rightarrow> [] | a # _ \<Rightarrow> to_lowercase a) \<in> set (pe_allowed_git_read_only engine) then Policy_Allow
             else Policy_RequireApproval (''command not in default allow list: '' @ executable) fp)"

definition pattern :: "string \<Rightarrow> string option \<Rightarrow> string option \<Rightarrow> bool \<Rightarrow> DangerousPattern" where
  "pattern category exec arg deny =
     \<lparr>dp_category = category, dp_executable_contains = exec, dp_arg_contains = arg, dp_deny = deny\<rparr>"

definition default_patterns :: "DangerousPattern list" where
  "default_patterns =
     [pattern ''shell_command'' (Some ''sh'') None True,
      pattern ''shell_command'' (Some ''cmd'') None True,
      pattern ''shell_command'' (Some ''powershell'') None True,
      pattern ''recursive_delete'' (Some ''rm'') (Some ''-rf'') True,
      pattern ''recursive_delete'' (Some ''rm'') (Some ''-fr'') True,
      pattern ''recursive_delete'' (Some ''rm'') (Some ''-r -f'') True,
      pattern ''recursive_delete'' (Some ''rm'') (Some ''-f -r'') True,
      pattern ''recursive_delete'' None (Some ''/s /q'') True,
      pattern ''global_package_install'' (Some ''npm'') (Some ''-g'') True,
      pattern ''global_package_install'' (Some ''npm'') (Some ''--global'') True,
      pattern ''global_package_install'' (Some ''cargo'') (Some ''install'') False,
      pattern ''disk_format'' (Some ''mkfs'') None True,
      pattern ''disk_format'' (Some ''format'') None True,
      pattern ''git_config_global'' (Some ''git'') (Some ''--global'') True,
      pattern ''env_mutation'' (Some ''setx'') None True,
      pattern ''env_mutation'' (Some ''reg'') (Some ''add'') True,
      pattern ''background_daemon'' (Some ''systemctl'') (Some ''start'') True,
      pattern ''network_download_execute'' (Some ''curl'') (Some ''|'') True,
      pattern ''network_download_execute'' (Some ''wget'') (Some ''-o-'') True,
      pattern ''git_reset_hard'' (Some ''git'') (Some ''reset --hard'') False,
      pattern ''git_clean_force'' (Some ''git'') (Some ''clean -'') False,
      pattern ''git_push'' (Some ''git'') (Some ''push'') False,
      pattern ''git_force'' None (Some ''--force'') False,
      pattern ''git_branch_delete'' (Some ''git'') (Some ''branch -d'') False,
      pattern ''git_worktree_mutate'' (Some ''git'') (Some ''worktree add'') False,
      pattern ''git_worktree_mutate'' (Some ''git'') (Some ''worktree remove'') False,
      pattern ''git_tag_delete'' (Some ''git'') (Some ''tag -d'') False,
      pattern ''package_install'' (Some ''pip'') (Some ''install'') False,
      pattern ''auto_upgrade'' (Some ''pip'') (Some ''install --upgrade'') False,
      pattern ''auth_keychain_access'' (Some ''ssh'') (Some ''-i'') False,
      pattern ''code_exec'' (Some ''python'') (Some ''-c'') False,
      pattern ''code_exec'' (Some ''python'') (Some ''-m'') False,
      pattern ''code_exec'' (Some ''node'') (Some ''-e'') False,
      pattern ''code_exec'' (Some ''node'') (Some ''--eval'') False,
      pattern ''code_exec'' (Some ''npx'') None False,
      pattern ''code_exec'' (Some ''pnpm'') (Some ''dlx'') False,
      pattern ''code_exec'' (Some ''go'') (Some ''run'') False,
      pattern ''code_exec'' (Some ''cargo'') (Some ''run'') False]"

definition engine_default :: CommandPolicyEngine where
  "engine_default =
     \<lparr>pe_allowed_build_tools = [''cargo'', ''make'', ''cmake'', ''go'', ''node'', ''npm'', ''npx'', ''pnpm'', ''yarn'', ''python'',
        ''python3'', ''pip'', ''pip3'', ''rustc'', ''tsc'', ''eslint'', ''prettier'', ''jest'', ''mocha'', ''pytest''],
      pe_allowed_git_read_only = [''status'', ''log'', ''diff'', ''show'', ''rev-parse'', ''rev-list'', ''blame'', ''describe'',
        ''for-each-ref'', ''ls-remote'', ''ls-files'', ''ls-tree'', ''cat-file'', ''grep'', ''merge-base'', ''check-ref-format'',
        ''check-ignore'', ''check-attr''],
      pe_dangerous_patterns = default_patterns\<rparr>"

section \<open>The write scope\<close>

record FileScope =
  fs_allowed_paths :: "string list"
  fs_forbidden_paths :: "string list"
  fs_readable_paths :: "string list"
  fs_scope_expansion_allowed :: bool

datatype ScopeViolation =
    OutsideWorkspace | OutsideWriteScope | DeniedPath | SymlinkEscape | GitMetadataProtected | HarnessMetadataProtected
  | AmbiguousPath string | ReservedDeviceName | TraversalRejected | AbsolutePathRejected | AlternateDataStream

datatype ScopeDecision = Scope_Allowed | Scope_Denied ScopeViolation

text \<open>
  A path of the file system: its components below the root. The entries of the file system by their location, which is a
  path without links; a link has an absolute or a relative target.
\<close>

type_synonym path_buf = "string list"

datatype FsNode = Directory | RegularFile | Symlink bool path_buf

record FileSystem =
  fx_nfc :: "string \<Rightarrow> string"
  fx_node :: "path_buf \<Rightarrow> FsNode option"

text \<open>Entries are entries of directories.\<close>

definition fs_ok :: "FileSystem \<Rightarrow> bool" where
  "fs_ok fx \<longleftrightarrow> (\<forall>p c. fx_node fx (p @ [c]) \<noteq> None \<longrightarrow> p = [] \<or> fx_node fx p = Some Directory)"

text \<open>
  Resolution of a path below the location \<open>cur\<close>, following at most \<open>n\<close> links: the location it names, or \<open>None\<close> when an
  entry is missing, a file is used as a directory, or there are too many links. As in a Linux kernel the limit is 40.
\<close>

function resolve :: "FileSystem \<Rightarrow> nat \<Rightarrow> path_buf \<Rightarrow> path_buf \<Rightarrow> path_buf option" where
  "resolve fx n cur [] = Some cur"
| "resolve fx n cur (c # cs) =
     (if c = ''.'' then resolve fx n cur cs
      else if c = ''..'' then resolve fx n (butlast cur) cs
      else case fx_node fx (cur @ [c]) of
        None \<Rightarrow> None
      | Some Directory \<Rightarrow> resolve fx n (cur @ [c]) cs
      | Some RegularFile \<Rightarrow> if cs = [] then Some (cur @ [c]) else None
      | Some (Symlink absolute target) \<Rightarrow>
          (case n of 0 \<Rightarrow> None | Suc m \<Rightarrow> resolve fx m (if absolute then [] else cur) (target @ cs)))"
  by pat_completeness auto
termination resolve
  by (relation "measures [\<lambda>(fx, n, cur, p). n, \<lambda>(fx, n, cur, p). length p]") auto

definition SYMLINK_MAX :: nat where
  "SYMLINK_MAX = 40"

text \<open>\<open>Path::exists\<close>, which follows links and so is false for a dangling one, and \<open>Path::canonicalize\<close>.\<close>

definition path_exists :: "FileSystem \<Rightarrow> path_buf \<Rightarrow> bool" where
  "path_exists fx p \<longleftrightarrow> resolve fx SYMLINK_MAX [] p \<noteq> None"

definition canonicalize :: "FileSystem \<Rightarrow> path_buf \<Rightarrow> (string, path_buf) result" where
  "canonicalize fx p =
     (case resolve fx SYMLINK_MAX [] p of Some c \<Rightarrow> Inr c | None \<Rightarrow> Inl ''No such file or directory (os error 2)'')"

text \<open>
  Where a program that opens a path for writing writes: links are followed, the last one included, and what is missing is created,
  directories first.
\<close>

function write_location :: "FileSystem \<Rightarrow> nat \<Rightarrow> path_buf \<Rightarrow> path_buf \<Rightarrow> path_buf option" where
  "write_location fx n cur [] = Some cur"
| "write_location fx n cur (c # cs) =
     (if c = ''.'' then write_location fx n cur cs
      else if c = ''..'' then write_location fx n (butlast cur) cs
      else case fx_node fx (cur @ [c]) of
        None \<Rightarrow> Some (cur @ c # cs)
      | Some Directory \<Rightarrow> write_location fx n (cur @ [c]) cs
      | Some RegularFile \<Rightarrow> if cs = [] then Some (cur @ [c]) else None
      | Some (Symlink absolute target) \<Rightarrow>
          (case n of 0 \<Rightarrow> None | Suc m \<Rightarrow> write_location fx m (if absolute then [] else cur) (target @ cs)))"
  by pat_completeness auto
termination write_location
  by (relation "measures [\<lambda>(fx, n, cur, p). n, \<lambda>(fx, n, cur, p). length p]") auto

text \<open>A path on which a link, reached through what exists, leads to something that does not.\<close>

definition link_dangles :: "FileSystem \<Rightarrow> path_buf \<Rightarrow> bool" where
  "link_dangles fx p \<longleftrightarrow>
     list_ex (\<lambda>k. \<not> path_exists fx (take (Suc k) p) \<and>
       (case canonicalize fx (take k p) of
          Inr can \<Rightarrow> (case fx_node fx (can @ [p ! k]) of Some (Symlink absolute target) \<Rightarrow> True | _ \<Rightarrow> False)
        | Inl _ \<Rightarrow> False)) [0..<length p]"

record FileScopeValidator =
  fv_worktree_root :: path_buf
  fv_scope :: FileScope

definition scope_error :: "string \<Rightarrow> CoreError" where
  "scope_error msg = core_error_new WorkspaceError msg SrcSystem"

definition scope_validator_new :: "FileSystem \<Rightarrow> path_buf \<Rightarrow> FileScope \<Rightarrow> (CoreError, FileScopeValidator) result" where
  "scope_validator_new fx root scope =
     (case canonicalize fx root of
        Inl e \<Rightarrow> Inl (scope_error (''canonicalize: '' @ e))
      | Inr r \<Rightarrow> Inr \<lparr>fv_worktree_root = r, fv_scope = scope\<rparr>)"

text \<open>\<open>Path::components\<close> of a relative path: empty components and \<open>.\<close> are skipped.\<close>

definition components :: "string \<Rightarrow> string list" where
  "components s = filter (\<lambda>c. c \<noteq> [] \<and> c \<noteq> ''.'') (split_on (CHR ''/'') s)"

definition is_reserved :: "string \<Rightarrow> bool" where
  "is_reserved n =
     (let core = trim_end_matches (\<lambda>c. c = CHR '' '' \<or> c = CHR ''.'') n;
          stem = to_uppercase (takeWhile (\<lambda>c. c \<noteq> CHR ''.'' \<and> c \<noteq> CHR '':'') core)
      in stem \<in> set [''CON'', ''PRN'', ''AUX'', ''NUL'', ''COM1'', ''COM2'', ''COM3'', ''COM4'', ''COM5'', ''COM6'', ''COM7'', ''COM8'',
           ''COM9'', ''LPT1'', ''LPT2'', ''LPT3'', ''LPT4'', ''LPT5'', ''LPT6'', ''LPT7'', ''LPT8'', ''LPT9''])"

fun component_check :: "string list \<Rightarrow> ScopeViolation option" where
  "component_check [] = None"
| "component_check (c # cs) =
     (if c = ''..'' then Some TraversalRejected
      else if is_reserved c then Some ReservedDeviceName
      else component_check cs)"

text \<open>
  The nearest existing ancestor, resolved, and the components below it. The recursion removes the last component of
  a path (given in reverse).
\<close>

fun strip_missing :: "(path_buf \<Rightarrow> bool) \<Rightarrow> path_buf \<Rightarrow> path_buf \<Rightarrow> path_buf \<times> path_buf" where
  "strip_missing ex [] below = ([], below)"
| "strip_missing ex (n # up) below = (if ex (rev (n # up)) then (rev (n # up), below) else strip_missing ex up (n # below))"

definition partial_canon :: "FileSystem \<Rightarrow> path_buf \<Rightarrow> (CoreError, path_buf \<times> path_buf) result" where
  "partial_canon fx path =
     (let (e, s) = strip_missing (path_exists fx) (rev path) []
      in case canonicalize fx e of
           Inl x \<Rightarrow> Inl (scope_error (''canonicalize /'' @ join_with ''/'' path @ '': '' @ x))
         | Inr c \<Rightarrow> Inr (c, s))"

definition gm :: "string \<Rightarrow> string \<Rightarrow> bool" where
  "gm path glob =
     (let no_slash = trim_end_matches (\<lambda>c. c = CHR ''/'') in
      if glob = ''**'' \<or> glob = ''**/*'' then True
      else case strip_suffix_str glob ''**'' of
        Some p \<Rightarrow> starts_with path (no_slash p)
      | None \<Rightarrow>
          (case strip_prefix_str glob ''*'' of
             Some s \<Rightarrow> ends_with path s
           | None \<Rightarrow>
               (case strip_suffix_str glob ''*'' of
                  Some p \<Rightarrow> starts_with path (no_slash p)
                | None \<Rightarrow> path = glob)))"

definition is_git :: "string \<Rightarrow> bool" where
  "is_git p \<longleftrightarrow> p = ''.git'' \<or> starts_with p ''.git/'' \<or> contains_str p ''/.git/'' \<or> ends_with p ''/.git''"

definition is_harness :: "string \<Rightarrow> bool" where
  "is_harness p \<longleftrightarrow> contains_str p ''.harness''"

definition relative_path :: "FileSystem \<Rightarrow> path_buf \<Rightarrow> path_buf \<Rightarrow> string" where
  "relative_path fx root full =
     fx_nfc fx (trim_start_matches (\<lambda>c. c = CHR ''/'')
       (if prefix root full then replace_char (CHR 0x5C) (CHR ''/'') (join_with ''/'' (drop (length root) full)) else []))"

definition scope_rules :: "FileSystem \<Rightarrow> FileScope \<Rightarrow> string \<Rightarrow> ScopeDecision" where
  "scope_rules fx scope rel =
     (if is_git rel then Scope_Denied GitMetadataProtected
      else if is_harness rel then Scope_Denied HarnessMetadataProtected
      else if list_ex (\<lambda>d. gm rel (fx_nfc fx d)) (fs_forbidden_paths scope) then Scope_Denied DeniedPath
      else if fs_allowed_paths scope = [] then Scope_Allowed
      else if list_ex (\<lambda>a. gm rel (fx_nfc fx a)) (fs_allowed_paths scope) then Scope_Allowed
      else Scope_Denied OutsideWriteScope)"

definition scope_validate :: "FileSystem \<Rightarrow> FileScopeValidator \<Rightarrow> string \<Rightarrow> (CoreError, ScopeDecision \<times> path_buf) result" where
  "scope_validate fx v path =
     (let n = normalize_path path; root = fv_worktree_root v in
      if starts_with n ''/'' then Inr (Scope_Denied AbsolutePathRejected, [])
      else case component_check (components n) of
        Some violation \<Rightarrow> Inr (Scope_Denied violation, [])
      | None \<Rightarrow>
          and_then (partial_canon fx (root @ components n)) (\<lambda>(can, ur).
            if \<not> prefix root can then Inr (Scope_Denied SymlinkEscape, [])
            else let full = can @ ur in Inr (scope_rules fx (fv_scope v) (relative_path fx root full), full)))"

section \<open>Properties\<close>

lemma strip_missing_spec:
  assumes "strip_missing ex (rev p) below = (e, s)"
  shows "p @ below = e @ s \<and> (e \<noteq> [] \<longrightarrow> ex e) \<and> (\<forall>k. length e < k \<and> k \<le> length p \<longrightarrow> \<not> ex (take k p))"
  using assms
proof (induction p arbitrary: below rule: rev_induct)
  case (snoc n p)
  show ?case
  proof (cases "ex (p @ [n])")
    case False
    then have IH: "p @ n # below = e @ s \<and> (e \<noteq> [] \<longrightarrow> ex e) \<and> (\<forall>k. length e < k \<and> k \<le> length p \<longrightarrow> \<not> ex (take k p))"
      using snoc by simp
    moreover have "\<not> ex (take k (p @ [n]))" if "length e < k" "k \<le> length (p @ [n])" for k
      using that IH False by (cases "k \<le> length p") (auto simp: le_Suc_eq)
    ultimately show ?thesis by simp
  qed (use snoc.prems in auto)
qed simp

lemma component_check_None: "component_check cs = None \<longleftrightarrow> (\<forall>c \<in> set cs. c \<noteq> ''..'' \<and> \<not> is_reserved c)"
  by (induction cs) auto

lemma resolve_ConsE:
  assumes "resolve fx n cur (c # cs) = Some can"
  obtains "c = ''.''" "resolve fx n cur cs = Some can" | "c \<noteq> ''.''" "c = ''..''" "resolve fx n (butlast cur) cs = Some can"
  | "c \<noteq> ''.''" "c \<noteq> ''..''" "fx_node fx (cur @ [c]) = Some Directory" "resolve fx n (cur @ [c]) cs = Some can"
  | "c \<noteq> ''.''" "c \<noteq> ''..''" "fx_node fx (cur @ [c]) = Some RegularFile" "cs = []" "can = cur @ [c]"
  | m a t where "c \<noteq> ''.''" "c \<noteq> ''..''" "fx_node fx (cur @ [c]) = Some (Symlink a t)" "n = Suc m"
      "resolve fx m (if a then [] else cur) (t @ cs) = Some can"
  using assms by (cases "c = ''.''"; cases "c = ''..''"; cases n)
    (auto split: option.splits FsNode.splits if_splits)

lemma resolve_snoc:
  assumes "resolve fx n cur p = Some can" and "c \<noteq> ''.''" "c \<noteq> ''..''" and "can = [] \<or> fx_node fx can = Some Directory"
    and "fx_node fx (can @ [c]) = Some Directory \<or> fx_node fx (can @ [c]) = Some RegularFile"
  shows "resolve fx n cur (p @ [c]) = Some (can @ [c])"
  using assms
proof (induction fx n cur p rule: resolve.induct)
  case (2 fx n cur d cs)
  from 2(5) show ?case by (cases rule: resolve_ConsE) (use 2 in auto)
qed auto

text \<open>Names other than the two that stand for a directory and its parent; a resolved path has no others.\<close>

definition plain_names :: "path_buf \<Rightarrow> bool" where
  "plain_names p \<longleftrightarrow> ''.'' \<notin> set p \<and> ''..'' \<notin> set p"

lemma plain_names_simps [simp]:
  "plain_names []" "plain_names (c # p) \<longleftrightarrow> c \<noteq> ''.'' \<and> c \<noteq> ''..'' \<and> plain_names p"
  "plain_names (p @ q) \<longleftrightarrow> plain_names p \<and> plain_names q" "plain_names p \<Longrightarrow> plain_names (butlast p)"
  by (auto simp: plain_names_def dest: in_set_butlastD)

lemma resolve_plain: "resolve fx n cur p = Some can \<Longrightarrow> plain_names cur \<Longrightarrow> plain_names can"
proof (induction fx n cur p rule: resolve.induct)
  case (2 fx n cur d cs)
  from 2(5) show ?case
  proof (cases rule: resolve_ConsE)
    case (5 m a t)
    then show ?thesis using "2.IH"(4) "2.prems"(2) by (cases a) simp_all
  qed (use 2 in simp_all)
qed auto

lemma existing_prefix:
  "resolve fx n cur p = Some can \<Longrightarrow>
   (\<exists>m. write_location fx n cur (p @ q) = write_location fx m can q) \<or> write_location fx n cur (p @ q) = None"
proof (induction fx n cur p rule: resolve.induct)
  case (2 fx n cur d cs)
  from 2(5) show ?case by (cases rule: resolve_ConsE) (use 2 in auto)
qed auto

text \<open>Without a dangling link, a write lands in the nearest existing ancestor, resolved, under the names below it.\<close>

lemma write_below_ancestor:
  assumes fs: "fs_ok fx" and strip: "strip_missing (path_exists fx) (rev p) [] = (up, below)" and can: "canonicalize fx up = Inr can"
    and tame: "\<not> link_dangles fx p" and names: "plain_names below"
    and lands: "write_location fx SYMLINK_MAX [] p = Some q"
  shows "q = can @ below"
proof -
  have p: "p = up @ below" and missing: "\<And>k. length up < k \<Longrightarrow> k \<le> length p \<Longrightarrow> \<not> path_exists fx (take k p)"
    using strip_missing_spec [OF strip] by auto
  have res: "resolve fx SYMLINK_MAX [] up = Some can" using can by (simp add: canonicalize_def split: option.splits)
  then obtain m where q: "write_location fx m can below = Some q"
    using existing_prefix [of fx SYMLINK_MAX "[]" up can below] lands p by auto
  show ?thesis
  proof (cases below)
    case (Cons c cs)
    then have nth: "length up < length p" "p ! length up = c" "take (length up) p = up" using p by auto
    then have gone: "\<not> path_exists fx (take (Suc (length up)) p)" using missing by simp
    then have "\<not> (case fx_node fx (can @ [c]) of Some (Symlink a t) \<Rightarrow> True | _ \<Rightarrow> False)"
      using tame nth can by (auto simp: link_dangles_def list_ex_iff)
    moreover have "\<not> (fx_node fx (can @ [c]) = Some Directory \<or> fx_node fx (can @ [c]) = Some RegularFile)"
    proof
      assume entry: "fx_node fx (can @ [c]) = Some Directory \<or> fx_node fx (can @ [c]) = Some RegularFile"
      then have "can = [] \<or> fx_node fx can = Some Directory" using fs by (fastforce simp: fs_ok_def)
      then have "resolve fx SYMLINK_MAX [] (up @ [c]) = Some (can @ [c])"
        using resolve_snoc [OF res _ _ _ entry] names Cons by simp
      then show False using gone Cons p by (simp add: path_exists_def)
    qed
    ultimately show ?thesis using q names Cons by (auto split: option.splits FsNode.splits)
  qed (use q in simp)
qed

text \<open>
  C21. A write that the validator allows stays in the worktree and in its scope, on a Unix build: the path has no parent or
  device component, the location the validator returns is in the worktree, is neither git nor harness metadata by its spelling,
  matches no forbidden pattern, and matches an allowed one if there are any; and unless a dangling link lies on the path, that
  location is where a write in the same state of the file system lands, whatever other links it passes.
\<close>

theorem allowed_write_in_scope:
  assumes "fs_ok fx" and "scope_validator_new fx dir scope = Inr v" and "scope_validate fx v path = Inr (Scope_Allowed, full)"
  shows "let n = components (normalize_path path); root = fv_worktree_root v; rel = relative_path fx root full in
    prefix root full \<and> (\<forall>c \<in> set n. c \<noteq> ''..'' \<and> \<not> is_reserved c) \<and>
    (\<not> link_dangles fx (root @ n) \<longrightarrow> (\<forall>q. write_location fx SYMLINK_MAX [] (root @ n) = Some q \<longrightarrow> q = full)) \<and>
    \<not> is_git rel \<and> \<not> is_harness rel \<and> (\<forall>d \<in> set (fs_forbidden_paths scope). \<not> gm rel (fx_nfc fx d)) \<and>
    (fs_allowed_paths scope = [] \<or> (\<exists>a \<in> set (fs_allowed_paths scope). gm rel (fx_nfc fx a)))"
proof -
  let ?n = "components (normalize_path path)" and ?root = "fv_worktree_root v"
  have v: "fv_scope v = scope" and root: "plain_names ?root"
    using assms(2) resolve_plain [of fx SYMLINK_MAX "[]" dir]
    by (auto simp: scope_validator_new_def canonicalize_def split: option.splits)
  have checks: "component_check ?n = None"
    using assms(3) by (auto simp: scope_validate_def Let_def split: if_splits option.splits)
  then have names: "\<forall>c \<in> set ?n. c \<noteq> ''..'' \<and> \<not> is_reserved c" using component_check_None by blast
  obtain can below where canon: "partial_canon fx (?root @ ?n) = Inr (can, below)" "prefix ?root can" "full = can @ below"
    and rules: "scope_rules fx scope (relative_path fx ?root full) = Scope_Allowed"
    using assms(3) checks v by (auto simp: scope_validate_def Let_def and_then_Inr_iff split: if_splits)
  obtain up where up: "strip_missing (path_exists fx) (rev (?root @ ?n)) [] = (up, below)" and can: "canonicalize fx up = Inr can"
    using canon(1) by (auto simp: partial_canon_def split: sum.splits prod.splits)
  have "plain_names (?root @ ?n)" using root names by (auto simp: plain_names_def components_def)
  then have "plain_names below" using strip_missing_spec [OF up] by (metis append_Nil2 plain_names_simps(3))
  then have "\<not> link_dangles fx (?root @ ?n) \<longrightarrow> (\<forall>q. write_location fx SYMLINK_MAX [] (?root @ ?n) = Some q \<longrightarrow> q = full)"
    using write_below_ancestor [OF assms(1) up can] canon(3) by blast
  moreover have "prefix ?root full" using canon(2,3) by auto
  ultimately show ?thesis using rules names
    unfolding Let_def by (auto simp: scope_rules_def list_ex_iff split: if_splits)
qed

lemma find_named_pattern:
  "list_ex (contains_str exec) ns \<Longrightarrow>
   \<exists>n. find (pattern_matches exec args) (map (\<lambda>n. pattern c (Some n) None True) ns @ rest) = Some (pattern c (Some n) None True)"
  by (induction ns) (auto simp: pattern_matches_def pattern_def)

lemma default_patterns_shells:
  "\<exists>rest. default_patterns = map (\<lambda>n. pattern ''shell_command'' (Some n) None True) [''sh'', ''cmd'', ''powershell''] @ rest"
  by (simp add: default_patterns_def)

text \<open>
  C22. The engine allows a command exactly when no dangerous pattern matches it and it is a known build tool or a listed git
  command; and whatever its arguments, a command whose name contains the name of a shell is denied.
\<close>

theorem command_allowed_exact:
  "(evaluate_command h engine executable args cwd env = Policy_Allow \<longleftrightarrow>
     (\<forall>p \<in> set (pe_dangerous_patterns engine). \<not> pattern_matches (to_lowercase executable) (to_lowercase (join_with '' '' args)) p) \<and>
     (to_lowercase executable \<in> set (pe_allowed_build_tools engine) \<or>
      to_lowercase executable = ''git'' \<and>
        (case args of [] \<Rightarrow> [] | a # _ \<Rightarrow> to_lowercase a) \<in> set (pe_allowed_git_read_only engine))) \<and>
   (list_ex (contains_str (to_lowercase executable)) [''sh'', ''cmd'', ''powershell''] \<longrightarrow>
     evaluate_command h engine_default executable args cwd env = Policy_Deny (''shell_command: '' @ executable))"
proof -
  have "evaluate_command h engine executable args cwd env = Policy_Allow \<longleftrightarrow>
     (\<forall>p \<in> set (pe_dangerous_patterns engine). \<not> pattern_matches (to_lowercase executable) (to_lowercase (join_with '' '' args)) p) \<and>
     (to_lowercase executable \<in> set (pe_allowed_build_tools engine) \<or>
      to_lowercase executable = ''git'' \<and>
        (case args of [] \<Rightarrow> [] | a # _ \<Rightarrow> to_lowercase a) \<in> set (pe_allowed_git_read_only engine))"
    by (auto simp: evaluate_command_def Let_def find_None_iff find_Some_iff split: option.split)
  moreover have "evaluate_command h engine_default executable args cwd env = Policy_Deny (''shell_command: '' @ executable)"
    if shell: "list_ex (contains_str (to_lowercase executable)) [''sh'', ''cmd'', ''powershell'']"
  proof -
    obtain n where "find (pattern_matches (to_lowercase executable) (to_lowercase (join_with '' '' args))) default_patterns =
        Some (pattern ''shell_command'' (Some n) None True)"
      using find_named_pattern [OF shell] default_patterns_shells by metis
    then show ?thesis by (simp add: evaluate_command_def engine_default_def pattern_def)
  qed
  ultimately show ?thesis by blast
qed

text \<open>A worktree \<open>/w\<close> with a directory, a link inside and a dangling link to the outside.\<close>

definition sample_fs :: FileSystem where
  "sample_fs = \<lparr>fx_nfc = id,
     fx_node = map_of [([''w''], Directory), ([''w'', ''src''], Directory), ([''w'', ''lib''], Symlink False [''.'', ''src'']),
       ([''w'', ''src'', ''out''], Symlink True [''etc'', ''new'']), ([''etc''], Directory)]\<rparr>"

definition sample_scope :: FileScope where
  "sample_scope = \<lparr>fs_allowed_paths = [''src/**''], fs_forbidden_paths = [''*.key''], fs_readable_paths = [],
     fs_scope_expansion_allowed = False\<rparr>"

definition scoped_validator :: FileScopeValidator where
  "scoped_validator = \<lparr>fv_worktree_root = [''w''], fv_scope = sample_scope\<rparr>"

lemma sample_fs_ok: "fs_ok sample_fs"
  by (auto simp: fs_ok_def sample_fs_def split: if_splits)

theorem allowed_write_in_scope_witness:
  "scope_validate sample_fs scoped_validator ''lib/a.rs'' = Inr (Scope_Allowed, [''w'', ''src'', ''a.rs'']) \<and>
   write_location sample_fs SYMLINK_MAX [] [''w'', ''lib'', ''a.rs''] = Some [''w'', ''src'', ''a.rs'']"
proof -
  have new: "scope_validator_new sample_fs [''w''] sample_scope = Inr scoped_validator" by code_simp
  have ok: "scope_validate sample_fs scoped_validator ''lib/a.rs'' = Inr (Scope_Allowed, [''w'', ''src'', ''a.rs''])" by code_simp
  have path: "fv_worktree_root scoped_validator @ components (normalize_path ''lib/a.rs'') = [''w'', ''lib'', ''a.rs'']" by code_simp
  have "\<not> link_dangles sample_fs [''w'', ''lib'', ''a.rs'']" by code_simp
  moreover have "write_location sample_fs SYMLINK_MAX [] [''w'', ''lib'', ''a.rs''] \<noteq> None" by code_simp
  ultimately show ?thesis using allowed_write_in_scope [OF sample_fs_ok new ok] ok unfolding Let_def path by blast
qed

text \<open>
  A dangling link does not exist for the validator, so it takes it for a new name in the worktree; the write goes through the link.
\<close>

lemma dangling_link_escapes:
  "scope_validate sample_fs scoped_validator ''src/out'' = Inr (Scope_Allowed, [''w'', ''src'', ''out'']) \<and>
   write_location sample_fs SYMLINK_MAX [] [''w'', ''src'', ''out''] = Some [''etc'', ''new'']"
  by code_simp

text \<open>Git metadata is recognised in lower case only.\<close>

lemma upper_case_git_allowed:
  "scope_validate sample_fs (scoped_validator\<lparr>fv_scope := sample_scope\<lparr>fs_allowed_paths := [''**'']\<rparr>\<rparr>) ''.GIT/config'' =
     Inr (Scope_Allowed, [''w'', ''.GIT'', ''config''])"
  by code_simp

theorem command_allowed_exact_witness:
  "evaluate_command id engine_default ''/bin/Bash'' [''-c'', ''ls''] ''w'' [] = Policy_Deny ''shell_command: /bin/Bash''"
proof -
  have "list_ex (contains_str (to_lowercase ''/bin/Bash'')) [''sh'', ''cmd'', ''powershell'']" by code_simp
  then show ?thesis using command_allowed_exact [of id engine_default "''/bin/Bash''" "[''-c'', ''ls'']" "''w''" "[]"] by simp
qed

text \<open>
  Commands that run code they are given, and reach the list of build tools or of read-only git commands.
\<close>

lemma code_execution_allowed:
  "evaluate_command id engine_default ''npm'' [''run'', ''x''] ''w'' [] = Policy_Allow \<and>
   evaluate_command id engine_default ''yarn'' [''dlx'', ''x''] ''w'' [] = Policy_Allow \<and>
   evaluate_command id engine_default ''git'' [''ls-remote'', ''--upload-pack=x'', ''.''] ''w'' [] = Policy_Allow"
  by code_simp

text \<open>A pattern for a directory also matches its siblings whose names begin with its name.\<close>

lemma sibling_directory_in_scope: "gm ''src-old/a.rs'' ''src/**'' \<and> simple_glob_match ''srcx'' ''src*''"
  by code_simp

text \<open>The check of the core crate accepts a path out of the worktree, and one of a sibling directory.\<close>

lemma core_scope_escaped:
  "is_path_within_scope ''/w/../etc'' ''/w'' [''**''] \<and> is_path_within_scope ''/w-old/a'' ''/w'' []"
  by code_simp

end
