(* ===== verification/Spec2Isabelle.thy ===== *)
theory Spec2Isabelle
  imports Claim_Lease Command_Handler Concurrency Operation Readiness Ownership Policy
begin

text \<open>
  \<^bold>\<open>A verification library for General Harness: the coordination core.\<close>

  General Harness runs several coding agents on one repository. Its safety rests on a small core of
  coordination code in \<open>crates/harness-core\<close> (pure data, state machines, the conflict engine) and
  \<open>crates/harness-runtime\<close> (SQLite-backed services). The development models that core and proves that
  agents do not step on each other: lifecycle changes are legal and logged, a key is executed once, a
  worktree has one holder, and two groups never hold incompatible claims on the same file. On top of it
  stand the engineering loop of a task, which retries an agent under a budget until its gates pass, and the
  goal service, which plans a goal, asks the user, and hands out the tasks of the approved plan. The scheduler
  decides which tasks can run and how many; one supervisor process per state directory owns all of this and
  serves the command line over local IPC.

  \<^bold>\<open>Parts and theories, in the order they build on each other.\<close>

  \<^item> \<open>Prelude\<close>: \<open>Result\<close> as a sum with \<open>and_then\<close>, the fragment of Rust's string functions the code uses,
    and tables as lists of rows with \<open>select_one\<close> (\<open>fetch_optional\<close>), \<open>update_where\<close> and
    \<open>rows_affected\<close>.
  \<^item> \<open>Effects\<close>: the state and error monad (\<open>then_do\<close>, \<open>return\<close>, \<open>raise\<close>) of the services that run statement by statement.
  \<^item> \<open>Lifecycles\<close>: the nine lifecycles of \<open>state_machine/*_fsm.rs\<close> with the enums of \<open>contracts/*.rs\<close>.
    The locale \<open>lifecycle\<close> (terminal states have no successor, no self loops), its extensions
    \<open>ranked_lifecycle\<close> (runs are bounded) and \<open>progressive_lifecycle\<close> (a non-terminal state can move) are
    interpreted on all nine machines. Shown: which path a task, a review, an integration and a goal
    must have taken to succeed; that every unfinished task can still finish; where the two plan
    tables differ.
  \<^item> \<open>Resource_Path\<close>: \<open>NormalizedResourcePath::new\<close> of \<open>resource_claim/normalize.rs\<close>, check by check.
    Shown: accepted paths are in a normal form and normalising twice changes nothing, and the one class
    of inputs (control white space at an edge) for which that fails.
  \<^item> \<open>Resource_Claim\<close>: \<open>types.rs\<close>, \<open>spec.rs\<close> (group normalisation, overlap, request hash) and
    \<open>engine.rs\<close> (conflict detection). An identity denotes a set of concrete resources (\<open>denote\<close>); the
    engine is shown to decide exactly intersection with a write, and normalisation to cover what was
    requested. The locale \<open>conflict_relation\<close> carries the reasoning about pairs of claims into the
    store.
  \<^item> \<open>Core_Error\<close>, \<open>Event_Log\<close>: \<open>error.rs\<close>; the \<open>event_log\<close> table with its unique constraints.
  \<^item> \<open>Idempotency\<close>: \<open>idempotency.rs\<close>. \<open>try_claim\<close> is the composition of its read (\<open>claim_plan\<close>) and its
    write (\<open>claim_exec\<close>), so callers can interleave between the two. Shown: a takeover is exclusive, a
    granted claim makes one owner, a settled key stays settled for sequential callers, an abandoned
    key can be claimed again, and the race that overlapping callers have.
  \<^item> \<open>Transition\<close>: \<open>transition.rs\<close>; each operation is its reads followed by its transaction. Shown: any
    interleaving keeps each row equal to the replay of its event stream; one call is atomic and
    idempotent.
  \<^item> \<open>Claim_Store\<close>: \<open>resource_claim/repo.rs\<close> and \<open>resource_claim/service.rs\<close>. Shown: the isolation of
    active claims in every reachable store, idempotent acquisition, fencing, bounded expiry. The
    locale \<open>lease_authority\<close> is what the service relies on in a lease validator.
  \<^item> \<open>Lease\<close>: \<open>lease/service.rs\<close>, \<open>lease/transition.rs\<close>, \<open>lease/access_validator.rs\<close>. Shown, for every
    interleaving of the single transactions: exclusivity of active leases, monotone fencing tokens,
    that a superseded lease never validates again, and that removal needs the lease.
  \<^item> \<open>Claim_Lease\<close>: \<open>resource_claim/lease_adapter.rs\<close>, which interprets \<open>lease_authority\<close> on the lease
    service. Shown: a claim is stored only under an active lease with the current epoch, and expires no
    later than it.
  \<^item> \<open>Task_Decision\<close>: \<open>task_loop/types.rs\<close>, \<open>progress.rs\<close>, \<open>decision.rs\<close>: lifecycles, fingerprints (FNV-1a on
    64-bit words), progress verdicts, the budget check and the classifier of an attempt. Shown: what the
    cycle detection and the budget check decide exactly; that completion needs every durable gate; that
    the classifier does not follow its documented precedence.
  \<^item> \<open>Versioned_Table\<close>: the locale \<open>versioned_table\<close>, the contract of tables whose updates are guarded by a
    version (compare and swap); \<open>Task_Loop_Repo\<close>: \<open>task_loop/repo.rs\<close> and \<open>events.rs\<close>, with its interpretation on
    the statements of the loop table. Shown: of several updates with one expected version one wins, and a
    superseded owner never writes again; only the first event of a loop is stored.
  \<^item> \<open>Task_Loop\<close>: \<open>task_loop/service.rs\<close> and \<open>reconciler.rs\<close>; the execution gateway is a parameter. Shown: a
    prepared attempt is within the budget, charged and alone, when no other worker's statements come between those of the preparation,
    and is reported without a version when the loop is taken over; a reconciliation pass is safe in every state of the tables, but
    does not charge an adopted attempt.
  \<^item> \<open>Plan_Graph\<close>, \<open>Plan_Validation\<close>: the cycle search of \<open>contracts/plan.rs\<close>, with its termination, and
    \<open>goal/validation.rs\<close>. Shown: the search accepts exactly the acyclic maps, validation exactly the
    well-formed plans, and the completion gate what it lists.
  \<^item> \<open>Goal_Repo\<close>: \<open>goal/repo.rs\<close>, statement by statement; \<open>Goal_Service\<close>: the goal, plan, observation, approval and
    interaction operations of \<open>goal/service.rs\<close> and \<open>goal/interaction.rs\<close>, and the goal a console user's
    text becomes (\<open>harness-cli/src/tui/spec.rs\<close>). Operations are functions of a state and error monad
    (\<open>then_do\<close>, \<open>return\<close>, \<open>raise\<close>) in which an error keeps the writes made before it, since these operations run
    statement by statement without a transaction. Shown: what is read back of a goal, what the assessment of
    progress decides, and how a second console goal and a draft goal go wrong.
  \<^item> \<open>Goal_Plans\<close>: properties across these operations: a request is decided once, one revision is active,
    selected tasks are ready, a valid plan does not get stuck, and a rejected revision starves its successor.

  \<^item> \<open>Ipc\<close>: \<open>ipc/framing.rs\<close>, \<open>transport.rs\<close>, \<open>mod.rs\<close> and \<open>contracts/ipc.rs\<close>: frames with a 32-bit length on a
    connection that delivers bytes in pieces. Shown: frames survive any cutting, every request gets its response
    in order, and what happens to a frame whose length does not fit.
  \<^item> \<open>Supervisor\<close>: \<open>supervisor/lifecycle.rs\<close>, \<open>repo.rs\<close>, \<open>ownership.rs\<close>, \<open>heartbeat.rs\<close> and the start, takeover and
    shutdown of \<open>mod.rs\<close>. Shown: state changes are legal and durable, a token that validates belongs to the active
    lease while nobody releases and acquisitions and takeovers do not overlap; and where fencing fails: the race of two takeovers, the restart of tokens, the token 0 of
    a first supervisor, the check of process start times.
  \<^item> \<open>Concurrency\<close>: \<open>scheduler/concurrency.rs\<close>. Shown: the limits hold in every reachable table.
  \<^item> \<open>Operation\<close>: \<open>operation.rs\<close>. Shown: claims are exclusive until they expire, settled operations are final.
  \<^item> \<open>Readiness\<close>: \<open>scheduler/readiness.rs\<close>. Shown: which tasks are reported ready, exactly, and that reported
    cycles exist.
  \<^item> \<open>Handoff\<close>: \<open>scheduler/handoff_repo.rs\<close>, \<open>heartbeat_registry.rs\<close>; \<open>Verification_Run\<close>:
    \<open>verification/content_validator.rs\<close>, \<open>run_repo.rs\<close>; \<open>Ownership\<close>: \<open>scheduler/handoff_coordinator.rs\<close>,
    \<open>verification/ownership_service.rs\<close>. Shown: the types of the records, that an execution is handed over once and a run is created
    once, that a successful takeover leaves both layers and the run in agreement, and that an interrupted one is never
    resumed. Interference by other callers is a parameter \<open>gap\<close> of these operations.
  \<^item> \<open>Policy\<close>: the policies of \<open>harness-core/src/policies\<close>, \<open>policy/command.rs\<close> and \<open>policy/file_scope.rs\<close>, for a
    build on Unix, on a file system of directories, files and links with the path resolution of POSIX. Shown: an allowed write
    is for a location in the worktree and its scope, and lands there unless a dangling link lies on the path; exactly which
    commands are allowed; and what slips through: dangling links, siblings of a directory, other spellings of \<open>.git\<close>, commands
    that run code.
  \<^item> \<open>Command_Handler\<close>: \<open>supervisor/command_handler.rs\<close> on the goal service, the task loop, the supervisor's tables
    and the idempotency records. Shown: a keyed command that succeeded is not executed again by any later statements of overlapping
    requests, as long as a claim's read and write of the record are not separated, and that a request which separates them executes it
    again; which commands can never succeed.

  \<^bold>\<open>Modelling conventions.\<close> A table is a list of rows in insertion order; a statement is a function on it,
  with \<open>rows_affected\<close> and unique constraints written out. A transaction is one atomic function from the
  database to a result and a database; an error or \<open>ROLLBACK\<close> returns the database it began with. Where the
  code reads outside its transaction, the read and the transaction are separate definitions, and step
  relations (\<open>trans_step\<close>, \<open>lease_step\<close>, \<open>idem_step\<close>, \<open>dir_step\<close>, \<open>key_step\<close>) interleave them; \<open>BEGIN IMMEDIATE\<close> transactions of
  the claim store are single steps. Enumeration columns keep their text, since the SQL compares text.
  SQL timestamps are integers counting seconds and clock readings integers counting milliseconds;
  \<open>created_at\<close> and \<open>updated_at\<close> columns are left out, since no modelled statement reads them. The remaining
  lifetime of a lease is cast to \<open>u32\<close> as in the code (\<open>32 word\<close>); versions, epochs and fencing tokens
  are \<open>i64\<close> counters incremented by one and are modelled as \<open>int\<close>. No definition uses fuel: every
  loop runs over a list of rows, claims or path components and is structurally recursive, except the
  cycle searches of plans and of task dependencies and the collection of the dependency graph, which terminate by the
  number of unvisited nodes, and the loops that read a connection, which terminate by the bytes it still delivers.

  \<^bold>\<open>Parameters.\<close> Unicode NFC (the hypothesis \<open>nfc_ascii\<close>: it leaves ASCII text unchanged), SHA-256, the
  \<open>Debug\<close> text of identities, the UUIDs a call draws (as a function of their position), the lease validator
  of the claim service, and the worktree directory with its sidecar file and git state
  (\<open>WorktreeWorld\<close>); for goals, the JSON and time formats (\<open>GoalEnv\<close>, with the round trips a property needs as
  hypotheses); the JSON codec and the handler of an IPC server (\<open>IpcEnv\<close>); the processes of the operating system, the
  clock and the outcome of the startup recovery (\<open>SupEnv\<close>); the review and integration commands and the display
  projections of the command handler (\<open>CommandEnv\<close>); the JSON of verification outcomes (\<open>RunEnv\<close>), the file system
  and \<open>Debug\<close> texts (\<open>OwnershipEnv\<close>); for policies, the hash of the standard library.
  Database I/O failures other than constraint violations are not modelled: they
  abort the transaction and leave the state as it was. (In the claim repository an error inside a raw \<open>BEGIN IMMEDIATE\<close> leaves the
  transaction open on its connection instead; nothing of it is visible to others.)

  \<^bold>\<open>Not modelled.\<close> The agent adapters, the command line and its terminal interface, process and
  worktree management, the verification runner and the wiring of the services, which are I/O; the
  remaining contracts, which are serialised data; of the goal service, the background loop that calls planner
  and evaluator agents and drives the production pipeline; foreign keys; the fault injection of the tests.

  \<^bold>\<open>Possible extensions.\<close> The policy service and its evidence, the release steps of verification, the repositories of reviews and
  integrations.
\<close>

end
